(* ===== verification/Prelude.thy ===== *)
theory Prelude
  imports Main "HOL-Library.AList" "HOL-Library.Word" "HOL-Library.Char_ord"
    "HOL-Library.List_Lexorder" "HOL-Library.Sublist"
begin

section \<open>Prelude: outcomes, effectful computations and string maps\<close>

text \<open>
  What every component of the operator model shares.

  A Go function either returns or panics: \<open>'a outcome\<close>. A Go function with effects is a
  function from the state of the world to an outcome and the next state: \<open>('w, 'a) go\<close>; the
  effects made before a panic are kept, because the process dies but the cluster does not.
  Ordinary Go errors are not outcomes, they are returned values (theory \<open>K8sObjects\<close>).

  A Go \<open>map[string]string\<close> is an association list, read with \<open>map_of\<close> and written with
  \<open>AList.update\<close>: \<open>range\<close> visits a Go map in an unspecified order, and the order of the list
  stands for the order one run happens to use.
\<close>

named_theorems go_simps
  \<open>equations that execute the effectful code: outcomes, sequencing, API calls\<close>

subsection \<open>Outcomes: return or panic\<close>

datatype 'a outcome = Ret 'a | Panic string

primrec obind :: "'a outcome \<Rightarrow> ('a \<Rightarrow> 'b outcome) \<Rightarrow> 'b outcome" where
  "obind (Ret a) k = k a"
| "obind (Panic p) k = Panic p"

primrec returns :: "'a outcome \<Rightarrow> bool" where
  "returns (Ret a) = True"
| "returns (Panic p) = False"

lemma obind_Ret_iff [simp]: "obind m k = Ret b \<longleftrightarrow> (\<exists>a. m = Ret a \<and> k a = Ret b)"
  by (cases m) auto

lemma obind_Panic_iff:
  "obind m k = Panic p \<longleftrightarrow> m = Panic p \<or> (\<exists>a. m = Ret a \<and> k a = Panic p)"
  by (cases m) auto

lemma obind_assoc: "obind (obind m k) h = obind m (\<lambda>a. obind (k a) h)"
  by (cases m) auto

lemma returns_iff: "returns m \<longleftrightarrow> (\<exists>a. m = Ret a)"
  by (cases m) auto

text \<open>Generic lemmas on lists.\<close>

lemma map_list_update_id:
  assumes "\<And>x. g (f x) = g x"
  shows "map g (xs[i := f (xs ! i)]) = map g xs"
proof (cases "i < length xs")
  case True
  then have "map g (xs[i := f (xs ! i)]) = (map g xs)[i := map g xs ! i]"
    by (simp add: map_update assms)
  then show ?thesis by simp
qed (simp add: list_update_beyond)

lemma find_append: "find P (xs @ ys) = (case find P xs of None \<Rightarrow> find P ys | Some x \<Rightarrow> Some x)"
  by (induction xs) auto

text \<open>Indexing a slice: out of range is a run-time panic.\<close>

definition index_panic :: string where
  "index_panic = ''index out of range''"

definition nthP :: "'a list \<Rightarrow> nat \<Rightarrow> 'a outcome" where
  "nthP xs i = (if i < length xs then Ret (xs ! i) else Panic index_panic)"

definition updP :: "nat \<Rightarrow> ('a \<Rightarrow> 'a) \<Rightarrow> 'a list \<Rightarrow> 'a list outcome" where
  "updP i f xs = (if i < length xs then Ret (xs[i := f (xs ! i)]) else Panic index_panic)"

lemma nthP_Ret_iff [simp]: "nthP xs i = Ret x \<longleftrightarrow> i < length xs \<and> xs ! i = x"
  by (auto simp: nthP_def)

lemma nthP_in_range: "i < length xs \<Longrightarrow> nthP xs i = Ret (xs ! i)"
  by simp

lemma updP_Ret_iff [simp]:
  "updP i f xs = Ret ys \<longleftrightarrow> i < length xs \<and> ys = xs[i := f (xs ! i)]"
  by (auto simp: updP_def)

lemma updP_in_range: "i < length xs \<Longrightarrow> updP i f xs = Ret (xs[i := f (xs ! i)])"
  by simp

subsection \<open>Effectful computations\<close>

type_synonym ('w, 'a) go = "'w \<Rightarrow> 'a outcome \<times> 'w"

definition gret :: "'a \<Rightarrow> ('w, 'a) go" where
  "gret a = (\<lambda>w. (Ret a, w))"

definition gpanic :: "string \<Rightarrow> ('w, 'a) go" where
  "gpanic p = (\<lambda>w. (Panic p, w))"

definition glift :: "'a outcome \<Rightarrow> ('w, 'a) go" where
  "glift r = (\<lambda>w. (r, w))"

definition gbind :: "('w, 'a) go \<Rightarrow> ('a \<Rightarrow> ('w, 'b) go) \<Rightarrow> ('w, 'b) go" where
  "gbind m k = (\<lambda>w. case m w of
     (Ret a, w') \<Rightarrow> k a w'
   | (Panic p, w') \<Rightarrow> (Panic p, w'))"

lemma gret_run [simp, go_simps]: "gret a w = (Ret a, w)"
  by (simp add: gret_def)

lemma gpanic_run [simp, go_simps]: "gpanic p w = (Panic p, w)"
  by (simp add: gpanic_def)

lemma glift_run [simp, go_simps]: "glift r w = (r, w)"
  by (simp add: glift_def)

lemma glift_Ret [simp]: "glift (Ret a) = gret a"
  by (simp add: glift_def gret_def)

lemma glift_Panic [simp]: "glift (Panic p) = gpanic p"
  by (simp add: glift_def gpanic_def)

lemma gbind_gret [simp, go_simps]: "gbind (gret a) k = k a"
  by (simp add: gbind_def gret_def)

lemma gbind_gpanic [simp, go_simps]: "gbind (gpanic p) k = gpanic p"
  by (simp add: gbind_def gpanic_def)

lemma gbind_run:
  "gbind m k w = (case m w of (Ret a, w') \<Rightarrow> k a w' | (Panic p, w') \<Rightarrow> (Panic p, w'))"
  by (simp add: gbind_def)

lemma gbind_assoc: "gbind (gbind m k) h = gbind m (\<lambda>a. gbind (k a) h)"
  by (rule ext) (simp add: gbind_def split: prod.split outcome.split)

lemma gbind_Ret: "m w = (Ret a, w') \<Longrightarrow> gbind m k w = k a w'"
  by (simp add: gbind_def)

lemma gbind_Panic: "m w = (Panic p, w') \<Longrightarrow> gbind m k w = (Panic p, w')"
  by (simp add: gbind_def)

lemma gbind_Ret_iff:
  "gbind m k w = (Ret b, w'') \<longleftrightarrow> (\<exists>a w'. m w = (Ret a, w') \<and> k a w' = (Ret b, w''))"
  by (auto simp: gbind_def split: prod.splits outcome.splits)

lemma gbind_RetE:
  assumes "gbind m k w = (Ret b, w'')"
  obtains a w' where "m w = (Ret a, w')" and "k a w' = (Ret b, w'')"
  using assms by (auto simp: gbind_Ret_iff)

subsection \<open>String maps\<close>

type_synonym strmap = "(string \<times> string) list"

text \<open>Reading a Go map, nil or not: a missing key reads as the zero value.\<close>

definition mapGet :: "strmap \<Rightarrow> string \<Rightarrow> string" where
  "mapGet m k = (case map_of m k of None \<Rightarrow> [] | Some v \<Rightarrow> v)"

definition mapSet :: "string \<Rightarrow> string \<Rightarrow> strmap \<Rightarrow> strmap" where
  "mapSet k v m = AList.update k v m"

lemma map_of_mapSet [simp]: "map_of (mapSet k v m) = (map_of m)(k \<mapsto> v)"
  by (simp add: mapSet_def update_conv')

lemma keys_mapSet [simp]: "fst ` set (mapSet k v m) = insert k (fst ` set m)"
  by (simp add: mapSet_def dom_update)

lemma distinct_mapSet: "distinct (map fst m) \<Longrightarrow> distinct (map fst (mapSet k v m))"
  by (simp add: mapSet_def distinct_update)

text \<open>Copying every entry of one map into another: \<open>for k, v := range labels { m[k] = v }\<close>.\<close>

definition mapSetAll :: "strmap \<Rightarrow> strmap \<Rightarrow> strmap" where
  "mapSetAll labels m = fold (\<lambda>(k, v) m. mapSet k v m) labels m"

lemma map_of_mapSetAll:
  "distinct (map fst labels) \<Longrightarrow> map_of (mapSetAll labels m) = map_of m ++ map_of labels"
proof (induction labels arbitrary: m)
  case Nil
  then show ?case by (simp add: mapSetAll_def)
next
  case (Cons kv labels)
  obtain k v where kv: "kv = (k, v)" by (cases kv)
  have "map_of (mapSetAll (kv # labels) m) = map_of (mapSetAll labels (mapSet k v m))"
    by (simp add: mapSetAll_def kv)
  also have "\<dots> = (map_of m)(k \<mapsto> v) ++ map_of labels"
    using Cons by simp
  also have "\<dots> = map_of m ++ map_of (kv # labels)"
    using Cons.prems by (simp add: kv map_add_upd_left dom_map_of_conv_image_fst)
  finally show ?case .
qed

text \<open>Go leaves the order of a \<open>range\<close> over a map open; a search for a key does not depend on it.\<close>

lemma map_of_in_set_iff: "distinct (map fst m) \<Longrightarrow> (k, v) \<in> set m \<longleftrightarrow> map_of m k = Some v"
  by simp

end
