(* ===== verification/GoStrings.thy ===== *)
theory GoStrings
  imports Prelude
begin

section \<open>The parts of Go's standard library the operator computes with\<close>

text \<open>
  The packages \<open>strings\<close>, \<open>strconv\<close>, \<open>path\<close>, \<open>fmt\<close> and \<open>regexp\<close>, as far as the operator uses
  them, on byte strings (\<open>char\<close> is a byte). \<open>equalFold\<close> folds ASCII case and the two non-ASCII
  code points that fold to ASCII letters (the Kelvin sign and the long s), so it is exact whenever
  one of its arguments is ASCII; Kubernetes label values are.
\<close>

subsection \<open>strings\<close>

definition hasPrefix :: "string \<Rightarrow> string \<Rightarrow> bool" where
  "hasPrefix s p \<longleftrightarrow> take (length p) s = p"

lemma hasPrefix_iff_append: "hasPrefix s p \<longleftrightarrow> (\<exists>t. s = p @ t)"
  unfolding hasPrefix_def by (metis append_eq_conv_conj append_take_drop_id)

lemma hasPrefix_append [simp]: "hasPrefix (p @ t) p"
  by (simp add: hasPrefix_def)

lemma hasPrefix_simps [simp]:
  "hasPrefix s []"
  "\<not> hasPrefix [] (c # p)"
  "hasPrefix (c # s) (d # p) \<longleftrightarrow> c = d \<and> hasPrefix s p"
  by (auto simp: hasPrefix_def)

text \<open>\<open>strings.Split(s, sep)\<close> for a one-byte separator.\<close>

fun splitOn :: "char \<Rightarrow> string \<Rightarrow> string list" where
  "splitOn sep [] = [[]]"
| "splitOn sep (c # s) =
     (if c = sep then [] # splitOn sep s
      else (case splitOn sep s of [] \<Rightarrow> [[c]] | x # xs \<Rightarrow> (c # x) # xs))"

lemma splitOn_not_Nil [simp]: "splitOn sep s \<noteq> []"
  by (cases s) (auto split: list.split)

lemma splitOn_no_sep: "sep \<notin> set s \<Longrightarrow> splitOn sep s = [s]"
  by (induction s) auto

lemma splitOn_append: "sep \<notin> set s \<Longrightarrow> splitOn sep (s @ sep # t) = s # splitOn sep t"
  by (induction s) auto

lemma length_splitOn: "length (splitOn sep s) = Suc (count_list s sep)"
  by (induction s) (auto split: list.split)

text \<open>
  \<open>strings.TrimSpace\<close>: the UTF-8 encodings of the code points for which \<open>unicode.IsSpace\<close> holds,
  removed from both ends.
\<close>

definition spaceSeqs :: "string list" where
  "spaceSeqs =
    [[CHR 0x20], [CHR 0x09], [CHR 0x0A], [CHR 0x0B], [CHR 0x0C], [CHR 0x0D],
     [CHR 0xC2, CHR 0x85], [CHR 0xC2, CHR 0xA0], [CHR 0xE1, CHR 0x9A, CHR 0x80],
     [CHR 0xE2, CHR 0x80, CHR 0x80], [CHR 0xE2, CHR 0x80, CHR 0x81],
     [CHR 0xE2, CHR 0x80, CHR 0x82], [CHR 0xE2, CHR 0x80, CHR 0x83],
     [CHR 0xE2, CHR 0x80, CHR 0x84], [CHR 0xE2, CHR 0x80, CHR 0x85],
     [CHR 0xE2, CHR 0x80, CHR 0x86], [CHR 0xE2, CHR 0x80, CHR 0x87],
     [CHR 0xE2, CHR 0x80, CHR 0x88], [CHR 0xE2, CHR 0x80, CHR 0x89],
     [CHR 0xE2, CHR 0x80, CHR 0x8A], [CHR 0xE2, CHR 0x80, CHR 0xA8],
     [CHR 0xE2, CHR 0x80, CHR 0xA9], [CHR 0xE2, CHR 0x80, CHR 0xAF],
     [CHR 0xE2, CHR 0x81, CHR 0x9F], [CHR 0xE3, CHR 0x80, CHR 0x80]]"

lemma spaceSeqs_not_Nil: "p \<in> set spaceSeqs \<Longrightarrow> p \<noteq> []"
  by (auto simp: spaceSeqs_def)

text \<open>Dropping sequences of a list from the front, as long as one matches.\<close>

function trimSeqs :: "string list \<Rightarrow> string \<Rightarrow> string" where
  "trimSeqs seqs s =
     (case find (\<lambda>p. p \<noteq> [] \<and> hasPrefix s p) seqs of
        None \<Rightarrow> s
      | Some p \<Rightarrow> trimSeqs seqs (drop (length p) s))"
  by pat_completeness auto
termination
proof (relation "measure (\<lambda>(seqs, s). length s)", simp)
  fix seqs s p
  assume "find (\<lambda>p. p \<noteq> [] \<and> hasPrefix s p) seqs = Some p"
  then have "p \<noteq> []" and "hasPrefix s p"
    by (auto simp: find_Some_iff)
  then show "((seqs, drop (length p) s), seqs, s) \<in> measure (\<lambda>(seqs, s). length s)"
    by (auto simp: hasPrefix_iff_append)
qed

declare trimSeqs.simps [simp del]

definition trimSpace :: "string \<Rightarrow> string" where
  "trimSpace s = rev (trimSeqs (map rev spaceSeqs) (rev (trimSeqs spaceSeqs s)))"

lemma trimSeqs_stop:
  "(\<And>p. p \<in> set seqs \<Longrightarrow> p \<noteq> [] \<Longrightarrow> \<not> hasPrefix s p) \<Longrightarrow> trimSeqs seqs s = s"
  by (subst trimSeqs.simps) (auto simp: find_None_iff split: option.split dest: find_Some_iff [THEN iffD1])

text \<open>\<open>strings.EqualFold\<close>.\<close>

definition asciiLower :: "char \<Rightarrow> char" where
  "asciiLower c = (if CHR ''A'' \<le> c \<and> c \<le> CHR ''Z'' then char_of (of_char c + 32 :: nat) else c)"

fun foldKey :: "string \<Rightarrow> string" where
  "foldKey [] = []"
| "foldKey (a # s) =
     (if a = CHR 0xE2 \<and> take 2 s = [CHR 0x84, CHR 0xAA] then CHR ''k'' # foldKey (drop 2 s)
      else if a = CHR 0xC5 \<and> take 1 s = [CHR 0xBF] then CHR ''s'' # foldKey (drop 1 s)
      else asciiLower a # foldKey s)"

definition equalFold :: "string \<Rightarrow> string \<Rightarrow> bool" where
  "equalFold s t \<longleftrightarrow> foldKey s = foldKey t"

lemma equalFold_refl [simp]: "equalFold s s"
  by (simp add: equalFold_def)

lemma equalFold_sym: "equalFold s t \<Longrightarrow> equalFold t s"
  by (simp add: equalFold_def)

lemma equalFold_trans: "equalFold s t \<Longrightarrow> equalFold t u \<Longrightarrow> equalFold s u"
  by (simp add: equalFold_def)

lemma foldKey_Nil_iff [simp]: "foldKey s = [] \<longleftrightarrow> s = []"
  by (cases s) auto

lemma equalFold_Nil [simp]: "equalFold s [] \<longleftrightarrow> s = []" "equalFold [] s \<longleftrightarrow> s = []"
  by (auto simp: equalFold_def dest: sym)

text \<open>\<open>strings.ToUpper\<close> on ASCII text and \<open>strings.Replace(s, old, new, 1)\<close>.\<close>

definition asciiUpper :: "char \<Rightarrow> char" where
  "asciiUpper c = (if CHR ''a'' \<le> c \<and> c \<le> CHR ''z'' then char_of (of_char c - 32 :: nat) else c)"

definition toUpper :: "string \<Rightarrow> string" where
  "toUpper s = map asciiUpper s"

fun replaceFirst :: "string \<Rightarrow> string \<Rightarrow> string \<Rightarrow> string" where
  "replaceFirst old new [] = (if old = [] then new else [])"
| "replaceFirst old new (c # s) =
     (if hasPrefix (c # s) old then new @ drop (length old) (c # s)
      else c # replaceFirst old new s)"

subsection \<open>path and fmt\<close>

text \<open>\<open>path.Base\<close> and, on Unix, \<open>filepath.Base\<close>.\<close>

definition base :: "string \<Rightarrow> string" where
  "base p =
    (if p = [] then ''.''
     else let q = rev (dropWhile (\<lambda>c. c = CHR ''/'') (rev p))
          in if q = [] then ''/'' else rev (takeWhile (\<lambda>c. c \<noteq> CHR ''/'') (rev q)))"

lemma base_append:
  assumes "CHR ''/'' \<notin> set n" and "n \<noteq> []"
  shows "base (d @ CHR ''/'' # n) = n"
proof -
  have *: "CHR ''/'' \<notin> set (rev n)" "rev n \<noteq> []"
    using assms by auto
  then obtain x xs where x: "rev n = x # xs" "x \<noteq> CHR ''/''"
    by (cases "rev n") auto
  have "takeWhile (\<lambda>c. c \<noteq> CHR ''/'') (rev n @ CHR ''/'' # rev d) = rev n"
    using * by (subst takeWhile_append2) auto
  then show ?thesis
    using x assms(2) by (simp add: base_def Let_def)
qed

text \<open>\<open>fmt.Sprintf\<close> with string arguments: \<open>%s\<close> and \<open>%v\<close> print the argument as it is.\<close>

fun sprintf :: "string \<Rightarrow> string list \<Rightarrow> string" where
  "sprintf [] as = []"
| "sprintf (c # f) as =
     (if c = CHR ''%'' \<and> f \<noteq> [] \<and> (hd f = CHR ''s'' \<or> hd f = CHR ''v'')
      then (case as of
              [] \<Rightarrow> ''%!'' @ [hd f] @ ''(MISSING)'' @ sprintf (tl f) []
            | a # as' \<Rightarrow> a @ sprintf (tl f) as')
      else c # sprintf f as)"

subsection \<open>strconv.FormatUint(x, 16)\<close>

definition hexDigit :: "nat \<Rightarrow> char" where
  "hexDigit d = ''0123456789abcdef'' ! d"

fun natToHex :: "nat \<Rightarrow> string" where
  "natToHex n = (if n < 16 then [hexDigit n] else natToHex (n div 16) @ [hexDigit (n mod 16)])"

declare natToHex.simps [simp del]

definition formatUint16 :: "64 word \<Rightarrow> string" where
  "formatUint16 w = natToHex (unat w)"

definition hexValue :: "char \<Rightarrow> nat" where
  "hexValue c = (if c \<le> CHR ''9'' then of_char c - 48 else of_char c - 87)"

definition hexToNat :: "string \<Rightarrow> nat" where
  "hexToNat s = foldl (\<lambda>n c. 16 * n + hexValue c) 0 s"

lemma hexValue_hexDigit: "d < 16 \<Longrightarrow> hexValue (hexDigit d) = d"
proof -
  have "\<forall>d \<in> {0..<16}. hexValue (hexDigit d) = d"
    by code_simp
  then show "d < 16 \<Longrightarrow> hexValue (hexDigit d) = d" by auto
qed

lemma hexToNat_natToHex: "hexToNat (natToHex n) = n"
proof (induction n rule: natToHex.induct)
  case (1 n)
  show ?case
  proof (cases "n < 16")
    case True
    then show ?thesis by (simp add: natToHex.simps [of n] hexToNat_def hexValue_hexDigit)
  next
    case False
    then show ?thesis
      using "1.IH" by (simp add: natToHex.simps [of n] hexToNat_def hexValue_hexDigit)
  qed
qed

lemma formatUint16_inject [simp]: "formatUint16 v = formatUint16 w \<longleftrightarrow> v = w"
  unfolding formatUint16_def by (metis hexToNat_natToHex unsigned_word_eqI)

lemma natToHex_length: "n < 16 ^ k \<Longrightarrow> 0 < k \<Longrightarrow> length (natToHex n) \<le> k"
proof (induction n arbitrary: k rule: natToHex.induct)
  case (1 n)
  show ?case
  proof (cases "n < 16")
    case True
    then show ?thesis using "1.prems" by (simp add: natToHex.simps [of n])
  next
    case False
    with "1.prems" have "k \<noteq> 1" by auto
    with "1.prems"(2) obtain j where k: "k = Suc j" and "0 < j"
      by (cases k) auto
    moreover have "n div 16 < 16 ^ j"
      using "1.prems"(1) k by (simp add: less_mult_imp_div_less mult.commute)
    ultimately show ?thesis
      using "1.IH" [OF False] False by (simp add: natToHex.simps [of n])
  qed
qed

lemma formatUint16_length: "length (formatUint16 w) \<le> 16"
  unfolding formatUint16_def
  using unsigned_less [of w] by (intro natToHex_length) simp_all

end
