(* ===== verification/K8sObjects.thy ===== *)
theory K8sObjects
  imports GoStrings
begin

section \<open>Kubernetes objects as the operator sees them\<close>

text \<open>
  The API types of \<open>k8s.io/api\<close> that the operator reads and writes, reduced to the fields its
  code touches. Whatever else an object carries is in one opaque field per level (\<open>dsOther\<close>,
  \<open>podOther\<close>, \<open>ctrOther\<close>, \<open>rcOther\<close>), which the operator copies and never looks at. A Go pointer
  or map that may be nil is an \<open>option\<close>; a nil slice and an empty one are both \<open>[]\<close>, except where
  the code compares with nil (theory \<open>ResourceManager\<close>).
\<close>

record OwnerReference =
  ownerKind :: string
  ownerName :: string
  ownerUID :: string
  ownerController :: bool

record ObjectMeta =
  metaName :: string
  metaNamespace :: string
  metaUID :: string
  metaResourceVersion :: string
  metaLabels :: strmap
  metaAnnotations :: "strmap option"
  metaOwnerReferences :: "OwnerReference list"

record EnvVar =
  envName :: string
  envValue :: string
  envValueFrom :: "string option"

record VolumeMount =
  vmName :: string
  vmMountPath :: string

datatype VolumeSource = HostPath string | OtherVolumeSource string

record Volume =
  volName :: string
  volSource :: VolumeSource

record Container =
  ctrName :: string
  ctrImage :: string
  ctrImagePullPolicy :: string
  ctrCommand :: "string list"
  ctrArgs :: "string list"
  ctrEnv :: "EnvVar list"
  ctrVolumeMounts :: "VolumeMount list"
  ctrOther :: string

record PodSpec =
  podNodeSelector :: "strmap option"
  podInitContainers :: "Container list"
  podContainers :: "Container list"
  podVolumes :: "Volume list"
  podImagePullSecrets :: "string list"
  podOther :: string

text \<open>\<open>appsv1.DaemonSet\<close>: \<open>dsPod\<close> is \<open>Spec.Template.Spec\<close>, the unavailable count an \<open>int32\<close>.\<close>

record DaemonSet =
  dsMeta :: ObjectMeta
  dsPod :: PodSpec
  dsOther :: string
  dsNumberUnavailable :: "32 word"

record RuntimeClass =
  rcMeta :: ObjectMeta
  rcHandler :: string
  rcOther :: string

record Node =
  nodeName :: string
  nodeLabels :: strmap
  nodeContainerRuntimeVersion :: string

record NamespacedName =
  nnNamespace :: string
  nnName :: string

definition zeroMeta :: ObjectMeta where
  "zeroMeta = \<lparr>metaName = [], metaNamespace = [], metaUID = [], metaResourceVersion = [],
     metaLabels = [], metaAnnotations = None, metaOwnerReferences = []\<rparr>"

definition zeroDaemonSet :: DaemonSet where
  "zeroDaemonSet = \<lparr>dsMeta = zeroMeta,
     dsPod = \<lparr>podNodeSelector = None, podInitContainers = [], podContainers = [],
       podVolumes = [], podImagePullSecrets = [], podOther = []\<rparr>,
     dsOther = [], dsNumberUnavailable = 0\<rparr>"

definition zeroRuntimeClass :: RuntimeClass where
  "zeroRuntimeClass = \<lparr>rcMeta = zeroMeta, rcHandler = [], rcOther = []\<rparr>"

abbreviation dsName :: "DaemonSet \<Rightarrow> string" where
  "dsName d \<equiv> metaName (dsMeta d)"

abbreviation dsNamespace :: "DaemonSet \<Rightarrow> string" where
  "dsNamespace d \<equiv> metaNamespace (dsMeta d)"

abbreviation dsAnnotations :: "DaemonSet \<Rightarrow> strmap option" where
  "dsAnnotations d \<equiv> metaAnnotations (dsMeta d)"

abbreviation rcName :: "RuntimeClass \<Rightarrow> string" where
  "rcName r \<equiv> metaName (rcMeta r)"

subsection \<open>Go error values\<close>

text \<open>
  The errors the operator distinguishes: a NotFound status of the API server (the test
  \<open>errors.IsNotFound\<close>), any other error of a library, the operator's own \<open>NoSpecError\<close>, and
  errors made with \<open>fmt.Errorf\<close>.
\<close>

datatype goerr =
    ApiNotFound string
  | ApiError string
  | NoSpecError
  | FmtError string

text \<open>The text of an error: the method \<open>Error\<close> of \<open>NoSpecError\<close>, the message of the others.\<close>

definition ErrorText :: "goerr \<Rightarrow> string" where
  "ErrorText e = (case e of
     NoSpecError \<Rightarrow> ''no spec found''
   | ApiNotFound s \<Rightarrow> s
   | ApiError s \<Rightarrow> s
   | FmtError s \<Rightarrow> s)"

definition isNotFound :: "goerr \<Rightarrow> bool" where
  "isNotFound e = (case e of ApiNotFound _ \<Rightarrow> True | _ \<Rightarrow> False)"

lemma isNotFound_simps [simp]:
  "isNotFound (ApiNotFound s)"
  "\<not> isNotFound (ApiError s)"
  "\<not> isNotFound NoSpecError"
  "\<not> isNotFound (FmtError s)"
  by (simp_all add: isNotFound_def)

text \<open>\<open>err != nil && !errors.IsNotFound(err)\<close>, the guard after every delete.\<close>

definition realError :: "goerr option \<Rightarrow> bool" where
  "realError e = (case e of None \<Rightarrow> False | Some e' \<Rightarrow> \<not> isNotFound e')"

lemma realError_simps [simp]:
  "\<not> realError None"
  "realError (Some e) \<longleftrightarrow> \<not> isNotFound e"
  by (simp_all add: realError_def)

end
