(* ===== verification/PolicyTypes.thy ===== *)
theory PolicyTypes
  imports K8sObjects
begin

section \<open>The ClusterPolicy API: \<open>api/v1/clusterpolicy_types.go\<close>\<close>

text \<open>
  The custom resource that configures the operator: its spec, one record per component, its status,
  and the helper functions of the package. A \<open>*bool\<close> is a \<open>bool option\<close>. The string types
  \<open>Runtime\<close> and \<open>State\<close> are datatypes with the package's constants and one constructor for any
  other string, the zero value \<open>""\<close> among them.
\<close>

subsection \<open>Types\<close>

datatype Runtime = Docker | Containerd | OtherRuntime string

definition RuntimeString :: "Runtime \<Rightarrow> string" where
  "RuntimeString r = (case r of Docker \<Rightarrow> ''docker'' | Containerd \<Rightarrow> ''containerd'' | _ \<Rightarrow> [])"

record OperatorSpec =
  opDefaultRuntime :: Runtime

record ContainerRuntimeSpec =
  crEnabled :: "bool option"
  crRuntimeClass :: string
  crSetAsDefault :: "bool option"
  crRepository :: string
  crImage :: string
  crTag :: string
  crImagePullPolicy :: string
  crImagePullSecrets :: "string list"
  crArgs :: "string list"
  crEnv :: "EnvVar list"
  crInstallDir :: string

record DevicePluginSpec =
  dpEnabled :: "bool option"
  dpRepository :: string
  dpImage :: string
  dpTag :: string
  dpImagePullPolicy :: string
  dpImagePullSecrets :: "string list"
  dpEnv :: "EnvVar list"

record OsDistSetupSpec =
  osId :: string
  osMajorVersion :: string
  osVersion :: string
  osXrmInstallation :: "bool option"
  osShellFlashEnabled :: "bool option"
  osCards :: "string list"
  osRepository :: string
  osImage :: string
  osTag :: string
  osImagePullPolicy :: string
  osImagePullSecrets :: "string list"

record HostSetupSpec =
  hsEnabled :: "bool option"
  hsOsDists :: "OsDistSetupSpec list"

record ClusterPolicySpec =
  specOperator :: OperatorSpec
  specContainerRuntime :: ContainerRuntimeSpec
  specDevicePlugin :: DevicePluginSpec
  specHostSetup :: HostSetupSpec

datatype State = Ignored | Ready | NotReady | Disabled | OtherState string

record ClusterPolicyStatus =
  statusState :: State
  statusNamespace :: string

record ClusterPolicy =
  cpMeta :: ObjectMeta
  cpSpec :: ClusterPolicySpec
  cpStatus :: ClusterPolicyStatus

abbreviation cpName :: "ClusterPolicy \<Rightarrow> string" where
  "cpName p \<equiv> metaName (cpMeta p)"

subsection \<open>Operations\<close>

definition SetStatus :: "State \<Rightarrow> string \<Rightarrow> ClusterPolicy \<Rightarrow> ClusterPolicy" where
  "SetStatus s ns p =
     p\<lparr>cpStatus := (cpStatus p)\<lparr>statusState := s, statusNamespace := ns\<rparr>\<rparr>"

definition ContainerRuntimeSpec_IsEnabled :: "ContainerRuntimeSpec \<Rightarrow> bool" where
  "ContainerRuntimeSpec_IsEnabled crs = (case crEnabled crs of None \<Rightarrow> True | Some b \<Rightarrow> b)"

definition DevicePluginSpec_IsEnabled :: "DevicePluginSpec \<Rightarrow> bool" where
  "DevicePluginSpec_IsEnabled dps = (case dpEnabled dps of None \<Rightarrow> True | Some b \<Rightarrow> b)"

definition HostSetupSpec_IsEnabled :: "HostSetupSpec \<Rightarrow> bool" where
  "HostSetupSpec_IsEnabled hss = (case hsEnabled hss of None \<Rightarrow> True | Some b \<Rightarrow> b)"

definition ImagePath :: "string \<Rightarrow> string \<Rightarrow> string \<Rightarrow> string" where
  "ImagePath repo img tag =
    (if repo = [] \<and> tag = [] then
       (if img \<noteq> [] then img else [])
     else if hasPrefix tag ''sha256:'' then repo @ ''/'' @ img @ ''@'' @ tag
     else repo @ ''/'' @ img @ '':'' @ tag)"

definition PullAlways :: string where "PullAlways = ''Always''"
definition PullNever :: string where "PullNever = ''Never''"
definition PullIfNotPresent :: string where "PullIfNotPresent = ''IfNotPresent''"

definition ImagePullPolicy :: "string \<Rightarrow> string" where
  "ImagePullPolicy pullPolicy =
    (if pullPolicy = ''Always'' then PullAlways
     else if pullPolicy = ''Never'' then PullNever
     else if pullPolicy = ''IfNotPresent'' then PullIfNotPresent
     else PullIfNotPresent)"

subsection \<open>The component switch\<close>

text \<open>
  The three component specs share one contract: an optional flag, on when it is absent. What
  the state manager needs of it is proved once.
\<close>

locale component_switch =
  fixes flag :: "'spec \<Rightarrow> bool option"
    and isEnabled :: "'spec \<Rightarrow> bool"
  assumes absent_on: "flag s = None \<Longrightarrow> isEnabled s"
    and present: "flag s = Some b \<Longrightarrow> isEnabled s = b"
begin

lemma off_iff: "\<not> isEnabled s \<longleftrightarrow> flag s = Some False"
  by (cases "flag s") (auto simp: absent_on present)

lemma on_iff: "isEnabled s \<longleftrightarrow> flag s \<noteq> Some False"
  using off_iff by blast

end

interpretation cr_switch: component_switch crEnabled ContainerRuntimeSpec_IsEnabled
  by unfold_locales (simp_all add: ContainerRuntimeSpec_IsEnabled_def)

interpretation dp_switch: component_switch dpEnabled DevicePluginSpec_IsEnabled
  by unfold_locales (simp_all add: DevicePluginSpec_IsEnabled_def)

interpretation hs_switch: component_switch hsEnabled HostSetupSpec_IsEnabled
  by unfold_locales (simp_all add: HostSetupSpec_IsEnabled_def)

subsection \<open>Lemmas\<close>

lemma SetStatus_fields [simp]:
  "cpMeta (SetStatus s ns p) = cpMeta p"
  "cpSpec (SetStatus s ns p) = cpSpec p"
  "statusState (cpStatus (SetStatus s ns p)) = s"
  "statusNamespace (cpStatus (SetStatus s ns p)) = ns"
  by (simp_all add: SetStatus_def)

lemma ImagePath_bare: "ImagePath [] img [] = img"
  by (simp add: ImagePath_def)

lemma ImagePath_tagged:
  "repo \<noteq> [] \<or> tag \<noteq> [] \<Longrightarrow> \<not> hasPrefix tag ''sha256:'' \<Longrightarrow>
   ImagePath repo img tag = repo @ ''/'' @ img @ '':'' @ tag"
  by (auto simp: ImagePath_def)

lemma ImagePath_digest:
  "ImagePath repo img (''sha256:'' @ d) = repo @ ''/'' @ img @ ''@sha256:'' @ d"
  by (simp add: ImagePath_def)

lemma ImagePullPolicy_range: "ImagePullPolicy p \<in> {PullAlways, PullNever, PullIfNotPresent}"
  by (simp add: ImagePullPolicy_def)

end
