(* ===== verification/Samples.thy ===== *)
theory Samples
  imports PolicyTypes
begin

section \<open>Concrete objects for the witnesses\<close>

text \<open>
  The policy of \<open>config/samples/policy_v1_clusterpolicy.yaml\<close> (with two of its host-setup entries)
  and cut-down versions of the manifests under \<open>assets/\<close>. The witnesses of the properties
  evaluate the model on them.
\<close>

definition samplePolicySpec :: ClusterPolicySpec where
  "samplePolicySpec = \<lparr>
     specOperator = \<lparr>opDefaultRuntime = Containerd\<rparr>,
     specContainerRuntime = \<lparr>crEnabled = Some True, crRuntimeClass = ''xilinx'',
       crSetAsDefault = Some False, crRepository = ''public.ecr.aws/xilinx_dcg'',
       crImage = ''xilinx-container-runtime'', crTag = ''latest'',
       crImagePullPolicy = ''IfNotPresent'', crImagePullSecrets = [], crArgs = [], crEnv = [],
       crInstallDir = ''/usr/bin''\<rparr>,
     specDevicePlugin = \<lparr>dpEnabled = Some True, dpRepository = ''public.ecr.aws/xilinx_dcg'',
       dpImage = ''k8s-device-plugin'', dpTag = ''1.2.0'', dpImagePullPolicy = ''IfNotPresent'',
       dpImagePullSecrets = [],
       dpEnv = [\<lparr>envName = ''U30AllocUnit'', envValue = ''Device'', envValueFrom = None\<rparr>]\<rparr>,
     specHostSetup = \<lparr>hsEnabled = Some True, hsOsDists =
       [\<lparr>osId = ''ubuntu'', osMajorVersion = ''18'', osVersion = ''2023.1'', osXrmInstallation = None,
         osShellFlashEnabled = Some True, osCards = [''alveo-u200''],
         osRepository = ''public.ecr.aws/xilinx_dcg'', osImage = ''host-setup'',
         osTag = ''ubuntu18.04'', osImagePullPolicy = ''IfNotPresent'', osImagePullSecrets = []\<rparr>,
        \<lparr>osId = ''centos'', osMajorVersion = ''7'', osVersion = ''2023.1'', osXrmInstallation = None,
         osShellFlashEnabled = Some True, osCards = [],
         osRepository = ''public.ecr.aws/xilinx_dcg'', osImage = ''host-setup'',
         osTag = ''centos7.9'', osImagePullPolicy = ''IfNotPresent'', osImagePullSecrets = []\<rparr>]\<rparr>\<rparr>"

definition samplePolicy :: ClusterPolicy where
  "samplePolicy = \<lparr>cpMeta = zeroMeta\<lparr>metaName := ''fpga-clusterpolicy'', metaUID := ''u1''\<rparr>,
     cpSpec = samplePolicySpec,
     cpStatus = \<lparr>statusState = OtherState [], statusNamespace = []\<rparr>\<rparr>"

definition sampleContainer :: "string \<Rightarrow> Container" where
  "sampleContainer n = \<lparr>ctrName = n, ctrImage = ''filed_by_operator'', ctrImagePullPolicy = [],
     ctrCommand = [], ctrArgs = [], ctrEnv = [], ctrVolumeMounts = [], ctrOther = ''privileged''\<rparr>"

definition samplePod :: "strmap option \<Rightarrow> Container list \<Rightarrow> Container list \<Rightarrow> PodSpec" where
  "samplePod sel inits ctrs = \<lparr>podNodeSelector = sel, podInitContainers = inits, podContainers = ctrs,
     podVolumes = [], podImagePullSecrets = [], podOther = ''tolerations''\<rparr>"

definition sampleDaemonSet :: "string \<Rightarrow> PodSpec \<Rightarrow> DaemonSet" where
  "sampleDaemonSet n pod = zeroDaemonSet\<lparr>dsMeta := zeroMeta\<lparr>metaName := n\<rparr>, dsPod := pod\<rparr>"

definition sampleRuntimeDS :: DaemonSet where
  "sampleRuntimeDS = sampleDaemonSet ''xilinx-container-runtime-daemonset''
     (samplePod None [] [sampleContainer ''xilinx-container-runtime''])"

definition samplePluginCtr :: Container where
  "samplePluginCtr = (sampleContainer ''device-plugin'')\<lparr>ctrEnv :=
     [\<lparr>envName = ''U30NameConvention'', envValue = ''CommonName'', envValueFrom = None\<rparr>,
      \<lparr>envName = ''U30AllocUnit'', envValue = ''Card'', envValueFrom = None\<rparr>]\<rparr>"

definition samplePluginDS :: DaemonSet where
  "samplePluginDS = sampleDaemonSet ''device-plugin-daemonset'' (samplePod None [] [samplePluginCtr])"

definition sampleSelector :: "string \<Rightarrow> string \<Rightarrow> strmap" where
  "sampleSelector osid major =
    [(''feature.node.kubernetes.io/system-os_release.ID'', osid),
     (''feature.node.kubernetes.io/system-os_release.VERSION_ID.major'', major)]"

definition sampleHostSetupDS :: DaemonSet where
  "sampleHostSetupDS = sampleDaemonSet ''host-setup-centos7-daemonset''
     (samplePod (Some (sampleSelector ''centos'' ''7''))
       [sampleContainer ''init-xrt-xrm'', sampleContainer ''init-card-flash'']
       [sampleContainer ''host-setup-centos''])"

lemma samples_simps:
  "podContainers (dsPod sampleRuntimeDS) = [sampleContainer ''xilinx-container-runtime'']"
  "podContainers (dsPod samplePluginDS) = [samplePluginCtr]"
  "podContainers (dsPod sampleHostSetupDS) = [sampleContainer ''host-setup-centos'']"
  "podInitContainers (dsPod sampleHostSetupDS) =
     [sampleContainer ''init-xrt-xrm'', sampleContainer ''init-card-flash'']"
  "podNodeSelector (dsPod sampleHostSetupDS) = Some (sampleSelector ''centos'' ''7'')"
  "cpSpec samplePolicy = samplePolicySpec"
  by (simp_all add: sampleRuntimeDS_def samplePluginDS_def sampleHostSetupDS_def
      sampleDaemonSet_def samplePod_def zeroDaemonSet_def samplePolicy_def)

end
