(* ===== verification/PolicySpec.thy ===== *)
theory PolicySpec
  imports Samples
begin

section \<open>What the policy's helper functions do\<close>

text \<open>
  The image reference \<open>ImagePath\<close> builds can be taken apart again: no two settings of repository,
  image and tag are confused.
\<close>

definition parseImagePath :: "string \<Rightarrow> string \<times> string \<times> string" where
  "parseImagePath s =
    (if CHR ''/'' \<notin> set s then ([], s, [])
     else
       let name = rev (takeWhile (\<lambda>c. c \<noteq> CHR ''/'') (rev s));
           img = takeWhile (\<lambda>c. c \<noteq> CHR '':'' \<and> c \<noteq> CHR ''@'') name
       in (take (length s - length name - 1) s, img, drop (length img + 1) name))"

lemma parseImagePath_slash:
  assumes "CHR ''/'' \<notin> set img" and "CHR '':'' \<notin> set img" and "CHR ''@'' \<notin> set img"
    and "CHR ''/'' \<notin> set tag" and "sep = CHR '':'' \<or> sep = CHR ''@''"
  shows "parseImagePath (repo @ CHR ''/'' # img @ sep # tag) = (repo, img, tag)"
proof -
  let ?name = "img @ sep # tag"
  have n: "\<forall>c\<in>set (rev ?name). c \<noteq> CHR ''/''" using assms by auto
  have name: "rev (takeWhile (\<lambda>c. c \<noteq> CHR ''/'') (rev (repo @ CHR ''/'' # ?name))) = ?name"
    using takeWhile_append2 [of "rev ?name" "\<lambda>c. c \<noteq> CHR ''/''" "CHR ''/'' # rev repo"] n by simp
  have img: "takeWhile (\<lambda>c. c \<noteq> CHR '':'' \<and> c \<noteq> CHR ''@'') ?name = img"
    using assms by (subst takeWhile_append2) auto
  show ?thesis
    unfolding parseImagePath_def Let_def name img by simp
qed

text \<open>
  C35: Repository, image and tag can be read back from the image reference, so that no two
  settings of them give the same reference, provided the image has none of the separators and
  the tag no slash; digests are included.
\<close>

theorem ImagePath_roundtrip:
  assumes "CHR ''/'' \<notin> set img" and "CHR '':'' \<notin> set img" and "CHR ''@'' \<notin> set img"
    and "CHR ''/'' \<notin> set tag"
  shows "parseImagePath (ImagePath repo img tag) = (repo, img, tag)"
proof (cases "repo = [] \<and> tag = []")
  case True
  with assms(1) show ?thesis by (simp add: ImagePath_def parseImagePath_def)
next
  case False
  then have "ImagePath repo img tag =
      repo @ CHR ''/'' # img @ (if hasPrefix tag ''sha256:'' then CHR ''@'' else CHR '':'') # tag"
    by (auto simp: ImagePath_def)
  then show ?thesis
    using parseImagePath_slash [OF assms] by simp
qed

theorem ImagePath_roundtrip_witness:
  "parseImagePath (ImagePath ''public.ecr.aws/xilinx_dcg'' ''host-setup'' ''sha256:0a1b'') =
     (''public.ecr.aws/xilinx_dcg'', ''host-setup'', ''sha256:0a1b'') \<and>
   ImagePath ''public.ecr.aws/xilinx_dcg'' ''host-setup'' ''sha256:0a1b'' =
     ''public.ecr.aws/xilinx_dcg/host-setup@sha256:0a1b''"
  using ImagePath_roundtrip [of "''host-setup''" "''sha256:0a1b''" "''public.ecr.aws/xilinx_dcg''"]
  by (simp add: ImagePath_def)

end
