(* ===== verification/DeepCopy.thy ===== *)
theory DeepCopy
  imports PolicyTypes
begin

section \<open>Generated deep copies: \<open>api/v1/zz_generated.deepcopy.go\<close>\<close>

text \<open>
  Everywhere else in the development an object is a value. Here it is what it is in Go: a struct
  whose pointers and slices refer to memory, so that two structs can share what they point to.

  The memory is a list of cells, one per variable or backing array that was ever allocated, and an
  address is an index into it. Allocation appends a cell. A slice is a window of an array: its
  address, offset and length; the nil pointer and the nil slice are \<open>None\<close>, different from an empty
  slice. A method \<open>(in *T) DeepCopyInto(out *T)\<close> is a computation from the struct at \<open>in\<close> to the
  struct it leaves at \<open>out\<close>; every call in the repository passes an \<open>out\<close> that was just
  allocated. A method \<open>(in *T) DeepCopy()\<close> takes the struct at \<open>in\<close>, \<open>None\<close> for a nil receiver, and
  returns the address of the copy.

  \<open>DeepCopyInto\<close> of \<open>ObjectMeta\<close>, \<open>ListMeta\<close> and \<open>EnvVar\<close> is code of the Kubernetes libraries: it
  is a parameter, as are these types themselves and the cells their own pointers lead to.
\<close>

subsection \<open>Memory\<close>

type_synonym addr = nat

record slice =
  slArr :: addr
  slOff :: nat
  slLen :: nat

text \<open>How values of one Go type are kept in cells.\<close>

record ('c, 't) cellType =
  inj :: "'t \<Rightarrow> 'c"
  proj :: "'c \<Rightarrow> 't option"

definition nil_deref :: string where
  "nil_deref = ''invalid memory address or nil pointer dereference''"

definition peek :: "('c, 't) cellType \<Rightarrow> addr \<Rightarrow> 'c list \<Rightarrow> 't option" where
  "peek T a h = (if a < length h then proj T (h ! a) else None)"

definition newVar :: "('c, 't) cellType \<Rightarrow> 't \<Rightarrow> ('c list, addr) go" where
  "newVar T v = (\<lambda>h. (Ret (length h), h @ [inj T v]))"

definition loadVar :: "('c, 't) cellType \<Rightarrow> addr \<Rightarrow> ('c list, 't) go" where
  "loadVar T a = (\<lambda>h. (case peek T a h of None \<Rightarrow> Panic nil_deref | Some v \<Rightarrow> Ret v, h))"

definition storeVar :: "('c, 't) cellType \<Rightarrow> addr \<Rightarrow> 't \<Rightarrow> ('c list, unit) go" where
  "storeVar T a v = (\<lambda>h. case peek T a h of
     None \<Rightarrow> (Panic nil_deref, h)
   | Some _ \<Rightarrow> (Ret (), h[a := inj T v]))"

definition makeSlice :: "('c, 't list) cellType \<Rightarrow> 't \<Rightarrow> nat \<Rightarrow> ('c list, slice) go" where
  "makeSlice A zero n =
     gbind (newVar A (replicate n zero)) (\<lambda>a. gret \<lparr>slArr = a, slOff = 0, slLen = n\<rparr>)"

definition loadElem :: "('c, 't list) cellType \<Rightarrow> slice \<Rightarrow> nat \<Rightarrow> ('c list, 't) go" where
  "loadElem A s i =
     gbind (loadVar A (slArr s)) (\<lambda>xs.
     if i < slLen s then glift (nthP xs (slOff s + i)) else gpanic index_panic)"

definition storeElem :: "('c, 't list) cellType \<Rightarrow> slice \<Rightarrow> nat \<Rightarrow> 't \<Rightarrow> ('c list, unit) go" where
  "storeElem A s i v =
     gbind (loadVar A (slArr s)) (\<lambda>xs.
     if i < slLen s then
       gbind (glift (updP (slOff s + i) (\<lambda>_. v) xs)) (\<lambda>xs. storeVar A (slArr s) xs)
     else gpanic index_panic)"

text \<open>The built-in \<open>copy(dst, src)\<close>.\<close>

definition copySlice :: "('c, 't list) cellType \<Rightarrow> slice \<Rightarrow> slice \<Rightarrow> ('c list, unit) go" where
  "copySlice A dst src =
     gbind (loadVar A (slArr src)) (\<lambda>ys.
     gbind (loadVar A (slArr dst)) (\<lambda>xs.
     let n = min (slLen dst) (slLen src) in
     storeVar A (slArr dst)
       (take (slOff dst) xs @ take n (drop (slOff src) ys) @ drop (slOff dst + n) xs)))"

subsection \<open>The structs\<close>

text \<open>
  The structs of \<open>clusterpolicy_types.go\<close>, over the types of what they refer to. In memory these
  are addresses and slices; in the value a struct denotes, they are the things themselves.
\<close>

record ('p, 's) GoOsDistSetupSpec =
  goOsId :: string
  goOsMajorVersion :: string
  goOsVersion :: string
  goXrmInstallation :: 'p
  goShellFlashEnabled :: 'p
  goCards :: 's
  goOsRepository :: string
  goOsImage :: string
  goOsTag :: string
  goOsImagePullPolicy :: string
  goOsImagePullSecrets :: 's

record ('p, 'd) GoHostSetupSpec =
  goHsEnabled :: 'p
  goOsDists :: 'd

record ('p, 's, 'e) GoContainerRuntimeSpec =
  goCrEnabled :: 'p
  goCrRuntimeClass :: string
  goCrSetAsDefault :: 'p
  goCrRepository :: string
  goCrImage :: string
  goCrTag :: string
  goCrImagePullPolicy :: string
  goCrImagePullSecrets :: 's
  goCrArgs :: 's
  goCrEnv :: 'e
  goCrInstallDir :: string

record ('p, 's, 'e) GoDevicePluginSpec =
  goDpEnabled :: 'p
  goDpRepository :: string
  goDpImage :: string
  goDpTag :: string
  goDpImagePullPolicy :: string
  goDpImagePullSecrets :: 's
  goDpEnv :: 'e

record ('c, 'd, 'h) GoClusterPolicySpec =
  goOperator :: OperatorSpec
  goContainerRuntime :: 'c
  goDevicePlugin :: 'd
  goHostSetup :: 'h

record TypeMeta =
  tmKind :: string
  tmAPIVersion :: string

record ('m, 'sp) GoClusterPolicy =
  goTypeMeta :: TypeMeta
  goObjectMeta :: 'm
  goSpec :: 'sp
  goStatus :: ClusterPolicyStatus

record ('l, 'i) GoClusterPolicyList =
  goListTypeMeta :: TypeMeta
  goListMeta :: 'l
  goItems :: 'i

text \<open>The same in memory.\<close>

type_synonym ptr = "addr option"
type_synonym mOsDist = "(ptr, slice option) GoOsDistSetupSpec"
type_synonym mHostSetup = "(ptr, slice option) GoHostSetupSpec"
type_synonym mRuntime = "(ptr, slice option, slice option) GoContainerRuntimeSpec"
type_synonym mPlugin = "(ptr, slice option, slice option) GoDevicePluginSpec"
type_synonym mSpec = "(mRuntime, mPlugin, mHostSetup) GoClusterPolicySpec"
type_synonym 'm mPolicy = "('m, mSpec) GoClusterPolicy"
type_synonym 'l mPolicyList = "('l, slice option) GoClusterPolicyList"

subsection \<open>Cells\<close>

datatype ('m, 'l, 'v, 'x) cell =
    BoolVar bool
  | StringArray "string list"
  | EnvVarArray "'v list"
  | OsDistArray "mOsDist list"
  | PolicyArray "'m mPolicy list"
  | OperatorVar OperatorSpec
  | StatusVar ClusterPolicyStatus
  | OsDistVar mOsDist
  | HostSetupVar mHostSetup
  | RuntimeVar mRuntime
  | PluginVar mPlugin
  | SpecVar mSpec
  | PolicyVar "'m mPolicy"
  | PolicyListVar "'l mPolicyList"
  | LibraryCell 'x

definition boolVar where
  "boolVar = \<lparr>inj = BoolVar, proj = (\<lambda>c. case c of BoolVar v \<Rightarrow> Some v | _ \<Rightarrow> None)\<rparr>"

definition stringArray where
  "stringArray = \<lparr>inj = StringArray, proj = (\<lambda>c. case c of StringArray v \<Rightarrow> Some v | _ \<Rightarrow> None)\<rparr>"

definition envVarArray where
  "envVarArray = \<lparr>inj = EnvVarArray, proj = (\<lambda>c. case c of EnvVarArray v \<Rightarrow> Some v | _ \<Rightarrow> None)\<rparr>"

definition osDistArray where
  "osDistArray = \<lparr>inj = OsDistArray, proj = (\<lambda>c. case c of OsDistArray v \<Rightarrow> Some v | _ \<Rightarrow> None)\<rparr>"

definition policyArray where
  "policyArray = \<lparr>inj = PolicyArray, proj = (\<lambda>c. case c of PolicyArray v \<Rightarrow> Some v | _ \<Rightarrow> None)\<rparr>"

definition operatorVar where
  "operatorVar = \<lparr>inj = OperatorVar, proj = (\<lambda>c. case c of OperatorVar v \<Rightarrow> Some v | _ \<Rightarrow> None)\<rparr>"

definition statusVar where
  "statusVar = \<lparr>inj = StatusVar, proj = (\<lambda>c. case c of StatusVar v \<Rightarrow> Some v | _ \<Rightarrow> None)\<rparr>"

definition osDistVar where
  "osDistVar = \<lparr>inj = OsDistVar, proj = (\<lambda>c. case c of OsDistVar v \<Rightarrow> Some v | _ \<Rightarrow> None)\<rparr>"

definition hostSetupVar where
  "hostSetupVar = \<lparr>inj = HostSetupVar, proj = (\<lambda>c. case c of HostSetupVar v \<Rightarrow> Some v | _ \<Rightarrow> None)\<rparr>"

definition runtimeVar where
  "runtimeVar = \<lparr>inj = RuntimeVar, proj = (\<lambda>c. case c of RuntimeVar v \<Rightarrow> Some v | _ \<Rightarrow> None)\<rparr>"

definition pluginVar where
  "pluginVar = \<lparr>inj = PluginVar, proj = (\<lambda>c. case c of PluginVar v \<Rightarrow> Some v | _ \<Rightarrow> None)\<rparr>"

definition specVar where
  "specVar = \<lparr>inj = SpecVar, proj = (\<lambda>c. case c of SpecVar v \<Rightarrow> Some v | _ \<Rightarrow> None)\<rparr>"

definition policyVar where
  "policyVar = \<lparr>inj = PolicyVar, proj = (\<lambda>c. case c of PolicyVar v \<Rightarrow> Some v | _ \<Rightarrow> None)\<rparr>"

definition policyListVar where
  "policyListVar = \<lparr>inj = PolicyListVar, proj = (\<lambda>c. case c of PolicyListVar v \<Rightarrow> Some v | _ \<Rightarrow> None)\<rparr>"


text \<open>A view of the cells: what was put in comes out, and nothing else does.\<close>

locale cell_view =
  fixes T :: "('c, 't) cellType"
  assumes proj_inj: "proj T c = Some v \<longleftrightarrow> c = inj T v"
begin

lemma peek_iff: "peek T a h = Some v \<longleftrightarrow> a < length h \<and> h ! a = inj T v"
  by (simp add: peek_def proj_inj)

lemma peek_mono: "peek T a h = Some v \<Longrightarrow> peek T a (h @ e) = Some v"
  by (auto simp: peek_iff nth_append)

lemma peek_new [simp]: "peek T (length h) (h @ inj T v # e) = Some v"
  by (simp add: peek_iff)

lemma load_run: "peek T a h = Some v \<Longrightarrow> loadVar T a h = (Ret v, h)"
  by (simp add: loadVar_def)

lemma store_new [simp]: "storeVar T (length h) v (h @ inj T v0 # e) = (Ret (), h @ inj T v # e)"
  by (simp add: storeVar_def)

lemma new_run: "newVar T v h = (Ret (length h), h @ [inj T v])"
  by (simp add: newVar_def)

end

text \<open>The cells that are the backing arrays of slices.\<close>

locale array_view = cell_view A for A :: "('c, 't list) cellType"
begin

lemma make_run:
  "makeSlice A zero n h =
     (Ret \<lparr>slArr = length h, slOff = 0, slLen = n\<rparr>, h @ [inj A (replicate n zero)])"
  by (simp add: makeSlice_def gbind_run new_run)

lemma load_elem_run:
  "peek A (slArr s) h = Some xs \<Longrightarrow> i < slLen s \<Longrightarrow> slOff s + slLen s \<le> length xs \<Longrightarrow>
   loadElem A s i h = (Ret (xs ! (slOff s + i)), h)"
  by (simp add: loadElem_def gbind_run load_run nthP_in_range)

lemma store_elem_run:
  "i < n \<Longrightarrow> length xs = n \<Longrightarrow>
   storeElem A \<lparr>slArr = length h, slOff = 0, slLen = n\<rparr> i v (h @ inj A xs # e) =
     (Ret (), h @ inj A (xs[i := v]) # e)"
  by (simp add: storeElem_def gbind_run load_run updP_in_range)

end

interpretation boolVar: cell_view boolVar
  by unfold_locales (auto simp: boolVar_def split: cell.splits)
interpretation stringArray: array_view stringArray
  by unfold_locales (auto simp: stringArray_def split: cell.splits)
interpretation envVarArray: array_view envVarArray
  by unfold_locales (auto simp: envVarArray_def split: cell.splits)
interpretation osDistArray: array_view osDistArray
  by unfold_locales (auto simp: osDistArray_def split: cell.splits)
interpretation policyArray: array_view policyArray
  by unfold_locales (auto simp: policyArray_def split: cell.splits)
interpretation operatorVar: cell_view operatorVar
  by unfold_locales (auto simp: operatorVar_def split: cell.splits)
interpretation statusVar: cell_view statusVar
  by unfold_locales (auto simp: statusVar_def split: cell.splits)
interpretation osDistVar: cell_view osDistVar
  by unfold_locales (auto simp: osDistVar_def split: cell.splits)
interpretation hostSetupVar: cell_view hostSetupVar
  by unfold_locales (auto simp: hostSetupVar_def split: cell.splits)
interpretation runtimeVar: cell_view runtimeVar
  by unfold_locales (auto simp: runtimeVar_def split: cell.splits)
interpretation pluginVar: cell_view pluginVar
  by unfold_locales (auto simp: pluginVar_def split: cell.splits)
interpretation specVar: cell_view specVar
  by unfold_locales (auto simp: specVar_def split: cell.splits)
interpretation policyVar: cell_view policyVar
  by unfold_locales (auto simp: policyVar_def split: cell.splits)
interpretation policyListVar: cell_view policyListVar
  by unfold_locales (auto simp: policyListVar_def split: cell.splits)

subsection \<open>What the Kubernetes libraries provide\<close>

record ('m, 'l, 'v, 'x) copyLibs =
  zeroObjectMeta :: 'm
  zeroListMeta :: 'l
  zeroEnvVar :: 'v
  ObjectMeta_DeepCopyInto :: "'m \<Rightarrow> (('m, 'l, 'v, 'x) cell list, 'm) go"
  ListMeta_DeepCopyInto :: "'l \<Rightarrow> (('m, 'l, 'v, 'x) cell list, 'l) go"
  EnvVar_DeepCopyInto :: "'v \<Rightarrow> (('m, 'l, 'v, 'x) cell list, 'v) go"

subsection \<open>Copying what a field refers to\<close>

text \<open>
  The three shapes the generator emits for a field: a pointer to a bool, a slice of strings, a slice
  of structs.
\<close>

definition copyBool :: "ptr \<Rightarrow> (('m, 'l, 'v, 'x) cell list, ptr) go" where
  "copyBool p = (case p of
     None \<Rightarrow> gret None
   | Some a \<Rightarrow>
       gbind (newVar boolVar False) (\<lambda>a'.
       gbind (loadVar boolVar a) (\<lambda>b.
       gbind (storeVar boolVar a' b) (\<lambda>_. gret (Some a')))))"

definition copyStrings :: "slice option \<Rightarrow> (('m, 'l, 'v, 'x) cell list, slice option) go" where
  "copyStrings s = (case s of
     None \<Rightarrow> gret None
   | Some s \<Rightarrow>
       gbind (makeSlice stringArray [] (slLen s)) (\<lambda>s'.
       gbind (copySlice stringArray s' s) (\<lambda>_. gret (Some s'))))"

primrec copyElems ::
  "('c, 't list) cellType \<Rightarrow> ('t \<Rightarrow> ('c list, 't) go) \<Rightarrow> slice \<Rightarrow> slice \<Rightarrow> nat list \<Rightarrow> ('c list, unit) go"
where
  "copyElems A into s s' [] = gret ()"
| "copyElems A into s s' (i # is) =
     gbind (loadElem A s i) (\<lambda>x.
     gbind (into x) (\<lambda>x'.
     gbind (storeElem A s' i x') (\<lambda>_. copyElems A into s s' is)))"

definition copyStructs ::
  "('c, 't list) cellType \<Rightarrow> 't \<Rightarrow> ('t \<Rightarrow> ('c list, 't) go) \<Rightarrow> slice option \<Rightarrow> ('c list, slice option) go"
where
  "copyStructs A zero into s = (case s of
     None \<Rightarrow> gret None
   | Some s \<Rightarrow>
       gbind (makeSlice A zero (slLen s)) (\<lambda>s'.
       gbind (copyElems A into s s' [0..<slLen s]) (\<lambda>_. gret (Some s'))))"

text \<open>\<open>DeepCopy\<close>: a new variable, filled by \<open>DeepCopyInto\<close>; nil for a nil receiver.\<close>

definition copyNew ::
  "('c, 't) cellType \<Rightarrow> 't \<Rightarrow> ('t \<Rightarrow> ('c list, 't) go) \<Rightarrow> 't option \<Rightarrow> ('c list, ptr) go"
where
  "copyNew T zero into receiver = (case receiver of
     None \<Rightarrow> gret None
   | Some v \<Rightarrow>
       gbind (newVar T zero) (\<lambda>a.
       gbind (into v) (\<lambda>out.
       gbind (storeVar T a out) (\<lambda>_. gret (Some a)))))"

subsection \<open>Zero values\<close>

definition zeroOperatorSpec :: OperatorSpec where
  "zeroOperatorSpec = \<lparr>opDefaultRuntime = OtherRuntime []\<rparr>"

definition zeroStatus :: ClusterPolicyStatus where
  "zeroStatus = \<lparr>statusState = OtherState [], statusNamespace = []\<rparr>"

definition zeroOsDist :: mOsDist where
  "zeroOsDist = \<lparr>goOsId = [], goOsMajorVersion = [], goOsVersion = [],
     goXrmInstallation = None, goShellFlashEnabled = None, goCards = None,
     goOsRepository = [], goOsImage = [], goOsTag = [], goOsImagePullPolicy = [],
     goOsImagePullSecrets = None\<rparr>"

definition zeroHostSetup :: mHostSetup where
  "zeroHostSetup = \<lparr>goHsEnabled = None, goOsDists = None\<rparr>"

definition zeroRuntime :: mRuntime where
  "zeroRuntime = \<lparr>goCrEnabled = None, goCrRuntimeClass = [], goCrSetAsDefault = None,
     goCrRepository = [], goCrImage = [], goCrTag = [], goCrImagePullPolicy = [],
     goCrImagePullSecrets = None, goCrArgs = None, goCrEnv = None, goCrInstallDir = []\<rparr>"

definition zeroPlugin :: mPlugin where
  "zeroPlugin = \<lparr>goDpEnabled = None, goDpRepository = [], goDpImage = [], goDpTag = [],
     goDpImagePullPolicy = [], goDpImagePullSecrets = None, goDpEnv = None\<rparr>"

definition zeroSpec :: mSpec where
  "zeroSpec = \<lparr>goOperator = zeroOperatorSpec, goContainerRuntime = zeroRuntime,
     goDevicePlugin = zeroPlugin, goHostSetup = zeroHostSetup\<rparr>"

definition zeroTypeMeta :: TypeMeta where
  "zeroTypeMeta = \<lparr>tmKind = [], tmAPIVersion = []\<rparr>"

definition zeroPolicy :: "('m, 'l, 'v, 'x) copyLibs \<Rightarrow> 'm mPolicy" where
  "zeroPolicy X = \<lparr>goTypeMeta = zeroTypeMeta, goObjectMeta = zeroObjectMeta X, goSpec = zeroSpec,
     goStatus = zeroStatus\<rparr>"

definition zeroPolicyList :: "('m, 'l, 'v, 'x) copyLibs \<Rightarrow> 'l mPolicyList" where
  "zeroPolicyList X = \<lparr>goListTypeMeta = zeroTypeMeta, goListMeta = zeroListMeta X, goItems = None\<rparr>"

subsection \<open>The generated methods\<close>

text \<open>
  Each \<open>DeepCopyInto\<close> starts with \<open>*out = *in\<close> and then replaces the fields that refer to memory.
\<close>

definition OsDistSetupSpec_DeepCopyInto ::
  "mOsDist \<Rightarrow> (('m, 'l, 'v, 'x) cell list, mOsDist) go" where
  "OsDistSetupSpec_DeepCopyInto in' =
    (let out = in' in
     gbind (copyBool (goXrmInstallation in')) (\<lambda>p.
     let out = out\<lparr>goXrmInstallation := p\<rparr> in
     gbind (copyBool (goShellFlashEnabled in')) (\<lambda>p.
     let out = out\<lparr>goShellFlashEnabled := p\<rparr> in
     gbind (copyStrings (goCards in')) (\<lambda>s.
     let out = out\<lparr>goCards := s\<rparr> in
     gbind (copyStrings (goOsImagePullSecrets in')) (\<lambda>s.
     let out = out\<lparr>goOsImagePullSecrets := s\<rparr> in
     gret out)))))"

definition OsDistSetupSpec_DeepCopy ::
  "mOsDist option \<Rightarrow> (('m, 'l, 'v, 'x) cell list, ptr) go" where
  "OsDistSetupSpec_DeepCopy = copyNew osDistVar zeroOsDist OsDistSetupSpec_DeepCopyInto"

definition OperatorSpec_DeepCopyInto ::
  "OperatorSpec \<Rightarrow> (('m, 'l, 'v, 'x) cell list, OperatorSpec) go" where
  "OperatorSpec_DeepCopyInto in' = gret in'"

definition OperatorSpec_DeepCopy ::
  "OperatorSpec option \<Rightarrow> (('m, 'l, 'v, 'x) cell list, ptr) go" where
  "OperatorSpec_DeepCopy = copyNew operatorVar zeroOperatorSpec OperatorSpec_DeepCopyInto"

definition HostSetupSpec_DeepCopyInto ::
  "mHostSetup \<Rightarrow> (('m, 'l, 'v, 'x) cell list, mHostSetup) go" where
  "HostSetupSpec_DeepCopyInto in' =
    (let out = in' in
     gbind (copyBool (goHsEnabled in')) (\<lambda>p.
     let out = out\<lparr>goHsEnabled := p\<rparr> in
     gbind (copyStructs osDistArray zeroOsDist OsDistSetupSpec_DeepCopyInto (goOsDists in')) (\<lambda>s.
     let out = out\<lparr>goOsDists := s\<rparr> in
     gret out)))"

definition HostSetupSpec_DeepCopy ::
  "mHostSetup option \<Rightarrow> (('m, 'l, 'v, 'x) cell list, ptr) go" where
  "HostSetupSpec_DeepCopy = copyNew hostSetupVar zeroHostSetup HostSetupSpec_DeepCopyInto"

definition DevicePluginSpec_DeepCopyInto ::
  "('m, 'l, 'v, 'x) copyLibs \<Rightarrow> mPlugin \<Rightarrow> (('m, 'l, 'v, 'x) cell list, mPlugin) go" where
  "DevicePluginSpec_DeepCopyInto X in' =
    (let out = in' in
     gbind (copyBool (goDpEnabled in')) (\<lambda>p.
     let out = out\<lparr>goDpEnabled := p\<rparr> in
     gbind (copyStrings (goDpImagePullSecrets in')) (\<lambda>s.
     let out = out\<lparr>goDpImagePullSecrets := s\<rparr> in
     gbind (copyStructs envVarArray (zeroEnvVar X) (EnvVar_DeepCopyInto X) (goDpEnv in')) (\<lambda>s.
     let out = out\<lparr>goDpEnv := s\<rparr> in
     gret out))))"

definition DevicePluginSpec_DeepCopy ::
  "('m, 'l, 'v, 'x) copyLibs \<Rightarrow> mPlugin option \<Rightarrow> (('m, 'l, 'v, 'x) cell list, ptr) go" where
  "DevicePluginSpec_DeepCopy X = copyNew pluginVar zeroPlugin (DevicePluginSpec_DeepCopyInto X)"

definition ContainerRuntimeSpec_DeepCopyInto ::
  "('m, 'l, 'v, 'x) copyLibs \<Rightarrow> mRuntime \<Rightarrow> (('m, 'l, 'v, 'x) cell list, mRuntime) go" where
  "ContainerRuntimeSpec_DeepCopyInto X in' =
    (let out = in' in
     gbind (copyBool (goCrEnabled in')) (\<lambda>p.
     let out = out\<lparr>goCrEnabled := p\<rparr> in
     gbind (copyBool (goCrSetAsDefault in')) (\<lambda>p.
     let out = out\<lparr>goCrSetAsDefault := p\<rparr> in
     gbind (copyStrings (goCrImagePullSecrets in')) (\<lambda>s.
     let out = out\<lparr>goCrImagePullSecrets := s\<rparr> in
     gbind (copyStrings (goCrArgs in')) (\<lambda>s.
     let out = out\<lparr>goCrArgs := s\<rparr> in
     gbind (copyStructs envVarArray (zeroEnvVar X) (EnvVar_DeepCopyInto X) (goCrEnv in')) (\<lambda>s.
     let out = out\<lparr>goCrEnv := s\<rparr> in
     gret out))))))"

definition ContainerRuntimeSpec_DeepCopy ::
  "('m, 'l, 'v, 'x) copyLibs \<Rightarrow> mRuntime option \<Rightarrow> (('m, 'l, 'v, 'x) cell list, ptr) go" where
  "ContainerRuntimeSpec_DeepCopy X =
     copyNew runtimeVar zeroRuntime (ContainerRuntimeSpec_DeepCopyInto X)"

definition ClusterPolicyStatus_DeepCopyInto ::
  "ClusterPolicyStatus \<Rightarrow> (('m, 'l, 'v, 'x) cell list, ClusterPolicyStatus) go" where
  "ClusterPolicyStatus_DeepCopyInto in' = gret in'"

definition ClusterPolicyStatus_DeepCopy ::
  "ClusterPolicyStatus option \<Rightarrow> (('m, 'l, 'v, 'x) cell list, ptr) go" where
  "ClusterPolicyStatus_DeepCopy = copyNew statusVar zeroStatus ClusterPolicyStatus_DeepCopyInto"

definition ClusterPolicySpec_DeepCopyInto ::
  "('m, 'l, 'v, 'x) copyLibs \<Rightarrow> mSpec \<Rightarrow> (('m, 'l, 'v, 'x) cell list, mSpec) go" where
  "ClusterPolicySpec_DeepCopyInto X in' =
    (let out = in'; out = out\<lparr>goOperator := goOperator in'\<rparr> in
     gbind (ContainerRuntimeSpec_DeepCopyInto X (goContainerRuntime in')) (\<lambda>r.
     let out = out\<lparr>goContainerRuntime := r\<rparr> in
     gbind (DevicePluginSpec_DeepCopyInto X (goDevicePlugin in')) (\<lambda>r.
     let out = out\<lparr>goDevicePlugin := r\<rparr> in
     gbind (HostSetupSpec_DeepCopyInto (goHostSetup in')) (\<lambda>r.
     let out = out\<lparr>goHostSetup := r\<rparr> in
     gret out))))"

definition ClusterPolicySpec_DeepCopy ::
  "('m, 'l, 'v, 'x) copyLibs \<Rightarrow> mSpec option \<Rightarrow> (('m, 'l, 'v, 'x) cell list, ptr) go" where
  "ClusterPolicySpec_DeepCopy X = copyNew specVar zeroSpec (ClusterPolicySpec_DeepCopyInto X)"

definition ClusterPolicy_DeepCopyInto ::
  "('m, 'l, 'v, 'x) copyLibs \<Rightarrow> 'm mPolicy \<Rightarrow> (('m, 'l, 'v, 'x) cell list, 'm mPolicy) go" where
  "ClusterPolicy_DeepCopyInto X in' =
    (let out = in'; out = out\<lparr>goTypeMeta := goTypeMeta in'\<rparr> in
     gbind (ObjectMeta_DeepCopyInto X (goObjectMeta in')) (\<lambda>m.
     let out = out\<lparr>goObjectMeta := m\<rparr> in
     gbind (ClusterPolicySpec_DeepCopyInto X (goSpec in')) (\<lambda>s.
     let out = out\<lparr>goSpec := s\<rparr>; out = out\<lparr>goStatus := goStatus in'\<rparr> in
     gret out)))"

definition ClusterPolicy_DeepCopy ::
  "('m, 'l, 'v, 'x) copyLibs \<Rightarrow> 'm mPolicy option \<Rightarrow> (('m, 'l, 'v, 'x) cell list, ptr) go" where
  "ClusterPolicy_DeepCopy X = copyNew policyVar (zeroPolicy X) (ClusterPolicy_DeepCopyInto X)"

definition ClusterPolicyList_DeepCopyInto ::
  "('m, 'l, 'v, 'x) copyLibs \<Rightarrow> 'l mPolicyList \<Rightarrow> (('m, 'l, 'v, 'x) cell list, 'l mPolicyList) go"
where
  "ClusterPolicyList_DeepCopyInto X in' =
    (let out = in'; out = out\<lparr>goListTypeMeta := goListTypeMeta in'\<rparr> in
     gbind (ListMeta_DeepCopyInto X (goListMeta in')) (\<lambda>m.
     let out = out\<lparr>goListMeta := m\<rparr> in
     gbind (copyStructs policyArray (zeroPolicy X) (ClusterPolicy_DeepCopyInto X) (goItems in')) (\<lambda>s.
     let out = out\<lparr>goItems := s\<rparr> in
     gret out)))"

definition ClusterPolicyList_DeepCopy ::
  "('m, 'l, 'v, 'x) copyLibs \<Rightarrow> 'l mPolicyList option \<Rightarrow> (('m, 'l, 'v, 'x) cell list, ptr) go" where
  "ClusterPolicyList_DeepCopy X =
     copyNew policyListVar (zeroPolicyList X) (ClusterPolicyList_DeepCopyInto X)"

text \<open>
  The interface \<open>runtime.Object\<close>: nil, or a concrete type with a pointer, which may be nil without
  the interface being nil.
\<close>

datatype Object = NilObject | PolicyObject ptr | PolicyListObject ptr

definition ClusterPolicy_DeepCopyObject ::
  "('m, 'l, 'v, 'x) copyLibs \<Rightarrow> 'm mPolicy option \<Rightarrow> (('m, 'l, 'v, 'x) cell list, Object) go" where
  "ClusterPolicy_DeepCopyObject X in' =
     gbind (ClusterPolicy_DeepCopy X in') (\<lambda>c.
     if c \<noteq> None then gret (PolicyObject c) else gret NilObject)"

definition ClusterPolicyList_DeepCopyObject ::
  "('m, 'l, 'v, 'x) copyLibs \<Rightarrow> 'l mPolicyList option \<Rightarrow> (('m, 'l, 'v, 'x) cell list, Object) go"
where
  "ClusterPolicyList_DeepCopyObject X in' =
     gbind (ClusterPolicyList_DeepCopy X in') (\<lambda>c.
     if c \<noteq> None then gret (PolicyListObject c) else gret NilObject)"

end
