(* ===== verification/DeepCopySpec.thy ===== *)
theory DeepCopySpec
  imports DeepCopy
begin

section \<open>What the generated deep copies promise\<close>

text \<open>
  A struct in memory denotes a value: itself with every pointer and slice replaced by what it refers
  to, nil kept apart from empty. A deep copy denotes the same value and shares no memory with the
  original: it denotes that value whatever becomes of the cells that existed before.
\<close>

subsection \<open>Deep copying as a contract\<close>

definition stable :: "('c list \<Rightarrow> 't \<Rightarrow> 'd option) \<Rightarrow> bool" where
  "stable val \<longleftrightarrow> (\<forall>h e x d. val h x = Some d \<longrightarrow> val (h @ e) x = Some d)"

text \<open>
  A run that only allocates, and leaves \<open>Q\<close> true of its result whatever becomes of the old cells.
\<close>

definition deepRun :: "'c list \<Rightarrow> ('c list, 'a) go \<Rightarrow> ('c list \<Rightarrow> 'a \<Rightarrow> bool) \<Rightarrow> bool" where
  "deepRun h m Q \<longleftrightarrow>
     (\<exists>r e. m h = (Ret r, h @ e) \<and> (\<forall>h0. length h0 = length h \<longrightarrow> Q (h0 @ e) r))"

definition deep_copies :: "('c list \<Rightarrow> 't \<Rightarrow> 'd option) \<Rightarrow> ('t \<Rightarrow> ('c list, 't) go) \<Rightarrow> bool" where
  "deep_copies val into \<longleftrightarrow> stable val \<and>
     (\<forall>h x d. val h x = Some d \<longrightarrow> deepRun h (into x) (\<lambda>H x'. val H x' = Some d))"

lemma stableD: "stable val \<Longrightarrow> val h x = Some d \<Longrightarrow> val (h @ e) x = Some d"
  by (simp add: stable_def)

lemma stable_prefix: "stable val \<Longrightarrow> val h x = Some d \<Longrightarrow> prefix h H \<Longrightarrow> val H x = Some d"
  by (auto simp: stable_def prefix_def)

lemma deep_stable: "deep_copies val into \<Longrightarrow> stable val"
  by (simp add: deep_copies_def)

lemma deepRun_gret: "(\<And>h0. length h0 = length h \<Longrightarrow> Q h0 r) \<Longrightarrow> deepRun h (gret r) Q"
  by (auto simp: deepRun_def)

text \<open>Copying one field of a struct, with the denotation of the original known in an older memory.\<close>

lemma deep_field:
  assumes c: "deep_copies val into" and v: "val h x = Some d" and p: "prefix h H"
    and k: "\<And>x' H'. prefix h H' \<Longrightarrow>
      deepRun H' (k x') (\<lambda>G r. val G x' = Some d \<longrightarrow> R G r)"
  shows "deepRun H (gbind (into x) k) R"
proof -
  have st: "stable val" using c by (rule deep_stable)
  have "val H x = Some d" using st v p by (rule stable_prefix)
  then have "deepRun H (into x) (\<lambda>H x'. val H x' = Some d)"
    using c by (simp add: deep_copies_def)
  then obtain x' e where 1: "into x H = (Ret x', H @ e)"
    and q: "\<And>h0. length h0 = length H \<Longrightarrow> val (h0 @ e) x' = Some d"
    unfolding deepRun_def by blast
  have "prefix h (H @ e)" using p by (auto simp: prefix_def)
  from k [OF this] obtain r e' where 2: "k x' (H @ e) = (Ret r, (H @ e) @ e')"
    and r: "\<And>h0. length h0 = length (H @ e) \<Longrightarrow> val (h0 @ e') x' = Some d \<longrightarrow> R (h0 @ e') r"
    unfolding deepRun_def by blast
  have "R (h0 @ e @ e') r" if "length h0 = length H" for h0
    using r [of "h0 @ e"] stableD [OF st q [OF that], of e'] that by simp
  moreover have "gbind (into x) k H = (Ret r, H @ e @ e')"
    using 1 2 by (simp add: gbind_run)
  ultimately show ?thesis unfolding deepRun_def by blast
qed

lemma deep_copiesI:
  assumes "stable val"
    and "\<And>h x d. val h x = Some d \<Longrightarrow> deepRun h (into x) (\<lambda>H x'. val H x' = Some d)"
  shows "deep_copies val into"
  using assms by (simp add: deep_copies_def)

text \<open>A struct without pointers denotes itself.\<close>

lemma deep_plain: "deep_copies (\<lambda>h. Some) gret"
  by (auto simp: deep_copies_def stable_def intro: deepRun_gret)

subsection \<open>What pointers and slices denote\<close>

definition boolVal :: "('m, 'l, 'v, 'x) cell list \<Rightarrow> ptr \<Rightarrow> bool option option" where
  "boolVal h p = (case p of
     None \<Rightarrow> Some None
   | Some a \<Rightarrow> map_option Some (peek boolVar a h))"

definition sliceVal ::
  "('c, 't list) cellType \<Rightarrow> ('c list \<Rightarrow> 't \<Rightarrow> 'd option) \<Rightarrow> 'c list \<Rightarrow> slice option \<Rightarrow> 'd list option option"
where
  "sliceVal A ev h s = (case s of
     None \<Rightarrow> Some None
   | Some s \<Rightarrow>
      (case peek A (slArr s) h of
         None \<Rightarrow> None
       | Some xs \<Rightarrow>
           if slOff s + slLen s \<le> length xs
           then map_option Some (those (map (ev h) (take (slLen s) (drop (slOff s) xs))))
           else None))"

definition stringsVal :: "('m, 'l, 'v, 'x) cell list \<Rightarrow> slice option \<Rightarrow> string list option option" where
  "stringsVal = sliceVal stringArray (\<lambda>h. Some)"

lemma those_eq_Some_iff:
  "those xs = Some ys \<longleftrightarrow> length xs = length ys \<and> (\<forall>i<length ys. xs ! i = Some (ys ! i))"
proof (induction xs arbitrary: ys)
  case Nil
  then show ?case by auto
next
  case (Cons x xs)
  show ?case
  proof (cases ys)
    case Nil
    then show ?thesis by (auto split: option.splits)
  next
    case (Cons y ys')
    then show ?thesis
      using Cons.IH [of ys'] by (auto simp: All_less_Suc2 split: option.splits)
  qed
qed

lemma boolVal_deep: "deep_copies boolVal copyBool"
proof (rule deep_copiesI)
  show "stable (boolVal :: ('m, 'l, 'v, 'x) cell list \<Rightarrow> _)"
    by (auto simp: stable_def boolVal_def dest: boolVar.peek_mono split: option.splits)
next
  fix h :: "('m, 'l, 'v, 'x) cell list" and p d
  assume v: "boolVal h p = Some d"
  show "deepRun h (copyBool p) (\<lambda>H x'. boolVal H x' = Some d)"
  proof (cases p)
    case None
    with v show ?thesis by (auto simp: copyBool_def boolVal_def intro: deepRun_gret)
  next
    case (Some a)
    with v obtain b where b: "peek boolVar a h = Some b" and d: "d = Some b"
      by (auto simp: boolVal_def)
    have "copyBool p h = (Ret (Some (length h)), h @ [inj boolVar b])"
      using boolVar.load_run [OF boolVar.peek_mono [OF b]]
      by (simp add: copyBool_def Some gbind_run boolVar.new_run)
    moreover have "boolVal (h0 @ [inj boolVar b]) (Some (length h)) = Some d"
      if "length h0 = length h" for h0 :: "('m, 'l, 'v, 'x) cell list"
      using boolVar.peek_new [of h0 b "[]"] that by (simp add: boolVal_def d)
    ultimately show ?thesis unfolding deepRun_def by blast
  qed
qed

context array_view
begin

lemma slice_stable:
  assumes "stable ev"
  shows "stable (sliceVal A ev)"
  unfolding stable_def
proof (intro allI impI)
  fix h e s d
  assume v: "sliceVal A ev h s = Some d"
  show "sliceVal A ev (h @ e) s = Some d"
  proof (cases s)
    case None
    with v show ?thesis by (simp add: sliceVal_def)
  next
    case (Some s')
    then obtain xs ds where xs: "peek A (slArr s') h = Some xs" "slOff s' + slLen s' \<le> length xs"
      and ds: "those (map (ev h) (take (slLen s') (drop (slOff s') xs))) = Some ds" "d = Some ds"
      using v by (auto simp: sliceVal_def split: option.splits if_splits)
    have "those (map (ev (h @ e)) (take (slLen s') (drop (slOff s') xs))) = Some ds"
      using ds(1) stableD [OF assms] by (auto simp: those_eq_Some_iff)
    then show ?thesis
      using Some xs ds peek_mono [OF xs(1), of e] by (simp add: sliceVal_def)
  qed
qed

text \<open>
  The loop over the elements: before element \<open>k\<close> the array holds the copies of the first \<open>k\<close>, and
  they depend on nothing that was there when it was allocated, nor on the array itself.
\<close>

lemma copyElems_run:
  assumes into: "deep_copies ev into"
    and xs: "peek A (slArr s) h = Some xs" "slOff s + n \<le> length xs" "slLen s = n"
    and ds: "length ds = n" "\<And>i. i < n \<Longrightarrow> ev h (xs ! (slOff s + i)) = Some (ds ! i)"
    and k: "k \<le> n" and ys: "length ys = n"
    and prev: "\<And>h1 i. length h1 = Suc (length h) \<Longrightarrow> i < k \<Longrightarrow> ev (h1 @ e) (ys ! i) = Some (ds ! i)"
  shows "\<exists>zs e'. copyElems A into s \<lparr>slArr = length h, slOff = 0, slLen = n\<rparr> [k..<n]
      (h @ inj A ys # e) = (Ret (), h @ inj A zs # e') \<and> length zs = n \<and>
      (\<forall>h1. length h1 = Suc (length h) \<longrightarrow> (\<forall>i<n. ev (h1 @ e') (zs ! i) = Some (ds ! i)))"
  using k ys prev
proof (induction "n - k" arbitrary: k ys e)
  case 0
  then show ?case by auto
next
  case (Suc m)
  let ?s' = "\<lparr>slArr = length h, slOff = 0, slLen = n\<rparr>" and ?H = "h @ inj A ys # e"
  have kn: "k < n" using Suc.hyps(2) by simp
  have st: "stable ev" using into by (rule deep_stable)
  have 1: "loadElem A s k ?H = (Ret (xs ! (slOff s + k)), ?H)"
    using load_elem_run [OF peek_mono [OF xs(1)]] kn xs by simp
  have "ev ?H (xs ! (slOff s + k)) = Some (ds ! k)"
    using stableD [OF st ds(2) [OF kn]] .
  then have "deepRun ?H (into (xs ! (slOff s + k))) (\<lambda>H x'. ev H x' = Some (ds ! k))"
    using into by (simp add: deep_copies_def)
  then obtain x' e1 where 2: "into (xs ! (slOff s + k)) ?H = (Ret x', ?H @ e1)"
    and x': "\<And>h0. length h0 = length ?H \<Longrightarrow> ev (h0 @ e1) x' = Some (ds ! k)"
    unfolding deepRun_def by blast
  have 3: "storeElem A ?s' k x' (?H @ e1) = (Ret (), h @ inj A (ys[k := x']) # e @ e1)"
    using store_elem_run [OF kn Suc.prems(2), of h x' "e @ e1"] by simp
  have inv: "ev (h1 @ e @ e1) (ys[k := x'] ! i) = Some (ds ! i)"
    if "length h1 = Suc (length h)" "i < Suc k" for h1 i
  proof (cases "i = k")
    case True
    with x' [of "h1 @ e"] that kn Suc.prems(2) show ?thesis by simp
  next
    case False
    with that stableD [OF st Suc.prems(3) [of h1 i], of e1] show ?thesis by simp
  qed
  have step: "copyElems A into s ?s' [k..<n] ?H =
      copyElems A into s ?s' [Suc k..<n] (h @ inj A (ys[k := x']) # e @ e1)"
    using 1 2 3 kn by (simp add: upt_conv_Cons gbind_run)
  show ?case
    unfolding step using Suc.hyps(1) [of "Suc k" "ys[k := x']" "e @ e1"] Suc.hyps(2) Suc.prems(2) kn inv
    by simp
qed

lemma structs_deep:
  assumes into: "deep_copies ev into"
  shows "deep_copies (sliceVal A ev) (copyStructs A zero into)"
proof (rule deep_copiesI)
  show "stable (sliceVal A ev)" using deep_stable [OF into] by (rule slice_stable)
next
  fix h s d
  assume v: "sliceVal A ev h s = Some d"
  show "deepRun h (copyStructs A zero into s) (\<lambda>H x'. sliceVal A ev H x' = Some d)"
  proof (cases s)
    case None
    with v show ?thesis by (auto simp: copyStructs_def sliceVal_def intro: deepRun_gret)
  next
    case (Some s')
    let ?n = "slLen s'" and ?s = "\<lparr>slArr = length h, slOff = 0, slLen = slLen s'\<rparr>"
    obtain xs ds where xs: "peek A (slArr s') h = Some xs" "slOff s' + ?n \<le> length xs"
      and ds: "those (map (ev h) (take ?n (drop (slOff s') xs))) = Some ds" "d = Some ds"
      using v Some by (auto simp: sliceVal_def split: option.splits if_splits)
    have len: "length ds = ?n" and el: "\<And>i. i < ?n \<Longrightarrow> ev h (xs ! (slOff s' + i)) = Some (ds ! i)"
      using ds(1) xs(2) by (auto simp: those_eq_Some_iff)
    obtain zs e' where run: "copyElems A into s' ?s [0..<?n] (h @ [inj A (replicate ?n zero)]) =
        (Ret (), h @ inj A zs # e')" and zs: "length zs = ?n"
      and zv: "\<And>h1 i. length h1 = Suc (length h) \<Longrightarrow> i < ?n \<Longrightarrow> ev (h1 @ e') (zs ! i) = Some (ds ! i)"
      using copyElems_run [OF into xs refl len el, of 0 "replicate ?n zero" "[]"] by auto
    have "copyStructs A zero into s h = (Ret (Some ?s), h @ inj A zs # e')"
      using run by (simp add: copyStructs_def Some gbind_run make_run)
    moreover have "sliceVal A ev (h0 @ inj A zs # e') (Some ?s) = Some d"
      if h0: "length h0 = length h" for h0
    proof -
      have "those (map (ev (h0 @ inj A zs # e')) zs) = Some ds"
        using zv [of "h0 @ [inj A zs]"] h0 zs len by (simp add: those_eq_Some_iff)
      then show ?thesis
        using peek_new [of h0 zs e'] h0 zs ds(2) by (simp add: sliceVal_def)
    qed
    ultimately show ?thesis unfolding deepRun_def by blast
  qed
qed

end

lemma those_map_Some [simp]: "those (map Some xs) = Some xs"
  by (simp add: those_eq_Some_iff)

lemma stable_Some: "stable (\<lambda>h. Some)"
  by (simp add: stable_def)

lemma strings_deep: "deep_copies stringsVal copyStrings"
proof (rule deep_copiesI)
  show "stable (stringsVal :: ('m, 'l, 'v, 'x) cell list \<Rightarrow> _)"
    unfolding stringsVal_def by (rule stringArray.slice_stable [OF stable_Some])
next
  fix h :: "('m, 'l, 'v, 'x) cell list" and s d
  assume v: "stringsVal h s = Some d"
  show "deepRun h (copyStrings s) (\<lambda>H x'. stringsVal H x' = Some d)"
  proof (cases s)
    case None
    with v show ?thesis
      by (auto simp: copyStrings_def stringsVal_def sliceVal_def intro: deepRun_gret)
  next
    case (Some s')
    let ?n = "slLen s'" and ?s = "\<lparr>slArr = length h, slOff = 0, slLen = slLen s'\<rparr>"
    obtain ys where ys: "peek stringArray (slArr s') h = Some ys" "slOff s' + ?n \<le> length ys"
      and d: "d = Some (take ?n (drop (slOff s') ys))"
      using v Some by (auto simp: stringsVal_def sliceVal_def split: option.splits if_splits)
    have "copyStrings s h =
        (Ret (Some ?s), h @ [inj stringArray (take ?n (drop (slOff s') ys))])"
      using stringArray.load_run [OF stringArray.peek_mono [OF ys(1)]]
      by (simp add: copyStrings_def Some gbind_run stringArray.make_run copySlice_def
          stringArray.load_run)
    moreover have "stringsVal (h0 @ [inj stringArray (take ?n (drop (slOff s') ys))]) (Some ?s) = Some d"
      if "length h0 = length h" for h0 :: "('m, 'l, 'v, 'x) cell list"
      using stringArray.peek_new [of h0 "take ?n (drop (slOff s') ys)" "[]"] that ys(2)
      by (simp add: stringsVal_def sliceVal_def d)
    ultimately show ?thesis unfolding deepRun_def by blast
  qed
qed

subsection \<open>What a new copy denotes\<close>

definition varVal ::
  "('c, 't) cellType \<Rightarrow> ('c list \<Rightarrow> 't \<Rightarrow> 'd option) \<Rightarrow> 'c list \<Rightarrow> ptr \<Rightarrow> 'd option option"
where
  "varVal T val h p = (case p of
     None \<Rightarrow> Some None
   | Some a \<Rightarrow> Option.bind (peek T a h) (\<lambda>v. map_option Some (val h v)))"

text \<open>
  \<open>copy\<close> makes isolated copies: of nil it makes nil; of a struct that denotes \<open>d\<close> it makes, by
  allocation alone, a variable that denotes \<open>d\<close> whatever is later written to the memory there was
  before, while the original keeps denoting \<open>d\<close> whatever is later written to the new memory.
\<close>

definition isolated_copy ::
  "('c, 't) cellType \<Rightarrow> ('c list \<Rightarrow> 't \<Rightarrow> 'd option) \<Rightarrow> ('t option \<Rightarrow> ('c list, ptr) go) \<Rightarrow> bool"
where
  "isolated_copy T val copy \<longleftrightarrow>
     (\<forall>h. copy None h = (Ret None, h)) \<and>
     (\<forall>h x d. val h x = Some d \<longrightarrow>
        (\<exists>a e. copy (Some x) h = (Ret (Some a), h @ e) \<and>
           (\<forall>h0. length h0 = length h \<longrightarrow> varVal T val (h0 @ e) (Some a) = Some (Some d)) \<and>
           (\<forall>e'. val (h @ e') x = Some d)))"

context cell_view
begin

lemma copyNew_isolated:
  assumes into: "deep_copies val into"
  shows "isolated_copy T val (copyNew T zero into)"
  unfolding isolated_copy_def
proof (intro conjI allI impI)
  show "copyNew T zero into None h = (Ret None, h)" for h
    by (simp add: copyNew_def)
next
  fix h x d
  assume v: "val h x = Some d"
  have st: "stable val" using into by (rule deep_stable)
  let ?H = "h @ [inj T zero]"
  have "deepRun ?H (into x) (\<lambda>H x'. val H x' = Some d)"
    using into stableD [OF st v] by (simp add: deep_copies_def)
  then obtain x' e where 1: "into x ?H = (Ret x', ?H @ e)"
    and q: "\<And>h0. length h0 = length ?H \<Longrightarrow> val (h0 @ e) x' = Some d"
    unfolding deepRun_def by blast
  have "copyNew T zero into (Some x) h = (Ret (Some (length h)), h @ inj T x' # e)"
    using 1 by (simp add: copyNew_def gbind_run new_run)
  moreover have "varVal T val (h0 @ inj T x' # e) (Some (length h)) = Some (Some d)"
    if "length h0 = length h" for h0
    using peek_new [of h0 x' e] q [of "h0 @ [inj T x']"] that by (simp add: varVal_def)
  moreover have "val (h @ e') x = Some d" for e'
    using st v by (rule stableD)
  ultimately show "\<exists>a e. copyNew T zero into (Some x) h = (Ret (Some a), h @ e) \<and>
      (\<forall>h0. length h0 = length h \<longrightarrow> varVal T val (h0 @ e) (Some a) = Some (Some d)) \<and>
      (\<forall>e'. val (h @ e') x = Some d)"
    by blast
qed

end

subsection \<open>What the structs denote\<close>

type_synonym vOsDist = "(bool option, string list option) GoOsDistSetupSpec"
type_synonym vHostSetup = "(bool option, vOsDist list option) GoHostSetupSpec"
type_synonym 'ev vRuntime = "(bool option, string list option, 'ev list option) GoContainerRuntimeSpec"
type_synonym 'ev vPlugin = "(bool option, string list option, 'ev list option) GoDevicePluginSpec"
type_synonym 'ev vSpec = "('ev vRuntime, 'ev vPlugin, vHostSetup) GoClusterPolicySpec"
type_synonym ('mv, 'ev) vPolicy = "('mv, 'ev vSpec) GoClusterPolicy"
type_synonym ('lv, 'mv, 'ev) vPolicyList = "('lv, ('mv, 'ev) vPolicy list option) GoClusterPolicyList"

definition osDistVal :: "('m, 'l, 'v, 'x) cell list \<Rightarrow> mOsDist \<Rightarrow> vOsDist option" where
  "osDistVal h r =
     Option.bind (boolVal h (goXrmInstallation r)) (\<lambda>xrm.
     Option.bind (boolVal h (goShellFlashEnabled r)) (\<lambda>flash.
     Option.bind (stringsVal h (goCards r)) (\<lambda>cards.
     Option.bind (stringsVal h (goOsImagePullSecrets r)) (\<lambda>secrets.
     Some \<lparr>goOsId = goOsId r, goOsMajorVersion = goOsMajorVersion r, goOsVersion = goOsVersion r,
       goXrmInstallation = xrm, goShellFlashEnabled = flash, goCards = cards,
       goOsRepository = goOsRepository r, goOsImage = goOsImage r, goOsTag = goOsTag r,
       goOsImagePullPolicy = goOsImagePullPolicy r, goOsImagePullSecrets = secrets\<rparr>))))"

definition hostSetupVal :: "('m, 'l, 'v, 'x) cell list \<Rightarrow> mHostSetup \<Rightarrow> vHostSetup option" where
  "hostSetupVal h r =
     Option.bind (boolVal h (goHsEnabled r)) (\<lambda>enabled.
     Option.bind (sliceVal osDistArray osDistVal h (goOsDists r)) (\<lambda>dists.
     Some \<lparr>goHsEnabled = enabled, goOsDists = dists\<rparr>))"

definition runtimeVal ::
  "(('m, 'l, 'v, 'x) cell list \<Rightarrow> 'v \<Rightarrow> 'ev option) \<Rightarrow> ('m, 'l, 'v, 'x) cell list \<Rightarrow> mRuntime \<Rightarrow> 'ev vRuntime option"
where
  "runtimeVal ev h r =
     Option.bind (boolVal h (goCrEnabled r)) (\<lambda>enabled.
     Option.bind (boolVal h (goCrSetAsDefault r)) (\<lambda>setAsDefault.
     Option.bind (stringsVal h (goCrImagePullSecrets r)) (\<lambda>secrets.
     Option.bind (stringsVal h (goCrArgs r)) (\<lambda>args.
     Option.bind (sliceVal envVarArray ev h (goCrEnv r)) (\<lambda>env.
     Some \<lparr>goCrEnabled = enabled, goCrRuntimeClass = goCrRuntimeClass r,
       goCrSetAsDefault = setAsDefault, goCrRepository = goCrRepository r,
       goCrImage = goCrImage r, goCrTag = goCrTag r, goCrImagePullPolicy = goCrImagePullPolicy r,
       goCrImagePullSecrets = secrets, goCrArgs = args, goCrEnv = env,
       goCrInstallDir = goCrInstallDir r\<rparr>)))))"

definition pluginVal ::
  "(('m, 'l, 'v, 'x) cell list \<Rightarrow> 'v \<Rightarrow> 'ev option) \<Rightarrow> ('m, 'l, 'v, 'x) cell list \<Rightarrow> mPlugin \<Rightarrow> 'ev vPlugin option"
where
  "pluginVal ev h r =
     Option.bind (boolVal h (goDpEnabled r)) (\<lambda>enabled.
     Option.bind (stringsVal h (goDpImagePullSecrets r)) (\<lambda>secrets.
     Option.bind (sliceVal envVarArray ev h (goDpEnv r)) (\<lambda>env.
     Some \<lparr>goDpEnabled = enabled, goDpRepository = goDpRepository r, goDpImage = goDpImage r,
       goDpTag = goDpTag r, goDpImagePullPolicy = goDpImagePullPolicy r,
       goDpImagePullSecrets = secrets, goDpEnv = env\<rparr>)))"

definition specVal ::
  "(('m, 'l, 'v, 'x) cell list \<Rightarrow> 'v \<Rightarrow> 'ev option) \<Rightarrow> ('m, 'l, 'v, 'x) cell list \<Rightarrow> mSpec \<Rightarrow> 'ev vSpec option"
where
  "specVal ev h r =
     Option.bind (runtimeVal ev h (goContainerRuntime r)) (\<lambda>runtime.
     Option.bind (pluginVal ev h (goDevicePlugin r)) (\<lambda>plugin.
     Option.bind (hostSetupVal h (goHostSetup r)) (\<lambda>hostSetup.
     Some \<lparr>goOperator = goOperator r, goContainerRuntime = runtime, goDevicePlugin = plugin,
       goHostSetup = hostSetup\<rparr>)))"

definition policyVal ::
  "(('m, 'l, 'v, 'x) cell list \<Rightarrow> 'm \<Rightarrow> 'mv option) \<Rightarrow> (('m, 'l, 'v, 'x) cell list \<Rightarrow> 'v \<Rightarrow> 'ev option) \<Rightarrow>
   ('m, 'l, 'v, 'x) cell list \<Rightarrow> 'm mPolicy \<Rightarrow> ('mv, 'ev) vPolicy option"
where
  "policyVal mv ev h r =
     Option.bind (mv h (goObjectMeta r)) (\<lambda>meta.
     Option.bind (specVal ev h (goSpec r)) (\<lambda>spec.
     Some \<lparr>goTypeMeta = goTypeMeta r, goObjectMeta = meta, goSpec = spec, goStatus = goStatus r\<rparr>))"

definition policyListVal ::
  "(('m, 'l, 'v, 'x) cell list \<Rightarrow> 'l \<Rightarrow> 'lv option) \<Rightarrow>
   (('m, 'l, 'v, 'x) cell list \<Rightarrow> 'm \<Rightarrow> 'mv option) \<Rightarrow> (('m, 'l, 'v, 'x) cell list \<Rightarrow> 'v \<Rightarrow> 'ev option) \<Rightarrow>
   ('m, 'l, 'v, 'x) cell list \<Rightarrow> 'l mPolicyList \<Rightarrow> ('lv, 'mv, 'ev) vPolicyList option"
where
  "policyListVal lv mv ev h r =
     Option.bind (lv h (goListMeta r)) (\<lambda>meta.
     Option.bind (sliceVal policyArray (policyVal mv ev) h (goItems r)) (\<lambda>items.
     Some \<lparr>goListTypeMeta = goListTypeMeta r, goListMeta = meta, goItems = items\<rparr>))"

text \<open>
  Each struct copies deeply because its fields do: one step per field, in the order of the code.
\<close>

lemmas bool_stable = stableD [OF deep_stable [OF boolVal_deep]]
lemmas strings_stable = stableD [OF deep_stable [OF strings_deep]]

lemma osDist_deep: "deep_copies osDistVal OsDistSetupSpec_DeepCopyInto"
proof (rule deep_copiesI)
  show "stable (osDistVal :: ('m, 'l, 'v, 'x) cell list \<Rightarrow> _)"
    by (auto simp: stable_def osDistVal_def bind_eq_Some_conv
        bool_stable strings_stable)
next
  fix h :: "('m, 'l, 'v, 'x) cell list" and x d
  assume "osDistVal h x = Some d"
  then obtain b1 b2 s1 s2 where
    v: "boolVal h (goXrmInstallation x) = Some b1" "boolVal h (goShellFlashEnabled x) = Some b2"
      "stringsVal h (goCards x) = Some s1" "stringsVal h (goOsImagePullSecrets x) = Some s2"
    and d: "d = \<lparr>goOsId = goOsId x, goOsMajorVersion = goOsMajorVersion x, goOsVersion = goOsVersion x,
       goXrmInstallation = b1, goShellFlashEnabled = b2, goCards = s1,
       goOsRepository = goOsRepository x, goOsImage = goOsImage x, goOsTag = goOsTag x,
       goOsImagePullPolicy = goOsImagePullPolicy x, goOsImagePullSecrets = s2\<rparr>"
    by (auto simp: osDistVal_def bind_eq_Some_conv)
  show "deepRun h (OsDistSetupSpec_DeepCopyInto x) (\<lambda>H x'. osDistVal H x' = Some d)"
    unfolding OsDistSetupSpec_DeepCopyInto_def Let_def
    apply (rule deep_field [OF boolVal_deep v(1) prefix_order.refl])
    apply (rule deep_field [OF boolVal_deep v(2)], assumption)
    apply (rule deep_field [OF strings_deep v(3)], assumption)
    apply (rule deep_field [OF strings_deep v(4)], assumption)
    apply (rule deepRun_gret)
    apply (simp add: osDistVal_def d)
    done
qed


lemma hostSetup_deep: "deep_copies hostSetupVal HostSetupSpec_DeepCopyInto"
proof (rule deep_copiesI)
  note dists = osDistArray.structs_deep [OF osDist_deep, of zeroOsDist]
  show "stable (hostSetupVal :: ('m, 'l, 'v, 'x) cell list \<Rightarrow> _)"
    by (auto simp: stable_def hostSetupVal_def bind_eq_Some_conv bool_stable
        stableD [OF deep_stable [OF dists]])
  fix h :: "('m, 'l, 'v, 'x) cell list" and x d
  assume "hostSetupVal h x = Some d"
  then obtain b ds where
    v: "boolVal h (goHsEnabled x) = Some b" "sliceVal osDistArray osDistVal h (goOsDists x) = Some ds"
    and d: "d = \<lparr>goHsEnabled = b, goOsDists = ds\<rparr>"
    by (auto simp: hostSetupVal_def bind_eq_Some_conv)
  show "deepRun h (HostSetupSpec_DeepCopyInto x) (\<lambda>H x'. hostSetupVal H x' = Some d)"
    unfolding HostSetupSpec_DeepCopyInto_def Let_def
    apply (rule deep_field [OF boolVal_deep v(1) prefix_order.refl])
    apply (rule deep_field [OF dists v(2)], assumption)
    apply (rule deepRun_gret)
    apply (simp add: hostSetupVal_def d)
    done
qed

lemma plugin_deep:
  assumes env: "deep_copies ev (EnvVar_DeepCopyInto X)"
  shows "deep_copies (pluginVal ev) (DevicePluginSpec_DeepCopyInto X)"
proof (rule deep_copiesI)
  note envs = envVarArray.structs_deep [OF env, of "zeroEnvVar X"]
  show "stable (pluginVal ev)"
    by (auto simp: stable_def pluginVal_def bind_eq_Some_conv bool_stable strings_stable
        stableD [OF deep_stable [OF envs]])
  fix h x d
  assume "pluginVal ev h x = Some d"
  then obtain b s es where
    v: "boolVal h (goDpEnabled x) = Some b" "stringsVal h (goDpImagePullSecrets x) = Some s"
      "sliceVal envVarArray ev h (goDpEnv x) = Some es"
    and d: "d = \<lparr>goDpEnabled = b, goDpRepository = goDpRepository x, goDpImage = goDpImage x,
       goDpTag = goDpTag x, goDpImagePullPolicy = goDpImagePullPolicy x,
       goDpImagePullSecrets = s, goDpEnv = es\<rparr>"
    by (auto simp: pluginVal_def bind_eq_Some_conv)
  show "deepRun h (DevicePluginSpec_DeepCopyInto X x) (\<lambda>H x'. pluginVal ev H x' = Some d)"
    unfolding DevicePluginSpec_DeepCopyInto_def Let_def
    apply (rule deep_field [OF boolVal_deep v(1) prefix_order.refl])
    apply (rule deep_field [OF strings_deep v(2)], assumption)
    apply (rule deep_field [OF envs v(3)], assumption)
    apply (rule deepRun_gret)
    apply (simp add: pluginVal_def d)
    done
qed

lemma runtime_deep:
  assumes env: "deep_copies ev (EnvVar_DeepCopyInto X)"
  shows "deep_copies (runtimeVal ev) (ContainerRuntimeSpec_DeepCopyInto X)"
proof (rule deep_copiesI)
  note envs = envVarArray.structs_deep [OF env, of "zeroEnvVar X"]
  show "stable (runtimeVal ev)"
    by (auto simp: stable_def runtimeVal_def bind_eq_Some_conv bool_stable strings_stable
        stableD [OF deep_stable [OF envs]])
  fix h x d
  assume "runtimeVal ev h x = Some d"
  then obtain b1 b2 s1 s2 es where
    v: "boolVal h (goCrEnabled x) = Some b1" "boolVal h (goCrSetAsDefault x) = Some b2"
      "stringsVal h (goCrImagePullSecrets x) = Some s1" "stringsVal h (goCrArgs x) = Some s2"
      "sliceVal envVarArray ev h (goCrEnv x) = Some es"
    and d: "d = \<lparr>goCrEnabled = b1, goCrRuntimeClass = goCrRuntimeClass x, goCrSetAsDefault = b2,
       goCrRepository = goCrRepository x, goCrImage = goCrImage x, goCrTag = goCrTag x,
       goCrImagePullPolicy = goCrImagePullPolicy x, goCrImagePullSecrets = s1, goCrArgs = s2,
       goCrEnv = es, goCrInstallDir = goCrInstallDir x\<rparr>"
    by (auto simp: runtimeVal_def bind_eq_Some_conv)
  show "deepRun h (ContainerRuntimeSpec_DeepCopyInto X x) (\<lambda>H x'. runtimeVal ev H x' = Some d)"
    unfolding ContainerRuntimeSpec_DeepCopyInto_def Let_def
    apply (rule deep_field [OF boolVal_deep v(1) prefix_order.refl])
    apply (rule deep_field [OF boolVal_deep v(2)], assumption)
    apply (rule deep_field [OF strings_deep v(3)], assumption)
    apply (rule deep_field [OF strings_deep v(4)], assumption)
    apply (rule deep_field [OF envs v(5)], assumption)
    apply (rule deepRun_gret)
    apply (simp add: runtimeVal_def d)
    done
qed

lemma spec_deep:
  assumes env: "deep_copies ev (EnvVar_DeepCopyInto X)"
  shows "deep_copies (specVal ev) (ClusterPolicySpec_DeepCopyInto X)"
proof (rule deep_copiesI)
  note deep = runtime_deep [OF env] plugin_deep [OF env] hostSetup_deep
  show "stable (specVal ev)"
    by (auto simp: stable_def specVal_def bind_eq_Some_conv
        stableD [OF deep_stable [OF deep(1)]] stableD [OF deep_stable [OF deep(2)]]
        stableD [OF deep_stable [OF deep(3)]])
  fix h x d
  assume "specVal ev h x = Some d"
  then obtain r p s where
    v: "runtimeVal ev h (goContainerRuntime x) = Some r" "pluginVal ev h (goDevicePlugin x) = Some p"
      "hostSetupVal h (goHostSetup x) = Some s"
    and d: "d = \<lparr>goOperator = goOperator x, goContainerRuntime = r, goDevicePlugin = p, goHostSetup = s\<rparr>"
    by (auto simp: specVal_def bind_eq_Some_conv)
  show "deepRun h (ClusterPolicySpec_DeepCopyInto X x) (\<lambda>H x'. specVal ev H x' = Some d)"
    unfolding ClusterPolicySpec_DeepCopyInto_def Let_def
    apply (rule deep_field [OF deep(1) v(1) prefix_order.refl])
    apply (rule deep_field [OF deep(2) v(2)], assumption)
    apply (rule deep_field [OF deep(3) v(3)], assumption)
    apply (rule deepRun_gret)
    apply (simp add: specVal_def d)
    done
qed

lemma policy_deep:
  assumes meta: "deep_copies mv (ObjectMeta_DeepCopyInto X)"
    and env: "deep_copies ev (EnvVar_DeepCopyInto X)"
  shows "deep_copies (policyVal mv ev) (ClusterPolicy_DeepCopyInto X)"
proof (rule deep_copiesI)
  show "stable (policyVal mv ev)"
    by (auto simp: stable_def policyVal_def bind_eq_Some_conv
        stableD [OF deep_stable [OF meta]] stableD [OF deep_stable [OF spec_deep [OF env]]])
  fix h x d
  assume "policyVal mv ev h x = Some d"
  then obtain m s where
    v: "mv h (goObjectMeta x) = Some m" "specVal ev h (goSpec x) = Some s"
    and d: "d = \<lparr>goTypeMeta = goTypeMeta x, goObjectMeta = m, goSpec = s, goStatus = goStatus x\<rparr>"
    by (auto simp: policyVal_def bind_eq_Some_conv)
  show "deepRun h (ClusterPolicy_DeepCopyInto X x) (\<lambda>H x'. policyVal mv ev H x' = Some d)"
    unfolding ClusterPolicy_DeepCopyInto_def Let_def
    apply (rule deep_field [OF meta v(1) prefix_order.refl])
    apply (rule deep_field [OF spec_deep [OF env] v(2)], assumption)
    apply (rule deepRun_gret)
    apply (simp add: policyVal_def d)
    done
qed

lemma policyList_deep:
  assumes list: "deep_copies lv (ListMeta_DeepCopyInto X)"
    and meta: "deep_copies mv (ObjectMeta_DeepCopyInto X)"
    and env: "deep_copies ev (EnvVar_DeepCopyInto X)"
  shows "deep_copies (policyListVal lv mv ev) (ClusterPolicyList_DeepCopyInto X)"
proof (rule deep_copiesI)
  note items = policyArray.structs_deep [OF policy_deep [OF meta env], of "zeroPolicy X"]
  show "stable (policyListVal lv mv ev)"
    by (auto simp: stable_def policyListVal_def bind_eq_Some_conv
        stableD [OF deep_stable [OF list]] stableD [OF deep_stable [OF items]])
  fix h x d
  assume "policyListVal lv mv ev h x = Some d"
  then obtain m ps where
    v: "lv h (goListMeta x) = Some m"
      "sliceVal policyArray (policyVal mv ev) h (goItems x) = Some ps"
    and d: "d = \<lparr>goListTypeMeta = goListTypeMeta x, goListMeta = m, goItems = ps\<rparr>"
    by (auto simp: policyListVal_def bind_eq_Some_conv)
  show "deepRun h (ClusterPolicyList_DeepCopyInto X x) (\<lambda>H x'. policyListVal lv mv ev H x' = Some d)"
    unfolding ClusterPolicyList_DeepCopyInto_def Let_def
    apply (rule deep_field [OF list v(1) prefix_order.refl])
    apply (rule deep_field [OF items v(2)], assumption)
    apply (rule deepRun_gret)
    apply (simp add: policyListVal_def d)
    done
qed

subsection \<open>Libraries whose structs have one pointer\<close>

text \<open>
  For the witnesses: \<open>ObjectMeta\<close>, \<open>ListMeta\<close> and \<open>EnvVar\<close> as structs with one pointer to a string,
  which their \<open>DeepCopyInto\<close> follows.
\<close>

definition libraryVar :: "(('m, 'l, 'v, string) cell, string) cellType" where
  "libraryVar = \<lparr>inj = LibraryCell, proj = (\<lambda>c. case c of LibraryCell v \<Rightarrow> Some v | _ \<Rightarrow> None)\<rparr>"

interpretation libraryVar: cell_view libraryVar
  by unfold_locales (auto simp: libraryVar_def split: cell.splits)

type_synonym boxCell = "(addr, addr, addr, string) cell"

definition boxVal :: "boxCell list \<Rightarrow> addr \<Rightarrow> string option" where
  "boxVal h a = peek libraryVar a h"

definition boxInto :: "addr \<Rightarrow> (boxCell list, addr) go" where
  "boxInto a = gbind (loadVar libraryVar a) (newVar libraryVar)"

definition boxLibs :: "(addr, addr, addr, string) copyLibs" where
  "boxLibs = \<lparr>zeroObjectMeta = 0, zeroListMeta = 0, zeroEnvVar = 0,
     ObjectMeta_DeepCopyInto = boxInto, ListMeta_DeepCopyInto = boxInto, EnvVar_DeepCopyInto = boxInto\<rparr>"

lemma box_deep: "deep_copies boxVal boxInto"
proof (rule deep_copiesI)
  show "stable boxVal"
    by (auto simp: stable_def boxVal_def dest: libraryVar.peek_mono)
  fix h x d
  assume "boxVal h x = Some d"
  then have p: "peek libraryVar x h = Some d" by (simp add: boxVal_def)
  have "boxInto x h = (Ret (length h), h @ [inj libraryVar d])"
    by (simp add: boxInto_def gbind_run libraryVar.load_run [OF p] libraryVar.new_run)
  moreover have "boxVal (h0 @ [inj libraryVar d]) (length h) = Some d"
    if "length h0 = length h" for h0 :: "boxCell list"
    using libraryVar.peek_new [of h0 d "[]"] that by (simp add: boxVal_def)
  ultimately show "deepRun h (boxInto x) (\<lambda>H x'. boxVal H x' = Some d)"
    unfolding deepRun_def by blast
qed

text \<open>
  A memory with one policy: its two enable flags are the same variable, its pull secrets are windows
  of the same array, its environment has one entry, and one entry for a host has an empty list of
  cards, which is not nil.
\<close>

definition boxMemory :: "boxCell list" where
  "boxMemory =
     [LibraryCell ''metadata'', BoolVar True, StringArray [''a'', ''b'', ''c''], LibraryCell ''LOG'',
      EnvVarArray [3],
      OsDistArray [zeroOsDist\<lparr>goOsId := ''ubuntu'', goXrmInstallation := Some 1,
        goCards := Some \<lparr>slArr = 2, slOff = 3, slLen = 0\<rparr>\<rparr>]]"

definition boxPolicy :: "addr mPolicy" where
  "boxPolicy = \<lparr>goTypeMeta = \<lparr>tmKind = ''ClusterPolicy'', tmAPIVersion = ''policy.xilinx.com/v1''\<rparr>,
     goObjectMeta = 0,
     goSpec = \<lparr>goOperator = \<lparr>opDefaultRuntime = Docker\<rparr>,
       goContainerRuntime = zeroRuntime\<lparr>goCrEnabled := Some 1,
         goCrImagePullSecrets := Some \<lparr>slArr = 2, slOff = 0, slLen = 2\<rparr>,
         goCrEnv := Some \<lparr>slArr = 4, slOff = 0, slLen = 1\<rparr>\<rparr>,
       goDevicePlugin = zeroPlugin\<lparr>goDpEnabled := Some 1,
         goDpImagePullSecrets := Some \<lparr>slArr = 2, slOff = 1, slLen = 2\<rparr>\<rparr>,
       goHostSetup = \<lparr>goHsEnabled = None, goOsDists = Some \<lparr>slArr = 5, slOff = 0, slLen = 1\<rparr>\<rparr>\<rparr>,
     goStatus = zeroStatus\<rparr>"

subsection \<open>The promises\<close>

text \<open>
  C28: DeepCopy of a ClusterPolicy only allocates: it denotes the same value as the original,
  nil and empty slices kept apart, and the two share no memory, so that nothing written through
  one is seen through the other; DeepCopy of nil is nil. The DeepCopyInto of ObjectMeta and
  EnvVar is assumed to be a deep copy.
\<close>

theorem ClusterPolicy_DeepCopy_isolated:
  assumes "deep_copies mv (ObjectMeta_DeepCopyInto X)"
    and "deep_copies ev (EnvVar_DeepCopyInto X)"
  shows "isolated_copy policyVar (policyVal mv ev) (ClusterPolicy_DeepCopy X)"
  unfolding ClusterPolicy_DeepCopy_def
  using assms by (intro policyVar.copyNew_isolated policy_deep)

theorem ClusterPolicy_DeepCopy_isolated_witness:
  "isolated_copy policyVar (policyVal boxVal boxVal) (ClusterPolicy_DeepCopy boxLibs) \<and>
   fst (ClusterPolicy_DeepCopy boxLibs (Some boxPolicy) boxMemory) = Ret (Some 6) \<and>
   length (snd (ClusterPolicy_DeepCopy boxLibs (Some boxPolicy) boxMemory)) = 17 \<and>
   map_option (\<lambda>d. goDpImagePullSecrets (goDevicePlugin (goSpec d)))
     (policyVal boxVal boxVal boxMemory boxPolicy) = Some (Some [''b'', ''c''])"
proof (intro conjI)
  show "isolated_copy policyVar (policyVal boxVal boxVal) (ClusterPolicy_DeepCopy boxLibs)"
    by (rule ClusterPolicy_DeepCopy_isolated) (simp_all add: boxLibs_def box_deep)
  show "fst (ClusterPolicy_DeepCopy boxLibs (Some boxPolicy) boxMemory) = Ret (Some 6)"
    by code_simp
  show "length (snd (ClusterPolicy_DeepCopy boxLibs (Some boxPolicy) boxMemory)) = 17"
    by code_simp
  show "map_option (\<lambda>d. goDpImagePullSecrets (goDevicePlugin (goSpec d)))
     (policyVal boxVal boxVal boxMemory boxPolicy) = Some (Some [''b'', ''c''])"
    by code_simp
qed

text \<open>
  C36: DeepCopyObject of a ClusterPolicyList is an isolated deep copy of the list and of every
  policy in it, policies that shared memory among them; of a nil list it is the nil interface,
  not an interface that holds a nil pointer.
\<close>

theorem ClusterPolicyList_DeepCopyObject_isolated:
  assumes "deep_copies lv (ListMeta_DeepCopyInto X)"
    and "deep_copies mv (ObjectMeta_DeepCopyInto X)"
    and "deep_copies ev (EnvVar_DeepCopyInto X)"
  shows "isolated_copy policyListVar (policyListVal lv mv ev) (ClusterPolicyList_DeepCopy X) \<and>
    ClusterPolicyList_DeepCopyObject X x =
      gbind (ClusterPolicyList_DeepCopy X x) (\<lambda>p.
      gret (case p of None \<Rightarrow> NilObject | Some a \<Rightarrow> PolicyListObject (Some a)))"
proof
  show "isolated_copy policyListVar (policyListVal lv mv ev) (ClusterPolicyList_DeepCopy X)"
    unfolding ClusterPolicyList_DeepCopy_def
    using assms by (intro policyListVar.copyNew_isolated policyList_deep)
  show "ClusterPolicyList_DeepCopyObject X x =
      gbind (ClusterPolicyList_DeepCopy X x) (\<lambda>p.
      gret (case p of None \<Rightarrow> NilObject | Some a \<Rightarrow> PolicyListObject (Some a)))"
    unfolding ClusterPolicyList_DeepCopyObject_def
    by (rule arg_cong [where f = "gbind (ClusterPolicyList_DeepCopy X x)"])
      (auto split: option.split)
qed

definition boxPolicyList :: "addr mPolicyList" where
  "boxPolicyList = \<lparr>goListTypeMeta = \<lparr>tmKind = ''ClusterPolicyList'', tmAPIVersion = ''policy.xilinx.com/v1''\<rparr>,
     goListMeta = 0, goItems = Some \<lparr>slArr = 6, slOff = 0, slLen = 2\<rparr>\<rparr>"

text \<open>A list that has the same policy twice: the copies of its two items share nothing either.\<close>

theorem ClusterPolicyList_DeepCopyObject_isolated_witness:
  "isolated_copy policyListVar (policyListVal boxVal boxVal boxVal) (ClusterPolicyList_DeepCopy boxLibs) \<and>
   fst (ClusterPolicyList_DeepCopyObject boxLibs (Some boxPolicyList)
     (boxMemory @ [PolicyArray [boxPolicy, boxPolicy]])) = Ret (PolicyListObject (Some 7)) \<and>
   fst (ClusterPolicyList_DeepCopyObject boxLibs None boxMemory) = Ret NilObject \<and>
   policyListVal boxVal boxVal boxVal (boxMemory @ [PolicyArray [boxPolicy, boxPolicy]]) boxPolicyList \<noteq> None"
proof (intro conjI)
  show "isolated_copy policyListVar (policyListVal boxVal boxVal boxVal) (ClusterPolicyList_DeepCopy boxLibs)"
    by (rule ClusterPolicyList_DeepCopyObject_isolated [THEN conjunct1])
      (simp_all add: boxLibs_def box_deep)
  show "fst (ClusterPolicyList_DeepCopyObject boxLibs (Some boxPolicyList)
     (boxMemory @ [PolicyArray [boxPolicy, boxPolicy]])) = Ret (PolicyListObject (Some 7))"
    by code_simp
  show "fst (ClusterPolicyList_DeepCopyObject boxLibs None boxMemory) = Ret NilObject"
    by code_simp
  show "policyListVal boxVal boxVal boxVal (boxMemory @ [PolicyArray [boxPolicy, boxPolicy]])
      boxPolicyList \<noteq> None"
    by code_simp
qed

subsection \<open>The other methods\<close>

text \<open>The parts of a policy have methods of their own, with the same promise.\<close>

lemma parts_DeepCopy_isolated:
  "isolated_copy osDistVar osDistVal OsDistSetupSpec_DeepCopy"
  "isolated_copy hostSetupVar hostSetupVal HostSetupSpec_DeepCopy"
  unfolding OsDistSetupSpec_DeepCopy_def HostSetupSpec_DeepCopy_def
  by (intro osDistVar.copyNew_isolated hostSetupVar.copyNew_isolated osDist_deep hostSetup_deep)+

lemma plain_DeepCopy_isolated:
  "isolated_copy operatorVar (\<lambda>h. Some) OperatorSpec_DeepCopy"
  "isolated_copy statusVar (\<lambda>h. Some) ClusterPolicyStatus_DeepCopy"
  unfolding OperatorSpec_DeepCopy_def ClusterPolicyStatus_DeepCopy_def
  using operatorVar.copyNew_isolated [OF deep_plain] statusVar.copyNew_isolated [OF deep_plain]
  by (simp_all add: OperatorSpec_DeepCopyInto_def [abs_def] ClusterPolicyStatus_DeepCopyInto_def [abs_def])

lemma env_parts_DeepCopy_isolated:
  assumes "deep_copies ev (EnvVar_DeepCopyInto X)"
  shows "isolated_copy runtimeVar (runtimeVal ev) (ContainerRuntimeSpec_DeepCopy X)"
    and "isolated_copy pluginVar (pluginVal ev) (DevicePluginSpec_DeepCopy X)"
    and "isolated_copy specVar (specVal ev) (ClusterPolicySpec_DeepCopy X)"
  unfolding ContainerRuntimeSpec_DeepCopy_def DevicePluginSpec_DeepCopy_def
    ClusterPolicySpec_DeepCopy_def
  using assms
  by (intro runtimeVar.copyNew_isolated pluginVar.copyNew_isolated specVar.copyNew_isolated
      runtime_deep plugin_deep spec_deep; assumption)+

end
