(* ===== verification/GoFlag.thy ===== *)
theory GoFlag
  imports GoStrings
begin

section \<open>The package flag of Go's standard library\<close>

text \<open>
  The command-line parser, as far as the operator uses it: the global flag set \<open>flag.CommandLine\<close>,
  \<open>StringVar\<close>, \<open>BoolVar\<close> and \<open>Parse\<close>. The variables behind the flags are a state \<open>'v\<close>; a flag is
  its \<open>Set\<close> method, which says whether it accepted the value, and whether it is a boolean flag.
  Parsing ends at the first error: the flag set exits the process (\<open>ExitOnError\<close>).
\<close>

record 'v Flag =
  flagIsBool :: bool
  flagSet :: "string \<Rightarrow> 'v \<Rightarrow> bool \<times> 'v"

type_synonym 'v FlagSet = "(string \<times> 'v Flag) list"

subsection \<open>Declaring flags\<close>

text \<open>\<open>FlagSet.Var\<close>: a malformed name and a name that is already taken panic.\<close>

definition addFlag :: "string \<Rightarrow> 'v Flag \<Rightarrow> 'v FlagSet \<Rightarrow> 'v FlagSet outcome" where
  "addFlag name fl f =
    (if hasPrefix name ''-'' then Panic (''flag '' @ name @ '' begins with -'')
     else if CHR ''='' \<in> set name then Panic (''flag '' @ name @ '' contains ='')
     else if map_of f name \<noteq> None then Panic (''flag redefined: '' @ name)
     else Ret ((name, fl) # f))"

text \<open>\<open>StringVar\<close> and \<open>BoolVar\<close>: the variable gets the default, the flag writes to it.\<close>

definition stringVar ::
    "(string \<Rightarrow> 'v \<Rightarrow> 'v) \<Rightarrow> string \<Rightarrow> string \<Rightarrow> 'v FlagSet \<times> 'v \<Rightarrow> ('v FlagSet \<times> 'v) outcome" where
  "stringVar put name value st =
    (case st of (f, v) \<Rightarrow>
     obind (addFlag name \<lparr>flagIsBool = False, flagSet = (\<lambda>s v. (True, put s v))\<rparr> f) (\<lambda>f.
       Ret (f, put value v)))"

text \<open>\<open>strconv.ParseBool\<close>; a \<open>bool\<close> flag is false after a value it does not accept.\<close>

definition parseBool :: "string \<Rightarrow> bool option" where
  "parseBool s =
    (if s \<in> {''1'', ''t'', ''T'', ''TRUE'', ''true'', ''True''} then Some True
     else if s \<in> {''0'', ''f'', ''F'', ''FALSE'', ''false'', ''False''} then Some False
     else None)"

definition boolVar ::
    "(bool \<Rightarrow> 'v \<Rightarrow> 'v) \<Rightarrow> string \<Rightarrow> bool \<Rightarrow> 'v FlagSet \<times> 'v \<Rightarrow> ('v FlagSet \<times> 'v) outcome" where
  "boolVar put name value st =
    (case st of (f, v) \<Rightarrow>
     obind (addFlag name \<lparr>flagIsBool = True,
       flagSet = (\<lambda>s v. (parseBool s \<noteq> None, put (parseBool s = Some True) v))\<rparr> f) (\<lambda>f.
       Ret (f, put value v)))"

subsection \<open>Parsing\<close>

datatype flagError =
    FlagHelp
  | FlagSyntax string
  | FlagNotDefined string
  | FlagNeedsArgument string
  | FlagInvalidValue string string

text \<open>
  The code after the dashes: a name of at least one byte and, after the first equals sign, a value.
\<close>

definition cutValue :: "string \<Rightarrow> string \<times> string option" where
  "cutValue name =
    (hd name # takeWhile (\<lambda>c. c \<noteq> CHR ''='') (tl name),
     case dropWhile (\<lambda>c. c \<noteq> CHR ''='') (tl name) of [] \<Rightarrow> None | _ # value \<Rightarrow> Some value)"

text \<open>\<open>parseOne\<close>: no flag is left, one was seen and set, or the command line is wrong.\<close>

datatype 'v parsed =
    NoFlag
  | Seen "string list" 'v
  | Failed flagError 'v

definition setFlag :: "string \<Rightarrow> 'v Flag \<Rightarrow> string \<Rightarrow> string list \<Rightarrow> 'v \<Rightarrow> 'v parsed" where
  "setFlag name fl value args v =
    (case flagSet fl value v of
       (True, v) \<Rightarrow> Seen args v
     | (False, v) \<Rightarrow> Failed (FlagInvalidValue value name) v)"

definition parseNamed :: "'v FlagSet \<Rightarrow> string \<Rightarrow> string option \<Rightarrow> string list \<Rightarrow> 'v \<Rightarrow> 'v parsed" where
  "parseNamed f name value args v =
    (case map_of f name of
       None \<Rightarrow> Failed (if name = ''help'' \<or> name = ''h'' then FlagHelp else FlagNotDefined name) v
     | Some fl \<Rightarrow>
       (case value of
          Some value \<Rightarrow> setFlag name fl value args v
        | None \<Rightarrow>
          if flagIsBool fl then setFlag name fl ''true'' args v
          else
            (case args of
               [] \<Rightarrow> Failed (FlagNeedsArgument name) v
             | value # args \<Rightarrow> setFlag name fl value args v)))"

definition noFlag :: "string \<Rightarrow> bool" where
  "noFlag s \<longleftrightarrow> length s < 2 \<or> s ! 0 \<noteq> CHR ''-'' \<or> s = ''--''"

definition dashless :: "string \<Rightarrow> string" where
  "dashless s = drop (if s ! 1 = CHR ''-'' then 2 else 1) s"

definition badName :: "string \<Rightarrow> bool" where
  "badName name \<longleftrightarrow> name = [] \<or> name ! 0 = CHR ''-'' \<or> name ! 0 = CHR ''=''"

fun parseOne :: "'v FlagSet \<Rightarrow> string list \<Rightarrow> 'v \<Rightarrow> 'v parsed" where
  "parseOne f [] v = NoFlag"
| "parseOne f (s # args) v =
    (if noFlag s then NoFlag
     else if badName (dashless s) then Failed (FlagSyntax s) v
     else case cutValue (dashless s) of (name, value) \<Rightarrow> parseNamed f name value args v)"

lemma setFlag_Seen_iff: "setFlag n fl x args v = Seen args' v' \<longleftrightarrow> flagSet fl x v = (True, v') \<and> args' = args"
  by (auto simp: setFlag_def split: prod.split bool.split)

lemma setFlag_NoFlag [simp]: "setFlag n fl x args v \<noteq> NoFlag"
  by (auto simp: setFlag_def split: prod.split bool.split)

lemma parseNamed_SeenE:
  assumes "parseNamed f n value args v = Seen args' v'"
  obtains fl x where "map_of f n = Some fl" "flagSet fl x v = (True, v')"
    "value = Some x \<and> args' = args \<or> value = None \<and> flagIsBool fl \<and> x = ''true'' \<and> args' = args
      \<or> value = None \<and> \<not> flagIsBool fl \<and> args = x # args'"
  using assms by (auto simp: parseNamed_def setFlag_Seen_iff split: option.splits if_splits list.splits)

lemma parseOne_consumes: "parseOne f args v = Seen args' v' \<Longrightarrow> length args' < length args"
  by (cases "(f, args, v)" rule: parseOne.cases)
    (auto split: if_splits prod.splits elim!: parseNamed_SeenE)

function parseFlags :: "'v FlagSet \<Rightarrow> string list \<Rightarrow> 'v \<Rightarrow> flagError option \<times> 'v" where
  "parseFlags f args v =
    (case parseOne f args v of
       Seen args v \<Rightarrow> parseFlags f args v
     | NoFlag \<Rightarrow> (None, v)
     | Failed err v \<Rightarrow> (Some err, v))"
  by pat_completeness auto
termination
  by (relation "measure (\<lambda>(f, args, v). length args)") (auto dest: parseOne_consumes)

declare parseFlags.simps [simp del] parseOne.simps(2) [simp del]

subsection \<open>The language of command lines\<close>

text \<open>
  \<open>spelled K args ss\<close>: the arguments spell the settings \<open>ss\<close>, each a name and a value, in order,
  where \<open>K\<close> says which flags there are and which of them are boolean: a boolean flag alone, a flag
  with its value after an equals sign, or any other flag with its value in the next argument, behind
  one dash or two. What follows the first argument that is not a flag, or two dashes, is not looked
  at. The relation has no state and no order of cases.
\<close>

definition flagKinds :: "'v FlagSet \<Rightarrow> string \<Rightarrow> bool option" where
  "flagKinds f n = map_option flagIsBool (map_of f n)"

definition flagName :: "string \<Rightarrow> bool" where
  "flagName n \<longleftrightarrow> n \<noteq> [] \<and> hd n \<noteq> CHR ''-'' \<and> CHR ''='' \<notin> set n"

definition dashes :: "string set" where
  "dashes = {''-'', ''--''}"

inductive spelled :: "(string \<Rightarrow> bool option) \<Rightarrow> string list \<Rightarrow> (string \<times> string) list \<Rightarrow> bool" for K where
  end_of_args: "spelled K [] []"
| end_of_flags: "\<not> hasPrefix s ''-'' \<or> s = ''-'' \<or> s = ''--'' \<Longrightarrow> spelled K (s # args) []"
| alone: "\<lbrakk>K n = Some True; flagName n; d \<in> dashes; spelled K args ss\<rbrakk>
    \<Longrightarrow> spelled K ((d @ n) # args) ((n, ''true'') # ss)"
| with_value: "\<lbrakk>K n \<noteq> None; flagName n; d \<in> dashes; spelled K args ss\<rbrakk>
    \<Longrightarrow> spelled K ((d @ n @ ''='' @ x) # args) ((n, x) # ss)"
| value_next: "\<lbrakk>K n = Some False; flagName n; d \<in> dashes; spelled K args ss\<rbrakk>
    \<Longrightarrow> spelled K ((d @ n) # x # args) ((n, x) # ss)"

text \<open>The settings made one after the other; the first that is not accepted ends it.\<close>

fun applySettings :: "'v FlagSet \<Rightarrow> (string \<times> string) list \<Rightarrow> 'v \<Rightarrow> 'v option" where
  "applySettings f [] v = Some v"
| "applySettings f ((n, x) # ss) v =
    (case map_of f n of
       None \<Rightarrow> None
     | Some fl \<Rightarrow> (case flagSet fl x v of (True, v) \<Rightarrow> applySettings f ss v | (False, _) \<Rightarrow> None))"

lemma cut_none: "c \<notin> set xs \<Longrightarrow> takeWhile (\<lambda>d. d \<noteq> c) xs = xs \<and> dropWhile (\<lambda>d. d \<noteq> c) xs = []"
  by (induction xs) auto

lemma cut_some: "c \<notin> set xs \<Longrightarrow> takeWhile (\<lambda>d. d \<noteq> c) (xs @ c # ys) = xs \<and> dropWhile (\<lambda>d. d \<noteq> c) (xs @ c # ys) = c # ys"
  by (induction xs) auto

lemma cutValue_name: "flagName n \<Longrightarrow> cutValue n = (n, None)"
  by (cases n) (simp_all add: cutValue_def flagName_def cut_none)

lemma cutValue_value: "flagName n \<Longrightarrow> cutValue (n @ CHR ''='' # x) = (n, Some x)"
  by (cases n) (simp_all add: cutValue_def flagName_def cut_some)

lemma cutValue_flagName:
  assumes "cutValue name = (n, v)" and "\<not> badName name"
  shows "flagName n \<and> name = n @ (case v of None \<Rightarrow> [] | Some x \<Rightarrow> CHR ''='' # x)"
proof -
  obtain c cs where name: "name = c # cs" using assms(2) by (cases name) (auto simp: badName_def)
  have n: "n = c # takeWhile (\<lambda>c. c \<noteq> CHR ''='') cs" using assms(1) name by (simp add: cutValue_def)
  then have "flagName n" using assms(2) name by (auto simp: flagName_def badName_def dest: set_takeWhileD)
  moreover have "cs = takeWhile (\<lambda>c. c \<noteq> CHR ''='') cs @ (case v of None \<Rightarrow> [] | Some x \<Rightarrow> CHR ''='' # x)"
  proof (cases "dropWhile (\<lambda>c. c \<noteq> CHR ''='') cs")
    case Nil
    with assms(1) name have "v = None" by (simp add: cutValue_def)
    with Nil show ?thesis by (metis append.right_neutral option.simps(4) takeWhile_dropWhile_id)
  next
    case (Cons d x)
    then have "d = CHR ''=''" by (metis (mono_tags) dropWhile_eq_Cons_conv)
    moreover have "v = Some x" using assms(1) name Cons by (simp add: cutValue_def)
    ultimately show ?thesis using Cons by (metis option.simps(5) takeWhile_dropWhile_id)
  qed
  ultimately show ?thesis using name n by simp
qed

lemma dashes_flag:
  assumes "flagName n" and "d \<in> dashes"
  shows "\<not> noFlag (d @ n @ r)" "dashless (d @ n @ r) = n @ r" "\<not> badName (n @ r)"
  using assms by (cases n; auto simp: flagName_def dashes_def noFlag_def dashless_def badName_def)+

lemma parseOne_flag:
  assumes "flagName n" and "d \<in> dashes"
  shows "parseOne f ((d @ n) # args) v = parseNamed f n None args v"
    and "parseOne f ((d @ n @ CHR ''='' # x) # args) v = parseNamed f n (Some x) args v"
  using dashes_flag [OF assms, of "[]"] dashes_flag [OF assms, of "CHR ''='' # x"]
  by (simp_all add: parseOne.simps(2) cutValue_name [OF assms(1)] cutValue_value [OF assms(1)])

lemma noFlag_iff: "noFlag s \<longleftrightarrow> \<not> hasPrefix s ''-'' \<or> s = ''-'' \<or> s = ''--''"
  unfolding noFlag_def by (cases s; cases "tl s") auto

lemma parseNamed_NoFlag [simp]: "parseNamed f n value args v \<noteq> NoFlag"
  by (auto simp: parseNamed_def split: option.split list.split)

lemma flag_dashes:
  assumes "\<not> noFlag s" obtains d where "d \<in> dashes" and "s = d @ dashless s"
proof (cases "s ! 1 = CHR ''-''")
  case True
  with assms show thesis
    by (intro that [of "''--''"]; cases s; cases "tl s") (auto simp: noFlag_def dashless_def dashes_def)
next
  case False
  with assms show thesis
    by (intro that [of "''-''"]; cases s; cases "tl s") (auto simp: noFlag_def dashless_def dashes_def)
qed

lemma parseOne_SeenE:
  assumes "parseOne f args v = Seen args' v'"
  obtains n x fl where "flagSet fl x v = (True, v')" and "map_of f n = Some fl"
    and "\<And>ss. spelled (flagKinds f) args' ss \<Longrightarrow> spelled (flagKinds f) args ((n, x) # ss)"
proof -
  from assms obtain s rest where args: "args = s # rest" by (cases args) auto
  with assms have s: "\<not> noFlag s" "\<not> badName (dashless s)" by (auto simp: parseOne.simps(2) split: if_splits)
  obtain n val where cut: "cutValue (dashless s) = (n, val)" by fastforce
  obtain d where d: "d \<in> dashes" "s = d @ dashless s" using flag_dashes [OF s(1)] .
  from cutValue_flagName [OF cut s(2)] have n: "flagName n"
    and sn: "s = d @ n @ (case val of None \<Rightarrow> [] | Some x \<Rightarrow> CHR ''='' # x)"
    using d(2) by auto
  from assms args s cut have "parseNamed f n val rest v = Seen args' v'" by (simp add: parseOne.simps(2))
  then obtain fl x where fl: "map_of f n = Some fl" and set: "flagSet fl x v = (True, v')"
    and how: "val = Some x \<and> args' = rest \<or> val = None \<and> flagIsBool fl \<and> x = ''true'' \<and> args' = rest
      \<or> val = None \<and> \<not> flagIsBool fl \<and> rest = x # args'"
    by (rule parseNamed_SeenE)
  have "spelled (flagKinds f) args ((n, x) # ss)" if "spelled (flagKinds f) args' ss" for ss
    using how that fl spelled.with_value [of "flagKinds f", OF _ n d(1), of args' ss x]
      spelled.alone [of "flagKinds f", OF _ n d(1), of args' ss]
      spelled.value_next [of "flagKinds f", OF _ n d(1), of args' ss x]
    unfolding args sn by (auto simp: flagKinds_def)
  with fl set show thesis by (intro that)
qed

text \<open>Parsing succeeds exactly on the command lines that spell settings which are all accepted.\<close>

lemma parseFlags_complete:
  "spelled (flagKinds f) args ss \<Longrightarrow> applySettings f ss v = Some v' \<Longrightarrow> parseFlags f args v = (None, v')"
proof (induction arbitrary: v rule: spelled.induct)
  case end_of_args
  then show ?case by (simp add: parseFlags.simps)
next
  case (end_of_flags s args)
  then show ?case by (simp add: parseFlags.simps [of f "s # args"] parseOne.simps(2) noFlag_iff)
next
  case (alone n d args ss)
  then obtain fl w where "map_of f n = Some fl" "flagSet fl ''true'' v = (True, w)" "applySettings f ss w = Some v'"
    by (auto simp: flagKinds_def split: prod.splits bool.splits)
  with alone show ?case
    by (simp add: parseFlags.simps [of f "(d @ n) # args"] parseOne_flag parseNamed_def setFlag_def flagKinds_def)
next
  case (with_value n d args ss x)
  then obtain fl w where "map_of f n = Some fl" "flagSet fl x v = (True, w)" "applySettings f ss w = Some v'"
    by (auto simp: flagKinds_def split: prod.splits bool.splits)
  with with_value show ?case
    by (simp add: parseFlags.simps [of f "(d @ n @ CHR ''='' # x) # args"] parseOne_flag parseNamed_def setFlag_def)
next
  case (value_next n d args ss x)
  then obtain fl w where "map_of f n = Some fl" "flagSet fl x v = (True, w)" "applySettings f ss w = Some v'"
    by (auto simp: flagKinds_def split: prod.splits bool.splits)
  with value_next show ?case
    by (simp add: parseFlags.simps [of f "(d @ n) # x # args"] parseOne_flag parseNamed_def setFlag_def flagKinds_def)
qed

lemma parseFlags_sound:
  "parseFlags f args v = (None, v') \<Longrightarrow> \<exists>ss. spelled (flagKinds f) args ss \<and> applySettings f ss v = Some v'"
proof (induction f args v rule: parseFlags.induct)
  case (1 f args v)
  show ?case
  proof (cases "parseOne f args v")
    case NoFlag
    then have "spelled (flagKinds f) args []"
      by (cases args) (auto simp: parseOne.simps(2) noFlag_iff spelled.end_of_args split: if_splits prod.splits intro: spelled.end_of_flags)
    moreover from NoFlag "1.prems" have "v' = v" by (simp add: parseFlags.simps [of f args v])
    ultimately show ?thesis by (intro exI [of _ "[]"]) simp
  next
    case (Seen args1 v1)
    with "1.prems" have "parseFlags f args1 v1 = (None, v')" by (simp add: parseFlags.simps [of f args v])
    with "1.IH" Seen obtain ss where ss: "spelled (flagKinds f) args1 ss" "applySettings f ss v1 = Some v'" by blast
    from Seen obtain n x fl where "flagSet fl x v = (True, v1)" "map_of f n = Some fl"
      "spelled (flagKinds f) args ((n, x) # ss)" using ss(1) by (metis parseOne_SeenE)
    with ss(2) show ?thesis by (intro exI [of _ "(n, x) # ss"]) simp
  next
    case (Failed err v1)
    with "1.prems" show ?thesis by (simp add: parseFlags.simps [of f args v])
  qed
qed

lemma parseFlags_iff:
  "parseFlags f args v = (None, v') \<longleftrightarrow> (\<exists>ss. spelled (flagKinds f) args ss \<and> applySettings f ss v = Some v')"
  by (intro iffI parseFlags_sound) (auto intro: parseFlags_complete)

end
