(* ===== verification/ApiClient.thy ===== *)
theory ApiClient
  imports PolicyTypes GoFlag
begin

section \<open>What lies outside the repository: the API server and the libraries\<close>

text \<open>
  The operator calls code that is not part of the repository: the controller-runtime client
  (\<open>rec.Client\<close>), \<open>controllerutil.SetControllerReference\<close>, \<open>hashstructure.Hash\<close>, the YAML
  serializer, \<open>semver.IsValid\<close>, the discovery client, the manager, the scheme library, the flags other
  packages have registered, and the operating system (environment variables, the asset files). All of it is the record \<open>'e externals\<close>, a parameter of every
  operation that uses it; \<open>'e\<close> is whatever state the outside world has, and every call may
  change it. No law is assumed of these functions here; where a property needs one, it is a
  hypothesis of that property.

  The model keeps the history of the API calls beside that state (\<open>wCalls\<close>), with the object sent
  and the object or error received, so that properties can say what the operator did, whatever the server
  answered. Logging is not modelled.
\<close>

subsection \<open>The file system, as the asset loader walks it\<close>

text \<open>
  \<open>FsFile None\<close> is a file that cannot be read, \<open>FsDir None\<close> a directory that cannot be listed,
  \<open>FsStatError\<close> an entry whose \<open>lstat\<close> fails (a missing root among them).
\<close>

datatype fsnode =
    FsFile "string option"
  | FsDir "(string \<times> fsnode) list option"
  | FsStatError

subsection \<open>What a scheme is told of\<close>

text \<open>
  Schemes and scheme builders are library objects behind pointers, here numbers. A pointer to a
  zero value of a type of the repository stands for the type.
\<close>

record GroupVersion =
  gvGroup :: string
  gvVersion :: string

datatype apiObject = ObjClusterPolicy | ObjClusterPolicyList

text \<open>The name of the Go type, which is the kind of its objects.\<close>

primrec kindOf :: "apiObject \<Rightarrow> string" where
  "kindOf ObjClusterPolicy = ''ClusterPolicy''"
| "kindOf ObjClusterPolicyList = ''ClusterPolicyList''"

subsection \<open>What the manager is given\<close>

record ManagerOptions =
  optScheme :: nat
  optMetricsBindAddress :: string
  optPort :: nat
  optHealthProbeBindAddress :: string
  optLeaderElection :: bool
  optLeaderElectionID :: string

record ControllerOptions =
  optMaxConcurrentReconciles :: nat
  optBaseDelay :: nat
  optMaxDelay :: nat

text \<open>
  What is watched and which request an event becomes: the object itself, or the ClusterPolicy
  that is its controlling owner.
\<close>

datatype watch =
    WatchClusterPolicy
  | WatchOwnedDaemonSet bool

subsection \<open>The parameters\<close>

record 'e externals =
  xGetDaemonSet :: "string \<Rightarrow> string \<Rightarrow> 'e \<Rightarrow> (goerr + DaemonSet) \<times> 'e"
  xCreateDaemonSet :: "DaemonSet \<Rightarrow> 'e \<Rightarrow> (goerr option \<times> DaemonSet) \<times> 'e"
  xUpdateDaemonSet :: "DaemonSet \<Rightarrow> 'e \<Rightarrow> (goerr option \<times> DaemonSet) \<times> 'e"
  xDeleteDaemonSet :: "DaemonSet \<Rightarrow> 'e \<Rightarrow> goerr option \<times> 'e"
  xGetRuntimeClass :: "string \<Rightarrow> 'e \<Rightarrow> (goerr + RuntimeClass) \<times> 'e"
  xCreateRuntimeClass :: "RuntimeClass \<Rightarrow> 'e \<Rightarrow> goerr option \<times> 'e"
  xUpdateRuntimeClass :: "RuntimeClass \<Rightarrow> 'e \<Rightarrow> goerr option \<times> 'e"
  xDeleteRuntimeClass :: "RuntimeClass \<Rightarrow> 'e \<Rightarrow> goerr option \<times> 'e"
  xGetClusterPolicy :: "NamespacedName \<Rightarrow> 'e \<Rightarrow> (goerr + ClusterPolicy) \<times> 'e"
  xStatusUpdate :: "ClusterPolicy \<Rightarrow> 'e \<Rightarrow> goerr option \<times> 'e"
  xListNodes :: "'e \<Rightarrow> (goerr + Node list) \<times> 'e"
  xSetControllerReference :: "ClusterPolicy \<Rightarrow> ObjectMeta \<Rightarrow> goerr + ObjectMeta"
  xHash :: "DaemonSet \<Rightarrow> goerr + 64 word"
  xDecodeDaemonSet :: "string \<Rightarrow> goerr + DaemonSet"
  xDecodeRuntimeClass :: "string \<Rightarrow> RuntimeClass \<Rightarrow> goerr + RuntimeClass"
  xGetenv :: "string \<Rightarrow> 'e \<Rightarrow> string"
  xFileTree :: "string \<Rightarrow> 'e \<Rightarrow> fsnode"
  xHaveConfig :: "'e \<Rightarrow> bool"
  xNewDiscoveryClient :: "'e \<Rightarrow> goerr option \<times> 'e"
  xServerVersion :: "'e \<Rightarrow> (goerr + string) \<times> 'e"
  xSemverIsValid :: "string \<Rightarrow> bool"
  xNewManager :: "ManagerOptions \<Rightarrow> 'e \<Rightarrow> goerr option \<times> 'e"
  xNewController :: "string \<Rightarrow> ControllerOptions \<Rightarrow> 'e \<Rightarrow> goerr option \<times> 'e"
  xWatch :: "watch \<Rightarrow> 'e \<Rightarrow> goerr option \<times> 'e"
  xAddHealthzCheck :: "string \<Rightarrow> 'e \<Rightarrow> goerr option \<times> 'e"
  xAddReadyzCheck :: "string \<Rightarrow> 'e \<Rightarrow> goerr option \<times> 'e"
  xStart :: "'e \<Rightarrow> goerr option \<times> 'e"
  xNewSchemeBuilder :: "GroupVersion \<Rightarrow> 'e \<Rightarrow> nat \<times> 'e"
  xRegister :: "nat \<Rightarrow> apiObject list \<Rightarrow> 'e \<Rightarrow> unit \<times> 'e"
  xNewScheme :: "'e \<Rightarrow> nat \<times> 'e"
  xAddClientgo :: "nat \<Rightarrow> 'e \<Rightarrow> goerr option \<times> 'e"
  xAddToScheme :: "nat \<Rightarrow> nat \<Rightarrow> 'e \<Rightarrow> goerr option \<times> 'e"
  xFlags :: "'e FlagSet"

subsection \<open>The world and its history\<close>

datatype event =
    EvGetDaemonSet string string "goerr + DaemonSet"
  | EvCreateDaemonSet DaemonSet "goerr option"
  | EvUpdateDaemonSet DaemonSet "goerr option"
  | EvDeleteDaemonSet string string "goerr option"
  | EvGetRuntimeClass string "goerr + RuntimeClass"
  | EvCreateRuntimeClass RuntimeClass "goerr option"
  | EvUpdateRuntimeClass RuntimeClass "goerr option"
  | EvDeleteRuntimeClass string "goerr option"
  | EvListNodes
  | EvGetClusterPolicy NamespacedName "goerr + ClusterPolicy"
  | EvStatusUpdate ClusterPolicy "goerr option"
  | EvDiscovery
  | EvNewManager ManagerOptions
  | EvNewController string ControllerOptions
  | EvWatch watch
  | EvAddHealthzCheck string
  | EvAddReadyzCheck string
  | EvStart
  | EvNewSchemeBuilder GroupVersion
  | EvRegister nat "apiObject list"
  | EvNewScheme
  | EvAddClientgo nat "goerr option"
  | EvAddToScheme nat nat "goerr option"

record 'e world =
  wEnv :: 'e
  wCalls :: "event list"

text \<open>A call: the external operation runs on the environment, its event is appended to the history.\<close>

definition apiCall :: "('e \<Rightarrow> 'r \<times> 'e) \<Rightarrow> ('r \<Rightarrow> event) \<Rightarrow> ('e world, 'r) go" where
  "apiCall op ev = (\<lambda>w. case op (wEnv w) of
     (r, e') \<Rightarrow> (Ret r, w\<lparr>wEnv := e', wCalls := wCalls w @ [ev r]\<rparr>))"

definition getDaemonSet ::
    "'e externals \<Rightarrow> string \<Rightarrow> string \<Rightarrow> ('e world, goerr + DaemonSet) go" where
  "getDaemonSet X ns n = apiCall (xGetDaemonSet X ns n) (EvGetDaemonSet ns n)"

definition createDaemonSet ::
    "'e externals \<Rightarrow> DaemonSet \<Rightarrow> ('e world, goerr option \<times> DaemonSet) go" where
  "createDaemonSet X d = apiCall (xCreateDaemonSet X d) (\<lambda>r. EvCreateDaemonSet d (fst r))"

definition updateDaemonSet ::
    "'e externals \<Rightarrow> DaemonSet \<Rightarrow> ('e world, goerr option \<times> DaemonSet) go" where
  "updateDaemonSet X d = apiCall (xUpdateDaemonSet X d) (\<lambda>r. EvUpdateDaemonSet d (fst r))"

definition deleteDaemonSet :: "'e externals \<Rightarrow> DaemonSet \<Rightarrow> ('e world, goerr option) go" where
  "deleteDaemonSet X d =
     apiCall (xDeleteDaemonSet X d) (\<lambda>r. EvDeleteDaemonSet (dsNamespace d) (dsName d) r)"

definition getRuntimeClassObj ::
    "'e externals \<Rightarrow> string \<Rightarrow> ('e world, goerr + RuntimeClass) go" where
  "getRuntimeClassObj X n = apiCall (xGetRuntimeClass X n) (EvGetRuntimeClass n)"

definition createRuntimeClass ::
    "'e externals \<Rightarrow> RuntimeClass \<Rightarrow> ('e world, goerr option) go" where
  "createRuntimeClass X r = apiCall (xCreateRuntimeClass X r) (EvCreateRuntimeClass r)"

definition updateRuntimeClass ::
    "'e externals \<Rightarrow> RuntimeClass \<Rightarrow> ('e world, goerr option) go" where
  "updateRuntimeClass X r = apiCall (xUpdateRuntimeClass X r) (EvUpdateRuntimeClass r)"

definition deleteRuntimeClass ::
    "'e externals \<Rightarrow> RuntimeClass \<Rightarrow> ('e world, goerr option) go" where
  "deleteRuntimeClass X r = apiCall (xDeleteRuntimeClass X r) (EvDeleteRuntimeClass (rcName r))"

definition getClusterPolicy ::
    "'e externals \<Rightarrow> NamespacedName \<Rightarrow> ('e world, goerr + ClusterPolicy) go" where
  "getClusterPolicy X nn = apiCall (xGetClusterPolicy X nn) (EvGetClusterPolicy nn)"

definition statusUpdate :: "'e externals \<Rightarrow> ClusterPolicy \<Rightarrow> ('e world, goerr option) go" where
  "statusUpdate X p = apiCall (xStatusUpdate X p) (EvStatusUpdate p)"

definition listNodes :: "'e externals \<Rightarrow> ('e world, goerr + Node list) go" where
  "listNodes X = apiCall (xListNodes X) (\<lambda>_. EvListNodes)"

definition newDiscoveryClient :: "'e externals \<Rightarrow> ('e world, goerr option) go" where
  "newDiscoveryClient X = apiCall (xNewDiscoveryClient X) (\<lambda>_. EvDiscovery)"

definition serverVersion :: "'e externals \<Rightarrow> ('e world, goerr + string) go" where
  "serverVersion X = apiCall (xServerVersion X) (\<lambda>_. EvDiscovery)"

definition newManager :: "'e externals \<Rightarrow> ManagerOptions \<Rightarrow> ('e world, goerr option) go" where
  "newManager X opts = apiCall (xNewManager X opts) (\<lambda>_. EvNewManager opts)"

definition newController ::
    "'e externals \<Rightarrow> string \<Rightarrow> ControllerOptions \<Rightarrow> ('e world, goerr option) go" where
  "newController X name opts = apiCall (xNewController X name opts) (\<lambda>_. EvNewController name opts)"

definition watchKind :: "'e externals \<Rightarrow> watch \<Rightarrow> ('e world, goerr option) go" where
  "watchKind X k = apiCall (xWatch X k) (\<lambda>_. EvWatch k)"

definition addHealthzCheck :: "'e externals \<Rightarrow> string \<Rightarrow> ('e world, goerr option) go" where
  "addHealthzCheck X name = apiCall (xAddHealthzCheck X name) (\<lambda>_. EvAddHealthzCheck name)"

definition addReadyzCheck :: "'e externals \<Rightarrow> string \<Rightarrow> ('e world, goerr option) go" where
  "addReadyzCheck X name = apiCall (xAddReadyzCheck X name) (\<lambda>_. EvAddReadyzCheck name)"

definition startManager :: "'e externals \<Rightarrow> ('e world, goerr option) go" where
  "startManager X = apiCall (xStart X) (\<lambda>_. EvStart)"

text \<open>
  The scheme library: \<open>&scheme.Builder\<close> with a group and version, its methods \<open>Register\<close> and
  \<open>AddToScheme\<close>, \<open>runtime.NewScheme\<close> and the \<open>AddToScheme\<close> of client-go.
\<close>

definition newSchemeBuilder :: "'e externals \<Rightarrow> GroupVersion \<Rightarrow> ('e world, nat) go" where
  "newSchemeBuilder X gv = apiCall (xNewSchemeBuilder X gv) (\<lambda>_. EvNewSchemeBuilder gv)"

definition builderRegister :: "'e externals \<Rightarrow> nat \<Rightarrow> apiObject list \<Rightarrow> ('e world, unit) go" where
  "builderRegister X b objs = apiCall (xRegister X b objs) (\<lambda>_. EvRegister b objs)"

definition newScheme :: "'e externals \<Rightarrow> ('e world, nat) go" where
  "newScheme X = apiCall (xNewScheme X) (\<lambda>_. EvNewScheme)"

definition addClientgo :: "'e externals \<Rightarrow> nat \<Rightarrow> ('e world, goerr option) go" where
  "addClientgo X s = apiCall (xAddClientgo X s) (EvAddClientgo s)"

definition builderAddToScheme :: "'e externals \<Rightarrow> nat \<Rightarrow> nat \<Rightarrow> ('e world, goerr option) go" where
  "builderAddToScheme X b s = apiCall (xAddToScheme X b s) (EvAddToScheme b s)"

text \<open>Reading the environment without changing it.\<close>

definition gask :: "('e \<Rightarrow> 'a) \<Rightarrow> ('e world, 'a) go" where
  "gask f = (\<lambda>w. (Ret (f (wEnv w)), w))"

lemma apiCall_run [go_simps]:
  "apiCall op ev w =
     (Ret (fst (op (wEnv w))),
      w\<lparr>wEnv := snd (op (wEnv w)), wCalls := wCalls w @ [ev (fst (op (wEnv w)))]\<rparr>)"
  by (simp add: apiCall_def split: prod.split)

lemma gask_run [simp, go_simps]: "gask f w = (Ret (f (wEnv w)), w)"
  by (simp add: gask_def)

lemmas api_defs =
  getDaemonSet_def createDaemonSet_def updateDaemonSet_def deleteDaemonSet_def
  getRuntimeClassObj_def createRuntimeClass_def updateRuntimeClass_def deleteRuntimeClass_def
  getClusterPolicy_def statusUpdate_def listNodes_def newDiscoveryClient_def serverVersion_def
  newManager_def newController_def watchKind_def addHealthzCheck_def addReadyzCheck_def
  startManager_def newSchemeBuilder_def builderRegister_def newScheme_def addClientgo_def
  builderAddToScheme_def

lemma apiCall_returns: "\<exists>r. fst (apiCall op ev w) = Ret r"
  by (simp add: apiCall_run)

subsection \<open>What a computation adds to the history\<close>

text \<open>
  \<open>emits P m\<close>: run from any world, \<open>m\<close> only appends to the history, and every event it appends
  satisfies \<open>P\<close>. The rules below build such facts along the structure of the code.
\<close>

definition emits :: "(event \<Rightarrow> bool) \<Rightarrow> ('e world, 'a) go \<Rightarrow> bool" where
  "emits P m \<longleftrightarrow> (\<forall>w. \<exists>evs. wCalls (snd (m w)) = wCalls w @ evs \<and> list_all P evs)"

named_theorems emits_intros \<open>rules for \<open>emits\<close>, one per construct of the code\<close>

lemma emitsD:
  assumes "emits P m" and "m w = (r, w')"
  obtains evs where "wCalls w' = wCalls w @ evs" and "list_all P evs"
  using assms unfolding emits_def by (metis snd_conv)

lemma emits_mono: "emits P m \<Longrightarrow> (\<And>e. P e \<Longrightarrow> Q e) \<Longrightarrow> emits Q m"
  unfolding emits_def by (meson list.pred_mono_strong)

lemma emits_conj:
  assumes "emits P m" and "emits Q m"
  shows "emits (\<lambda>ev. P ev \<and> Q ev) m"
  using assms unfolding emits_def list_all_iff by (metis same_append_eq)

lemma emits_gret [emits_intros]: "emits P (gret a)"
  by (simp add: emits_def)

lemma emits_gpanic [emits_intros]: "emits P (gpanic p)"
  by (simp add: emits_def)

lemma emits_glift [emits_intros]: "emits P (glift r)"
  by (simp add: emits_def)

lemma emits_gask [emits_intros]: "emits P (gask f)"
  by (simp add: emits_def)

lemma emits_apiCall [emits_intros]: "(\<And>r. P (ev r)) \<Longrightarrow> emits P (apiCall op ev)"
  by (simp add: emits_def apiCall_run)

lemma emits_gbind [emits_intros]:
  assumes "emits P m" and "\<And>a. emits P (k a)"
  shows "emits P (gbind m k)"
  unfolding emits_def
proof
  fix w
  obtain r w1 where m: "m w = (r, w1)" by fastforce
  from assms(1) m obtain e1 where e1: "wCalls w1 = wCalls w @ e1" "list_all P e1"
    by (rule emitsD)
  show "\<exists>evs. wCalls (snd (gbind m k w)) = wCalls w @ evs \<and> list_all P evs"
  proof (cases r)
    case (Ret a)
    obtain r2 w2 where k: "k a w1 = (r2, w2)" by fastforce
    from assms(2) k obtain e2 where "wCalls w2 = wCalls w1 @ e2" "list_all P e2"
      by (rule emitsD)
    then show ?thesis using e1 m k Ret by (auto simp: gbind_run)
  next
    case (Panic p)
    then show ?thesis using e1 m by (auto simp: gbind_run)
  qed
qed

lemma emits_if [emits_intros]: "(b \<Longrightarrow> emits P m) \<Longrightarrow> (\<not> b \<Longrightarrow> emits P n) \<Longrightarrow> emits P (if b then m else n)"
  by simp

lemma emits_case_sum [emits_intros]:
  "(\<And>e. s = Inl e \<Longrightarrow> emits P (f e)) \<Longrightarrow> (\<And>x. s = Inr x \<Longrightarrow> emits P (g x)) \<Longrightarrow>
   emits P (case s of Inl e \<Rightarrow> f e | Inr x \<Rightarrow> g x)"
  by (simp split: sum.split)

lemma emits_case_option [emits_intros]:
  "(s = None \<Longrightarrow> emits P f) \<Longrightarrow> (\<And>x. s = Some x \<Longrightarrow> emits P (g x)) \<Longrightarrow>
   emits P (case s of None \<Rightarrow> f | Some x \<Rightarrow> g x)"
  by (simp split: option.split)

lemma emits_case_prod [emits_intros]:
  "(\<And>a b. s = (a, b) \<Longrightarrow> emits P (f a b)) \<Longrightarrow> emits P (case s of (a, b) \<Rightarrow> f a b)"
  by (simp split: prod.split)

subsection \<open>What a computation can return\<close>

text \<open>\<open>yields Q m\<close>: whatever \<open>m\<close> returns, from any world, satisfies \<open>Q\<close>.\<close>

definition yields :: "('a \<Rightarrow> bool) \<Rightarrow> ('w, 'a) go \<Rightarrow> bool" where
  "yields Q m \<longleftrightarrow> (\<forall>w a w'. m w = (Ret a, w') \<longrightarrow> Q a)"

named_theorems yields_intros \<open>rules for \<open>yields\<close>, one per construct of the code\<close>

lemma yieldsD: "yields Q m \<Longrightarrow> m w = (Ret a, w') \<Longrightarrow> Q a"
  by (auto simp: yields_def)

lemma yields_gret [yields_intros]: "Q a \<Longrightarrow> yields Q (gret a)"
  by (simp add: yields_def)

lemma yields_gpanic [yields_intros]: "yields Q (gpanic p)"
  by (simp add: yields_def)

lemma yields_gbind_from:
  assumes "yields P m" and "\<And>a. P a \<Longrightarrow> yields Q (k a)"
  shows "yields Q (gbind m k)"
  using assms unfolding yields_def by (metis gbind_Ret_iff)

lemma yields_gbind [yields_intros]: "(\<And>a. yields Q (k a)) \<Longrightarrow> yields Q (gbind m k)"
  unfolding yields_def by (metis gbind_Ret_iff)

lemma yields_if [yields_intros]:
  "(b \<Longrightarrow> yields Q m) \<Longrightarrow> (\<not> b \<Longrightarrow> yields Q n) \<Longrightarrow> yields Q (if b then m else n)"
  by simp

lemma yields_case_sum [yields_intros]:
  "(\<And>e. s = Inl e \<Longrightarrow> yields Q (f e)) \<Longrightarrow> (\<And>x. s = Inr x \<Longrightarrow> yields Q (g x)) \<Longrightarrow>
   yields Q (case s of Inl e \<Rightarrow> f e | Inr x \<Rightarrow> g x)"
  by (cases s) simp_all

lemma yields_case_option [yields_intros]:
  "(s = None \<Longrightarrow> yields Q f) \<Longrightarrow> (\<And>x. s = Some x \<Longrightarrow> yields Q (g x)) \<Longrightarrow>
   yields Q (case s of None \<Rightarrow> f | Some x \<Rightarrow> g x)"
  by (cases s) simp_all

lemma yields_case_prod [yields_intros]:
  "(\<And>a b. s = (a, b) \<Longrightarrow> yields Q (f a b)) \<Longrightarrow> yields Q (case s of (a, b) \<Rightarrow> f a b)"
  by (cases s) simp

lemma yields_True: "yields (\<lambda>_. True) m"
  by (simp add: yields_def)

text \<open>The events of a sequence, when the second part is known only for what the first can return.\<close>

lemma emits_gbind_yields:
  assumes "emits P m" and "yields Q m" and "\<And>a. Q a \<Longrightarrow> emits P (k a)"
  shows "emits P (gbind m k)"
proof -
  have "\<exists>evs. wCalls (snd (gbind m k w)) = wCalls w @ evs \<and> list_all P evs" for w
  proof -
    obtain r w1 where m: "m w = (r, w1)" by fastforce
    show ?thesis
    proof (cases r)
      case (Ret a)
      let ?k = "\<lambda>b. if b = a then k a else gpanic []"
      have "emits P (?k b)" for b
        using assms(2,3) m Ret by (auto dest: yieldsD intro: emits_gpanic)
      then have "emits P (gbind m ?k)" by (rule emits_gbind [OF assms(1)])
      moreover have "gbind m k w = gbind m ?k w" using m Ret by (simp add: gbind_run)
      ultimately show ?thesis by (simp add: emits_def)
    next
      case (Panic p)
      with m assms(1) show ?thesis by (auto simp: gbind_run elim!: emitsD)
    qed
  qed
  then show ?thesis by (simp add: emits_def)
qed

text \<open>Kinds of events.\<close>

fun isDaemonSetEvent :: "event \<Rightarrow> bool" where
  "isDaemonSetEvent (EvGetDaemonSet _ _ _) = True"
| "isDaemonSetEvent (EvCreateDaemonSet _ _) = True"
| "isDaemonSetEvent (EvUpdateDaemonSet _ _) = True"
| "isDaemonSetEvent (EvDeleteDaemonSet _ _ _) = True"
| "isDaemonSetEvent _ = False"

fun isRuntimeClassEvent :: "event \<Rightarrow> bool" where
  "isRuntimeClassEvent (EvGetRuntimeClass _ _) = True"
| "isRuntimeClassEvent (EvCreateRuntimeClass _ _) = True"
| "isRuntimeClassEvent (EvUpdateRuntimeClass _ _) = True"
| "isRuntimeClassEvent (EvDeleteRuntimeClass _ _) = True"
| "isRuntimeClassEvent _ = False"

text \<open>An event that asks the server to change something.\<close>

fun isWrite :: "event \<Rightarrow> bool" where
  "isWrite (EvCreateDaemonSet _ _) = True"
| "isWrite (EvUpdateDaemonSet _ _) = True"
| "isWrite (EvDeleteDaemonSet _ _ _) = True"
| "isWrite (EvCreateRuntimeClass _ _) = True"
| "isWrite (EvUpdateRuntimeClass _ _) = True"
| "isWrite (EvDeleteRuntimeClass _ _) = True"
| "isWrite (EvStatusUpdate _ _) = True"
| "isWrite _ = False"

text \<open>An event that puts an object into the cluster.\<close>

fun isDeploy :: "event \<Rightarrow> bool" where
  "isDeploy (EvCreateDaemonSet _ _) = True"
| "isDeploy (EvUpdateDaemonSet _ _) = True"
| "isDeploy (EvCreateRuntimeClass _ _) = True"
| "isDeploy (EvUpdateRuntimeClass _ _) = True"
| "isDeploy _ = False"

end
