(* ===== verification/Controller.thy ===== *)
theory Controller
  imports ApiClient
begin

section \<open>The controller's state: \<open>controllers/state_manger.go\<close>\<close>

text \<open>
  The struct \<open>ClusterPolicyController\<close> with its constants, and the lookups on it that the control
  functions use. A control function of the Go code takes the controller that holds it; here the
  two functions there are (\<open>DaemonSet\<close> and \<open>RuntimeClass\<close>) are the constructors of \<open>controlFunc\<close>,
  and theory \<open>StateManager\<close> runs the function a constructor names. The field \<open>rec\<close> points to the
  reconciler, whose client and scheme are the parameter \<open>'e externals\<close>, so the record has no such
  field.
\<close>

definition nfdLabelPrefix :: string where
  "nfdLabelPrefix = ''feature.node.kubernetes.io/''"

definition nfdLabelOSReleaseID :: string where
  "nfdLabelOSReleaseID = ''feature.node.kubernetes.io/system-os_release.ID''"

definition nfdLabelOSVersionID :: string where
  "nfdLabelOSVersionID = ''feature.node.kubernetes.io/system-os_release.VERSION_ID''"

definition nfdLabelOsMajorVersion :: string where
  "nfdLabelOsMajorVersion = ''feature.node.kubernetes.io/system-os_release.VERSION_ID.major''"

definition fpgaNodeLabels :: strmap where
  "fpgaNodeLabels = [(''feature.node.kubernetes.io/pci-1200_10ee.present'', ''true'')]"

datatype controlFunc = CtlDaemonSet | CtlRuntimeClass

record Resources =
  resDaemonsets :: "DaemonSet list option"
  resRuntimeClass :: RuntimeClass

text \<open>Ranging over a nil slice is ranging over nothing.\<close>

definition sliceOf :: "'a list option \<Rightarrow> 'a list" where
  "sliceOf s = (case s of None \<Rightarrow> [] | Some xs \<Rightarrow> xs)"

lemma sliceOf_simps [simp]: "sliceOf None = []" "sliceOf (Some xs) = xs"
  by (simp_all add: sliceOf_def)

record ClusterPolicyController =
  ctlSingleton :: "ClusterPolicy option"
  ctlOperatorNamespace :: string
  ctlResources :: "Resources list"
  ctlControlFuncs :: "controlFunc list list"
  ctlStateNames :: "string list"
  ctlIdx :: nat
  ctlK8sVersion :: string
  ctlRuntime :: Runtime
  ctlOsDists :: "(string \<times> bool) list"
  ctlHasFPGANodes :: bool
  ctlHasNFDLabels :: bool

text \<open>The global variable \<open>clusterPolicyCtrl\<close> when the process starts.\<close>

definition zeroController :: ClusterPolicyController where
  "zeroController = \<lparr>ctlSingleton = None, ctlOperatorNamespace = [], ctlResources = [],
     ctlControlFuncs = [], ctlStateNames = [], ctlIdx = 0, ctlK8sVersion = [],
     ctlRuntime = OtherRuntime [], ctlOsDists = [], ctlHasFPGANodes = False,
     ctlHasNFDLabels = False\<rparr>"

text \<open>Following the pointer \<open>singleton\<close>: nil panics.\<close>

definition nil_panic :: string where
  "nil_panic = ''nil pointer dereference''"

definition theSingleton :: "ClusterPolicyController \<Rightarrow> ClusterPolicy outcome" where
  "theSingleton c = (case ctlSingleton c of None \<Rightarrow> Panic nil_panic | Some p \<Rightarrow> Ret p)"

definition isStateEnabled :: "ClusterPolicyController \<Rightarrow> string \<Rightarrow> bool outcome" where
  "isStateEnabled n stateName =
     obind (theSingleton n) (\<lambda>p.
       let clusterPolicySpec = cpSpec p in
       Ret (if stateName = ''state-container-runtime''
            then ContainerRuntimeSpec_IsEnabled (specContainerRuntime clusterPolicySpec)
            else if stateName = ''state-device-plugin''
            then DevicePluginSpec_IsEnabled (specDevicePlugin clusterPolicySpec)
            else if stateName = ''state-host-setup''
            then HostSetupSpec_IsEnabled (specHostSetup clusterPolicySpec)
            else False))"

text \<open>\<open>ctrl.stateNames[ctrl.idx]\<close> is the state the control functions work on.\<close>

definition currentEnabled :: "ClusterPolicyController \<Rightarrow> bool outcome" where
  "currentEnabled c = obind (nthP (ctlStateNames c) (ctlIdx c)) (isStateEnabled c)"

definition lastState :: "ClusterPolicyController \<Rightarrow> bool" where
  "lastState ctrl \<longleftrightarrow> ctlIdx ctrl = length (ctlControlFuncs ctrl)"

subsection \<open>Lemmas\<close>

lemma theSingleton_simps [simp]:
  "ctlSingleton c = Some p \<Longrightarrow> theSingleton c = Ret p"
  "ctlSingleton c = None \<Longrightarrow> theSingleton c = Panic nil_panic"
  by (simp_all add: theSingleton_def)

lemma theSingleton_Ret_iff: "theSingleton c = Ret p \<longleftrightarrow> ctlSingleton c = Some p"
  by (simp add: theSingleton_def split: option.split)

lemma isStateEnabled_unknown:
  assumes "ctlSingleton c = Some p"
    and "s \<notin> {''state-container-runtime'', ''state-device-plugin'', ''state-host-setup''}"
  shows "isStateEnabled c s = Ret False"
  using assms by (simp add: isStateEnabled_def)

text \<open>A component is off exactly when its policy says so; the switches' contract gives it.\<close>

lemma isStateEnabled_off_iff:
  assumes "ctlSingleton c = Some p"
  shows
    "isStateEnabled c ''state-container-runtime'' = Ret False \<longleftrightarrow>
       crEnabled (specContainerRuntime (cpSpec p)) = Some False"
    "isStateEnabled c ''state-device-plugin'' = Ret False \<longleftrightarrow>
       dpEnabled (specDevicePlugin (cpSpec p)) = Some False"
    "isStateEnabled c ''state-host-setup'' = Ret False \<longleftrightarrow>
       hsEnabled (specHostSetup (cpSpec p)) = Some False"
  using assms
  by (simp_all add: isStateEnabled_def cr_switch.off_iff dp_switch.off_iff hs_switch.off_iff)

end
