(* ===== verification/Transforms.thy ===== *)
theory Transforms
  imports Controller
begin

section \<open>Adapting the manifests to the policy: the transformations of \<open>object_controls.go\<close>\<close>

text \<open>
  Before a DaemonSet is deployed, a transformation chosen by its name fills in what the
  ClusterPolicy says: images, pull policy and secrets, environment, mounts, the commands of the
  containers, the node selector. A transformation mutates the object and returns an error or nil;
  here it returns both, inside an outcome, because indexing \<open>Containers[0]\<close> or
  \<open>InitContainers[1]\<close> panics on a manifest that has too few containers. The object is a copy of
  the template (\<open>DeepCopy\<close>), so no template is mutated.
\<close>

definition DefaultRuntimeClass :: string where
  "DefaultRuntimeClass = ''xilinx''"
definition DefaultXCRInstallDir :: string where
  "DefaultXCRInstallDir = ''/usr/bin''"
definition DefaultXCRConfigDir :: string where
  "DefaultXCRConfigDir = ''/etc/xilinx-container-runtime''"
definition DefaultDockerConfig :: string where
  "DefaultDockerConfig = ''/etc/docker/daemon.json''"
definition DefaultDockerSocket :: string where
  "DefaultDockerSocket = ''/var/run/docker.sock''"
definition DefaultContainerdConfig :: string where
  "DefaultContainerdConfig = ''/etc/containerd/config.toml''"
definition DefaultContainerdSocket :: string where
  "DefaultContainerdSocket = ''/var/run/containerd/containerd.sock''"
definition XilinxAnnotationHashKey :: string where
  "XilinxAnnotationHashKey = ''xilinx.com/last-applied-hash''"

definition getRuntimeClass :: "ClusterPolicySpec \<Rightarrow> string" where
  "getRuntimeClass config =
    (if crRuntimeClass (specContainerRuntime config) \<noteq> []
     then crRuntimeClass (specContainerRuntime config)
     else DefaultRuntimeClass)"

definition getRuntimeConfig :: "Runtime \<Rightarrow> string" where
  "getRuntimeConfig r = (case r of
     Docker \<Rightarrow> DefaultDockerConfig
   | Containerd \<Rightarrow> DefaultContainerdConfig
   | _ \<Rightarrow> [])"

definition getRuntimeSocket :: "Runtime \<Rightarrow> string" where
  "getRuntimeSocket r = (case r of
     Docker \<Rightarrow> DefaultDockerSocket
   | Containerd \<Rightarrow> DefaultContainerdSocket
   | _ \<Rightarrow> [])"

subsection \<open>Edits of a DaemonSet\<close>

definition updPod :: "(PodSpec \<Rightarrow> PodSpec) \<Rightarrow> DaemonSet \<Rightarrow> DaemonSet" where
  "updPod f obj = obj\<lparr>dsPod := f (dsPod obj)\<rparr>"

text \<open>Writing through \<open>Containers[i]\<close> and \<open>InitContainers[i]\<close>.\<close>

definition updContainer :: "nat \<Rightarrow> (Container \<Rightarrow> Container) \<Rightarrow> DaemonSet \<Rightarrow> DaemonSet outcome" where
  "updContainer i f obj =
     obind (updP i f (podContainers (dsPod obj))) (\<lambda>cs.
       Ret (updPod (\<lambda>s. s\<lparr>podContainers := cs\<rparr>) obj))"

definition updInitContainer :: "nat \<Rightarrow> (Container \<Rightarrow> Container) \<Rightarrow> DaemonSet \<Rightarrow> DaemonSet outcome" where
  "updInitContainer i f obj =
     obind (updP i f (podInitContainers (dsPod obj))) (\<lambda>cs.
       Ret (updPod (\<lambda>s. s\<lparr>podInitContainers := cs\<rparr>) obj))"

definition setDaemonSetSelector :: "DaemonSet \<Rightarrow> strmap \<Rightarrow> DaemonSet" where
  "setDaemonSetSelector obj labels =
     updPod (\<lambda>s. case podNodeSelector s of
         None \<Rightarrow> s\<lparr>podNodeSelector := Some labels\<rparr>
       | Some sel \<Rightarrow> s\<lparr>podNodeSelector := Some (mapSetAll labels sel)\<rparr>) obj"

text \<open>The loop of \<open>setContainerEnv\<close>: the first variable of that name gets the value, or it is appended.\<close>

fun setEnv :: "EnvVar list \<Rightarrow> string \<Rightarrow> string \<Rightarrow> EnvVar list" where
  "setEnv [] key value = [\<lparr>envName = key, envValue = value, envValueFrom = None\<rparr>]"
| "setEnv (val # env) key value =
     (if envName val \<noteq> key then val # setEnv env key value
      else val\<lparr>envValue := value\<rparr> # env)"

definition setContainerEnv :: "string \<Rightarrow> string \<Rightarrow> Container \<Rightarrow> Container" where
  "setContainerEnv key value c = c\<lparr>ctrEnv := setEnv (ctrEnv c) key value\<rparr>"

definition setContainerEnvs :: "EnvVar list \<Rightarrow> Container \<Rightarrow> Container" where
  "setContainerEnvs env c = fold (\<lambda>e. setContainerEnv (envName e) (envValue e)) env c"

text \<open>\<open>for _, secret := range secrets { ImagePullSecrets = append(ImagePullSecrets, secret) }\<close>.\<close>

definition addPullSecrets :: "string list \<Rightarrow> DaemonSet \<Rightarrow> DaemonSet" where
  "addPullSecrets secrets obj =
     fold (\<lambda>secret. updPod (\<lambda>s. s\<lparr>podImagePullSecrets := podImagePullSecrets s @ [secret]\<rparr>))
       secrets obj"

text \<open>Appending a host-path volume and its mount in the first container.\<close>

definition addHostMount :: "string \<Rightarrow> string \<Rightarrow> string \<Rightarrow> DaemonSet \<Rightarrow> DaemonSet outcome" where
  "addHostMount name hostPath mountPath obj =
     updContainer 0
       (\<lambda>c. c\<lparr>ctrVolumeMounts := ctrVolumeMounts c @ [\<lparr>vmName = name, vmMountPath = mountPath\<rparr>]\<rparr>)
       (updPod (\<lambda>s. s\<lparr>podVolumes := podVolumes s @ [\<lparr>volName = name, volSource = HostPath hostPath\<rparr>]\<rparr>)
         obj)"

definition setImage :: "string \<Rightarrow> string \<Rightarrow> Container \<Rightarrow> Container" where
  "setImage img policy c = c\<lparr>ctrImage := img, ctrImagePullPolicy := policy\<rparr>"

definition setCommand :: "string \<Rightarrow> Container \<Rightarrow> Container" where
  "setCommand arg c = c\<lparr>ctrCommand := [''/bin/bash''], ctrArgs := [''-c'', arg]\<rparr>"

subsection \<open>The transformations\<close>

definition toolkitArgStrFmt :: "bool \<Rightarrow> string" where
  "toolkitArgStrFmt setAsDefault =
    (if setAsDefault
     then ''xilinx-container-toolkit install --install-dir %s --config-dir %s; xilinx-container-toolkit %s setup -p %s -r %s -c %s -s %s --set-as-default; while true; do sleep 3600; done''
     else ''xilinx-container-toolkit install --install-dir %s --config-dir %s; xilinx-container-toolkit %s setup -p %s -r %s -c %s -s %s; while true; do sleep 3600; done'')"

definition TransformContainerRuntime ::
    "DaemonSet \<Rightarrow> ClusterPolicySpec \<Rightarrow> ClusterPolicyController \<Rightarrow> (goerr option \<times> DaemonSet) outcome"
  where
  "TransformContainerRuntime obj config ctrl =
    (let cr = specContainerRuntime config;
         img = ImagePath (crRepository cr) (crImage cr) (crTag cr);
         installDir = (if crInstallDir cr \<noteq> [] then crInstallDir cr else DefaultXCRInstallDir);
         installDirMountPath = ''/host-usr/bin'';
         configDirMountPath = ''/host-etc/xilinx-container-runtime'';
         runtimeConfig = getRuntimeConfig (ctlRuntime ctrl);
         runtimeConfigMountPath = ''/runtime/config/'' @ base runtimeConfig;
         runtimeSocket = getRuntimeSocket (ctlRuntime ctrl);
         runtimeSocketMountPath = ''/runtime/socket/'' @ base runtimeSocket
     in
     obind (updContainer 0 (setImage img (ImagePullPolicy (crImagePullPolicy cr))) obj) (\<lambda>obj.
     let obj = addPullSecrets (crImagePullSecrets cr) obj in
     obind (updContainer 0 (setContainerEnvs (crEnv cr)) obj) (\<lambda>obj.
     obind (addHostMount ''install-dir'' installDir installDirMountPath obj) (\<lambda>obj.
     obind (addHostMount ''config-dir'' DefaultXCRConfigDir configDirMountPath obj) (\<lambda>obj.
     obind (addHostMount ''runtime-config'' runtimeConfig runtimeConfigMountPath obj) (\<lambda>obj.
     obind (addHostMount ''runtime-socket'' runtimeSocket runtimeSocketMountPath obj) (\<lambda>obj.
     obind (theSingleton ctrl) (\<lambda>p.
     let toolkitArg = sprintf (toolkitArgStrFmt (crSetAsDefault cr = Some True))
           [installDirMountPath, configDirMountPath, RuntimeString (ctlRuntime ctrl), installDir,
            getRuntimeClass (cpSpec p), runtimeConfigMountPath, runtimeSocketMountPath]
     in
     obind (updContainer 0 (setCommand toolkitArg) obj) (\<lambda>obj.
     Ret (None, setDaemonSetSelector obj fpgaNodeLabels))))))))))"

definition TransformDevicePlugin ::
    "DaemonSet \<Rightarrow> ClusterPolicySpec \<Rightarrow> ClusterPolicyController \<Rightarrow> (goerr option \<times> DaemonSet) outcome"
  where
  "TransformDevicePlugin obj config ctrl =
    (let dp = specDevicePlugin config;
         img = ImagePath (dpRepository dp) (dpImage dp) (dpTag dp) in
     obind (updContainer 0 (setImage img (ImagePullPolicy (dpImagePullPolicy dp))) obj) (\<lambda>obj.
     let obj = addPullSecrets (dpImagePullSecrets dp) obj in
     obind (updContainer 0 (setContainerEnvs (dpEnv dp)) obj) (\<lambda>obj.
     Ret (None, setDaemonSetSelector obj fpgaNodeLabels))))"

text \<open>The commands of the two init containers and of the main container of a host setup.\<close>

definition xrtInstallationStr :: "OsDistSetupSpec \<Rightarrow> string" where
  "xrtInstallationStr d =
    (if osXrmInstallation d = Some False
     then sprintf ''source ./host_setup.sh -y --skip-xrm-install --skip-shell-flash -v %s'' [osVersion d]
     else sprintf ''source ./host_setup.sh -y --skip-shell-flash -v %s; source ./xrm_setup.sh'' [osVersion d])"

definition cardFlashStr :: "OsDistSetupSpec \<Rightarrow> string" where
  "cardFlashStr d =
     sprintf ''source ./host_setup.sh -y --skip-xrt-install --skip-xrm-install -v %s'' [osVersion d]"

text \<open>
  \<open>multiSetupArgStr\<close>: the per-card command line, which the code assembles and does not use (the
  assignment that would is commented out).
\<close>

definition multiSetupArgStr :: "OsDistSetupSpec \<Rightarrow> string" where
  "multiSetupArgStr d =
     fold (\<lambda>card str. str @ cardFlashStr d @ '' -p '' @ card @ ''; '') (osCards d) []"

definition cardFlashArg :: "OsDistSetupSpec \<Rightarrow> string" where
  "cardFlashArg d =
    (if osShellFlashEnabled d = Some False then ''echo card flash is disabled'' else cardFlashStr d)"

definition setupCompleteArg :: string where
  "setupCompleteArg = ''echo host_setup complete, please refer to logs from init containers for further steps; while true; do sleep 3600; done''"

text \<open>The OS test of the loop: the entry's ID and major version against the template's node selector.\<close>

definition osDistMatches :: "strmap \<Rightarrow> OsDistSetupSpec \<Rightarrow> bool" where
  "osDistMatches selector d \<longleftrightarrow>
     equalFold (osId d) (mapGet selector nfdLabelOSReleaseID) \<and>
     equalFold (osMajorVersion d) (mapGet selector nfdLabelOsMajorVersion)"

text \<open>The body of the loop, for the entry that matches.\<close>

definition applyOsDist :: "OsDistSetupSpec \<Rightarrow> DaemonSet \<Rightarrow> (goerr option \<times> DaemonSet) outcome" where
  "applyOsDist d obj =
    (let img = ImagePath (osRepository d) (osImage d) (osTag d);
         imagePullPolicy = ImagePullPolicy (osImagePullPolicy d) in
     obind (updInitContainer 0 (setImage img imagePullPolicy) obj) (\<lambda>obj.
     obind (updInitContainer 1 (setImage img imagePullPolicy) obj) (\<lambda>obj.
     obind (updContainer 0 (setImage img imagePullPolicy) obj) (\<lambda>obj.
     let obj = addPullSecrets (osImagePullSecrets d) obj in
     obind (updInitContainer 0 (setCommand (xrtInstallationStr d)) obj) (\<lambda>obj.
     obind (updInitContainer 1 (setCommand (cardFlashArg d)) obj) (\<lambda>obj.
     obind (updContainer 0 (setCommand setupCompleteArg) obj) (\<lambda>obj.
     Ret (None, obj))))))))"

fun hostSetupLoop :: "strmap \<Rightarrow> OsDistSetupSpec list \<Rightarrow> DaemonSet \<Rightarrow> (goerr option \<times> DaemonSet) outcome"
  where
  "hostSetupLoop selector [] obj = Ret (Some NoSpecError, obj)"
| "hostSetupLoop selector (d # ds) obj =
     (if osDistMatches selector d then applyOsDist d obj else hostSetupLoop selector ds obj)"

definition TransformHostSetup ::
    "DaemonSet \<Rightarrow> ClusterPolicySpec \<Rightarrow> ClusterPolicyController \<Rightarrow> (goerr option \<times> DaemonSet) outcome"
  where
  "TransformHostSetup obj config ctrl =
    (case podNodeSelector (dsPod obj) of
       None \<Rightarrow> Ret (Some (FmtError ''node selector of OS ID and version is missing''), obj)
     | Some selector \<Rightarrow> hostSetupLoop selector (hsOsDists (specHostSetup config)) obj)"

subsection \<open>Choosing the transformation\<close>

datatype transformation = TContainerRuntime | TDevicePlugin | THostSetup

definition transformations :: "(string \<times> transformation) list" where
  "transformations =
    [(''xilinx-container-runtime-daemonset'', TContainerRuntime),
     (''device-plugin-daemonset'', TDevicePlugin),
     (''host-setup-ubuntu18-daemonset'', THostSetup),
     (''host-setup-ubuntu20-daemonset'', THostSetup),
     (''host-setup-ubuntu22-daemonset'', THostSetup),
     (''host-setup-al2-daemonset'', THostSetup),
     (''host-setup-centos7-daemonset'', THostSetup),
     (''host-setup-centos8-daemonset'', THostSetup)]"

definition runTransformation ::
    "transformation \<Rightarrow> DaemonSet \<Rightarrow> ClusterPolicySpec \<Rightarrow> ClusterPolicyController \<Rightarrow> (goerr option \<times> DaemonSet) outcome"
  where
  "runTransformation t = (case t of
     TContainerRuntime \<Rightarrow> TransformContainerRuntime
   | TDevicePlugin \<Rightarrow> TransformDevicePlugin
   | THostSetup \<Rightarrow> TransformHostSetup)"

definition preProcessDaemonSet ::
    "DaemonSet \<Rightarrow> ClusterPolicyController \<Rightarrow> (goerr option \<times> DaemonSet) outcome" where
  "preProcessDaemonSet obj ctrl =
    (case map_of transformations (dsName obj) of
       None \<Rightarrow> Ret (None, obj)
     | Some t \<Rightarrow> obind (theSingleton ctrl) (\<lambda>p. runTransformation t obj (cpSpec p) ctrl))"

subsection \<open>Edits: lemmas\<close>

lemma updPod_id_fields [simp]:
  "dsMeta (updPod f obj) = dsMeta obj"
  "dsOther (updPod f obj) = dsOther obj"
  "dsNumberUnavailable (updPod f obj) = dsNumberUnavailable obj"
  "dsPod (updPod f obj) = f (dsPod obj)"
  by (simp_all add: updPod_def)

lemma updPod_updPod [simp]: "updPod f (updPod g obj) = updPod (\<lambda>s. f (g s)) obj"
  by (simp add: updPod_def)

lemma updContainer_Cons:
  "podContainers (dsPod obj) = c # cs \<Longrightarrow>
   updContainer 0 f obj = Ret (updPod (\<lambda>s. s\<lparr>podContainers := f c # cs\<rparr>) obj)"
  by (simp add: updContainer_def updP_def)

lemma updContainer_Nil:
  "podContainers (dsPod obj) = [] \<Longrightarrow> updContainer 0 f obj = Panic index_panic"
  by (simp add: updContainer_def updP_def)

lemma updInitContainer_0:
  "podInitContainers (dsPod obj) = c # cs \<Longrightarrow>
   updInitContainer 0 f obj = Ret (updPod (\<lambda>s. s\<lparr>podInitContainers := f c # cs\<rparr>) obj)"
  by (simp add: updInitContainer_def updP_def)

lemma updInitContainer_1:
  "podInitContainers (dsPod obj) = c # d # cs \<Longrightarrow>
   updInitContainer 1 f obj = Ret (updPod (\<lambda>s. s\<lparr>podInitContainers := c # f d # cs\<rparr>) obj)"
  by (simp add: updInitContainer_def updP_def)

lemma addPullSecrets_eq:
  "addPullSecrets secrets obj =
     updPod (\<lambda>s. s\<lparr>podImagePullSecrets := podImagePullSecrets s @ secrets\<rparr>) obj"
  unfolding addPullSecrets_def
  by (induction secrets arbitrary: obj) (simp_all add: updPod_def)

lemma addHostMount_Cons:
  "podContainers (dsPod obj) = c # cs \<Longrightarrow>
   addHostMount n h m obj = Ret (updPod (\<lambda>s. s\<lparr>
     podVolumes := podVolumes s @ [\<lparr>volName = n, volSource = HostPath h\<rparr>],
     podContainers :=
       c\<lparr>ctrVolumeMounts := ctrVolumeMounts c @ [\<lparr>vmName = n, vmMountPath = m\<rparr>]\<rparr> # cs\<rparr>) obj)"
  by (simp add: addHostMount_def updContainer_Cons)

text \<open>The value a container sees for a variable: that of the first entry of the name.\<close>

definition envLookup :: "EnvVar list \<Rightarrow> string \<Rightarrow> string option" where
  "envLookup es key = map_option envValue (find (\<lambda>e. envName e = key) es)"

lemma envLookup_setEnv: "envLookup (setEnv es key v) k = (if k = key then Some v else envLookup es k)"
  by (induction es) (auto simp: envLookup_def)

lemma names_setEnv:
  "map envName (setEnv es key v) =
     (if key \<in> set (map envName es) then map envName es else map envName es @ [key])"
  by (induction es) auto

lemma setContainerEnvs_simps [simp]:
  "setContainerEnvs [] c = c"
  "setContainerEnvs (e # es) c =
     setContainerEnvs es (c\<lparr>ctrEnv := setEnv (ctrEnv c) (envName e) (envValue e)\<rparr>)"
  by (simp_all add: setContainerEnvs_def setContainerEnv_def)

lemma setContainerEnvs_eq:
  "setContainerEnvs es c =
     c\<lparr>ctrEnv := fold (\<lambda>e env. setEnv env (envName e) (envValue e)) es (ctrEnv c)\<rparr>"
  by (induction es arbitrary: c) simp_all

text \<open>Applying a policy's environment: the policy's last value of a name wins, the rest stays.\<close>

lemma envLookup_setContainerEnvs:
  "envLookup (ctrEnv (setContainerEnvs es c)) k =
     (case envLookup (rev es) k of Some v \<Rightarrow> Some v | None \<Rightarrow> envLookup (ctrEnv c) k)"
proof (induction es arbitrary: c)
  case Nil
  then show ?case by (simp add: envLookup_def)
next
  case (Cons e es)
  have "envLookup (rev es @ [e]) k =
    (case envLookup (rev es) k of Some v \<Rightarrow> Some v
     | None \<Rightarrow> if k = envName e then Some (envValue e) else None)"
    by (auto simp: envLookup_def find_append split: option.split)
  then show ?case
    by (simp add: Cons.IH envLookup_setEnv split: option.split)
qed

lemma setContainerEnvs_fields [simp]:
  "ctrName (setContainerEnvs es c) = ctrName c"
  "ctrImage (setContainerEnvs es c) = ctrImage c"
  "ctrImagePullPolicy (setContainerEnvs es c) = ctrImagePullPolicy c"
  "ctrCommand (setContainerEnvs es c) = ctrCommand c"
  "ctrArgs (setContainerEnvs es c) = ctrArgs c"
  "ctrVolumeMounts (setContainerEnvs es c) = ctrVolumeMounts c"
  "ctrOther (setContainerEnvs es c) = ctrOther c"
  by (simp_all add: setContainerEnvs_eq)

lemma setImage_fields [simp]:
  "ctrName (setImage i p c) = ctrName c" "ctrImage (setImage i p c) = i"
  "ctrImagePullPolicy (setImage i p c) = p" "ctrOther (setImage i p c) = ctrOther c"
  "ctrEnv (setImage i p c) = ctrEnv c" "ctrVolumeMounts (setImage i p c) = ctrVolumeMounts c"
  "ctrCommand (setImage i p c) = ctrCommand c" "ctrArgs (setImage i p c) = ctrArgs c"
  by (simp_all add: setImage_def)

lemma setCommand_fields [simp]:
  "ctrName (setCommand a c) = ctrName c" "ctrImage (setCommand a c) = ctrImage c"
  "ctrImagePullPolicy (setCommand a c) = ctrImagePullPolicy c"
  "ctrOther (setCommand a c) = ctrOther c" "ctrEnv (setCommand a c) = ctrEnv c"
  "ctrVolumeMounts (setCommand a c) = ctrVolumeMounts c"
  "ctrCommand (setCommand a c) = [''/bin/bash'']" "ctrArgs (setCommand a c) = [''-c'', a]"
  by (simp_all add: setCommand_def)

subsection \<open>The contract of a transformation\<close>

text \<open>
  The shape of a DaemonSet: what no transformation may change, that is its metadata and status,
  the opaque rest of its spec, and the number, names and opaque rest of its containers.
\<close>

definition ctrShape :: "Container \<Rightarrow> string \<times> string" where
  "ctrShape c = (ctrName c, ctrOther c)"

definition shape :: "DaemonSet \<Rightarrow> ObjectMeta \<times> string \<times> 32 word \<times> string \<times> (string \<times> string) list \<times> (string \<times> string) list" where
  "shape d = (dsMeta d, dsOther d, dsNumberUnavailable d, podOther (dsPod d),
     map ctrShape (podContainers (dsPod d)), map ctrShape (podInitContainers (dsPod d)))"

lemma shape_updContainer:
  assumes "updContainer i f obj = Ret obj'" and "\<And>c. ctrShape (f c) = ctrShape c"
  shows "shape obj' = shape obj"
  using assms by (auto simp: updContainer_def shape_def map_list_update_id)

lemma shape_updInitContainer:
  assumes "updInitContainer i f obj = Ret obj'" and "\<And>c. ctrShape (f c) = ctrShape c"
  shows "shape obj' = shape obj"
  using assms by (auto simp: updInitContainer_def shape_def map_list_update_id)

lemma ctrShape_edits [simp]:
  "ctrShape (setImage i p c) = ctrShape c"
  "ctrShape (setCommand a c) = ctrShape c"
  "ctrShape (setContainerEnvs es c) = ctrShape c"
  by (simp_all add: ctrShape_def)

lemma shape_addPullSecrets [simp]: "shape (addPullSecrets ss obj) = shape obj"
  by (simp add: shape_def addPullSecrets_eq)

lemma shape_setDaemonSetSelector [simp]: "shape (setDaemonSetSelector obj labels) = shape obj"
  by (auto simp: shape_def setDaemonSetSelector_def split: option.split)

lemma shape_addHostMount: "addHostMount n h m obj = Ret obj' \<Longrightarrow> shape obj' = shape obj"
  unfolding addHostMount_def
  by (drule shape_updContainer) (auto simp: ctrShape_def shape_def)

lemmas shape_edits =
  shape_updContainer [OF _ ctrShape_edits(1)] shape_updContainer [OF _ ctrShape_edits(2)]
  shape_updContainer [OF _ ctrShape_edits(3)] shape_addHostMount
  shape_updInitContainer [OF _ ctrShape_edits(1)] shape_updInitContainer [OF _ ctrShape_edits(2)]

lemma shape_applyOsDist: "applyOsDist d obj = Ret (e, obj') \<Longrightarrow> shape obj' = shape obj \<and> e = None"
  by (auto simp: applyOsDist_def Let_def dest!: shape_edits)

lemma hostSetupLoop_cases:
  "hostSetupLoop sel ds obj =
     (case find (osDistMatches sel) ds of
        None \<Rightarrow> Ret (Some NoSpecError, obj)
      | Some d \<Rightarrow> applyOsDist d obj)"
  by (induction ds) auto

locale manifest_transformation =
  fixes T :: "DaemonSet \<Rightarrow> ClusterPolicySpec \<Rightarrow> ClusterPolicyController \<Rightarrow> (goerr option \<times> DaemonSet) outcome"
  assumes success_shape: "T obj cfg c = Ret (None, obj') \<Longrightarrow> shape obj' = shape obj"
    and error_unchanged: "T obj cfg c = Ret (Some e, obj') \<Longrightarrow> obj' = obj"
    and error_local: "T obj cfg c = Ret (Some e, obj') \<Longrightarrow> \<not> isNotFound e"
begin

lemma keeps_shape: "T obj cfg c = Ret (e, obj') \<Longrightarrow> shape obj' = shape obj"
  by (cases e) (auto dest: success_shape error_unchanged)

lemma keeps_meta: "T obj cfg c = Ret (e, obj') \<Longrightarrow> dsMeta obj' = dsMeta obj"
  using keeps_shape by (fastforce simp: shape_def)

lemma keeps_counts:
  "T obj cfg c = Ret (e, obj') \<Longrightarrow>
   length (podContainers (dsPod obj')) = length (podContainers (dsPod obj)) \<and>
   length (podInitContainers (dsPod obj')) = length (podInitContainers (dsPod obj))"
  using keeps_shape by (fastforce simp: shape_def dest: map_eq_imp_length_eq)

end

interpretation cr_transform: manifest_transformation TransformContainerRuntime
  by unfold_locales (auto simp: TransformContainerRuntime_def Let_def dest!: shape_edits)

interpretation dp_transform: manifest_transformation TransformDevicePlugin
  by unfold_locales (auto simp: TransformDevicePlugin_def Let_def dest!: shape_edits)

interpretation hs_transform: manifest_transformation TransformHostSetup
  by unfold_locales
    (auto simp: TransformHostSetup_def hostSetupLoop_cases dest: shape_applyOsDist split: option.splits)

text \<open>The dispatcher keeps the contract because every transformation it can choose does.\<close>

interpretation pp_transform: manifest_transformation "\<lambda>obj cfg c. preProcessDaemonSet obj c"
proof
  fix obj c obj' e
  show "preProcessDaemonSet obj c = Ret (None, obj') \<Longrightarrow> shape obj' = shape obj"
    by (auto simp: preProcessDaemonSet_def runTransformation_def split: option.splits transformation.splits
      dest: cr_transform.keeps_shape dp_transform.keeps_shape hs_transform.keeps_shape)
  show "preProcessDaemonSet obj c = Ret (Some e, obj') \<Longrightarrow> obj' = obj"
    by (auto simp: preProcessDaemonSet_def runTransformation_def split: option.splits transformation.splits
      dest: cr_transform.error_unchanged dp_transform.error_unchanged hs_transform.error_unchanged)
  show "preProcessDaemonSet obj c = Ret (Some e, obj') \<Longrightarrow> \<not> isNotFound e"
    by (auto simp: preProcessDaemonSet_def runTransformation_def split: option.splits transformation.splits
      dest: cr_transform.error_local dp_transform.error_local hs_transform.error_local)
qed

end
