(* ===== verification/TransformSpec.thy ===== *)
theory TransformSpec
  imports Transforms Samples
begin

section \<open>What the transformations do\<close>

text \<open>
  The functional behaviour of the transformations of theory \<open>Transforms\<close> on every branch: the
  edited object written out, the errors, the panics, and the settings that have no effect.
\<close>

text \<open>The shell command of the container-runtime container.\<close>

definition toolkitCommand :: "ContainerRuntimeSpec \<Rightarrow> Runtime \<Rightarrow> string \<Rightarrow> string" where
  "toolkitCommand cr rt runtimeClass =
     ''xilinx-container-toolkit install --install-dir /host-usr/bin'' @
     '' --config-dir /host-etc/xilinx-container-runtime; xilinx-container-toolkit '' @
     RuntimeString rt @
     '' setup -p '' @ (if crInstallDir cr \<noteq> [] then crInstallDir cr else ''/usr/bin'') @
     '' -r '' @ runtimeClass @
     '' -c /runtime/config/'' @ base (getRuntimeConfig rt) @
     '' -s /runtime/socket/'' @ base (getRuntimeSocket rt) @
     (if crSetAsDefault cr = Some True then '' --set-as-default'' else []) @
     ''; while true; do sleep 3600; done''"

lemma sprintf_toolkit:
  "sprintf (toolkitArgStrFmt b)
     [''/host-usr/bin'', ''/host-etc/xilinx-container-runtime'', r, d, k, c, s] =
     ''xilinx-container-toolkit install --install-dir /host-usr/bin'' @
     '' --config-dir /host-etc/xilinx-container-runtime; xilinx-container-toolkit '' @ r @
     '' setup -p '' @ d @ '' -r '' @ k @ '' -c '' @ c @ '' -s '' @ s @
     (if b then '' --set-as-default'' else []) @ ''; while true; do sleep 3600; done''"
  by (simp add: toolkitArgStrFmt_def)

lemma sprintf_toolkitCommand:
  assumes "d = (if crInstallDir cr \<noteq> [] then crInstallDir cr else ''/usr/bin'')"
    and "c = ''/runtime/config/'' @ base (getRuntimeConfig rt)"
    and "s = ''/runtime/socket/'' @ base (getRuntimeSocket rt)"
  shows "sprintf (toolkitArgStrFmt (crSetAsDefault cr = Some True))
     [''/host-usr/bin'', ''/host-etc/xilinx-container-runtime'', RuntimeString rt, d, k, c, s] =
     toolkitCommand cr rt k"
  unfolding sprintf_toolkit toolkitCommand_def assms by simp

text \<open>The mounts the container-runtime DaemonSet gets: name, path on the host, path in the container.\<close>

definition toolkitMounts :: "ContainerRuntimeSpec \<Rightarrow> Runtime \<Rightarrow> (string \<times> string \<times> string) list" where
  "toolkitMounts cr rt =
    [(''install-dir'', if crInstallDir cr \<noteq> [] then crInstallDir cr else ''/usr/bin'', ''/host-usr/bin''),
     (''config-dir'', ''/etc/xilinx-container-runtime'', ''/host-etc/xilinx-container-runtime''),
     (''runtime-config'', getRuntimeConfig rt, ''/runtime/config/'' @ base (getRuntimeConfig rt)),
     (''runtime-socket'', getRuntimeSocket rt, ''/runtime/socket/'' @ base (getRuntimeSocket rt))]"

lemma setDaemonSetSelector_lookup:
  "\<exists>sel. podNodeSelector (dsPod (setDaemonSetSelector obj fpgaNodeLabels)) = Some sel \<and>
     map_of sel = (case podNodeSelector (dsPod obj) of None \<Rightarrow> Map.empty | Some m \<Rightarrow> map_of m) ++
       map_of fpgaNodeLabels"
  by (auto simp: setDaemonSetSelector_def map_of_mapSetAll fpgaNodeLabels_def split: option.split)

lemma setDaemonSetSelector_fpga:
  "\<exists>sel. podNodeSelector (dsPod (setDaemonSetSelector obj fpgaNodeLabels)) = Some sel \<and>
     mapGet sel ''feature.node.kubernetes.io/pci-1200_10ee.present'' = ''true''"
  using setDaemonSetSelector_lookup [of obj] by (auto simp: mapGet_def fpgaNodeLabels_def)

lemma setDaemonSetSelector_pod [simp]:
  "podContainers (dsPod (setDaemonSetSelector obj l)) = podContainers (dsPod obj)"
  "podInitContainers (dsPod (setDaemonSetSelector obj l)) = podInitContainers (dsPod obj)"
  "podVolumes (dsPod (setDaemonSetSelector obj l)) = podVolumes (dsPod obj)"
  "podImagePullSecrets (dsPod (setDaemonSetSelector obj l)) = podImagePullSecrets (dsPod obj)"
  by (auto simp: setDaemonSetSelector_def split: option.split)

text \<open>
  C20: The container-runtime transformation gives the first container the image and pull policy
  of the policy and the toolkit command line with every argument in its place, appends the four
  host mounts to the volumes and to the container, appends the pull secrets, and restricts the
  pods to nodes with an FPGA.
\<close>

theorem TransformContainerRuntime_result:
  assumes "podContainers (dsPod obj) = c # cs" and "ctlSingleton ctrl = Some p"
    and "cr = specContainerRuntime (cpSpec p)"
  shows "\<exists>obj' c' sel. TransformContainerRuntime obj (cpSpec p) ctrl = Ret (None, obj') \<and>
    podContainers (dsPod obj') = c' # cs \<and>
    ctrImage c' = ImagePath (crRepository cr) (crImage cr) (crTag cr) \<and>
    ctrImagePullPolicy c' = ImagePullPolicy (crImagePullPolicy cr) \<and>
    ctrCommand c' = [''/bin/bash''] \<and>
    ctrArgs c' = [''-c'', toolkitCommand cr (ctlRuntime ctrl) (getRuntimeClass (cpSpec p))] \<and>
    podVolumes (dsPod obj') = podVolumes (dsPod obj) @
      map (\<lambda>(n, h, m). \<lparr>volName = n, volSource = HostPath h\<rparr>) (toolkitMounts cr (ctlRuntime ctrl)) \<and>
    ctrVolumeMounts c' = ctrVolumeMounts c @
      map (\<lambda>(n, h, m). \<lparr>vmName = n, vmMountPath = m\<rparr>) (toolkitMounts cr (ctlRuntime ctrl)) \<and>
    podImagePullSecrets (dsPod obj') = podImagePullSecrets (dsPod obj) @ crImagePullSecrets cr \<and>
    podNodeSelector (dsPod obj') = Some sel \<and>
    mapGet sel ''feature.node.kubernetes.io/pci-1200_10ee.present'' = ''true''"
  using assms
  by (simp add: TransformContainerRuntime_def Let_def updContainer_Cons addPullSecrets_eq
      addHostMount_Cons sprintf_toolkitCommand setDaemonSetSelector_fpga
      toolkitMounts_def DefaultXCRConfigDir_def DefaultXCRInstallDir_def)

theorem TransformContainerRuntime_result_witness:
  "podContainers (dsPod sampleRuntimeDS) = [sampleContainer ''xilinx-container-runtime''] \<and>
   (\<exists>obj' c' sel. TransformContainerRuntime sampleRuntimeDS samplePolicySpec
      (zeroController\<lparr>ctlSingleton := Some samplePolicy, ctlRuntime := Containerd\<rparr>) = Ret (None, obj') \<and>
    podContainers (dsPod obj') = [c'] \<and>
    podNodeSelector (dsPod obj') = Some sel \<and>
    mapGet sel ''feature.node.kubernetes.io/pci-1200_10ee.present'' = ''true'')"
  using TransformContainerRuntime_result [OF samples_simps(1) _ refl, of
      "zeroController\<lparr>ctlSingleton := Some samplePolicy, ctlRuntime := Containerd\<rparr>" samplePolicy]
  by (auto simp: samples_simps samplePolicy_def)

text \<open>
  C22: The device-plugin transformation sets image and pull policy, appends the pull secrets,
  restricts the pods to nodes with an FPGA, leaves command and mounts alone, and lets the last
  value the policy has for an environment variable win over the value of the template.
\<close>

theorem TransformDevicePlugin_result:
  assumes "podContainers (dsPod obj) = c # cs" and "dp = specDevicePlugin cfg"
  shows "\<exists>obj' c' sel. TransformDevicePlugin obj cfg ctrl = Ret (None, obj') \<and>
    podContainers (dsPod obj') = c' # cs \<and>
    ctrImage c' = ImagePath (dpRepository dp) (dpImage dp) (dpTag dp) \<and>
    ctrImagePullPolicy c' = ImagePullPolicy (dpImagePullPolicy dp) \<and>
    ctrCommand c' = ctrCommand c \<and> ctrArgs c' = ctrArgs c \<and>
    ctrVolumeMounts c' = ctrVolumeMounts c \<and> podVolumes (dsPod obj') = podVolumes (dsPod obj) \<and>
    (\<forall>k. envLookup (ctrEnv c') k =
      (case envLookup (rev (dpEnv dp)) k of Some v \<Rightarrow> Some v | None \<Rightarrow> envLookup (ctrEnv c) k)) \<and>
    podImagePullSecrets (dsPod obj') = podImagePullSecrets (dsPod obj) @ dpImagePullSecrets dp \<and>
    podNodeSelector (dsPod obj') = Some sel \<and>
    mapGet sel ''feature.node.kubernetes.io/pci-1200_10ee.present'' = ''true''"
  using assms
  by (simp add: TransformDevicePlugin_def Let_def updContainer_Cons addPullSecrets_eq
      setDaemonSetSelector_fpga envLookup_setContainerEnvs cong: option.case_cong)

theorem TransformDevicePlugin_result_witness:
  "\<exists>obj' c'. TransformDevicePlugin samplePluginDS samplePolicySpec zeroController = Ret (None, obj') \<and>
     podContainers (dsPod obj') = [c'] \<and>
     envLookup (ctrEnv c') ''U30AllocUnit'' = Some ''Device'' \<and>
     envLookup (ctrEnv c') ''U30NameConvention'' = Some ''CommonName''"
proof -
  from TransformDevicePlugin_result [OF samples_simps(2) refl, of samplePolicySpec zeroController]
  obtain obj' c' where 1: "TransformDevicePlugin samplePluginDS samplePolicySpec zeroController = Ret (None, obj')"
      "podContainers (dsPod obj') = [c']"
    and 2: "\<forall>k. envLookup (ctrEnv c') k =
      (case envLookup (rev (dpEnv (specDevicePlugin samplePolicySpec))) k of Some v \<Rightarrow> Some v
       | None \<Rightarrow> envLookup (ctrEnv samplePluginCtr) k)"
    by blast
  have "envLookup (ctrEnv c') ''U30AllocUnit'' = Some ''Device''"
    "envLookup (ctrEnv c') ''U30NameConvention'' = Some ''CommonName''"
    unfolding 2 [THEN spec] by (simp_all add: envLookup_def samplePolicySpec_def samplePluginCtr_def)
  with 1 show ?thesis by blast
qed

text \<open>
  C21: The host-setup transformation applies the first entry of the policy whose OS ID and major
  version match the node selector of the template: the object it returns is written out, with
  the image in all three containers, the XRT and XRM installation command, the flash command or
  its replacement, and the pull secrets.
\<close>

theorem TransformHostSetup_result:
  assumes "podNodeSelector (dsPod obj) = Some sel"
    and "find (osDistMatches sel) (hsOsDists (specHostSetup cfg)) = Some d"
    and "podInitContainers (dsPod obj) = i0 # i1 # is" and "podContainers (dsPod obj) = c # cs"
    and "img = ImagePath (osRepository d) (osImage d) (osTag d)"
    and "pol = ImagePullPolicy (osImagePullPolicy d)"
  shows "TransformHostSetup obj cfg ctrl = Ret (None, updPod (\<lambda>s. s\<lparr>
    podInitContainers :=
      i0\<lparr>ctrImage := img, ctrImagePullPolicy := pol, ctrCommand := [''/bin/bash''],
        ctrArgs := [''-c'', if osXrmInstallation d = Some False
          then ''source ./host_setup.sh -y --skip-xrm-install --skip-shell-flash -v '' @ osVersion d
          else ''source ./host_setup.sh -y --skip-shell-flash -v '' @ osVersion d @ ''; source ./xrm_setup.sh'']\<rparr> #
      i1\<lparr>ctrImage := img, ctrImagePullPolicy := pol, ctrCommand := [''/bin/bash''],
        ctrArgs := [''-c'', if osShellFlashEnabled d = Some False then ''echo card flash is disabled''
          else ''source ./host_setup.sh -y --skip-xrt-install --skip-xrm-install -v '' @ osVersion d]\<rparr> # is,
    podContainers := c\<lparr>ctrImage := img, ctrImagePullPolicy := pol, ctrCommand := [''/bin/bash''],
        ctrArgs := [''-c'', setupCompleteArg]\<rparr> # cs,
    podImagePullSecrets := podImagePullSecrets s @ osImagePullSecrets d\<rparr>) obj)"
proof -
  have x: "xrtInstallationStr d = (if osXrmInstallation d = Some False
      then ''source ./host_setup.sh -y --skip-xrm-install --skip-shell-flash -v '' @ osVersion d
      else ''source ./host_setup.sh -y --skip-shell-flash -v '' @ osVersion d @ ''; source ./xrm_setup.sh'')"
    by (simp add: xrtInstallationStr_def)
  have f: "cardFlashArg d = (if osShellFlashEnabled d = Some False then ''echo card flash is disabled''
      else ''source ./host_setup.sh -y --skip-xrt-install --skip-xrm-install -v '' @ osVersion d)"
    by (simp add: cardFlashArg_def cardFlashStr_def)
  show ?thesis
    unfolding x [symmetric] f [symmetric] using assms
    by (simp add: TransformHostSetup_def hostSetupLoop_cases applyOsDist_def Let_def updContainer_Cons
        updInitContainer_0 updInitContainer_1 [unfolded One_nat_def] addPullSecrets_eq setImage_def
        setCommand_def updPod_def)
qed

lemma sample_osDist:
  "find (osDistMatches (sampleSelector ''centos'' ''7'')) (hsOsDists (specHostSetup samplePolicySpec)) =
     Some (hsOsDists (specHostSetup samplePolicySpec) ! 1)"
  by code_simp

theorem TransformHostSetup_result_witness:
  "\<exists>obj' i0. TransformHostSetup sampleHostSetupDS samplePolicySpec zeroController = Ret (None, obj') \<and>
     hd (podInitContainers (dsPod obj')) = i0 \<and>
     ctrImage i0 = ''public.ecr.aws/xilinx_dcg/host-setup:centos7.9'' \<and>
     ctrArgs i0 = [''-c'', ''source ./host_setup.sh -y --skip-shell-flash -v 2023.1; source ./xrm_setup.sh'']"
  unfolding TransformHostSetup_result [OF samples_simps(5) sample_osDist samples_simps(4,3) refl refl]
  by (simp add: samplePolicySpec_def ImagePath_def)

text \<open>
  C33: The host-setup transformation reports NoSpecError, with the object unchanged, exactly
  when the template has a node selector and no entry of the policy matches it, and a formatted
  error exactly when the template has no node selector.
\<close>

theorem TransformHostSetup_no_spec:
  "(TransformHostSetup obj cfg ctrl = Ret (Some NoSpecError, obj) \<longleftrightarrow>
     (\<exists>sel. podNodeSelector (dsPod obj) = Some sel \<and>
       find (osDistMatches sel) (hsOsDists (specHostSetup cfg)) = None)) \<and>
   (podNodeSelector (dsPod obj) = None \<longleftrightarrow>
     (\<exists>msg obj'. TransformHostSetup obj cfg ctrl = Ret (Some (FmtError msg), obj')))"
  by (auto simp: TransformHostSetup_def hostSetupLoop_cases dest: shape_applyOsDist split: option.splits)

text \<open>
  C39: The list of cards of a host-setup entry has no effect: policies that differ only in it
  give the same DaemonSet.
\<close>

theorem TransformHostSetup_ignores_cards:
  "TransformHostSetup obj (cfg\<lparr>specHostSetup := (specHostSetup cfg)\<lparr>hsOsDists :=
      map (\<lambda>d. d\<lparr>osCards := cards d\<rparr>) (hsOsDists (specHostSetup cfg))\<rparr>\<rparr>) ctrl =
   TransformHostSetup obj cfg ctrl"
proof -
  have 1: "osDistMatches sel (d\<lparr>osCards := cs\<rparr>) = osDistMatches sel d" for sel d cs
    by (simp add: osDistMatches_def)
  have 2: "applyOsDist (d\<lparr>osCards := cs\<rparr>) o' = applyOsDist d o'" for d cs o'
    by (simp add: applyOsDist_def xrtInstallationStr_def cardFlashArg_def cardFlashStr_def)
  have "hostSetupLoop sel (map (\<lambda>d. d\<lparr>osCards := cards d\<rparr>) ds) o' = hostSetupLoop sel ds o'" for sel ds o'
    by (induction ds) (simp_all add: 1 2)
  then show ?thesis
    by (simp add: TransformHostSetup_def split: option.split)
qed



lemma updContainer_0_panics: "updContainer 0 f obj = Panic q \<longleftrightarrow> podContainers (dsPod obj) = [] \<and> q = index_panic"
  by (auto simp: updContainer_def updP_def)

text \<open>
  C24: Preprocessing a template panics exactly when its transformation writes to a container the
  template does not have: the first container for the container runtime and the device plugin,
  that one or the first two init containers for a host setup with a matching entry. A DaemonSet
  without a transformation never panics.
\<close>

theorem preProcessDaemonSet_panics_iff:
  assumes "ctlSingleton ctrl = Some p"
  shows "\<not> returns (preProcessDaemonSet obj ctrl) \<longleftrightarrow>
    (case map_of transformations (dsName obj) of
       None \<Rightarrow> False
     | Some THostSetup \<Rightarrow>
         (\<exists>sel d. podNodeSelector (dsPod obj) = Some sel \<and>
           find (osDistMatches sel) (hsOsDists (specHostSetup (cpSpec p))) = Some d) \<and>
         (length (podInitContainers (dsPod obj)) < 2 \<or> podContainers (dsPod obj) = [])
     | Some _ \<Rightarrow> podContainers (dsPod obj) = [])"
proof -
  have cr: "returns (TransformContainerRuntime obj (cpSpec p) ctrl) \<longleftrightarrow> podContainers (dsPod obj) \<noteq> []"
  proof (cases "podContainers (dsPod obj)")
    case Nil
    then show ?thesis by (simp add: TransformContainerRuntime_def Let_def updContainer_Nil)
  next
    case (Cons c cs)
    then show ?thesis
      using assms by (simp add: TransformContainerRuntime_def Let_def updContainer_Cons addPullSecrets_eq addHostMount_Cons)
  qed
  have dp: "returns (TransformDevicePlugin obj (cpSpec p) ctrl) \<longleftrightarrow> podContainers (dsPod obj) \<noteq> []"
  proof (cases "podContainers (dsPod obj)")
    case Nil
    then show ?thesis by (simp add: TransformDevicePlugin_def Let_def updContainer_Nil)
  next
    case (Cons c cs)
    then show ?thesis by (simp add: TransformDevicePlugin_def Let_def updContainer_Cons addPullSecrets_eq)
  qed
  have od: "returns (applyOsDist d obj) \<longleftrightarrow>
      2 \<le> length (podInitContainers (dsPod obj)) \<and> podContainers (dsPod obj) \<noteq> []" for d
    by (auto simp: applyOsDist_def Let_def updContainer_def updInitContainer_def updP_def addPullSecrets_eq
        updPod_def split: if_splits)
  show ?thesis
    using assms cr dp od
    by (auto simp: preProcessDaemonSet_def runTransformation_def TransformHostSetup_def hostSetupLoop_cases
        split: option.splits transformation.splits)
qed

theorem preProcessDaemonSet_panics_iff_witness:
  "\<not> returns (preProcessDaemonSet (updPod (\<lambda>s. s\<lparr>podInitContainers := []\<rparr>) sampleHostSetupDS)
      (zeroController\<lparr>ctlSingleton := Some samplePolicy\<rparr>))"
proof -
  have "dsName sampleHostSetupDS = ''host-setup-centos7-daemonset''"
    by (simp add: sampleHostSetupDS_def sampleDaemonSet_def)
  then show ?thesis
    by (subst preProcessDaemonSet_panics_iff [where p = samplePolicy])
      (simp_all add: transformations_def samples_simps sample_osDist)
qed

text \<open>
  C34: Every transformation keeps what identifies a DaemonSet: its metadata, the parts of its
  spec the operator does not know, and the number, order and names of its containers; with an
  error it changes nothing at all.
\<close>

theorem preProcessDaemonSet_keeps:
  assumes "preProcessDaemonSet obj ctrl = Ret (err, obj')"
  shows "dsMeta obj' = dsMeta obj \<and> dsOther obj' = dsOther obj \<and> podOther (dsPod obj') = podOther (dsPod obj) \<and>
    map ctrName (podContainers (dsPod obj')) = map ctrName (podContainers (dsPod obj)) \<and>
    map ctrName (podInitContainers (dsPod obj')) = map ctrName (podInitContainers (dsPod obj)) \<and>
    (err = None \<or> obj' = obj)"
proof -
  have names: "map ctrName cs = map fst (map ctrShape cs)" for cs
    by (simp add: ctrShape_def)
  from pp_transform.keeps_shape [OF assms] have "shape obj' = shape obj" .
  moreover from assms pp_transform.error_unchanged [of obj ctrl] have "err = None \<or> obj' = obj"
    by (cases err) auto
  ultimately show ?thesis
    unfolding names shape_def by simp
qed

theorem preProcessDaemonSet_keeps_witness:
  "\<exists>obj'. preProcessDaemonSet samplePluginDS (zeroController\<lparr>ctlSingleton := Some samplePolicy\<rparr>) = Ret (None, obj') \<and>
     dsMeta obj' = dsMeta samplePluginDS \<and> map ctrName (podContainers (dsPod obj')) = [''device-plugin'']"
proof -
  have "(case preProcessDaemonSet samplePluginDS (zeroController\<lparr>ctlSingleton := Some samplePolicy\<rparr>) of Ret (e, _) \<Rightarrow> Some e | _ \<Rightarrow> None) = Some None"
    by code_simp
  then obtain obj' where run: "preProcessDaemonSet samplePluginDS (zeroController\<lparr>ctlSingleton := Some samplePolicy\<rparr>) = Ret (None, obj')"
    by (auto split: outcome.splits prod.splits)
  from preProcessDaemonSet_keeps [OF run] run show ?thesis
    by (auto simp: samples_simps samplePluginCtr_def sampleContainer_def)
qed

end
