(* ===== verification/GoRegexp.thy ===== *)
theory GoRegexp
  imports GoStrings
begin

section \<open>Go regular expressions: the fragment the operator compiles\<close>

text \<open>
  A regular expression is a sequence of items: a literal byte, a greedy star over a class of
  bytes, and the two assertions \<open>\b\<close> and \<open>\B\<close> (ASCII word boundary or not). Go's \<open>regexp\<close>
  reports the leftmost match and, among the matches that start there, the one a backtracking
  matcher would find first. \<open>rxAt\<close> is that matcher at one position, \<open>rxFind\<close> moves it along the
  text. \<open>rxMatch\<close> is the language of the items, written without an order of search, and the lemmas
  show the matcher sound and complete for it. In what the operator matches, every code point
  outside ASCII is matched byte by byte: the class \<open>.\<close> takes all its bytes and no boundary lies
  inside it.
\<close>

datatype rxitem =
    RxLit char
  | RxStar "char \<Rightarrow> bool"
  | RxBoundary
  | RxNoBoundary

definition wordChar :: "char \<Rightarrow> bool" where
  "wordChar c \<longleftrightarrow>
     (CHR ''0'' \<le> c \<and> c \<le> CHR ''9'') \<or> (CHR ''A'' \<le> c \<and> c \<le> CHR ''Z'') \<or>
     (CHR ''a'' \<le> c \<and> c \<le> CHR ''z'') \<or> c = CHR ''_''"

definition notNewline :: "char \<Rightarrow> bool" where
  "notNewline c \<longleftrightarrow> c \<noteq> CHR 0x0A"

text \<open>The byte before a position is \<open>None\<close> at the beginning of the text.\<close>

definition wordBefore :: "char option \<Rightarrow> bool" where
  "wordBefore p = (case p of None \<Rightarrow> False | Some c \<Rightarrow> wordChar c)"

definition wordAfter :: "string \<Rightarrow> bool" where
  "wordAfter s = (case s of [] \<Rightarrow> False | c # _ \<Rightarrow> wordChar c)"

definition isBoundary :: "char option \<Rightarrow> string \<Rightarrow> bool" where
  "isBoundary p s \<longleftrightarrow> wordBefore p \<noteq> wordAfter s"

fun rxAt :: "rxitem list \<Rightarrow> char option \<Rightarrow> string \<Rightarrow> string option" where
  "rxAt [] p s = Some []"
| "rxAt (RxLit c # rs) p [] = None"
| "rxAt (RxLit c # rs) p (d # s) =
     (if c = d then map_option ((#) d) (rxAt rs (Some d) s) else None)"
| "rxAt (RxStar f # rs) p [] = rxAt rs p []"
| "rxAt (RxStar f # rs) p (d # s) =
     (if f d
      then (case rxAt (RxStar f # rs) (Some d) s of
              Some m \<Rightarrow> Some (d # m)
            | None \<Rightarrow> rxAt rs p (d # s))
      else rxAt rs p (d # s))"
| "rxAt (RxBoundary # rs) p s = (if isBoundary p s then rxAt rs p s else None)"
| "rxAt (RxNoBoundary # rs) p s = (if isBoundary p s then None else rxAt rs p s)"

fun rxFind :: "rxitem list \<Rightarrow> char option \<Rightarrow> string \<Rightarrow> string option" where
  "rxFind rs p [] = rxAt rs p []"
| "rxFind rs p (c # s) =
     (case rxAt rs p (c # s) of Some m \<Rightarrow> Some m | None \<Rightarrow> rxFind rs (Some c) s)"

text \<open>\<open>reg.FindString(s)\<close>: the empty string when there is no match.\<close>

definition findString :: "rxitem list \<Rightarrow> string \<Rightarrow> string" where
  "findString rs s = (case rxFind rs None s of None \<Rightarrow> [] | Some m \<Rightarrow> m)"

subsection \<open>The language, and the matcher against it\<close>

text \<open>\<open>rxMatch rs p m rest\<close>: the items match \<open>m\<close> between the byte \<open>p\<close> and the text \<open>rest\<close>.\<close>

inductive rxMatch :: "rxitem list \<Rightarrow> char option \<Rightarrow> string \<Rightarrow> string \<Rightarrow> bool" where
  empty: "rxMatch [] p [] rest"
| lit: "rxMatch rs (Some c) m rest \<Longrightarrow> rxMatch (RxLit c # rs) p (c # m) rest"
| star_stop: "rxMatch rs p m rest \<Longrightarrow> rxMatch (RxStar f # rs) p m rest"
| star_more: "f c \<Longrightarrow> rxMatch (RxStar f # rs) (Some c) m rest \<Longrightarrow>
    rxMatch (RxStar f # rs) p (c # m) rest"
| bound: "isBoundary p (m @ rest) \<Longrightarrow> rxMatch rs p m rest \<Longrightarrow> rxMatch (RxBoundary # rs) p m rest"
| nobound: "\<not> isBoundary p (m @ rest) \<Longrightarrow> rxMatch rs p m rest \<Longrightarrow>
    rxMatch (RxNoBoundary # rs) p m rest"

inductive_cases rxMatch_NilE [elim!]: "rxMatch [] p m rest"
inductive_cases rxMatch_LitE [elim!]: "rxMatch (RxLit c # rs) p m rest"
inductive_cases rxMatch_StarE: "rxMatch (RxStar f # rs) p m rest"
inductive_cases rxMatch_BoundE [elim!]: "rxMatch (RxBoundary # rs) p m rest"
inductive_cases rxMatch_NoBoundE [elim!]: "rxMatch (RxNoBoundary # rs) p m rest"

lemma rxAt_sound: "rxAt rs p s = Some m \<Longrightarrow> \<exists>rest. s = m @ rest \<and> rxMatch rs p m rest"
  by (induction rs p s arbitrary: m rule: rxAt.induct)
    (fastforce split: if_splits option.splits intro: rxMatch.intros)+

lemma rxAt_complete: "rxMatch rs p m rest \<Longrightarrow> \<exists>m'. rxAt rs p (m @ rest) = Some m'"
proof (induction rule: rxMatch.induct)
  case (star_stop rs p m rest f)
  then show ?case by (cases "m @ rest") (auto split: option.split)
qed (auto split: option.split)

lemma rxAt_None_iff: "rxAt rs p s = None \<longleftrightarrow> (\<nexists>m rest. s = m @ rest \<and> rxMatch rs p m rest)"
  using rxAt_sound rxAt_complete by (metis not_None_eq)

text \<open>The byte before the position reached after reading \<open>pre\<close>.\<close>

definition before :: "char option \<Rightarrow> string \<Rightarrow> char option" where
  "before p pre = (if pre = [] then p else Some (last pre))"

lemma before_Nil [simp]: "before p [] = p"
  by (simp add: before_def)

lemma before_Cons [simp]: "before p (c # pre) = before (Some c) pre"
  by (simp add: before_def)

lemma rxFind_sound:
  "rxFind rs p s = Some m \<Longrightarrow> \<exists>pre rest. s = pre @ m @ rest \<and> rxMatch rs (before p pre) m rest"
proof (induction s arbitrary: p)
  case Nil
  then have "rxMatch rs p [] [] \<and> m = []" using rxAt_sound [of rs p "[]" m] by auto
  then show ?case by (intro exI [of _ "[]"]) simp
next
  case (Cons c s)
  show ?case
  proof (cases "rxAt rs p (c # s)")
    case None
    with Cons.prems have "rxFind rs (Some c) s = Some m" by simp
    from Cons.IH [OF this] obtain pre rest
      where "s = pre @ m @ rest" "rxMatch rs (before (Some c) pre) m rest" by blast
    then have "c # s = (c # pre) @ m @ rest \<and> rxMatch rs (before p (c # pre)) m rest" by simp
    then show ?thesis by blast
  next
    case (Some m')
    with Cons.prems have "m' = m" by simp
    with rxAt_sound [OF Some] obtain rest where "c # s = m @ rest" "rxMatch rs p m rest" by blast
    then have "c # s = [] @ m @ rest \<and> rxMatch rs (before p []) m rest" by simp
    then show ?thesis by blast
  qed
qed

text \<open>The search skips a prefix in which the items match nowhere.\<close>

lemma rxFind_skip:
  assumes "\<And>u v. pre = u @ v \<Longrightarrow> v \<noteq> [] \<Longrightarrow> rxAt rs (before p u) (v @ s) = None"
  shows "rxFind rs p (pre @ s) = rxFind rs (before p pre) s"
  using assms
proof (induction pre arbitrary: p)
  case Nil
  then show ?case by simp
next
  case (Cons c pre)
  have "rxAt rs p (c # pre @ s) = None"
    using Cons.prems [of "[]" "c # pre"] by simp
  moreover have "rxFind rs (Some c) (pre @ s) = rxFind rs (before (Some c) pre) s"
  proof (rule Cons.IH)
    fix u v
    assume "pre = u @ v" and "v \<noteq> []"
    then show "rxAt rs (before (Some c) u) (v @ s) = None"
      using Cons.prems [of "c # u" v] by simp
  qed
  ultimately show ?case by simp
qed

lemma rxFind_None_at: "rxFind rs p (u @ v) = None \<Longrightarrow> rxAt rs (before p u) v = None"
proof (induction u arbitrary: p)
  case Nil
  then show ?case by (cases v) (auto split: option.splits)
next
  case (Cons c u)
  then show ?case by (auto split: option.splits)
qed

end
