(* ===== verification/ResourceManager.thy ===== *)
theory ResourceManager
  imports Controller GoRegexp
begin

section \<open>Loading the manifests: \<open>controllers/resource_manager.go\<close>\<close>

text \<open>
  At its first initialisation the operator reads the manifests of each state from a directory of
  its image: it walks the directory, sorts the paths, reads every file, finds the kind of each
  manifest with a regular expression, decodes it, and registers a control function for it.
\<close>

subsection \<open>Walking the directory\<close>

text \<open>
  \<open>filepath.Walk\<close> with the callback of \<open>filePathWalkDir\<close>: it visits directory entries in the order
  of their names, skips (after logging) what it cannot stat or list, and keeps the paths of
  everything that is not a directory. The model keeps each file's contents beside its path, for
  \<open>ioutil.ReadFile\<close>. The callback never returns an error, so neither does the walk.
\<close>

lemma fsnode_entry_smaller: "(n, t) \<in> set es \<Longrightarrow> size t < size (FsDir (Some es))"
  by (induction es) auto

function filePathWalkDir :: "string \<Rightarrow> fsnode \<Rightarrow> (string \<times> string option) list" where
  "filePathWalkDir p (FsFile content) = [(p, content)]"
| "filePathWalkDir p (FsDir None) = []"
| "filePathWalkDir p (FsDir (Some es)) =
     concat (map (\<lambda>(n, t). filePathWalkDir (p @ ''/'' @ n) t) (sort_key fst es))"
| "filePathWalkDir p FsStatError = []"
  by pat_completeness auto
termination
  by (relation "measure (\<lambda>(p, t). size t)") (auto dest: fsnode_entry_smaller)

text \<open>\<open>getAssetsFrom\<close>: the files in the order of their paths; one that cannot be read panics.\<close>

fun readFiles :: "(string \<times> string option) list \<Rightarrow> string list outcome" where
  "readFiles [] = Ret []"
| "readFiles ((file, content) # files) =
     (case content of
        None \<Rightarrow> Panic ''open: cannot read file''
      | Some buffer \<Rightarrow> obind (readFiles files) (\<lambda>manifests. Ret (buffer # manifests)))"

definition getAssetsFrom :: "string \<Rightarrow> fsnode \<Rightarrow> string list outcome" where
  "getAssetsFrom path tree = readFiles (sort_key fst (filePathWalkDir path tree))"

subsection \<open>The kind of a manifest\<close>

text \<open>The regular expression \<open>\b(\w*kind:\w*)\B.*\b\<close>.\<close>

definition kindRegexp :: "rxitem list" where
  "kindRegexp =
     [RxBoundary, RxStar wordChar, RxLit (CHR ''k''), RxLit (CHR ''i''), RxLit (CHR ''n''),
      RxLit (CHR ''d''), RxLit (CHR '':''), RxStar wordChar, RxNoBoundary, RxStar notNewline,
      RxBoundary]"

definition manifestKind :: "string \<Rightarrow> string outcome" where
  "manifestKind m =
     (let kind = findString kindRegexp m; slice = splitOn (CHR '':'') kind
      in obind (nthP slice 1) (\<lambda>s. Ret (trimSpace s)))"

subsection \<open>Registering the control functions\<close>

definition panicIfError :: "goerr + 'a \<Rightarrow> 'a outcome" where
  "panicIfError r = (case r of Inl e \<Rightarrow> Panic (ErrorText e) | Inr a \<Rightarrow> Ret a)"

text \<open>The body of the loop over the manifests.\<close>

definition addManifest ::
    "'e externals \<Rightarrow> string \<Rightarrow> Resources \<times> controlFunc list \<Rightarrow> (Resources \<times> controlFunc list) outcome"
  where
  "addManifest X m st =
    (case st of (res, ctrlFuncs) \<Rightarrow>
     obind (manifestKind m) (\<lambda>kind.
       if kind = ''DaemonSet'' then
         obind (panicIfError (xDecodeDaemonSet X m)) (\<lambda>ds.
           let (dss, ctrlFuncs) =
             (case resDaemonsets res of
                None \<Rightarrow> ([], ctrlFuncs @ [CtlDaemonSet])
              | Some dss \<Rightarrow> (dss, ctrlFuncs))
           in Ret (res\<lparr>resDaemonsets := Some (dss @ [ds])\<rparr>, ctrlFuncs))
       else if kind = ''RuntimeClass'' then
         obind (panicIfError (xDecodeRuntimeClass X m (resRuntimeClass res))) (\<lambda>rc.
           Ret (res\<lparr>resRuntimeClass := rc\<rparr>, ctrlFuncs @ [CtlRuntimeClass]))
       else Ret (res, ctrlFuncs)))"

fun addManifests ::
    "'e externals \<Rightarrow> string list \<Rightarrow> Resources \<times> controlFunc list \<Rightarrow> (Resources \<times> controlFunc list) outcome"
  where
  "addManifests X [] st = Ret st"
| "addManifests X (m # ms) st = obind (addManifest X m st) (addManifests X ms)"

definition emptyResources :: Resources where
  "emptyResources = \<lparr>resDaemonsets = None, resRuntimeClass = zeroRuntimeClass\<rparr>"

definition addResourceControls ::
    "'e externals \<Rightarrow> string \<Rightarrow> ('e world, Resources \<times> controlFunc list) go" where
  "addResourceControls X path =
     gbind (gask (xFileTree X path)) (\<lambda>tree.
       glift (obind (getAssetsFrom path tree) (\<lambda>manifests.
         addManifests X manifests (emptyResources, []))))"

end
