(* ===== verification/ObjectControls.thy ===== *)
theory ObjectControls
  imports Transforms
begin

section \<open>The control functions: \<open>controllers/object_controls.go\<close>\<close>

text \<open>
  \<open>RuntimeClass\<close> and \<open>DaemonSet\<close> bring one state's objects to the cluster, or remove them when the
  state is disabled. Each returns the state it reached and a Go error or nil.
\<close>

subsection \<open>RuntimeClass\<close>

definition RuntimeClassFn ::
    "'e externals \<Rightarrow> ClusterPolicyController \<Rightarrow> ('e world, State \<times> goerr option) go" where
  "RuntimeClassFn X n =
     gbind (glift (nthP (ctlResources n) (ctlIdx n))) (\<lambda>res.
     gbind (glift (theSingleton n)) (\<lambda>p.
     let name = getRuntimeClass (cpSpec p);
         tmpl = resRuntimeClass res;
         obj = tmpl\<lparr>rcMeta := (rcMeta tmpl)\<lparr>metaName := name\<rparr>, rcHandler := name\<rparr> in
     gbind (glift (currentEnabled n)) (\<lambda>enabled.
     if \<not> enabled then
       gbind (deleteRuntimeClass X obj) (\<lambda>err.
         if realError err then gret (NotReady, None) else gret (Disabled, None))
     else
       (case xSetControllerReference X p (rcMeta obj) of
          Inl err \<Rightarrow> gret (NotReady, Some err)
        | Inr m \<Rightarrow>
          let obj = obj\<lparr>rcMeta := m\<rparr> in
          gbind (getRuntimeClassObj X (rcName obj)) (\<lambda>r.
          case r of
            Inl err \<Rightarrow>
              if isNotFound err then
                gbind (createRuntimeClass X obj) (\<lambda>e.
                  case e of
                    Some err \<Rightarrow> gret (NotReady, Some err)
                  | None \<Rightarrow> gret (Ready, None))
              else gret (NotReady, Some err)
          | Inr found \<Rightarrow>
              let obj = obj\<lparr>rcMeta := (rcMeta obj)\<lparr>metaResourceVersion := metaResourceVersion (rcMeta found)\<rparr>\<rparr> in
              gbind (updateRuntimeClass X obj) (\<lambda>e.
                case e of
                  Some err \<Rightarrow> gret (NotReady, Some err)
                | None \<Rightarrow> gret (Ready, None)))))))"

subsection \<open>The hash annotation\<close>

definition getDaemonsetHash :: "'e externals \<Rightarrow> DaemonSet \<Rightarrow> string outcome" where
  "getDaemonsetHash X daemonset =
    (case xHash X daemonset of
       Inl err \<Rightarrow> Panic (ErrorText err)
     | Inr hash \<Rightarrow> Ret (formatUint16 hash))"

definition setAnnotation :: "string \<Rightarrow> string \<Rightarrow> DaemonSet \<Rightarrow> DaemonSet" where
  "setAnnotation k v d =
     d\<lparr>dsMeta := (dsMeta d)\<lparr>metaAnnotations := map_option (mapSet k v) (dsAnnotations d)\<rparr>\<rparr>"

text \<open>
  The loop over \<open>current.Annotations\<close>: \<open>None\<close> when the hash key does not occur, \<open>Some True\<close> when
  it occurs with another value, \<open>Some False\<close> when it occurs with this value.
\<close>

fun hashAnnotation :: "strmap \<Rightarrow> string \<Rightarrow> bool option" where
  "hashAnnotation [] hashStr = None"
| "hashAnnotation ((annotation, value) # rest) hashStr =
     (if annotation = XilinxAnnotationHashKey then Some (value \<noteq> hashStr)
      else hashAnnotation rest hashStr)"

definition isDaemonsetSpecChanged ::
    "'e externals \<Rightarrow> DaemonSet option \<Rightarrow> DaemonSet \<Rightarrow> (bool \<times> DaemonSet) outcome" where
  "isDaemonsetSpecChanged X current new =
    (case current of
       None \<Rightarrow> Ret (True, new)
     | Some cur \<Rightarrow>
       (case (dsAnnotations cur, dsAnnotations new) of
          (Some annotations, Some _) \<Rightarrow>
            obind (getDaemonsetHash X new) (\<lambda>hashStr.
              if hashAnnotation annotations hashStr = Some False then Ret (False, new)
              else Ret (True, setAnnotation XilinxAnnotationHashKey hashStr new))
        | _ \<Rightarrow> Panic ''appsv1.DaemonSet.Annotations must be allocated prior to calling isDaemonsetSpecChanged()''))"

definition isDaemonSetReady :: "'e externals \<Rightarrow> string \<Rightarrow> string \<Rightarrow> ('e world, State) go" where
  "isDaemonSetReady X namespace name =
     gbind (getDaemonSet X namespace name) (\<lambda>r.
       case r of
         Inl err \<Rightarrow> gret NotReady
       | Inr ds \<Rightarrow> if dsNumberUnavailable ds \<noteq> 0 then gret NotReady else gret Ready)"

subsection \<open>DaemonSet\<close>

text \<open>
  The enabled half of the loop body from \<open>SetControllerReference\<close> on: annotations allocated,
  then create or update, then the readiness of what is deployed.
\<close>

definition createAndCheck ::
    "'e externals \<Rightarrow> State \<Rightarrow> DaemonSet \<Rightarrow> ('e world, State) go" where
  "createAndCheck X result obj =
     gbind (glift (getDaemonsetHash X obj)) (\<lambda>hashStr.
     gbind (createDaemonSet X (setAnnotation XilinxAnnotationHashKey hashStr obj)) (\<lambda>(err, obj).
     let result = (if err \<noteq> None then NotReady else result) in
     gbind (isDaemonSetReady X (dsNamespace obj) (dsName obj)) (\<lambda>status.
     gret (if status = NotReady then NotReady else result))))"

definition updateAndCheck ::
    "'e externals \<Rightarrow> State \<Rightarrow> DaemonSet \<Rightarrow> DaemonSet \<Rightarrow> ('e world, State) go" where
  "updateAndCheck X result found obj =
     gbind (glift (isDaemonsetSpecChanged X (Some found) obj)) (\<lambda>(changed, obj).
     gbind (if changed then updateDaemonSet X obj else gret (None, obj)) (\<lambda>(err, obj).
     if err \<noteq> None then gret NotReady
     else
       gbind (isDaemonSetReady X (dsNamespace obj) (dsName obj)) (\<lambda>status.
       gret (if status = NotReady then NotReady else result))))"

definition deployDaemonSet ::
    "'e externals \<Rightarrow> ClusterPolicy \<Rightarrow> State \<Rightarrow> DaemonSet \<Rightarrow> ('e world, State) go" where
  "deployDaemonSet X p result obj =
    (case xSetControllerReference X p (dsMeta obj) of
       Inl err \<Rightarrow> gret NotReady
     | Inr m \<Rightarrow>
       let obj = obj\<lparr>dsMeta := m\<rparr>;
           obj = (if dsAnnotations obj = None
                  then obj\<lparr>dsMeta := (dsMeta obj)\<lparr>metaAnnotations := Some []\<rparr>\<rparr> else obj) in
       gbind (getDaemonSet X (dsNamespace obj) (dsName obj)) (\<lambda>r.
         case r of
           Inl err \<Rightarrow> if isNotFound err then createAndCheck X result obj else gret NotReady
         | Inr found \<Rightarrow> updateAndCheck X result found obj))"

text \<open>The body of the loop over \<open>resources[idx].Daemonsets\<close>, from one value of \<open>result\<close> to the next.\<close>

definition daemonSetBody ::
    "'e externals \<Rightarrow> ClusterPolicyController \<Rightarrow> State \<Rightarrow> DaemonSet \<Rightarrow> ('e world, State) go" where
  "daemonSetBody X ctrl result daemonSet =
    (let obj = daemonSet\<lparr>dsMeta := (dsMeta daemonSet)\<lparr>metaNamespace := ctlOperatorNamespace ctrl\<rparr>\<rparr> in
     gbind (glift (currentEnabled ctrl)) (\<lambda>enabled.
     if \<not> enabled then
       gbind (deleteDaemonSet X obj) (\<lambda>err.
         if realError err then gret NotReady else gret Disabled)
     else
       gbind (glift (preProcessDaemonSet obj ctrl)) (\<lambda>(err, obj).
       case err of
         Some err \<Rightarrow>
           if err = NoSpecError then
             gbind (deleteDaemonSet X obj) (\<lambda>e.
               let result = (if realError e then NotReady else result) in
               gret (if result = Ready then Ignored else result))
           else gret NotReady
       | None \<Rightarrow>
           gbind (glift (theSingleton ctrl)) (\<lambda>p. deployDaemonSet X p result obj))))"

fun daemonSetLoop ::
    "'e externals \<Rightarrow> ClusterPolicyController \<Rightarrow> State \<Rightarrow> DaemonSet list \<Rightarrow> ('e world, State) go" where
  "daemonSetLoop X ctrl result [] = gret result"
| "daemonSetLoop X ctrl result (d # ds) =
     gbind (daemonSetBody X ctrl result d) (\<lambda>result. daemonSetLoop X ctrl result ds)"

definition DaemonSetFn ::
    "'e externals \<Rightarrow> ClusterPolicyController \<Rightarrow> ('e world, State \<times> goerr option) go" where
  "DaemonSetFn X ctrl =
     gbind (glift (nthP (ctlResources ctrl) (ctlIdx ctrl))) (\<lambda>res.
     gbind (glift (nthP (ctlStateNames ctrl) (ctlIdx ctrl))) (\<lambda>_.
     gbind (daemonSetLoop X ctrl Ready (sliceOf (resDaemonsets res))) (\<lambda>result.
     gret (result, None))))"

end
