(* ===== verification/StateManager.thy ===== *)
theory StateManager
  imports ResourceManager ObjectControls
begin

section \<open>The state manager: \<open>controllers/state_manger.go\<close>\<close>

text \<open>
  What the controller learns about the cluster's nodes, how it is initialised, and the step that
  runs the control functions of one state.
\<close>

subsection \<open>Node labels\<close>

fun hasNFDLabels :: "strmap \<Rightarrow> bool" where
  "hasNFDLabels [] = False"
| "hasNFDLabels ((key, val) # labels) =
     (if hasPrefix key nfdLabelPrefix then True else hasNFDLabels labels)"

fun hasFPGALables :: "strmap \<Rightarrow> bool" where
  "hasFPGALables [] = False"
| "hasFPGALables ((key, val) # labels) =
     (if (case map_of fpgaNodeLabels key of
            None \<Rightarrow> False
          | Some _ \<Rightarrow> mapGet fpgaNodeLabels key = val)
      then True else hasFPGALables labels)"

text \<open>The loop of \<open>getFPGANodeCount\<close> over the nodes.\<close>

fun countFPGANodes :: "Node list \<Rightarrow> bool \<Rightarrow> nat \<Rightarrow> bool \<times> nat" where
  "countFPGANodes [] clusterHasNFDLabels fpgaNodesTotal = (clusterHasNFDLabels, fpgaNodesTotal)"
| "countFPGANodes (node # nodes) clusterHasNFDLabels fpgaNodesTotal =
    (let labels = nodeLabels node;
         clusterHasNFDLabels =
           (if \<not> clusterHasNFDLabels then hasNFDLabels labels else clusterHasNFDLabels);
         fpgaNodesTotal = (if hasFPGALables labels then fpgaNodesTotal + 1 else fpgaNodesTotal)
     in countFPGANodes nodes clusterHasNFDLabels fpgaNodesTotal)"

definition listError :: "goerr \<Rightarrow> goerr" where
  "listError err = FmtError (sprintf ''unable to list nodes to check labels, err %s'' [ErrorText err])"

definition getFPGANodeCount :: "'e externals \<Rightarrow> ('e world, goerr + bool \<times> nat) go" where
  "getFPGANodeCount X =
     gbind (listNodes X) (\<lambda>r.
       case r of
         Inl err \<Rightarrow> gret (Inl (listError err))
       | Inr nodes \<Rightarrow> gret (Inr (countFPGANodes nodes False 0)))"

text \<open>The loop of \<open>getOsDistributions\<close>: \<open>dists[release+version] = true\<close> for every node.\<close>

fun collectDists :: "Node list \<Rightarrow> (string \<times> bool) list \<Rightarrow> (string \<times> bool) list" where
  "collectDists [] dists = dists"
| "collectDists (node # nodes) dists =
    (let labels = nodeLabels node;
         release = mapGet labels nfdLabelOSReleaseID;
         version = mapGet labels nfdLabelOSVersionID
     in collectDists nodes (AList.update (release @ version) True dists))"

definition getOsDistributions :: "'e externals \<Rightarrow> ('e world, goerr + (string \<times> bool) list) go" where
  "getOsDistributions X =
     gbind (listNodes X) (\<lambda>r.
       case r of
         Inl err \<Rightarrow> gret (Inl (listError err))
       | Inr nodes \<Rightarrow> gret (Inr (collectDists nodes [])))"

subsection \<open>The container runtime of the nodes\<close>

definition getRuntimeString :: "Node \<Rightarrow> goerr + Runtime" where
  "getRuntimeString node =
    (let runtimeVer = nodeContainerRuntimeVersion node in
     if hasPrefix runtimeVer ''docker'' then Inr Docker
     else if hasPrefix runtimeVer ''containerd'' then Inr Containerd
     else Inl (FmtError (sprintf ''runtime not recognized: %s'' [runtimeVer])))"

text \<open>The loop of \<open>getRuntime\<close>: unrecognised nodes are skipped, containerd ends the search.\<close>

fun detectRuntime :: "Node list \<Rightarrow> Runtime \<Rightarrow> Runtime" where
  "detectRuntime [] r = r"
| "detectRuntime (node # nodes) r =
    (case getRuntimeString node of
       Inl err \<Rightarrow> detectRuntime nodes r
     | Inr rt \<Rightarrow> if rt = Containerd then rt else detectRuntime nodes rt)"

definition getRuntime ::
    "'e externals \<Rightarrow> ClusterPolicyController \<Rightarrow> ('e world, goerr option \<times> ClusterPolicyController) go"
  where
  "getRuntime X ctrl =
     gbind (listNodes X) (\<lambda>r.
       case r of
         Inl err \<Rightarrow> gret (Some (FmtError
           (sprintf ''unable to list nodes prior to checking container runtime: %v'' [ErrorText err])), ctrl)
       | Inr nodes \<Rightarrow>
         let rt = detectRuntime nodes (OtherRuntime []) in
         if RuntimeString rt = [] then
           gbind (glift (theSingleton ctrl)) (\<lambda>p.
             gret (None, ctrl\<lparr>ctlRuntime := opDefaultRuntime (specOperator (cpSpec p))\<rparr>))
         else gret (None, ctrl\<lparr>ctlRuntime := rt\<rparr>))"

text \<open>\<open>config.GetConfigOrDie\<close> ends the process when there is no configuration.\<close>

definition kubernetesVersion :: "'e externals \<Rightarrow> ('e world, goerr + string) go" where
  "kubernetesVersion X =
     gbind (gask (xHaveConfig X)) (\<lambda>ok.
     if \<not> ok then gpanic ''os.Exit(1): unable to get kubeconfig''
     else
       gbind (newDiscoveryClient X) (\<lambda>e.
       case e of
         Some err \<Rightarrow> gret (Inl (FmtError (sprintf ''error building discovery client: %v'' [ErrorText err])))
       | None \<Rightarrow>
         gbind (serverVersion X) (\<lambda>r.
         case r of
           Inl err \<Rightarrow> gret (Inl (FmtError
             (sprintf ''unable to fetch server version information: %v'' [ErrorText err])))
         | Inr gitVersion \<Rightarrow> gret (Inr gitVersion))))"

subsection \<open>Initialisation\<close>

definition addState ::
    "'e externals \<Rightarrow> ClusterPolicyController \<Rightarrow> string \<Rightarrow> ('e world, ClusterPolicyController) go" where
  "addState X ctrl path =
     gbind (addResourceControls X path) (\<lambda>(res, ctrlFunc).
       gret (ctrl\<lparr>ctlResources := ctlResources ctrl @ [res],
                  ctlControlFuncs := ctlControlFuncs ctrl @ [ctrlFunc],
                  ctlStateNames := ctlStateNames ctrl @ [base path]\<rparr>))"

text \<open>
  The block of \<open>init\<close> that runs while no state has been added. On an error the controller keeps
  what was assigned before it.
\<close>

definition initStates ::
    "'e externals \<Rightarrow> ClusterPolicyController \<Rightarrow> ('e world, goerr option \<times> ClusterPolicyController) go"
  where
  "initStates X ctrl =
     gbind (gask (xGetenv X ''OPERATOR_NAMESPACE'')) (\<lambda>ns.
     let ctrl = ctrl\<lparr>ctlOperatorNamespace := (if ns = [] then ''default'' else ns)\<rparr> in
     gbind (kubernetesVersion X) (\<lambda>r.
     case r of
       Inl err \<Rightarrow> gret (Some err, ctrl)
     | Inr k8sVersion \<Rightarrow>
       if \<not> xSemverIsValid X k8sVersion then
         gret (Some (FmtError (sprintf
           (''k8s version detected '' @ [CHR 0x27] @ ''%s'' @ [CHR 0x27] @
            '' is not a valid semantic version'') [k8sVersion])), ctrl)
       else
         let ctrl = ctrl\<lparr>ctlK8sVersion := k8sVersion\<rparr> in
         gbind (getRuntime X ctrl) (\<lambda>(err, ctrl).
         if err \<noteq> None then gret (err, ctrl)
         else
           gbind (addState X ctrl ''/opt/fpga-operator/state-container-runtime'') (\<lambda>ctrl.
           gbind (addState X ctrl ''/opt/fpga-operator/state-device-plugin'') (\<lambda>ctrl.
           gbind (addState X ctrl ''/opt/fpga-operator/state-host-setup'') (\<lambda>ctrl.
           gret (None, ctrl)))))))"

text \<open>The rest of \<open>init\<close>, which runs every time.\<close>

definition initNodes ::
    "'e externals \<Rightarrow> ClusterPolicyController \<Rightarrow> ('e world, goerr option \<times> ClusterPolicyController) go"
  where
  "initNodes X ctrl =
     gbind (getFPGANodeCount X) (\<lambda>r.
     case r of
       Inl err \<Rightarrow> gret (Some err, ctrl)
     | Inr (nfdLabels, fpgaNodeCount) \<Rightarrow>
       let ctrl = ctrl\<lparr>ctlHasNFDLabels := nfdLabels, ctlHasFPGANodes := 0 < fpgaNodeCount\<rparr> in
       gbind (getOsDistributions X) (\<lambda>r.
       case r of
         Inl err \<Rightarrow> gret (Some err, ctrl)
       | Inr osDists \<Rightarrow> gret (None, ctrl\<lparr>ctlOsDists := osDists\<rparr>)))"

definition init ::
    "'e externals \<Rightarrow> ClusterPolicy \<Rightarrow> ClusterPolicyController \<Rightarrow> ('e world, goerr option \<times> ClusterPolicyController) go"
  where
  "init X clusterPolicy ctrl =
    (let ctrl = ctrl\<lparr>ctlSingleton := Some clusterPolicy, ctlIdx := 0\<rparr> in
     gbind (if ctlControlFuncs ctrl = [] then initStates X ctrl else gret (None, ctrl)) (\<lambda>(err, ctrl).
     if err \<noteq> None then gret (err, ctrl) else initNodes X ctrl))"

subsection \<open>One step\<close>

definition runControl ::
    "'e externals \<Rightarrow> controlFunc \<Rightarrow> ClusterPolicyController \<Rightarrow> ('e world, State \<times> goerr option) go" where
  "runControl X f = (case f of CtlDaemonSet \<Rightarrow> DaemonSetFn X | CtlRuntimeClass \<Rightarrow> RuntimeClassFn X)"

fun stepLoop ::
    "'e externals \<Rightarrow> ClusterPolicyController \<Rightarrow> State \<Rightarrow> controlFunc list \<Rightarrow> ('e world, State \<times> goerr option) go"
  where
  "stepLoop X ctrl result [] = gret (result, None)"
| "stepLoop X ctrl result (f # fs) =
     gbind (runControl X f ctrl) (\<lambda>(state, err).
       if err \<noteq> None then gret (state, err)
       else stepLoop X ctrl (if state \<noteq> Ready then state else result) fs)"

definition step ::
    "'e externals \<Rightarrow> ClusterPolicyController \<Rightarrow> ('e world, (State \<times> goerr option) \<times> ClusterPolicyController) go"
  where
  "step X ctrl =
     gbind (glift (nthP (ctlControlFuncs ctrl) (ctlIdx ctrl))) (\<lambda>fs.
     gbind (stepLoop X ctrl Ready fs) (\<lambda>(result, err).
     if err \<noteq> None then gret ((result, err), ctrl)
     else gret ((result, None), ctrl\<lparr>ctlIdx := ctlIdx ctrl + 1\<rparr>)))"

lemma step_None:
  assumes "step X ctrl w = (Ret ((s, None), ctrl'), w')"
  shows "ctlIdx ctrl < length (ctlControlFuncs ctrl) \<and> ctrl' = ctrl\<lparr>ctlIdx := ctlIdx ctrl + 1\<rparr>"
  using assms by (auto simp: step_def gbind_Ret_iff split: if_splits)

lemma step_Some:
  assumes "step X ctrl w = (Ret ((s, Some e), ctrl'), w')"
  shows "ctlIdx ctrl < length (ctlControlFuncs ctrl) \<and> ctrl' = ctrl"
  using assms by (auto simp: step_def gbind_Ret_iff split: if_splits)

end
