(* ===== verification/Reconciler.thy ===== *)
theory Reconciler
  imports StateManager
begin

section \<open>The reconciler: \<open>controllers/clusterpolicy_controller.go\<close>\<close>

text \<open>
  \<open>Reconcile\<close> is called with the name of a ClusterPolicy, one call at a time
  (\<open>MaxConcurrentReconciles: 1\<close>), and works on the one global controller, which is passed in and
  out. Durations are in milliseconds.
\<close>

definition minDelayCR :: nat where "minDelayCR = 100"
definition maxDelayCR :: nat where "maxDelayCR = 30 * 1000"
definition requeueDealy :: nat where "requeueDealy = 10 * 1000"

record Result =
  resultRequeue :: bool
  resultRequeueAfter :: nat

definition emptyResult :: Result where
  "emptyResult = \<lparr>resultRequeue = False, resultRequeueAfter = 0\<rparr>"

definition requeueResult :: Result where
  "requeueResult = \<lparr>resultRequeue = False, resultRequeueAfter = requeueDealy\<rparr>"

definition updateCRState ::
    "'e externals \<Rightarrow> NamespacedName \<Rightarrow> State \<Rightarrow> ClusterPolicyController \<Rightarrow> ('e world, goerr option) go"
  where
  "updateCRState X namespacedName state ctrl =
     gbind (getClusterPolicy X namespacedName) (\<lambda>r.
     case r of
       Inl err \<Rightarrow> gret (Some err)
     | Inr inst \<Rightarrow>
       if statusState (cpStatus inst) = state then gret None
       else
         gbind (statusUpdate X (SetStatus state (ctlOperatorNamespace ctrl) inst)) (\<lambda>err.
         gret err))"

text \<open>
  The loop of \<open>Reconcile\<close>: it steps until the last state is done or a step fails. The recursion
  ends because every step that succeeds moves the index towards the number of states.
\<close>

datatype loopResult =
    Finished State "string list"
  | StepFailed goerr

text \<open>What the loop does after a step that succeeded, up to the test of \<open>last\<close>.\<close>

definition noteStep ::
    "'e externals \<Rightarrow> NamespacedName \<Rightarrow> ClusterPolicy \<Rightarrow> State \<Rightarrow> State \<times> string list \<Rightarrow>
     ClusterPolicyController \<Rightarrow> ('e world, State \<times> string list) go"
  where
  "noteStep X req inst status acc ctrl =
     gbind (if status = NotReady then
              gbind (if statusState (cpStatus inst) = Ready
                     then updateCRState X req NotReady ctrl else gret None) (\<lambda>_.
              gbind (glift (nthP (ctlStateNames ctrl) (ctlIdx ctrl - 1))) (\<lambda>n.
              gret (NotReady, snd acc @ [n])))
            else gret acc) (\<lambda>acc.
     gbind (glift (nthP (ctlStateNames ctrl) (ctlIdx ctrl - 1))) (\<lambda>_. gret acc))"

function reconcileLoop ::
    "'e externals \<Rightarrow> NamespacedName \<Rightarrow> ClusterPolicy \<Rightarrow> State \<times> string list \<Rightarrow>
     ClusterPolicyController \<Rightarrow> ('e world, loopResult \<times> ClusterPolicyController) go"
  where
  "reconcileLoop X req inst acc ctrl w =
    (case step X ctrl w of
       (Panic p, w) \<Rightarrow> (Panic p, w)
     | (Ret ((status, Some statusError), ctrl), w) \<Rightarrow>
         gbind (updateCRState X req NotReady ctrl) (\<lambda>_.
           gret (StepFailed statusError, ctrl)) w
     | (Ret ((status, None), ctrl), w) \<Rightarrow>
         (case noteStep X req inst status acc ctrl w of
            (Panic p, w) \<Rightarrow> (Panic p, w)
          | (Ret acc, w) \<Rightarrow>
              if lastState ctrl then (Ret (Finished (fst acc) (snd acc), ctrl), w)
              else reconcileLoop X req inst acc ctrl w))"
  by pat_completeness auto
termination
  by (relation "measure (\<lambda>(X, req, inst, acc, ctrl, w). length (ctlControlFuncs ctrl) - ctlIdx ctrl)")
    (auto dest!: step_None [OF sym])

declare reconcileLoop.simps [simp del]

text \<open>What \<open>Reconcile\<close> does with the result of the loop, and the part of it from \<open>init\<close> on.\<close>

definition afterLoop ::
    "'e externals \<Rightarrow> NamespacedName \<Rightarrow> loopResult \<Rightarrow> ClusterPolicyController \<Rightarrow>
     ('e world, (Result \<times> goerr option) \<times> ClusterPolicyController) go"
  where
  "afterLoop X req res ctrl =
    (case res of
       StepFailed statusError \<Rightarrow> gret ((requeueResult, Some statusError), ctrl)
     | Finished overallStatus statesNotReady \<Rightarrow>
       if overallStatus \<noteq> Ready then gret ((requeueResult, None), ctrl)
       else
         gbind (updateCRState X req Ready ctrl) (\<lambda>_.
         gret ((emptyResult, None), ctrl)))"

definition reconcilePolicy ::
    "'e externals \<Rightarrow> NamespacedName \<Rightarrow> ClusterPolicy \<Rightarrow> ClusterPolicyController \<Rightarrow>
     ('e world, (Result \<times> goerr option) \<times> ClusterPolicyController) go"
  where
  "reconcilePolicy X req inst ctrl =
     gbind (init X inst ctrl) (\<lambda>(err, ctrl).
     if err \<noteq> None then gret ((emptyResult, err), ctrl)
     else
       gbind (reconcileLoop X req inst (Ready, []) ctrl) (\<lambda>(res, ctrl).
       afterLoop X req res ctrl))"

definition Reconcile ::
    "'e externals \<Rightarrow> NamespacedName \<Rightarrow> ClusterPolicyController \<Rightarrow>
     ('e world, (Result \<times> goerr option) \<times> ClusterPolicyController) go"
  where
  "Reconcile X req ctrl =
     gbind (getClusterPolicy X req) (\<lambda>r.
     case r of
       Inl err \<Rightarrow>
         if isNotFound err then gret ((emptyResult, None), ctrl)
         else gret ((emptyResult, Some err), ctrl)
     | Inr inst \<Rightarrow>
       if (case ctlSingleton ctrl of None \<Rightarrow> False | Some p \<Rightarrow> cpName p \<noteq> cpName inst) then
         (let inst = SetStatus Ignored (ctlOperatorNamespace ctrl) inst in
          gret ((emptyResult, None), ctrl))
       else reconcilePolicy X req inst ctrl)"

subsection \<open>Setting the controller up\<close>

definition SetupWithManager :: "'e externals \<Rightarrow> ('e world, goerr option) go" where
  "SetupWithManager X =
     gbind (newController X ''clusterpolicy-controller''
       \<lparr>optMaxConcurrentReconciles = 1, optBaseDelay = minDelayCR, optMaxDelay = maxDelayCR\<rparr>) (\<lambda>err.
     if err \<noteq> None then gret err
     else
       gbind (watchKind X WatchClusterPolicy) (\<lambda>err.
       if err \<noteq> None then gret err
       else
         gbind (watchKind X (WatchOwnedDaemonSet True)) (\<lambda>err.
         if err \<noteq> None then gret err else gret None)))"

end
