(* ===== verification/ClusterSim.thy ===== *)
theory ClusterSim
  imports Controller Samples
begin

section \<open>An in-memory cluster for the witnesses\<close>

text \<open>
  One instance of the parameter \<open>'e externals\<close>: an API server that keeps its objects in
  association lists, in the spirit of the fake client the repository's tests build
  (\<open>newCluster\<close> in \<open>controllers/object_controls_test.go\<close>). The witnesses run the model on it to
  show that the hypotheses of the properties can hold. No property assumes it.

  Writes to the names listed in \<open>simBroken\<close> fail. The hash is a checksum of the images and
  arguments of the first container, which is enough to tell the objects of the witnesses apart.
\<close>

record sim =
  simDaemonSets :: "((string \<times> string) \<times> DaemonSet) list"
  simRuntimeClasses :: "(string \<times> RuntimeClass) list"
  simPolicies :: "(string \<times> ClusterPolicy) list"
  simNodes :: "Node list"
  simBroken :: "string list"
  simAssets :: "(string \<times> fsnode) list"
  simBuilders :: "(nat \<times> GroupVersion \<times> apiObject list) list"
  simSchemes :: "(nat \<times> (GroupVersion \<times> string) list) list"
  simKubeconfig :: string

definition emptySim :: sim where
  "emptySim = \<lparr>simDaemonSets = [], simRuntimeClasses = [], simPolicies = [], simNodes = [],
     simBroken = [], simAssets = [], simBuilders = [], simSchemes = [], simKubeconfig = []\<rparr>"

definition simLookup :: "('k \<times> 'v) list \<Rightarrow> 'k \<Rightarrow> goerr + 'v" where
  "simLookup m k = (case map_of m k of None \<Rightarrow> Inl (ApiNotFound ''not found'') | Some v \<Rightarrow> Inr v)"

definition simPutDaemonSet :: "bool \<Rightarrow> DaemonSet \<Rightarrow> sim \<Rightarrow> (goerr option \<times> DaemonSet) \<times> sim" where
  "simPutDaemonSet isCreate d e =
    (let k = (dsNamespace d, dsName d); exists = map_of (simDaemonSets e) k \<noteq> None in
     if dsName d \<in> set (simBroken e) then ((Some (ApiError ''rejected''), d), e)
     else if isCreate = exists then ((Some (ApiError ''conflict''), d), e)
     else ((None, d), e\<lparr>simDaemonSets := AList.update k d (simDaemonSets e)\<rparr>))"

definition simDeleteDaemonSet :: "DaemonSet \<Rightarrow> sim \<Rightarrow> goerr option \<times> sim" where
  "simDeleteDaemonSet d e =
    (let k = (dsNamespace d, dsName d) in
     if dsName d \<in> set (simBroken e) then (Some (ApiError ''rejected''), e)
     else if map_of (simDaemonSets e) k = None then (Some (ApiNotFound ''not found''), e)
     else (None, e\<lparr>simDaemonSets := AList.delete k (simDaemonSets e)\<rparr>))"

definition simPutRuntimeClass :: "bool \<Rightarrow> RuntimeClass \<Rightarrow> sim \<Rightarrow> goerr option \<times> sim" where
  "simPutRuntimeClass isCreate r e =
    (let exists = map_of (simRuntimeClasses e) (rcName r) \<noteq> None in
     if rcName r \<in> set (simBroken e) then (Some (ApiError ''rejected''), e)
     else if isCreate = exists then (Some (ApiError ''conflict''), e)
     else (None, e\<lparr>simRuntimeClasses := AList.update (rcName r) r (simRuntimeClasses e)\<rparr>))"

definition simDeleteRuntimeClass :: "RuntimeClass \<Rightarrow> sim \<Rightarrow> goerr option \<times> sim" where
  "simDeleteRuntimeClass r e =
    (if rcName r \<in> set (simBroken e) then (Some (ApiError ''rejected''), e)
     else if map_of (simRuntimeClasses e) (rcName r) = None then (Some (ApiNotFound ''not found''), e)
     else (None, e\<lparr>simRuntimeClasses := AList.delete (rcName r) (simRuntimeClasses e)\<rparr>))"

definition simStatusUpdate :: "ClusterPolicy \<Rightarrow> sim \<Rightarrow> goerr option \<times> sim" where
  "simStatusUpdate p e =
    (if cpName p \<in> set (simBroken e) then (Some (ApiError ''rejected''), e)
     else (None, e\<lparr>simPolicies := AList.update (cpName p) p (simPolicies e)\<rparr>))"

definition simOwner :: "ClusterPolicy \<Rightarrow> OwnerReference" where
  "simOwner p = \<lparr>ownerKind = ''ClusterPolicy'', ownerName = cpName p,
     ownerUID = metaUID (cpMeta p), ownerController = True\<rparr>"

definition simSetOwner :: "ClusterPolicy \<Rightarrow> ObjectMeta \<Rightarrow> goerr + ObjectMeta" where
  "simSetOwner p m = Inr (m\<lparr>metaOwnerReferences := [simOwner p]\<rparr>)"

definition simHash :: "DaemonSet \<Rightarrow> goerr + 64 word" where
  "simHash d = Inr (of_nat (sum_list (map (\<lambda>c. length (ctrImage c) + length (concat (ctrArgs c)))
     (podContainers (dsPod d)))))"

text \<open>Manifests of the witnesses: the text, and the object it decodes to.\<close>

definition manifestText :: "string \<Rightarrow> string \<Rightarrow> string" where
  "manifestText kind n =
     ''apiVersion: v1'' @ [CHR 0x0A] @ ''kind: '' @ kind @ [CHR 0x0A] @ ''name: '' @ n @ [CHR 0x0A]"

definition simDecodeDaemonSet :: "string \<Rightarrow> goerr + DaemonSet" where
  "simDecodeDaemonSet m =
    (if m = manifestText ''DaemonSet'' ''runtime'' then Inr sampleRuntimeDS
     else if m = manifestText ''DaemonSet'' ''plugin'' then Inr samplePluginDS
     else if m = manifestText ''DaemonSet'' ''hostsetup'' then Inr sampleHostSetupDS
     else Inl (ApiError ''cannot decode''))"

text \<open>Scheme builders and schemes by their address; a scheme knows groups, versions and kinds.\<close>

definition simBuilder :: "sim \<Rightarrow> nat \<Rightarrow> GroupVersion \<times> apiObject list" where
  "simBuilder e b = (case map_of (simBuilders e) b of None \<Rightarrow> (\<lparr>gvGroup = [], gvVersion = []\<rparr>, []) | Some x \<Rightarrow> x)"

definition simKnown :: "sim \<Rightarrow> nat \<Rightarrow> (GroupVersion \<times> string) list" where
  "simKnown e s = (case map_of (simSchemes e) s of None \<Rightarrow> [] | Some ks \<Rightarrow> ks)"

definition simNewBuilder :: "GroupVersion \<Rightarrow> sim \<Rightarrow> nat \<times> sim" where
  "simNewBuilder gv e = (let b = length (simBuilders e) in
     (b, e\<lparr>simBuilders := AList.update b (gv, []) (simBuilders e)\<rparr>))"

definition simRegister :: "nat \<Rightarrow> apiObject list \<Rightarrow> sim \<Rightarrow> unit \<times> sim" where
  "simRegister b objs e =
    ((), e\<lparr>simBuilders := AList.update b (case simBuilder e b of (gv, reg) \<Rightarrow> (gv, reg @ objs)) (simBuilders e)\<rparr>)"

definition simNewScheme :: "sim \<Rightarrow> nat \<times> sim" where
  "simNewScheme e = (let s = length (simSchemes e) in
     (s, e\<lparr>simSchemes := AList.update s [] (simSchemes e)\<rparr>))"

definition simKnow :: "nat \<Rightarrow> (GroupVersion \<times> string) list \<Rightarrow> sim \<Rightarrow> sim" where
  "simKnow s ks e = e\<lparr>simSchemes := AList.update s (simKnown e s @ ks) (simSchemes e)\<rparr>"

definition simClientgoKinds :: "(GroupVersion \<times> string) list" where
  "simClientgoKinds = [(\<lparr>gvGroup = ''apps'', gvVersion = ''v1''\<rparr>, ''DaemonSet''),
     (\<lparr>gvGroup = [], gvVersion = ''v1''\<rparr>, ''Node'')]"

definition simAddToScheme :: "nat \<Rightarrow> nat \<Rightarrow> sim \<Rightarrow> goerr option \<times> sim" where
  "simAddToScheme b s e =
    (case simBuilder e b of (gv, reg) \<Rightarrow> (None, simKnow s (map (\<lambda>obj. (gv, kindOf obj)) reg) e))"

definition simX :: "sim externals" where
  "simX = \<lparr>
     xGetDaemonSet = (\<lambda>ns n e. (simLookup (simDaemonSets e) (ns, n), e)),
     xCreateDaemonSet = simPutDaemonSet True,
     xUpdateDaemonSet = simPutDaemonSet False,
     xDeleteDaemonSet = simDeleteDaemonSet,
     xGetRuntimeClass = (\<lambda>n e. (simLookup (simRuntimeClasses e) n, e)),
     xCreateRuntimeClass = simPutRuntimeClass True,
     xUpdateRuntimeClass = simPutRuntimeClass False,
     xDeleteRuntimeClass = simDeleteRuntimeClass,
     xGetClusterPolicy = (\<lambda>nn e. (simLookup (simPolicies e) (nnName nn), e)),
     xStatusUpdate = simStatusUpdate,
     xListNodes = (\<lambda>e. (Inr (simNodes e), e)),
     xSetControllerReference = simSetOwner,
     xHash = simHash,
     xDecodeDaemonSet = simDecodeDaemonSet,
     xDecodeRuntimeClass = (\<lambda>m rc. Inr (rc\<lparr>rcHandler := ''filled_by_operator''\<rparr>)),
     xGetenv = (\<lambda>k e. ''xilinx-system''),
     xFileTree = (\<lambda>p e. (case map_of (simAssets e) p of None \<Rightarrow> FsStatError | Some t \<Rightarrow> t)),
     xHaveConfig = (\<lambda>e. True),
     xNewDiscoveryClient = (\<lambda>e. (None, e)),
     xServerVersion = (\<lambda>e. (Inr ''v1.25.0'', e)),
     xSemverIsValid = (\<lambda>v. hasPrefix v ''v''),
     xNewManager = (\<lambda>opts e. (None, e)),
     xNewController = (\<lambda>n opts e. (None, e)),
     xWatch = (\<lambda>k e. (None, e)),
     xAddHealthzCheck = (\<lambda>n e. (None, e)),
     xAddReadyzCheck = (\<lambda>n e. (None, e)),
     xStart = (\<lambda>e. (None, e)),
     xNewSchemeBuilder = simNewBuilder,
     xRegister = simRegister,
     xNewScheme = simNewScheme,
     xAddClientgo = (\<lambda>s e. (None, simKnow s simClientgoKinds e)),
     xAddToScheme = simAddToScheme,
     xFlags = [(''kubeconfig'', \<lparr>flagIsBool = False, flagSet = (\<lambda>s e. (True, e\<lparr>simKubeconfig := s\<rparr>))\<rparr>)]\<rparr>"

definition simWorld :: "sim \<Rightarrow> sim world" where
  "simWorld e = \<lparr>wEnv = e, wCalls = []\<rparr>"

text \<open>A controller whose one state holds the given resources.\<close>

definition simController :: "string \<Rightarrow> Resources \<Rightarrow> controlFunc list \<Rightarrow> ClusterPolicy \<Rightarrow> ClusterPolicyController" where
  "simController st res fs p = zeroController\<lparr>ctlSingleton := Some p,
     ctlOperatorNamespace := ''xilinx-system'', ctlResources := [res], ctlControlFuncs := [fs],
     ctlStateNames := [st], ctlRuntime := Containerd\<rparr>"

lemma simController_fields [simp]:
  "ctlSingleton (simController st res fs p) = Some p"
  "ctlOperatorNamespace (simController st res fs p) = ''xilinx-system''"
  "ctlResources (simController st res fs p) = [res]"
  "ctlControlFuncs (simController st res fs p) = [fs]"
  "ctlStateNames (simController st res fs p) = [st]"
  "ctlIdx (simController st res fs p) = 0"
  "ctlRuntime (simController st res fs p) = Containerd"
  by (simp_all add: simController_def zeroController_def)

end
