(* ===== verification/ObjectSpec.thy ===== *)
theory ObjectSpec
  imports ObjectControls ResourceManager ClusterSim
begin

section \<open>What the control functions do\<close>

subsection \<open>Which calls they make\<close>

lemma emits_isDaemonSetReady [emits_intros]:
  "(\<And>ns n r. P (EvGetDaemonSet ns n r)) \<Longrightarrow> emits P (isDaemonSetReady X ns n)"
  unfolding isDaemonSetReady_def api_defs by (intro emits_intros)

lemma emits_deployDaemonSet:
  assumes "\<And>ns n r. P (EvGetDaemonSet ns n r)" and "\<And>d e. P (EvCreateDaemonSet d e)"
    and "\<And>d e. P (EvUpdateDaemonSet d e)"
  shows "emits P (deployDaemonSet X p r obj)"
  unfolding deployDaemonSet_def createAndCheck_def updateAndCheck_def api_defs Let_def
  by (intro emits_intros assms)

lemma emits_daemonSetLoop:
  assumes "\<And>r d. d \<in> set ds \<Longrightarrow> emits P (daemonSetBody X ctrl r d)"
  shows "emits P (daemonSetLoop X ctrl r ds)"
  using assms by (induction ds arbitrary: r) (auto intro!: emits_intros)

lemma emits_DaemonSetFn:
  assumes "\<And>r d. emits P (daemonSetBody X ctrl r d)"
  shows "emits P (DaemonSetFn X ctrl)"
  unfolding DaemonSetFn_def by (intro emits_intros emits_daemonSetLoop assms)

lemma daemonSetBody_events: "emits isDaemonSetEvent (daemonSetBody X ctrl r d)"
  unfolding daemonSetBody_def api_defs Let_def
  by (intro emits_intros emits_deployDaemonSet; simp)

text \<open>With the state disabled, the body of the loop is one delete.\<close>

lemma daemonSetBody_disabled:
  assumes "currentEnabled ctrl = Ret False"
  shows "daemonSetBody X ctrl r d =
    (let obj = d\<lparr>dsMeta := (dsMeta d)\<lparr>metaNamespace := ctlOperatorNamespace ctrl\<rparr>\<rparr> in
     gbind (deleteDaemonSet X obj) (\<lambda>err.
       if realError err then gret NotReady else gret Disabled))"
  using assms by (simp add: daemonSetBody_def Let_def)

lemma RuntimeClassFn_disabled:
  assumes "currentEnabled n = Ret False" and "ctlIdx n < length (ctlResources n)"
    and "ctlSingleton n = Some p"
  shows "RuntimeClassFn X n =
    (let name = getRuntimeClass (cpSpec p); tmpl = resRuntimeClass (ctlResources n ! ctlIdx n) in
     gbind (deleteRuntimeClass X (tmpl\<lparr>rcMeta := (rcMeta tmpl)\<lparr>metaName := name\<rparr>, rcHandler := name\<rparr>))
      (\<lambda>err. if realError err then gret (NotReady, None) else gret (Disabled, None)))"
  using assms by (simp add: RuntimeClassFn_def nthP_in_range Let_def)

text \<open>
  The contract the state manager relies on: a control function only appends events of its own
  kind to the history, an error comes with the state \<open>NotReady\<close>, and a disabled state is never
  deployed.
\<close>

locale control_function =
  fixes f :: "'e externals \<Rightarrow> ClusterPolicyController \<Rightarrow> ('e world, State \<times> goerr option) go"
    and owns :: "event \<Rightarrow> bool"
  assumes own_events: "emits owns (f X c)"
    and error_state: "f X c w = (Ret (s, Some e), w') \<Longrightarrow> s = NotReady"
    and off_no_deploy: "currentEnabled c = Ret False \<Longrightarrow> emits (\<lambda>ev. \<not> isDeploy ev) (f X c)"
    and off_state: "currentEnabled c = Ret False \<Longrightarrow> f X c w = (Ret (s, err), w') \<Longrightarrow>
      err = None \<and> s \<in> {Ready, NotReady, Disabled}"
begin

lemma history_grows: "f X c w = (r, w') \<Longrightarrow> \<exists>evs. wCalls w' = wCalls w @ evs \<and> list_all owns evs"
  using own_events by (metis emitsD)

lemma off_own_no_deploy:
  "currentEnabled c = Ret False \<Longrightarrow> emits (\<lambda>ev. \<not> isDeploy ev \<and> owns ev) (f X c)"
  by (rule emits_conj [OF off_no_deploy own_events])

lemma no_error_if_not_NotReady: "f X c w = (Ret (s, e), w') \<Longrightarrow> s \<noteq> NotReady \<Longrightarrow> e = None"
  by (cases e) (auto dest: error_state)

end

locale infallible_control_function = control_function +
  assumes no_error: "f X c w = (Ret (s, err), w') \<Longrightarrow> err = None"
begin

lemma result_is_state: "f X c w = (Ret r, w') \<Longrightarrow> \<exists>s. r = (s, None)"
  using no_error by (cases r) auto

end

lemma DaemonSetFn_no_error: "DaemonSetFn X c w = (Ret (s, e), w') \<Longrightarrow> e = None"
  by (auto simp: DaemonSetFn_def gbind_Ret_iff)

lemma daemonSetLoop_off_state:
  assumes "currentEnabled c = Ret False"
  shows "daemonSetLoop X c r ds w = (Ret s, w') \<Longrightarrow> r \<in> {Ready, NotReady, Disabled} \<Longrightarrow>
    s \<in> {Ready, NotReady, Disabled}"
proof (induction ds arbitrary: r w)
  case (Cons d ds)
  from Cons.prems(1) obtain r1 w1 where 1: "daemonSetBody X c r d w = (Ret r1, w1)"
    and 2: "daemonSetLoop X c r1 ds w1 = (Ret s, w')"
    by (auto simp: gbind_Ret_iff)
  from 1 have "r1 \<in> {Ready, NotReady, Disabled}"
    by (auto simp: daemonSetBody_disabled [OF assms] gbind_Ret_iff Let_def split: if_splits)
  with 2 show ?case by (rule Cons.IH)
qed auto

interpretation ds_control: infallible_control_function DaemonSetFn isDaemonSetEvent
proof
  fix X :: "'e externals" and c w s e e' w'
  show "emits isDaemonSetEvent (DaemonSetFn X c)"
    by (rule emits_DaemonSetFn) (rule daemonSetBody_events)
  show "DaemonSetFn X c w = (Ret (s, Some e'), w') \<Longrightarrow> s = NotReady"
    by (drule DaemonSetFn_no_error) simp
  show "DaemonSetFn X c w = (Ret (s, e), w') \<Longrightarrow> e = None"
    by (rule DaemonSetFn_no_error)
  assume off: "currentEnabled c = Ret False"
  show "emits (\<lambda>ev. \<not> isDeploy ev) (DaemonSetFn X c)"
    by (rule emits_DaemonSetFn)
      (unfold daemonSetBody_disabled [OF off] api_defs Let_def, intro emits_intros, simp)
  show "DaemonSetFn X c w = (Ret (s, e), w') \<Longrightarrow> e = None \<and> s \<in> {Ready, NotReady, Disabled}"
    using daemonSetLoop_off_state [OF off, of X Ready] by (fastforce simp: DaemonSetFn_def gbind_Ret_iff)
qed

lemma RuntimeClassFn_error_state: "RuntimeClassFn X n w = (Ret (s, Some e), w') \<Longrightarrow> s = NotReady"
  by (auto simp: RuntimeClassFn_def gbind_run api_defs apiCall_run Let_def
      split: if_splits sum.splits option.splits outcome.splits)

interpretation rc_control: control_function RuntimeClassFn isRuntimeClassEvent
proof
  fix X :: "'e externals" and c w s e e' w'
  show "emits isRuntimeClassEvent (RuntimeClassFn X c)"
    unfolding RuntimeClassFn_def api_defs Let_def by (intro emits_intros; simp)
  show "RuntimeClassFn X c w = (Ret (s, Some e'), w') \<Longrightarrow> s = NotReady"
    by (rule RuntimeClassFn_error_state)
  assume off: "currentEnabled c = Ret False"
  show "emits (\<lambda>ev. \<not> isDeploy ev) (RuntimeClassFn X c)"
    using off unfolding RuntimeClassFn_def api_defs Let_def by (simp; intro emits_intros; simp)
  show "RuntimeClassFn X c w = (Ret (s, e), w') \<Longrightarrow> e = None \<and> s \<in> {Ready, NotReady, Disabled}"
    using off by (auto simp: RuntimeClassFn_def gbind_Ret_iff Let_def split: if_splits)
qed

end
