(* ===== verification/DaemonSetSpec.thy ===== *)
theory DaemonSetSpec
  imports ObjectSpec
begin

section \<open>What the DaemonSet control function does\<close>

text \<open>
  The functional behaviour of \<open>DaemonSet\<close> (model name \<open>DaemonSetFn\<close>) on every branch: a disabled
  state, the hash annotation that decides whether an update is sent, the writes of a deployment as
  a refinement of \<open>deployPlan\<close>, and its panics.
\<close>

subsection \<open>A disabled state\<close>

lemma daemonSetLoop_disabled:
  assumes off: "currentEnabled c = Ret False"
  shows "\<exists>errs w'. length errs = length ds \<and>
    daemonSetLoop X c r ds w =
      (Ret (if errs = [] then r else if realError (List.last errs) then NotReady else Disabled), w') \<and>
    wCalls w' = wCalls w @
      map2 (\<lambda>d e. EvDeleteDaemonSet (ctlOperatorNamespace c) (dsName d) e) ds errs"
proof (induction ds arbitrary: r w)
  case (Cons d ds)
  let ?obj = "d\<lparr>dsMeta := (dsMeta d)\<lparr>metaNamespace := ctlOperatorNamespace c\<rparr>\<rparr>"
  let ?e = "fst (xDeleteDaemonSet X ?obj (wEnv w))"
  let ?r = "if realError ?e then NotReady else Disabled"
  obtain w1 where 1: "daemonSetBody X c r d w = (Ret ?r, w1)"
    and c1: "wCalls w1 = wCalls w @ [EvDeleteDaemonSet (ctlOperatorNamespace c) (dsName d) ?e]"
    by (simp add: daemonSetBody_disabled [OF off] Let_def gbind_run api_defs apiCall_run)
  from Cons.IH [of ?r w1] obtain errs w' where len: "length errs = length ds"
    and l: "daemonSetLoop X c ?r ds w1 =
      (Ret (if errs = [] then ?r else if realError (List.last errs) then NotReady else Disabled), w')"
    and c': "wCalls w' = wCalls w1 @
      map2 (\<lambda>d e. EvDeleteDaemonSet (ctlOperatorNamespace c) (dsName d) e) ds errs"
    by blast
  have "daemonSetLoop X c r (d # ds) w =
      (Ret (if ?e # errs = [] then r else if realError (List.last (?e # errs)) then NotReady else Disabled), w')"
    using 1 l by (simp add: gbind_Ret)
  with len c1 c' show ?case by (intro exI [of _ "?e # errs"] exI [of _ w']) simp
qed simp

text \<open>
  C11: In a disabled state the control function makes exactly one delete per template, in the
  order of the templates, and reports Disabled or NotReady after the last delete alone, so that
  a failure of an earlier one is lost; a state without templates is Ready.
\<close>

theorem DaemonSetFn_disabled:
  assumes "currentEnabled c = Ret False" and "ctlIdx c < length (ctlResources c)"
    and "ds = sliceOf (resDaemonsets (ctlResources c ! ctlIdx c))"
  shows "\<exists>errs w'. length errs = length ds \<and>
    DaemonSetFn X c w =
      (Ret (if errs = [] then Ready else if realError (List.last errs) then NotReady else Disabled, None), w') \<and>
    wCalls w' = wCalls w @
      map2 (\<lambda>d e. EvDeleteDaemonSet (ctlOperatorNamespace c) (dsName d) e) ds errs"
proof -
  from assms(1) have i: "ctlIdx c < length (ctlStateNames c)"
    by (auto simp: currentEnabled_def)
  obtain errs s w' where len: "length errs = length ds" and
    l: "daemonSetLoop X c Ready ds w = (Ret s, w')" and
    s: "s = (if errs = [] then Ready else if realError (List.last errs) then NotReady else Disabled)" and
    h: "wCalls w' = wCalls w @
      map2 (\<lambda>d e. EvDeleteDaemonSet (ctlOperatorNamespace c) (dsName d) e) ds errs"
    using daemonSetLoop_disabled [OF assms(1)] by blast
  have "DaemonSetFn X c w = (Ret (s, None), w')"
    using i assms(2) by (simp add: DaemonSetFn_def nthP_in_range assms(3) [symmetric] gbind_run l)
  with len h s show ?thesis by blast
qed

text \<open>
  The witness is a disabled state with two deployed DaemonSets: the first cannot be deleted, the
  second can. The state reported is \<open>Disabled\<close>, and the failure is lost.
\<close>

definition offPolicy :: ClusterPolicy where
  "offPolicy = samplePolicy\<lparr>cpSpec := samplePolicySpec\<lparr>specHostSetup :=
     (specHostSetup samplePolicySpec)\<lparr>hsEnabled := Some False\<rparr>\<rparr>\<rparr>"

definition offController :: ClusterPolicyController where
  "offController = simController ''state-host-setup''
     (emptyResources\<lparr>resDaemonsets := Some [sampleHostSetupDS, samplePluginDS]\<rparr>) [CtlDaemonSet] offPolicy"

definition brokenWorld :: "sim world" where
  "brokenWorld = simWorld (emptySim\<lparr>simBroken := [''host-setup-centos7-daemonset'']\<rparr>)"

lemma offController_facts:
  "currentEnabled offController = Ret False"
  "ctlIdx offController < length (ctlResources offController)"
  "sliceOf (resDaemonsets (ctlResources offController ! ctlIdx offController)) =
     [sampleHostSetupDS, samplePluginDS]"
  "fst (DaemonSetFn simX offController brokenWorld) = Ret (Disabled, None)"
  by (simp add: offController_def currentEnabled_def isStateEnabled_def nthP_def offPolicy_def
      HostSetupSpec_IsEnabled_def, simp add: offController_def, simp add: offController_def, code_simp)

theorem DaemonSetFn_disabled_witness:
  "\<exists>e1 e2 w'. wCalls w' = wCalls brokenWorld @
       [EvDeleteDaemonSet ''xilinx-system'' ''host-setup-centos7-daemonset'' e1,
        EvDeleteDaemonSet ''xilinx-system'' ''device-plugin-daemonset'' e2] \<and>
     DaemonSetFn simX offController brokenWorld =
       (Ret (if realError e2 then NotReady else Disabled, None), w') \<and>
     fst (DaemonSetFn simX offController brokenWorld) = Ret (Disabled, None)"
proof -
  from DaemonSetFn_disabled [OF offController_facts(1,2) offController_facts(3) [symmetric],
      of simX brokenWorld]
  obtain errs w' where len: "length errs = length [sampleHostSetupDS, samplePluginDS]"
    and run: "DaemonSetFn simX offController brokenWorld = (Ret (if errs = [] then Ready
       else if realError (List.last errs) then NotReady else Disabled, None), w')"
    and calls: "wCalls w' = wCalls brokenWorld @
      map2 (\<lambda>d e. EvDeleteDaemonSet (ctlOperatorNamespace offController) (dsName d) e)
        [sampleHostSetupDS, samplePluginDS] errs"
    by blast
  from len obtain e1 e2 where "errs = [e1, e2]"
    by (auto simp: length_Suc_conv)
  with run calls offController_facts(4) show ?thesis
    by (auto simp: offController_def sampleHostSetupDS_def samplePluginDS_def sampleDaemonSet_def)
qed

subsection \<open>The hash annotation\<close>

lemma hashAnnotation_eq: "hashAnnotation m h = map_option (\<lambda>v. v \<noteq> h) (map_of m XilinxAnnotationHashKey)"
  by (induction m h rule: hashAnnotation.induct) auto

lemma setAnnotation_meta [simp]:
  "metaName (dsMeta (setAnnotation k v d)) = dsName d"
  "metaNamespace (dsMeta (setAnnotation k v d)) = dsNamespace d"
  "metaAnnotations (dsMeta (setAnnotation k v d)) = map_option (mapSet k v) (dsAnnotations d)"
  "dsPod (setAnnotation k v d) = dsPod d"
  by (simp_all add: setAnnotation_def)

lemma isDaemonsetSpecChanged_eq:
  assumes "dsAnnotations cur = Some a" and "dsAnnotations new = Some b" and "xHash X new = Inr h"
  shows "isDaemonsetSpecChanged X (Some cur) new =
    (if map_of a XilinxAnnotationHashKey = Some (formatUint16 h) then Ret (False, new)
     else Ret (True, setAnnotation XilinxAnnotationHashKey (formatUint16 h) new))"
  using assms by (auto simp: isDaemonsetSpecChanged_def getDaemonsetHash_def hashAnnotation_eq)

text \<open>
  C29: The change test answers by comparing the hash annotation of the deployed object with the
  hash of the wanted one, and one update is enough: once the object it prepared is deployed, the
  same wanted object compares as unchanged.
\<close>

theorem isDaemonsetSpecChanged_converges:
  assumes "dsAnnotations cur = Some a" and "dsAnnotations new = Some b" and "xHash X new = Inr h"
  shows "\<exists>changed new'. isDaemonsetSpecChanged X (Some cur) new = Ret (changed, new') \<and>
    (changed \<longleftrightarrow> map_of a XilinxAnnotationHashKey \<noteq> Some (formatUint16 h)) \<and>
    (\<not> changed \<longrightarrow> new' = new) \<and>
    (changed \<longrightarrow> isDaemonsetSpecChanged X (Some new') new = Ret (False, new))"
proof (cases "map_of a XilinxAnnotationHashKey = Some (formatUint16 h)")
  case True
  with isDaemonsetSpecChanged_eq [OF assms] show ?thesis by auto
next
  case False
  let ?new = "setAnnotation XilinxAnnotationHashKey (formatUint16 h) new"
  have "dsAnnotations ?new = Some (mapSet XilinxAnnotationHashKey (formatUint16 h) b)"
    using assms(2) by simp
  from isDaemonsetSpecChanged_eq [OF this assms(2,3)] isDaemonsetSpecChanged_eq [OF assms] False
  show ?thesis by auto
qed

definition annotatedDS :: DaemonSet where
  "annotatedDS = samplePluginDS\<lparr>dsMeta := (dsMeta samplePluginDS)\<lparr>metaAnnotations := Some []\<rparr>\<rparr>"

theorem isDaemonsetSpecChanged_converges_witness:
  "\<exists>new'. isDaemonsetSpecChanged simX (Some annotatedDS) annotatedDS = Ret (True, new') \<and>
     isDaemonsetSpecChanged simX (Some new') annotatedDS = Ret (False, annotatedDS)"
proof -
  have a: "dsAnnotations annotatedDS = Some []" by (simp add: annotatedDS_def)
  have h: "xHash simX annotatedDS = Inr (projr (simHash annotatedDS))"
    by (simp add: simX_def simHash_def)
  from isDaemonsetSpecChanged_converges [OF a a h] show ?thesis by auto
qed

lemma natToHex_not_Nil: "natToHex n \<noteq> []"
  by (subst natToHex.simps) simp

text \<open>
  The hash annotation of an object is the hexadecimal rendering of its 64-bit hash: between
  one and sixteen digits, from which the hash can be read back.
\<close>

theorem getDaemonsetHash_hex:
  assumes "xHash X d = Inr h"
  shows "\<exists>s. getDaemonsetHash X d = Ret s \<and> hexToNat s = unat h \<and> 0 < length s \<and> length s \<le> 16"
  using assms formatUint16_length [of h] natToHex_not_Nil [of "unat h"]
  by (simp add: getDaemonsetHash_def formatUint16_def hexToNat_natToHex)

theorem getDaemonsetHash_hex_witness:
  "\<exists>s. getDaemonsetHash (simX\<lparr>xHash := (\<lambda>d. Inr (- 1))\<rparr>) samplePluginDS = Ret s \<and>
     hexToNat s = 2 ^ 64 - 1 \<and> length s \<le> 16"
proof -
  have "xHash (simX\<lparr>xHash := (\<lambda>d. Inr (- 1))\<rparr>) samplePluginDS = Inr (- 1)" by simp
  from getDaemonsetHash_hex [OF this] show ?thesis
    by (auto simp: unsigned_minus_1_eq_mask mask_eq_exp_minus_1)
qed

subsection \<open>Deploying\<close>

datatype daemonSetWrite = WCreate DaemonSet | WUpdate DaemonSet | WDelete string string

fun writeOf :: "event \<Rightarrow> daemonSetWrite option" where
  "writeOf (EvCreateDaemonSet d e) = Some (WCreate d)"
| "writeOf (EvUpdateDaemonSet d e) = Some (WUpdate d)"
| "writeOf (EvDeleteDaemonSet ns n e) = Some (WDelete ns n)"
| "writeOf _ = None"

definition writesOf :: "event list \<Rightarrow> daemonSetWrite list" where
  "writesOf evs = List.map_filter writeOf evs"

lemma writesOf_simps [simp]:
  "writesOf [] = []"
  "writesOf (e # es) = (case writeOf e of None \<Rightarrow> writesOf es | Some x \<Rightarrow> x # writesOf es)"
  "writesOf (es @ fs) = writesOf es @ writesOf fs"
  by (simp_all add: writesOf_def List.map_filter_def split: option.split)

text \<open>What should be written, given what the server has and the hash of what is wanted.\<close>

definition deployPlan :: "goerr + DaemonSet \<Rightarrow> string \<Rightarrow> DaemonSet \<Rightarrow> daemonSetWrite list" where
  "deployPlan r h obj = (case r of
     Inl err \<Rightarrow> if isNotFound err then [WCreate (setAnnotation XilinxAnnotationHashKey h obj)] else []
   | Inr found \<Rightarrow>
       if Option.bind (dsAnnotations found) (\<lambda>a. map_of a XilinxAnnotationHashKey) = Some h then []
       else [WUpdate (setAnnotation XilinxAnnotationHashKey h obj)])"

text \<open>The wanted object: owned by the policy, with annotations allocated.\<close>

definition wanted :: "ObjectMeta \<Rightarrow> DaemonSet \<Rightarrow> DaemonSet" where
  "wanted m obj = obj\<lparr>dsMeta :=
     m\<lparr>metaAnnotations := Some (case metaAnnotations m of None \<Rightarrow> [] | Some a \<Rightarrow> a)\<rparr>\<rparr>"

lemma wanted_meta [simp]:
  "metaName (dsMeta (wanted m obj)) = metaName m"
  "metaNamespace (dsMeta (wanted m obj)) = metaNamespace m"
  "metaAnnotations (dsMeta (wanted m obj)) = Some (case metaAnnotations m of None \<Rightarrow> [] | Some a \<Rightarrow> a)"
  by (simp_all add: wanted_def)

lemma wanted_eq:
  "(if dsAnnotations (obj\<lparr>dsMeta := m\<rparr>) = None
    then obj\<lparr>dsMeta := m\<rparr>\<lparr>dsMeta := (dsMeta (obj\<lparr>dsMeta := m\<rparr>))\<lparr>metaAnnotations := Some []\<rparr>\<rparr>
    else obj\<lparr>dsMeta := m\<rparr>) = wanted m obj"
  by (cases "metaAnnotations m") (simp_all add: wanted_def)

lemma deployDaemonSet_wanted:
  assumes "xSetControllerReference X p (dsMeta obj) = Inr m"
  shows "deployDaemonSet X p result obj =
    gbind (getDaemonSet X (metaNamespace m) (metaName m)) (\<lambda>r.
      case r of
        Inl err \<Rightarrow> if isNotFound err then createAndCheck X result (wanted m obj) else gret NotReady
      | Inr found \<Rightarrow> updateAndCheck X result found (wanted m obj))"
  by (simp only: deployDaemonSet_def Let_def assms sum.case wanted_eq wanted_meta)

lemma isDaemonSetReady_run:
  "isDaemonSetReady X ns n w =
    (let (r, e') = xGetDaemonSet X ns n (wEnv w) in
     (Ret (case r of Inl _ \<Rightarrow> NotReady | Inr d \<Rightarrow> if dsNumberUnavailable d \<noteq> 0 then NotReady else Ready),
      w\<lparr>wEnv := e', wCalls := wCalls w @ [EvGetDaemonSet ns n r]\<rparr>))"
  by (simp add: isDaemonSetReady_def gbind_run api_defs apiCall_run Let_def split: prod.split sum.split)

text \<open>
  C3: The writes of a deployment are those of an abstract plan computed from what the server
  answered: create the wanted object, with its hash annotation, when there is none; update it
  when the hash of the deployed object is another or missing; write nothing when the hash is the
  same or when the object could not be read.
\<close>

theorem deployDaemonSet_refines_plan:
  assumes "xSetControllerReference X p (dsMeta obj) = Inr m" and "xHash X (wanted m obj) = Inr h"
    and "deployDaemonSet X p result obj w = (Ret s, w')"
  shows "\<exists>r evs. wCalls w' = wCalls w @ EvGetDaemonSet (metaNamespace m) (metaName m) r # evs \<and>
    writesOf evs = deployPlan r (formatUint16 h) (wanted m obj)"
proof -
  let ?g = "xGetDaemonSet X (metaNamespace m) (metaName m) (wEnv w)"
  obtain r e1 where g: "?g = (r, e1)" by fastforce
  let ?w1 = "w\<lparr>wEnv := e1, wCalls := wCalls w @ [EvGetDaemonSet (metaNamespace m) (metaName m) r]\<rparr>"
  have run: "deployDaemonSet X p result obj w =
      (case r of
        Inl err \<Rightarrow> if isNotFound err then createAndCheck X result (wanted m obj) else gret NotReady
      | Inr found \<Rightarrow> updateAndCheck X result found (wanted m obj)) ?w1"
    using g by (simp add: deployDaemonSet_wanted [OF assms(1)] gbind_run api_defs apiCall_run)
  have "\<exists>evs. wCalls w' = wCalls ?w1 @ evs \<and> writesOf evs = deployPlan r (formatUint16 h) (wanted m obj)"
  proof (cases r)
    case (Inl err)
    then show ?thesis
      using assms(2,3) run
      by (auto simp: createAndCheck_def getDaemonsetHash_def gbind_run api_defs apiCall_run
          isDaemonSetReady_run deployPlan_def Let_def split: if_splits prod.splits)
  next
    case (Inr found)
    with assms(3) run obtain a where a: "dsAnnotations found = Some a"
      by (auto simp: updateAndCheck_def gbind_run isDaemonsetSpecChanged_def split: option.splits)
    show ?thesis
      using assms(2,3) run Inr a isDaemonsetSpecChanged_eq [OF a wanted_meta(3) assms(2)]
      by (auto simp: updateAndCheck_def gbind_run api_defs apiCall_run
          isDaemonSetReady_run deployPlan_def Let_def split: if_splits prod.splits)
  qed
  then show ?thesis by auto
qed

lemma emptyAnnotations_update: "metaAnnotations m = Some a \<Longrightarrow> m\<lparr>metaAnnotations := Some a\<rparr> = m"
  by (cases m) simp

theorem deployDaemonSet_refines_plan_witness:
  "\<exists>s w' r evs. deployDaemonSet simX samplePolicy Ready samplePluginDS (simWorld emptySim) = (Ret s, w') \<and>
     wCalls w' = EvGetDaemonSet [] ''device-plugin-daemonset'' r # evs \<and>
     length (writesOf evs) = 1 \<and> r = Inl (ApiNotFound ''not found'')"
proof -
  let ?m = "(dsMeta samplePluginDS)\<lparr>metaOwnerReferences := [simOwner samplePolicy]\<rparr>"
  let ?run = "deployDaemonSet simX samplePolicy Ready samplePluginDS (simWorld emptySim)"
  have m: "xSetControllerReference simX samplePolicy (dsMeta samplePluginDS) = Inr ?m"
    by (simp add: simX_def simSetOwner_def)
  have h: "xHash simX (wanted ?m samplePluginDS) = Inr (projr (simHash (wanted ?m samplePluginDS)))"
    by (simp add: simX_def simHash_def)
  have "returns (fst ?run)" by code_simp
  then obtain s where s: "?run = (Ret s, snd ?run)" by (cases "?run") (auto simp: returns_iff)
  have r: "hd (wCalls (snd ?run)) = EvGetDaemonSet [] ''device-plugin-daemonset'' (Inl (ApiNotFound ''not found''))"
    by code_simp
  from deployDaemonSet_refines_plan [OF m h s] obtain r evs
    where *: "wCalls (snd ?run) = wCalls (simWorld emptySim) @ EvGetDaemonSet (metaNamespace ?m) (metaName ?m) r # evs"
      "writesOf evs = deployPlan r (formatUint16 (projr (simHash (wanted ?m samplePluginDS)))) (wanted ?m samplePluginDS)"
    by blast
  with r have "r = Inl (ApiNotFound ''not found'')" by (simp add: simWorld_def)
  with * s show ?thesis
    by (intro exI [of _ s] exI [of _ "snd ?run"] exI [of _ r] exI [of _ evs])
      (simp add: simWorld_def deployPlan_def samplePluginDS_def sampleDaemonSet_def zeroMeta_def)
qed

lemma createAndCheck_returns:
  "xHash X obj = Inr h \<Longrightarrow> returns (fst (createAndCheck X result obj w))"
  by (simp add: createAndCheck_def getDaemonsetHash_def gbind_run api_defs apiCall_run
      isDaemonSetReady_run Let_def split: prod.split)

lemma updateAndCheck_returns_iff:
  "returns (fst (updateAndCheck X result found obj w)) \<longleftrightarrow>
     returns (isDaemonsetSpecChanged X (Some found) obj)"
  by (simp add: updateAndCheck_def gbind_run api_defs apiCall_run isDaemonSetReady_run Let_def
      split: prod.split outcome.split)

lemma isDaemonsetSpecChanged_returns_iff:
  assumes "dsAnnotations new = Some b" and "xHash X new = Inr h"
  shows "returns (isDaemonsetSpecChanged X (Some cur) new) \<longleftrightarrow> dsAnnotations cur \<noteq> None"
  using assms by (auto simp: isDaemonsetSpecChanged_def getDaemonsetHash_def split: option.split)

text \<open>
  C23: Deploying an object whose hash can be computed panics exactly when the server already has
  an object of that name without annotations.
\<close>

theorem deployDaemonSet_panics_iff:
  assumes "xSetControllerReference X p (dsMeta obj) = Inr m" and "xHash X (wanted m obj) = Inr h"
  shows "\<not> returns (fst (deployDaemonSet X p result obj w)) \<longleftrightarrow>
    (\<exists>found. fst (xGetDaemonSet X (metaNamespace m) (metaName m) (wEnv w)) = Inr found \<and>
       dsAnnotations found = None)"
  by (simp add: deployDaemonSet_wanted [OF assms(1)] gbind_run api_defs apiCall_run
      createAndCheck_returns [OF assms(2)] updateAndCheck_returns_iff
      isDaemonsetSpecChanged_returns_iff [OF wanted_meta(3) assms(2)] split: sum.split)

theorem deployDaemonSet_panics_iff_witness:
  "\<not> returns (fst (deployDaemonSet simX samplePolicy Ready samplePluginDS
     (simWorld (emptySim\<lparr>simDaemonSets := [(([], ''device-plugin-daemonset''), samplePluginDS)]\<rparr>))))"
proof -
  let ?m = "(dsMeta samplePluginDS)\<lparr>metaOwnerReferences := [simOwner samplePolicy]\<rparr>"
  have m: "xSetControllerReference simX samplePolicy (dsMeta samplePluginDS) = Inr ?m"
    by (simp add: simX_def simSetOwner_def)
  have h: "xHash simX (wanted ?m samplePluginDS) = Inr (projr (simHash (wanted ?m samplePluginDS)))"
    by (simp add: simX_def simHash_def)
  show ?thesis
    unfolding deployDaemonSet_panics_iff [OF m h]
    by (simp add: simX_def simLookup_def simWorld_def samplePluginDS_def sampleDaemonSet_def zeroMeta_def)
qed

end
