(* ===== verification/ReadinessSpec.thy ===== *)
theory ReadinessSpec
  imports DaemonSetSpec
begin

section \<open>What a result of the DaemonSet control function promises\<close>

text \<open>
  What the operator has done and seen when an enabled state is not \<open>NotReady\<close>, the steady state in
  which it writes nothing, and the objects it can touch at all.
\<close>

subsection \<open>Readiness\<close>

text \<open>What the operator needs of the libraries to know which object it looks at: names are kept.\<close>

definition keepsIdentity :: "'e externals \<Rightarrow> bool" where
  "keepsIdentity X \<longleftrightarrow>
     (\<forall>p m m'. xSetControllerReference X p m = Inr m' \<longrightarrow>
        metaName m' = metaName m \<and> metaNamespace m' = metaNamespace m) \<and>
     (\<forall>d e. dsName (snd (fst (xCreateDaemonSet X d e))) = dsName d \<and>
        dsNamespace (snd (fst (xCreateDaemonSet X d e))) = dsNamespace d) \<and>
     (\<forall>d e. dsName (snd (fst (xUpdateDaemonSet X d e))) = dsName d \<and>
        dsNamespace (snd (fst (xUpdateDaemonSet X d e))) = dsNamespace d)"

lemma keepsIdentityD:
  assumes "keepsIdentity X"
  shows "xSetControllerReference X p m = Inr m' \<Longrightarrow> metaName m' = metaName m"
    and "xSetControllerReference X p m = Inr m' \<Longrightarrow> metaNamespace m' = metaNamespace m"
    and "dsName (snd (fst (xCreateDaemonSet X d e))) = dsName d"
    and "dsNamespace (snd (fst (xCreateDaemonSet X d e))) = dsNamespace d"
    and "dsName (snd (fst (xUpdateDaemonSet X d e))) = dsName d"
    and "dsNamespace (snd (fst (xUpdateDaemonSet X d e))) = dsNamespace d"
  using assms by (auto simp: keepsIdentity_def)

lemma keepsIdentity_simX: "keepsIdentity simX"
  by (auto simp: keepsIdentity_def simX_def simSetOwner_def simPutDaemonSet_def Let_def)

text \<open>A write that went through (a delete of what is not there counts as done).\<close>

fun succeeded :: "event \<Rightarrow> bool" where
  "succeeded (EvCreateDaemonSet d e) = (e = None)"
| "succeeded (EvUpdateDaemonSet d e) = (e = None)"
| "succeeded (EvDeleteDaemonSet ns n e) = (\<not> realError e)"
| "succeeded _ = True"

definition observedReady :: "string \<Rightarrow> string \<Rightarrow> event list \<Rightarrow> bool" where
  "observedReady ns n evs \<longleftrightarrow>
     (\<exists>found. EvGetDaemonSet ns n (Inr found) \<in> set evs \<and> dsNumberUnavailable found = 0)"

lemma observedReady_append [simp]:
  "observedReady ns n (es @ fs) \<longleftrightarrow> observedReady ns n es \<or> observedReady ns n fs"
  by (auto simp: observedReady_def)

lemma createAndCheck_ready:
  assumes "createAndCheck X result obj w = (Ret s, w')" and "s \<noteq> NotReady" and "keepsIdentity X"
  shows "s = result \<and> (\<exists>evs. wCalls w' = wCalls w @ evs \<and> list_all succeeded evs \<and>
    observedReady (dsNamespace obj) (dsName obj) evs)"
proof -
  from assms(1) obtain h where "getDaemonsetHash X obj = Ret h"
    by (auto simp: createAndCheck_def gbind_run split: outcome.splits)
  with assms show ?thesis
    by (auto simp: createAndCheck_def gbind_run api_defs apiCall_run isDaemonSetReady_run Let_def
        observedReady_def keepsIdentityD(3,4) split: if_splits prod.splits sum.splits)
      (metis fst_conv snd_conv keepsIdentityD(3,4) setAnnotation_meta(1,2))+
qed

lemma keepsIdentity_update:
  "fst (xUpdateDaemonSet X d e) = (err, d') \<Longrightarrow> keepsIdentity X \<Longrightarrow>
   dsName d' = dsName d \<and> dsNamespace d' = dsNamespace d"
  using keepsIdentityD(5,6) [of X d e] by auto

lemma updateAndCheck_ready:
  assumes "updateAndCheck X result found obj w = (Ret s, w')" and "s \<noteq> NotReady" and "keepsIdentity X"
  shows "s = result \<and> (\<exists>evs. wCalls w' = wCalls w @ evs \<and> list_all succeeded evs \<and>
    observedReady (dsNamespace obj) (dsName obj) evs)"
proof -
  from assms(1) obtain changed obj' where 1: "isDaemonsetSpecChanged X (Some found) obj = Ret (changed, obj')"
    by (auto simp: updateAndCheck_def gbind_run split: outcome.splits)
  then have 2: "dsName obj' = dsName obj \<and> dsNamespace obj' = dsNamespace obj"
    by (auto simp: isDaemonsetSpecChanged_def split: option.splits if_splits)
  show ?thesis
  proof (cases changed)
    case False
    with assms 1 2 show ?thesis
      by (auto simp: updateAndCheck_def gbind_run isDaemonSetReady_run observedReady_def
          split: if_splits prod.splits sum.splits)
  next
    case True
    obtain err d' where u: "fst (xUpdateDaemonSet X obj' (wEnv w)) = (err, d')" by fastforce
    from keepsIdentity_update [OF u assms(3)] 2
    have "dsName d' = dsName obj" "dsNamespace d' = dsNamespace obj" by simp_all
    with assms(1,2) 1 True u show ?thesis
      by (auto simp: updateAndCheck_def gbind_run api_defs apiCall_run isDaemonSetReady_run
          observedReady_def split: if_splits prod.splits sum.splits)
  qed
qed

lemma deployDaemonSet_ready:
  assumes "deployDaemonSet X p result obj w = (Ret s, w')" and "s \<noteq> NotReady" and "keepsIdentity X"
  shows "s = result \<and> (\<exists>evs. wCalls w' = wCalls w @ evs \<and> list_all succeeded evs \<and>
    observedReady (dsNamespace obj) (dsName obj) evs)"
proof (cases "xSetControllerReference X p (dsMeta obj)")
  case (Inl e)
  with assms show ?thesis by (auto simp: deployDaemonSet_def)
next
  case (Inr m)
  from keepsIdentityD(1,2) [OF assms(3) Inr]
  have m: "dsName (wanted m obj) = dsName obj" "dsNamespace (wanted m obj) = dsNamespace obj"
    by simp_all
  obtain r e1 where g: "xGetDaemonSet X (metaNamespace m) (metaName m) (wEnv w) = (r, e1)" by fastforce
  let ?ev = "EvGetDaemonSet (metaNamespace m) (metaName m) r"
  let ?w1 = "w\<lparr>wEnv := e1, wCalls := wCalls w @ [?ev]\<rparr>"
  have run: "deployDaemonSet X p result obj w =
      (case r of
        Inl err \<Rightarrow> if isNotFound err then createAndCheck X result (wanted m obj) else gret NotReady
      | Inr found \<Rightarrow> updateAndCheck X result found (wanted m obj)) ?w1"
    using g by (simp add: deployDaemonSet_wanted [OF Inr] gbind_run api_defs apiCall_run)
  have "s = result \<and> (\<exists>evs. wCalls w' = wCalls ?w1 @ evs \<and> list_all succeeded evs \<and>
    observedReady (dsNamespace (wanted m obj)) (dsName (wanted m obj)) evs)"
  proof (cases r)
    case (Inl err)
    with assms(1,2) run have "createAndCheck X result (wanted m obj) ?w1 = (Ret s, w')"
      by (simp split: if_splits)
    then show ?thesis by (rule createAndCheck_ready) (rule assms)+
  next
    case (Inr found)
    with assms(1) run have "updateAndCheck X result found (wanted m obj) ?w1 = (Ret s, w')"
      by simp
    then show ?thesis by (rule updateAndCheck_ready) (rule assms)+
  qed
  then obtain evs where "s = result" and c: "wCalls w' = wCalls ?w1 @ evs" "list_all succeeded evs"
    "observedReady (dsNamespace obj) (dsName obj) evs"
    unfolding m by blast
  moreover from c have "wCalls w' = wCalls w @ (?ev # evs) \<and> list_all succeeded (?ev # evs) \<and>
    observedReady (dsNamespace obj) (dsName obj) (?ev # evs)"
    by (auto simp: observedReady_def)
  ultimately show ?thesis by blast
qed

text \<open>The object of a template in the loop, and what has to be in the history once it is settled.\<close>

definition placed :: "ClusterPolicyController \<Rightarrow> DaemonSet \<Rightarrow> DaemonSet" where
  "placed c d = d\<lparr>dsMeta := (dsMeta d)\<lparr>metaNamespace := ctlOperatorNamespace c\<rparr>\<rparr>"

lemma placed_meta [simp]:
  "dsName (placed c d) = dsName d"
  "dsNamespace (placed c d) = ctlOperatorNamespace c"
  by (simp_all add: placed_def)

definition specMissing :: "ClusterPolicyController \<Rightarrow> DaemonSet \<Rightarrow> bool" where
  "specMissing c d \<longleftrightarrow> preProcessDaemonSet (placed c d) c = Ret (Some NoSpecError, placed c d)"

definition settled :: "ClusterPolicyController \<Rightarrow> event list \<Rightarrow> DaemonSet \<Rightarrow> bool" where
  "settled c evs d \<longleftrightarrow>
    (if specMissing c d
     then (\<exists>e. EvDeleteDaemonSet (ctlOperatorNamespace c) (dsName d) e \<in> set evs)
     else observedReady (ctlOperatorNamespace c) (dsName d) evs)"

lemma settled_append: "settled c es d \<or> settled c fs d \<Longrightarrow> settled c (es @ fs) d"
  by (auto simp: settled_def split: if_splits)

lemma daemonSetBody_ready:
  assumes run: "daemonSetBody X c r d w = (Ret s, w')" and on: "currentEnabled c = Ret True"
    and s: "s \<noteq> NotReady" and id: "keepsIdentity X"
  shows "s = (if specMissing c d \<and> r = Ready then Ignored else r) \<and>
    (\<exists>evs. wCalls w' = wCalls w @ evs \<and> list_all succeeded evs \<and> settled c evs d)"
proof -
  from run on obtain err obj where pp: "preProcessDaemonSet (placed c d) c = Ret (err, obj)"
    by (auto simp: daemonSetBody_def Let_def placed_def gbind_run split: outcome.splits)
  from pp_transform.keeps_meta [OF pp] have meta: "dsName obj = dsName d"
      "dsNamespace obj = ctlOperatorNamespace c"
    by simp_all
  show ?thesis
  proof (cases err)
    case None
    with pp have ns: "\<not> specMissing c d" by (simp add: specMissing_def)
    from None run on pp obtain p where "deployDaemonSet X p r obj w = (Ret s, w')"
      by (auto simp: daemonSetBody_def Let_def placed_def gbind_run split: outcome.splits)
    from deployDaemonSet_ready [OF this s id] ns show ?thesis
      by (auto simp: settled_def meta)
  next
    case (Some e)
    with run on pp s have e: "e = NoSpecError"
      by (auto simp: daemonSetBody_def Let_def placed_def gbind_run split: if_splits)
    with Some pp pp_transform.error_unchanged [of "placed c d" c e obj]
    have obj: "obj = placed c d" and sp: "specMissing c d"
      by (simp_all add: specMissing_def)
    from run on pp Some e s show ?thesis
      by (auto simp: daemonSetBody_def Let_def placed_def [symmetric] gbind_run api_defs apiCall_run
          obj settled_def sp split: if_splits)
  qed
qed

text \<open>While the state is enabled, a failure of one DaemonSet is not forgotten by the next.\<close>

lemma deployDaemonSet_sticky: "yields (\<lambda>s. s = NotReady) (deployDaemonSet X p NotReady obj)"
  unfolding deployDaemonSet_def createAndCheck_def updateAndCheck_def Let_def
  by (intro yields_intros; simp)

lemma daemonSetBody_sticky:
  assumes "currentEnabled c = Ret True"
  shows "yields (\<lambda>s. s = NotReady) (daemonSetBody X c NotReady d)"
  using assms unfolding daemonSetBody_def Let_def
  by simp (intro yields_intros deployDaemonSet_sticky; simp)

lemma daemonSetLoop_sticky:
  assumes "currentEnabled c = Ret True"
  shows "yields (\<lambda>s. s = NotReady) (daemonSetLoop X c NotReady ds)"
proof (induction ds)
  case (Cons d ds)
  then show ?case
    by simp (rule yields_gbind_from [OF daemonSetBody_sticky [OF assms]], simp)
qed (simp add: yields_def)

lemma daemonSetLoop_ready:
  assumes "currentEnabled c = Ret True" and "keepsIdentity X"
  shows "daemonSetLoop X c r ds w = (Ret s, w') \<Longrightarrow> s \<noteq> NotReady \<Longrightarrow>
    s = (if r = Ready \<and> (\<exists>d\<in>set ds. specMissing c d) then Ignored else r) \<and>
    (\<exists>evs. wCalls w' = wCalls w @ evs \<and> list_all succeeded evs \<and> (\<forall>d\<in>set ds. settled c evs d))"
proof (induction ds arbitrary: r w)
  case (Cons d ds)
  from Cons.prems(1) obtain r1 w1 where 1: "daemonSetBody X c r d w = (Ret r1, w1)"
    and 2: "daemonSetLoop X c r1 ds w1 = (Ret s, w')"
    by (auto simp: gbind_Ret_iff)
  have "r1 \<noteq> NotReady"
    using yieldsD [OF daemonSetLoop_sticky [OF assms(1)]] 2 Cons.prems(2) by blast
  from daemonSetBody_ready [OF 1 assms(1) this assms(2)] obtain e1 where
    r1: "r1 = (if specMissing c d \<and> r = Ready then Ignored else r)" and
    e1: "wCalls w1 = wCalls w @ e1" "list_all succeeded e1" "settled c e1 d"
    by blast
  from Cons.IH [OF 2 Cons.prems(2)] obtain e2 where
    s: "s = (if r1 = Ready \<and> (\<exists>d\<in>set ds. specMissing c d) then Ignored else r1)" and
    e2: "wCalls w' = wCalls w1 @ e2" "list_all succeeded e2" "\<forall>d\<in>set ds. settled c e2 d"
    by blast
  have "\<forall>d\<in>set (d # ds). settled c (e1 @ e2) d"
    using e1(3) e2(3) settled_append [of c e1 _ e2] by simp
  with e1 e2 have "wCalls w' = wCalls w @ (e1 @ e2) \<and> list_all succeeded (e1 @ e2) \<and>
      (\<forall>d\<in>set (d # ds). settled c (e1 @ e2) d)"
    by simp
  moreover have "s = (if r = Ready \<and> (\<exists>d\<in>set (d # ds). specMissing c d) then Ignored else r)"
    by (cases "specMissing c d"; cases "r = Ready") (simp_all add: s r1)
  ultimately show ?case by blast
qed simp

text \<open>
  C1: When the control function of an enabled state returns anything but NotReady, every create,
  update and delete it made went through, each template that has a spec was read back from the
  server with no unavailable pod, each template without a spec had its DaemonSet deleted, and
  the result is Ignored exactly when some template had no spec. The libraries are assumed to
  keep the name and namespace of the objects they are given.
\<close>

theorem DaemonSetFn_ready:
  assumes "currentEnabled c = Ret True" and "keepsIdentity X"
    and "DaemonSetFn X c w = (Ret (s, err), w')" and "s \<noteq> NotReady"
    and "ds = sliceOf (resDaemonsets (ctlResources c ! ctlIdx c))"
  shows "s = (if \<exists>d\<in>set ds. specMissing c d then Ignored else Ready) \<and>
    (\<exists>evs. wCalls w' = wCalls w @ evs \<and> list_all succeeded evs \<and>
      (\<forall>d\<in>set ds. if specMissing c d
         then \<exists>e. EvDeleteDaemonSet (ctlOperatorNamespace c) (dsName d) e \<in> set evs
         else \<exists>found. EvGetDaemonSet (ctlOperatorNamespace c) (dsName d) (Inr found) \<in> set evs \<and>
           dsNumberUnavailable found = 0))"
proof -
  from assms(3,5) have "daemonSetLoop X c Ready ds w = (Ret s, w')"
    by (auto simp: DaemonSetFn_def gbind_Ret_iff)
  from daemonSetLoop_ready [OF assms(1,2) this assms(4)] show ?thesis
    unfolding settled_def observedReady_def by simp
qed

definition onController :: ClusterPolicyController where
  "onController = simController ''state-device-plugin''
     (emptyResources\<lparr>resDaemonsets := Some [samplePluginDS]\<rparr>) [CtlDaemonSet] samplePolicy"

lemma onController_facts:
  "currentEnabled onController = Ret True"
  "sliceOf (resDaemonsets (ctlResources onController ! ctlIdx onController)) = [samplePluginDS]"
  "fst (DaemonSetFn simX onController (simWorld emptySim)) = Ret (Ready, None)"
  by (simp add: onController_def currentEnabled_def isStateEnabled_def nthP_def samplePolicy_def
      samplePolicySpec_def DevicePluginSpec_IsEnabled_def, simp add: onController_def, code_simp)

lemma onController_not_missing: "\<not> specMissing onController samplePluginDS"
  by code_simp

theorem DaemonSetFn_ready_witness:
  "\<exists>w' evs found. DaemonSetFn simX onController (simWorld emptySim) = (Ret (Ready, None), w') \<and>
     wCalls w' = evs \<and> list_all succeeded evs \<and>
     EvGetDaemonSet ''xilinx-system'' ''device-plugin-daemonset'' (Inr found) \<in> set evs \<and>
     dsNumberUnavailable found = 0"
proof -
  obtain w' where run: "DaemonSetFn simX onController (simWorld emptySim) = (Ret (Ready, None), w')"
    using onController_facts(3) by (metis prod.collapse)
  have n: "ctlOperatorNamespace onController = ''xilinx-system''"
    "dsName samplePluginDS = ''device-plugin-daemonset''"
    by (simp_all add: onController_def samplePluginDS_def sampleDaemonSet_def)
  from DaemonSetFn_ready [OF onController_facts(1) keepsIdentity_simX run _ refl] n
    onController_facts(2) onController_not_missing run show ?thesis
    by (auto simp: simWorld_def)
qed

subsection \<open>The steady state\<close>

text \<open>
  \<open>upToDate X c p e d found\<close>: in the environment \<open>e\<close> the server has, for the template \<open>d\<close>, an object
  that carries the hash of what the policy \<open>p\<close> wants.
\<close>

definition upToDate ::
    "'e externals \<Rightarrow> ClusterPolicyController \<Rightarrow> ClusterPolicy \<Rightarrow> 'e \<Rightarrow> DaemonSet \<Rightarrow> DaemonSet \<Rightarrow> bool" where
  "upToDate X c p e d found \<longleftrightarrow>
    (\<exists>obj m h. preProcessDaemonSet (placed c d) c = Ret (None, obj) \<and>
       xSetControllerReference X p (dsMeta obj) = Inr m \<and> xHash X (wanted m obj) = Inr h \<and>
       fst (xGetDaemonSet X (metaNamespace m) (metaName m) e) = Inr found \<and>
       Option.bind (dsAnnotations found) (\<lambda>a. map_of a XilinxAnnotationHashKey) = Some (formatUint16 h))"

definition readsOnly :: "'e externals \<Rightarrow> bool" where
  "readsOnly X \<longleftrightarrow> (\<forall>ns n e. snd (xGetDaemonSet X ns n e) = e)"

lemma daemonSetBody_steady:
  assumes on: "currentEnabled c = Ret True" and p: "ctlSingleton c = Some p" and ro: "readsOnly X"
    and u: "upToDate X c p (wEnv w) d found"
  shows "\<exists>w' evs. daemonSetBody X c r d w = (Ret (if dsNumberUnavailable found = 0 then r else NotReady), w') \<and>
    wEnv w' = wEnv w \<and> wCalls w' = wCalls w @ evs \<and> list_all (\<lambda>ev. \<not> isWrite ev) evs"
proof -
  from u obtain obj m h where pp: "preProcessDaemonSet (placed c d) c = Ret (None, obj)"
    and m: "xSetControllerReference X p (dsMeta obj) = Inr m" and h: "xHash X (wanted m obj) = Inr h"
    and g: "fst (xGetDaemonSet X (metaNamespace m) (metaName m) (wEnv w)) = Inr found"
    and b: "Option.bind (dsAnnotations found) (\<lambda>a. map_of a XilinxAnnotationHashKey) = Some (formatUint16 h)"
    unfolding upToDate_def by blast
  from g ro have get: "xGetDaemonSet X (metaNamespace m) (metaName m) (wEnv w) = (Inr found, wEnv w)"
    by (metis readsOnly_def prod.collapse)
  from b obtain a where a: "dsAnnotations found = Some a"
    and "map_of a XilinxAnnotationHashKey = Some (formatUint16 h)"
    by (auto simp: bind_eq_Some_conv)
  then have ch: "isDaemonsetSpecChanged X (Some found) (wanted m obj) = Ret (False, wanted m obj)"
    using isDaemonsetSpecChanged_eq [OF a wanted_meta(3) h] by simp
  have "daemonSetBody X c r d w = deployDaemonSet X p r obj w"
    using on p pp by (simp add: daemonSetBody_def Let_def placed_def gbind_run)
  also have "\<dots> = (Ret (if dsNumberUnavailable found = 0 then r else NotReady),
      w\<lparr>wCalls := wCalls w @ replicate 2 (EvGetDaemonSet (metaNamespace m) (metaName m) (Inr found))\<rparr>)"
    by (simp add: deployDaemonSet_wanted [OF m] gbind_run api_defs apiCall_run get updateAndCheck_def ch
        isDaemonSetReady_run numeral_2_eq_2)
  finally show ?thesis by (simp add: numeral_2_eq_2)
qed

lemma daemonSetLoop_steady:
  assumes "currentEnabled c = Ret True" and "ctlSingleton c = Some p" and "readsOnly X"
  shows "list_all2 (upToDate X c p (wEnv w)) ds founds \<Longrightarrow>
    \<exists>w' evs. daemonSetLoop X c r ds w =
      (Ret (if \<forall>f\<in>set founds. dsNumberUnavailable f = 0 then r else NotReady), w') \<and>
    wEnv w' = wEnv w \<and> wCalls w' = wCalls w @ evs \<and> list_all (\<lambda>ev. \<not> isWrite ev) evs"
proof (induction ds arbitrary: founds r w)
  case (Cons d ds)
  then obtain f fs where fs: "founds = f # fs" and u: "upToDate X c p (wEnv w) d f"
    and us: "list_all2 (upToDate X c p (wEnv w)) ds fs"
    by (auto simp: list_all2_Cons1)
  let ?r = "if dsNumberUnavailable f = 0 then r else NotReady"
  from daemonSetBody_steady [OF assms u, of r] obtain w1 e1 where 1: "daemonSetBody X c r d w = (Ret ?r, w1)"
    "wEnv w1 = wEnv w" "wCalls w1 = wCalls w @ e1" "list_all (\<lambda>ev. \<not> isWrite ev) e1" by blast
  from Cons.IH [of w1 fs ?r] us 1(2) obtain w' e2 where 2: "daemonSetLoop X c ?r ds w1 =
      (Ret (if \<forall>f\<in>set fs. dsNumberUnavailable f = 0 then ?r else NotReady), w')"
    "wEnv w' = wEnv w1" "wCalls w' = wCalls w1 @ e2" "list_all (\<lambda>ev. \<not> isWrite ev) e2"
    by auto
  have "daemonSetLoop X c r (d # ds) w =
      (Ret (if \<forall>f\<in>set founds. dsNumberUnavailable f = 0 then r else NotReady), w')"
    using 2(1) by (simp add: gbind_run 1(1) fs)
  moreover have "wCalls w' = wCalls w @ (e1 @ e2)" "list_all (\<lambda>ev. \<not> isWrite ev) (e1 @ e2)" "wEnv w' = wEnv w"
    using 1 2 by simp_all
  ultimately show ?case by blast
qed simp

text \<open>
  C7: Reconciling is idempotent: when the server already has, for every template of an enabled
  state, an object with the hash of what the policy wants, the control function writes nothing,
  leaves the cluster as it is, and reports Ready exactly when no object has unavailable pods.
  Reading is assumed not to change the cluster.
\<close>

theorem DaemonSetFn_steady:
  assumes "currentEnabled c = Ret True" and "ctlSingleton c = Some p" and "readsOnly X"
    and "ctlIdx c < length (ctlResources c)"
    and "list_all2 (upToDate X c p (wEnv w)) (sliceOf (resDaemonsets (ctlResources c ! ctlIdx c))) founds"
  shows "\<exists>w' evs. DaemonSetFn X c w =
      (Ret (if \<forall>f\<in>set founds. dsNumberUnavailable f = 0 then Ready else NotReady, None), w') \<and>
    wEnv w' = wEnv w \<and> wCalls w' = wCalls w @ evs \<and> list_all (\<lambda>ev. \<not> isWrite ev) evs"
proof -
  from assms(1) have i: "ctlIdx c < length (ctlStateNames c)"
    by (auto simp: currentEnabled_def)
  from daemonSetLoop_steady [OF assms(1,2,3,5), of Ready] obtain w' evs where
    "daemonSetLoop X c Ready (sliceOf (resDaemonsets (ctlResources c ! ctlIdx c))) w =
      (Ret (if \<forall>f\<in>set founds. dsNumberUnavailable f = 0 then Ready else NotReady), w')"
    and "wEnv w' = wEnv w \<and> wCalls w' = wCalls w @ evs \<and> list_all (\<lambda>ev. \<not> isWrite ev) evs" by blast
  then show ?thesis
    using i assms(4) by (simp add: DaemonSetFn_def nthP_in_range gbind_run)
qed

text \<open>The witness runs the controller once on an empty cluster; from then on it is in the steady state.\<close>

definition deployedWorld :: "sim world" where
  "deployedWorld = snd (DaemonSetFn simX onController (simWorld emptySim))"

definition deployedPlugin :: DaemonSet where
  "deployedPlugin = snd (hd (simDaemonSets (wEnv deployedWorld)))"

lemma deployed_upToDate: "upToDate simX onController samplePolicy (wEnv deployedWorld) samplePluginDS deployedPlugin"
proof -
  let ?obj = "case preProcessDaemonSet (placed onController samplePluginDS) onController of
    Ret (_, obj) \<Rightarrow> obj | Panic _ \<Rightarrow> samplePluginDS"
  let ?m = "projr (simSetOwner samplePolicy (dsMeta ?obj))"
  let ?h = "projr (simHash (wanted ?m ?obj))"
  have "preProcessDaemonSet (placed onController samplePluginDS) onController = Ret (None, ?obj)" by code_simp
  moreover have "xSetControllerReference simX samplePolicy (dsMeta ?obj) = Inr ?m"
    by (simp add: simX_def simSetOwner_def)
  moreover have "xHash simX (wanted ?m ?obj) = Inr ?h"
    by (simp add: simX_def simHash_def)
  moreover have "fst (xGetDaemonSet simX (metaNamespace ?m) (metaName ?m) (wEnv deployedWorld)) = Inr deployedPlugin"
    by code_simp
  moreover have "Option.bind (dsAnnotations deployedPlugin) (\<lambda>a. map_of a XilinxAnnotationHashKey) =
      Some (formatUint16 ?h)"
    by code_simp
  ultimately show ?thesis unfolding upToDate_def by blast
qed

theorem DaemonSetFn_steady_witness:
  "\<exists>w' evs. DaemonSetFn simX onController deployedWorld = (Ret (Ready, None), w') \<and>
     wEnv w' = wEnv deployedWorld \<and> wCalls w' = wCalls deployedWorld @ evs \<and>
     list_all (\<lambda>ev. \<not> isWrite ev) evs"
proof -
  have s: "ctlSingleton onController = Some samplePolicy" "ctlIdx onController < length (ctlResources onController)"
    by (simp_all add: onController_def)
  have ro: "readsOnly simX" by (simp add: readsOnly_def simX_def)
  have u: "list_all2 (upToDate simX onController samplePolicy (wEnv deployedWorld))
      (sliceOf (resDaemonsets (ctlResources onController ! ctlIdx onController))) [deployedPlugin]"
    by (simp add: onController_facts(2) deployed_upToDate)
  have "dsNumberUnavailable deployedPlugin = 0" by code_simp
  with DaemonSetFn_steady [OF onController_facts(1) s(1) ro s(2) u] show ?thesis by simp
qed

subsection \<open>The objects touched\<close>

text \<open>An event about one of the DaemonSets named \<open>names\<close> in the namespace \<open>ns\<close>.\<close>

fun inScope :: "string \<Rightarrow> string set \<Rightarrow> event \<Rightarrow> bool" where
  "inScope ns names (EvGetDaemonSet ns' n r) = (ns' = ns \<and> n \<in> names)"
| "inScope ns names (EvCreateDaemonSet d e) = (dsNamespace d = ns \<and> dsName d \<in> names)"
| "inScope ns names (EvUpdateDaemonSet d e) = (dsNamespace d = ns \<and> dsName d \<in> names)"
| "inScope ns names (EvDeleteDaemonSet ns' n e) = (ns' = ns \<and> n \<in> names)"
| "inScope ns names _ = False"

lemma keepsIdentity_yields:
  assumes "keepsIdentity X"
  shows "yields (\<lambda>(e, d'). dsName d' = dsName d \<and> dsNamespace d' = dsNamespace d) (createDaemonSet X d)"
    and "yields (\<lambda>(e, d'). dsName d' = dsName d \<and> dsNamespace d' = dsNamespace d) (updateDaemonSet X d)"
  using keepsIdentityD(3-6) [OF assms, of d]
  by (auto simp: yields_def api_defs apiCall_def split: prod.splits) (metis fst_conv snd_conv)+

lemma isDaemonsetSpecChanged_meta:
  "isDaemonsetSpecChanged X cur new = Ret (b, new') \<Longrightarrow> dsName new' = dsName new \<and> dsNamespace new' = dsNamespace new"
  by (auto simp: isDaemonsetSpecChanged_def split: option.splits if_splits)

lemma yields_glift: "(\<And>a. r = Ret a \<Longrightarrow> Q a) \<Longrightarrow> yields Q (glift r)"
  by (simp add: yields_def)

lemma emits_ready_scope:
  "ns' = ns \<Longrightarrow> n \<in> names \<Longrightarrow> emits (inScope ns names) (isDaemonSetReady X ns' n)"
  unfolding isDaemonSetReady_def api_defs by (intro emits_intros) simp

lemma emits_createAndCheck:
  assumes "keepsIdentity X" and "dsNamespace obj = ns" and "dsName obj \<in> names"
  shows "emits (inScope ns names) (createAndCheck X result obj)"
  unfolding createAndCheck_def Let_def
proof (rule emits_gbind [OF emits_glift], rule emits_gbind_yields [OF _ keepsIdentity_yields(1) [OF assms(1)]])
  fix h
  show "emits (inScope ns names) (createDaemonSet X (setAnnotation XilinxAnnotationHashKey h obj))"
    unfolding api_defs using assms by (intro emits_intros) simp
qed (use assms in \<open>auto simp: isDaemonSetReady_def api_defs intro!: emits_intros\<close>)

lemma emits_updateAndCheck:
  assumes "keepsIdentity X" and "dsNamespace obj = ns" and "dsName obj \<in> names"
  shows "emits (inScope ns names) (updateAndCheck X result found obj)"
proof -
  let ?Q = "\<lambda>d. dsName d = dsName obj \<and> dsNamespace d = dsNamespace obj"
  have y: "yields (\<lambda>(b, d). ?Q d) (glift (isDaemonsetSpecChanged X (Some found) obj))"
    by (auto intro!: yields_glift dest: isDaemonsetSpecChanged_meta)
  show ?thesis
    unfolding updateAndCheck_def
  proof (rule emits_gbind_yields [OF emits_glift y], clarify)
    fix changed obj'
    assume meta: "dsName obj' = dsName obj" "dsNamespace obj' = dsNamespace obj"
    let ?m = "if changed then updateDaemonSet X obj' else gret (None, obj')"
    have e: "emits (inScope ns names) ?m"
      using assms meta unfolding api_defs by (intro emits_intros) simp
    have q: "yields (\<lambda>(e, d). ?Q d) ?m"
      using keepsIdentity_yields(2) [OF assms(1), of obj'] meta by (auto intro: yields_gret)
    show "emits (inScope ns names) (gbind ?m (\<lambda>(err, obj). if err \<noteq> None then gret NotReady
        else gbind (isDaemonSetReady X (dsNamespace obj) (dsName obj)) (\<lambda>status.
          gret (if status = NotReady then NotReady else result))))"
      by (rule emits_gbind_yields [OF e q])
        (use assms in \<open>auto intro!: emits_gret emits_gbind emits_ready_scope\<close>)
  qed
qed

lemma emits_deployDaemonSet_scope:
  assumes "keepsIdentity X" and "dsNamespace obj = ns" and "dsName obj \<in> names"
  shows "emits (inScope ns names) (deployDaemonSet X p result obj)"
proof (cases "xSetControllerReference X p (dsMeta obj)")
  case (Inl e)
  then show ?thesis by (simp add: deployDaemonSet_def emits_gret)
next
  case (Inr m)
  note m = keepsIdentityD(1,2) [OF assms(1) Inr]
  have "emits (inScope ns names) (getDaemonSet X (metaNamespace m) (metaName m))"
    unfolding api_defs using assms m by (intro emits_intros) simp
  moreover have "emits (inScope ns names) (createAndCheck X result (wanted m obj))"
    "emits (inScope ns names) (updateAndCheck X result found (wanted m obj))" for found
    using assms m by (simp_all add: emits_createAndCheck emits_updateAndCheck)
  ultimately show ?thesis
    unfolding deployDaemonSet_wanted [OF Inr] by (intro emits_intros)
qed

lemma emits_daemonSetBody_scope:
  assumes "keepsIdentity X" and "dsName d \<in> names"
  shows "emits (inScope (ctlOperatorNamespace c) names) (daemonSetBody X c r d)"
proof -
  have del: "emits (inScope (ctlOperatorNamespace c) names) (deleteDaemonSet X obj)"
    if "dsName obj = dsName d" "dsNamespace obj = ctlOperatorNamespace c" for obj
    unfolding api_defs using that assms(2) by (intro emits_intros) simp
  have y: "yields (\<lambda>(e, obj). dsName obj = dsName d \<and> dsNamespace obj = ctlOperatorNamespace c)
      (glift (preProcessDaemonSet (placed c d) c))"
    by (auto intro!: yields_glift dest: pp_transform.keeps_meta)
  have dep: "emits (inScope (ctlOperatorNamespace c) names) (deployDaemonSet X p r obj)"
    if "dsName obj = dsName d" "dsNamespace obj = ctlOperatorNamespace c" for p obj
    using that assms by (intro emits_deployDaemonSet_scope) simp_all
  show ?thesis
    unfolding daemonSetBody_def Let_def placed_def [symmetric]
    by (intro emits_gbind [OF emits_glift] emits_if emits_gbind [OF del] emits_gbind_yields [OF emits_glift y])
      (auto intro!: emits_intros del dep)
qed

text \<open>
  C8: Provided that create, update and SetControllerReference hand an object back with the name
  and namespace it was sent with, then, whatever else the server answers and whether or not the
  control function panics, it reads, creates, updates and deletes only DaemonSets that have the
  name of one of the templates of the current state, and only in the namespace of the operator.
\<close>

theorem DaemonSetFn_scope:
  assumes "keepsIdentity X"
    and "names = dsName ` set (sliceOf (resDaemonsets (ctlResources c ! ctlIdx c)))"
  shows "\<exists>evs. wCalls (snd (DaemonSetFn X c w)) = wCalls w @ evs \<and>
    list_all (inScope (ctlOperatorNamespace c) names) evs"
proof -
  have "emits (inScope (ctlOperatorNamespace c) names)
      (daemonSetLoop X c Ready (sliceOf (resDaemonsets (ctlResources c ! ctlIdx c))))"
    using assms by (intro emits_daemonSetLoop emits_daemonSetBody_scope) auto
  moreover have res: "yields (\<lambda>res. res = ctlResources c ! ctlIdx c) (glift (nthP (ctlResources c) (ctlIdx c)))"
    by (auto intro: yields_glift)
  ultimately have "emits (inScope (ctlOperatorNamespace c) names) (DaemonSetFn X c)"
    unfolding DaemonSetFn_def
    by (intro emits_gbind_yields [OF emits_glift res]) (auto intro!: emits_intros)
  then show ?thesis by (simp add: emits_def)
qed

theorem DaemonSetFn_scope_witness:
  "list_all (inScope ''xilinx-system'' {''device-plugin-daemonset''})
     (wCalls (snd (DaemonSetFn simX onController (simWorld emptySim)))) \<and>
   wCalls (snd (DaemonSetFn simX onController (simWorld emptySim))) \<noteq> []"
proof
  have n: "dsName samplePluginDS = ''device-plugin-daemonset''" "ctlOperatorNamespace onController = ''xilinx-system''"
    by (simp_all add: samplePluginDS_def sampleDaemonSet_def onController_def)
  from DaemonSetFn_scope [OF keepsIdentity_simX refl, of onController "simWorld emptySim"]
  show "list_all (inScope ''xilinx-system'' {''device-plugin-daemonset''})
     (wCalls (snd (DaemonSetFn simX onController (simWorld emptySim))))"
    by (simp add: onController_facts(2) n simWorld_def)
  show "wCalls (snd (DaemonSetFn simX onController (simWorld emptySim))) \<noteq> []" by code_simp
qed

end
