(* ===== verification/RuntimeClassSpec.thy ===== *)
theory RuntimeClassSpec
  imports ObjectSpec
begin

section \<open>What the RuntimeClass control function does\<close>

text \<open>
  The functional behaviour of \<open>RuntimeClass\<close> (model name \<open>RuntimeClassFn\<close>): the calls of an enabled
  state with the objects they carry, whatever the server answers, and the RuntimeClasses a run leaves
  behind on a server that locks optimistically, in an enabled and in a disabled state.
\<close>

text \<open>The RuntimeClass the policy wants, before the owner reference is set.\<close>

definition namedRuntimeClass :: "ClusterPolicy \<Rightarrow> RuntimeClass \<Rightarrow> RuntimeClass" where
  "namedRuntimeClass p tmpl = (let name = getRuntimeClass (cpSpec p) in
     tmpl\<lparr>rcMeta := (rcMeta tmpl)\<lparr>metaName := name\<rparr>, rcHandler := name\<rparr>)"

lemma namedRuntimeClass_fields [simp]:
  "rcName (namedRuntimeClass p tmpl) = getRuntimeClass (cpSpec p)"
  "rcHandler (namedRuntimeClass p tmpl) = getRuntimeClass (cpSpec p)"
  "rcOther (namedRuntimeClass p tmpl) = rcOther tmpl"
  by (simp_all add: namedRuntimeClass_def Let_def)

text \<open>In an enabled state: read, then create or update.\<close>

lemma RuntimeClassFn_run:
  assumes "currentEnabled c = Ret True" and "ctlIdx c < length (ctlResources c)"
    and "ctlSingleton c = Some p"
    and "named = namedRuntimeClass p (resRuntimeClass (ctlResources c ! ctlIdx c))"
    and "xSetControllerReference X p (rcMeta named) = Inr m"
  shows "RuntimeClassFn X c w =
    gbind (getRuntimeClassObj X (metaName m)) (\<lambda>r.
      case r of
        Inl err \<Rightarrow> if isNotFound err then
            gbind (createRuntimeClass X (named\<lparr>rcMeta := m\<rparr>)) (\<lambda>e.
              case e of Some err \<Rightarrow> gret (NotReady, Some err) | None \<Rightarrow> gret (Ready, None))
          else gret (NotReady, Some err)
      | Inr found \<Rightarrow>
          gbind (updateRuntimeClass X (named\<lparr>rcMeta := m\<lparr>metaResourceVersion := metaResourceVersion (rcMeta found)\<rparr>\<rparr>)) (\<lambda>e.
            case e of Some err \<Rightarrow> gret (NotReady, Some err) | None \<Rightarrow> gret (Ready, None))) w"

  using assms(1-3) assms(5) [unfolded assms(4) namedRuntimeClass_def Let_def]
  unfolding assms(4) namedRuntimeClass_def Let_def
  by (simp add: RuntimeClassFn_def nthP_in_range Let_def cong: sum.case_cong if_cong)

subsection \<open>What it sends\<close>

text \<open>\<open>SetControllerReference\<close> adds an owner reference; the name of the object stays.\<close>

definition ownerKeepsName :: "'e externals \<Rightarrow> bool" where
  "ownerKeepsName X \<longleftrightarrow> (\<forall>p m m'. xSetControllerReference X p m = Inr m' \<longrightarrow> metaName m' = metaName m)"

lemma namedRuntimeClass_unfold:
  assumes "n = (if crRuntimeClass (specContainerRuntime (cpSpec p)) = [] then ''xilinx''
      else crRuntimeClass (specContainerRuntime (cpSpec p)))"
  shows "namedRuntimeClass p tmpl = tmpl\<lparr>rcMeta := (rcMeta tmpl)\<lparr>metaName := n\<rparr>, rcHandler := n\<rparr>"
    and "getRuntimeClass (cpSpec p) = n"
  by (simp_all add: namedRuntimeClass_def getRuntimeClass_def DefaultRuntimeClass_def Let_def assms)

lemma RuntimeClassFn_unowned:
  assumes "currentEnabled c = Ret True" and "ctlIdx c < length (ctlResources c)"
    and "ctlSingleton c = Some p"
    and "xSetControllerReference X p (rcMeta (namedRuntimeClass p (resRuntimeClass (ctlResources c ! ctlIdx c)))) = Inl err"
  shows "RuntimeClassFn X c w = (Ret (NotReady, Some err), w)"
  using assms(1-3) assms(4) [unfolded namedRuntimeClass_def Let_def]
  by (simp add: RuntimeClassFn_def nthP_in_range Let_def)

text \<open>
  C13: In an enabled state the RuntimeClass control function works on one name, the runtimeClass
  setting of the policy or xilinx if that is empty, provided SetControllerReference keeps the
  name of an object. If SetControllerReference fails its error is returned with NotReady and no
  call is made. Otherwise the class of that name is read; if it is missing the template is
  created, and if it is there it is replaced with the resource version just read, in both cases
  with that name as name and handler and the metadata SetControllerReference returned; the
  result is Ready exactly when that write succeeded, and the error of the write is returned
  otherwise. Any other error of the read is returned with NotReady and nothing is written.
\<close>

theorem RuntimeClassFn_enabled:
  assumes "currentEnabled c = Ret True" and "ctlIdx c < length (ctlResources c)"
    and "ctlSingleton c = Some p" and "ownerKeepsName X"
    and n: "n = (if crRuntimeClass (specContainerRuntime (cpSpec p)) = [] then ''xilinx''
      else crRuntimeClass (specContainerRuntime (cpSpec p)))"
    and tmpl: "tmpl = resRuntimeClass (ctlResources c ! ctlIdx c)"
  shows "case xSetControllerReference X p ((rcMeta tmpl)\<lparr>metaName := n\<rparr>) of
      Inl err \<Rightarrow> RuntimeClassFn X c w = (Ret (NotReady, Some err), w)
    | Inr m \<Rightarrow> metaName m = n \<and>
        (\<exists>evs res w'. RuntimeClassFn X c w = (Ret res, w') \<and>
          wCalls w' = wCalls w @ EvGetRuntimeClass n (fst (xGetRuntimeClass X n (wEnv w))) # evs \<and>
          (case fst (xGetRuntimeClass X n (wEnv w)) of
             Inr found \<Rightarrow> (\<exists>e. evs = [EvUpdateRuntimeClass (tmpl\<lparr>rcHandler := n, rcMeta :=
                 m\<lparr>metaResourceVersion := metaResourceVersion (rcMeta found)\<rparr>\<rparr>) e] \<and>
               res = (if e = None then Ready else NotReady, e))
           | Inl (ApiNotFound _) \<Rightarrow> (\<exists>e. evs = [EvCreateRuntimeClass (tmpl\<lparr>rcHandler := n, rcMeta := m\<rparr>) e] \<and>
               res = (if e = None then Ready else NotReady, e))
           | Inl err \<Rightarrow> evs = [] \<and> res = (NotReady, Some err)))"
proof -
  let ?named = "namedRuntimeClass p tmpl"
  note named = namedRuntimeClass_unfold [OF n]
  show ?thesis
  proof (cases "xSetControllerReference X p (rcMeta ?named)")
    case (Inl err)
    with RuntimeClassFn_unowned [OF assms(1-3) Inl [unfolded tmpl]] show ?thesis by (simp add: named)
  next
    case (Inr m)
    with assms(4) have name: "metaName m = n"
      unfolding ownerKeepsName_def by (fastforce simp: named)
    note run = RuntimeClassFn_run [OF assms(1-3) refl Inr [unfolded tmpl], of w, folded tmpl]
    have "\<exists>evs res w'. RuntimeClassFn X c w = (Ret res, w') \<and>
        wCalls w' = wCalls w @ EvGetRuntimeClass n (fst (xGetRuntimeClass X n (wEnv w))) # evs \<and>
        (case fst (xGetRuntimeClass X n (wEnv w)) of
           Inr found \<Rightarrow> (\<exists>e. evs = [EvUpdateRuntimeClass (tmpl\<lparr>rcHandler := n, rcMeta :=
               m\<lparr>metaResourceVersion := metaResourceVersion (rcMeta found)\<rparr>\<rparr>) e] \<and>
             res = (if e = None then Ready else NotReady, e))
         | Inl (ApiNotFound _) \<Rightarrow> (\<exists>e. evs = [EvCreateRuntimeClass (tmpl\<lparr>rcHandler := n, rcMeta := m\<rparr>) e] \<and>
             res = (if e = None then Ready else NotReady, e))
         | Inl err \<Rightarrow> evs = [] \<and> res = (NotReady, Some err))"
      by (auto simp: run named name gbind_run api_defs apiCall_run split: sum.split goerr.split option.split)
    with Inr name show ?thesis by (simp add: named)
  qed
qed

definition rcController :: ClusterPolicyController where
  "rcController = simController ''state-container-runtime'' emptyResources [CtlRuntimeClass] samplePolicy"

lemma rcController_on:
  "currentEnabled rcController = Ret True" "ctlIdx rcController < length (ctlResources rcController)"
  "ctlSingleton rcController = Some samplePolicy"
  by (simp_all add: rcController_def currentEnabled_def isStateEnabled_def nthP_def samplePolicy_def
      samplePolicySpec_def ContainerRuntimeSpec_IsEnabled_def)

lemma simX_ownerKeepsName: "ownerKeepsName simX"
  by (simp add: ownerKeepsName_def simX_def simSetOwner_def)

theorem RuntimeClassFn_enabled_witness:
  "\<exists>d e w'. RuntimeClassFn simX rcController (simWorld emptySim) =
       (Ret (if e = None then Ready else NotReady, e), w') \<and>
     wCalls w' = [EvGetRuntimeClass ''xilinx'' (Inl (ApiNotFound ''not found'')), EvCreateRuntimeClass d e] \<and>
     rcName d = ''xilinx'' \<and> rcHandler d = ''xilinx'' \<and>
     metaOwnerReferences (rcMeta d) = [simOwner samplePolicy]"
proof -
  have n: "''xilinx'' = (if crRuntimeClass (specContainerRuntime (cpSpec samplePolicy)) = [] then ''xilinx''
      else crRuntimeClass (specContainerRuntime (cpSpec samplePolicy)))"
    by (simp add: samplePolicy_def samplePolicySpec_def)
  have g: "fst (xGetRuntimeClass simX ''xilinx'' (wEnv (simWorld emptySim))) = Inl (ApiNotFound ''not found'')"
    by (simp add: simX_def simLookup_def simWorld_def emptySim_def)
  have o1: "xSetControllerReference simX samplePolicy m = Inr (m\<lparr>metaOwnerReferences := [simOwner samplePolicy]\<rparr>)" for m
    by (simp add: simX_def simSetOwner_def)
  have c: "wCalls (simWorld emptySim) = []" by (simp add: simWorld_def)
  show ?thesis
    using RuntimeClassFn_enabled [OF rcController_on simX_ownerKeepsName n refl, of "simWorld emptySim"]
    by (fastforce simp: g o1 c)
qed

subsection \<open>What it leaves behind\<close>

text \<open>
  A server that keeps RuntimeClasses, by what is seen under a name after each call. It locks
  optimistically: an update must carry the resource version of the object it replaces. It does not let
  the handler of an object change, as the API documents. What is stored has the name, the handler, the
  owner references and the unknown parts of the object sent; other metadata are the server's.
\<close>

definition stored :: "RuntimeClass \<Rightarrow> RuntimeClass \<Rightarrow> bool" where
  "stored r s \<longleftrightarrow> rcName s = rcName r \<and> rcHandler s = rcHandler r \<and> rcOther s = rcOther r \<and>
     metaOwnerReferences (rcMeta s) = metaOwnerReferences (rcMeta r)"

definition replaces :: "RuntimeClass \<Rightarrow> RuntimeClass \<Rightarrow> bool" where
  "replaces r old \<longleftrightarrow> rcHandler r = rcHandler old \<and>
     metaResourceVersion (rcMeta r) = metaResourceVersion (rcMeta old)"

definition locksClasses :: "'e externals \<Rightarrow> ('e \<Rightarrow> string \<Rightarrow> RuntimeClass option) \<Rightarrow> bool" where
  "locksClasses X see \<longleftrightarrow>
    (\<forall>n e. case see e n of
       Some r \<Rightarrow> xGetRuntimeClass X n e = (Inr r, e)
     | None \<Rightarrow> \<exists>msg. xGetRuntimeClass X n e = (Inl (ApiNotFound msg), e)) \<and>
    (\<forall>r e. see e (rcName r) = None \<longrightarrow>
       (\<exists>s e'. xCreateRuntimeClass X r e = (None, e') \<and> stored r s \<and> see e' = (see e)(rcName r := Some s))) \<and>
    (\<forall>r e old. see e (rcName r) = Some old \<longrightarrow>
       (if replaces r old
        then \<exists>s e'. xUpdateRuntimeClass X r e = (None, e') \<and> stored r s \<and> see e' = (see e)(rcName r := Some s)
        else \<exists>msg e'. xUpdateRuntimeClass X r e = (Some (ApiError msg), e') \<and> see e' = see e)) \<and>
    (\<forall>r e. \<exists>err e'. xDeleteRuntimeClass X r e = (err, e') \<and> see e' = (see e)(rcName r := None) \<and>
       (case see e (rcName r) of
          Some _ \<Rightarrow> err = None
        | None \<Rightarrow> \<exists>msg. err = Some (ApiNotFound msg)))"

lemma locksClassesD:
  assumes "locksClasses X see"
  shows locks_get: "see e n = Some r \<Longrightarrow> xGetRuntimeClass X n e = (Inr r, e)"
    and locks_missing: "see e n = None \<Longrightarrow> \<exists>msg. xGetRuntimeClass X n e = (Inl (ApiNotFound msg), e)"
    and locks_create: "see e (rcName q) = None \<Longrightarrow>
      \<exists>s e'. xCreateRuntimeClass X q e = (None, e') \<and> stored q s \<and> see e' = (see e)(rcName q := Some s)"
    and locks_update: "see e (rcName q) = Some old \<Longrightarrow> replaces q old \<Longrightarrow>
      \<exists>s e'. xUpdateRuntimeClass X q e = (None, e') \<and> stored q s \<and> see e' = (see e)(rcName q := Some s)"
    and locks_refuse: "see e (rcName q) = Some old \<Longrightarrow> \<not> replaces q old \<Longrightarrow>
      \<exists>msg e'. xUpdateRuntimeClass X q e = (Some (ApiError msg), e') \<and> see e' = see e"
    and locks_delete: "\<exists>err e'. xDeleteRuntimeClass X q e = (err, e') \<and> \<not> realError err \<and>
      see e' = (see e)(rcName q := None)"
proof -
  note laws = assms [unfolded locksClasses_def]
  note get = conjunct1 [OF laws, rule_format, where e = e and n = n]
    and create = conjunct1 [OF conjunct2 [OF laws], rule_format, where e = e and r = q]
    and update = conjunct1 [OF conjunct2 [OF conjunct2 [OF laws]], rule_format, where e = e and r = q and old = old]
    and delete = conjunct2 [OF conjunct2 [OF conjunct2 [OF laws]], rule_format, where r = q and e = e]
  show "see e n = Some r \<Longrightarrow> xGetRuntimeClass X n e = (Inr r, e)"
    and "see e n = None \<Longrightarrow> \<exists>msg. xGetRuntimeClass X n e = (Inl (ApiNotFound msg), e)"
    using get by simp_all
  show "see e (rcName q) = None \<Longrightarrow>
      \<exists>s e'. xCreateRuntimeClass X q e = (None, e') \<and> stored q s \<and> see e' = (see e)(rcName q := Some s)"
    by (rule create)
  show "see e (rcName q) = Some old \<Longrightarrow> replaces q old \<Longrightarrow>
      \<exists>s e'. xUpdateRuntimeClass X q e = (None, e') \<and> stored q s \<and> see e' = (see e)(rcName q := Some s)"
    and "see e (rcName q) = Some old \<Longrightarrow> \<not> replaces q old \<Longrightarrow>
      \<exists>msg e'. xUpdateRuntimeClass X q e = (Some (ApiError msg), e') \<and> see e' = see e"
    using update by simp_all
  show "\<exists>err e'. xDeleteRuntimeClass X q e = (err, e') \<and> \<not> realError err \<and>
      see e' = (see e)(rcName q := None)"
    using delete by (cases "see e (rcName q)") force+
qed

text \<open>An enabled state on such a server: the class is stored, unless the handler would change.\<close>

lemma RuntimeClassFn_stores:
  assumes on: "currentEnabled c = Ret True" "ctlIdx c < length (ctlResources c)" "ctlSingleton c = Some p"
    and locks: "locksClasses X see"
    and named: "named = namedRuntimeClass p (resRuntimeClass (ctlResources c ! ctlIdx c))"
    and owned: "xSetControllerReference X p (rcMeta named) = Inr m" "metaName m = rcName named"
  shows "\<exists>res w'. RuntimeClassFn X c w = (Ret res, w') \<and>
    (if \<exists>old. see (wEnv w) (rcName named) = Some old \<and> rcHandler old \<noteq> rcHandler named
     then (\<exists>err. res = (NotReady, Some err)) \<and> see (wEnv w') = see (wEnv w)
     else res = (Ready, None) \<and>
       (\<exists>s. stored (named\<lparr>rcMeta := m\<rparr>) s \<and> see (wEnv w') = (see (wEnv w))(rcName named := Some s)))"
proof -
  note run = RuntimeClassFn_run [OF on named owned(1), of w]
  show ?thesis
  proof (cases "see (wEnv w) (rcName named)")
    case None
    from locks_missing [OF locks None] obtain msg where
      get: "xGetRuntimeClass X (rcName named) (wEnv w) = (Inl (ApiNotFound msg), wEnv w)" by blast
    from locks_create [OF locks, of "wEnv w" "named\<lparr>rcMeta := m\<rparr>"] None owned(2) obtain s e' where
      "xCreateRuntimeClass X (named\<lparr>rcMeta := m\<rparr>) (wEnv w) = (None, e')" "stored (named\<lparr>rcMeta := m\<rparr>) s"
      "see e' = (see (wEnv w))(rcName named := Some s)" by auto
    with None get show ?thesis by (auto simp: run owned(2) gbind_run api_defs apiCall_run)
  next
    case (Some old)
    let ?obj = "named\<lparr>rcMeta := m\<lparr>metaResourceVersion := metaResourceVersion (rcMeta old)\<rparr>\<rparr>"
    have get: "xGetRuntimeClass X (rcName named) (wEnv w) = (Inr old, wEnv w)" by (rule locks_get [OF locks Some])
    have old: "see (wEnv w) (rcName ?obj) = Some old" by (simp add: owned(2) Some)
    have st: "stored ?obj s = stored (named\<lparr>rcMeta := m\<rparr>) s" for s by (simp add: stored_def)
    show ?thesis
    proof (cases "rcHandler old = rcHandler named")
      case True
      then have "replaces ?obj old" by (simp add: replaces_def)
      from locks_update [OF locks old this] obtain s e' where "xUpdateRuntimeClass X ?obj (wEnv w) = (None, e')"
        "stored (named\<lparr>rcMeta := m\<rparr>) s" "see e' = (see (wEnv w))(rcName named := Some s)"
        unfolding st by (auto simp: owned(2))
      with Some True get show ?thesis by (auto simp: run owned(2) gbind_run api_defs apiCall_run)
    next
      case False
      then have "\<not> replaces ?obj old" by (simp add: replaces_def)
      from locks_refuse [OF locks old this] obtain msg e' where
        "xUpdateRuntimeClass X ?obj (wEnv w) = (Some (ApiError msg), e')" "see e' = see (wEnv w)" by blast
      with Some False get show ?thesis by (auto simp: run owned(2) gbind_run api_defs apiCall_run)
    qed
  qed
qed

text \<open>
  C32: On a server that keeps RuntimeClasses with optimistic locking and immutable handlers, and
  with a SetControllerReference that keeps the name of an object, the RuntimeClass control
  function brings the class named by the runtimeClass setting (or xilinx) where the policy wants
  it and touches no class of another name. In a disabled state that class is gone afterwards,
  whether or not it was there, and the result is Disabled; in an enabled state it is there with
  that handler and the owner references, created or taken over from whatever version the server
  had, and the result is Ready. Only if the owner reference is refused, or the class exists with
  another handler, the result is NotReady with an error and nothing has changed.
\<close>

theorem RuntimeClassFn_reconciles:
  assumes "locksClasses X see" and "ownerKeepsName X"
    and "currentEnabled c = Ret b" and "ctlIdx c < length (ctlResources c)" and "ctlSingleton c = Some p"
    and n: "n = (if crRuntimeClass (specContainerRuntime (cpSpec p)) = [] then ''xilinx''
      else crRuntimeClass (specContainerRuntime (cpSpec p)))"
    and tmpl: "tmpl = resRuntimeClass (ctlResources c ! ctlIdx c)"
  shows "\<exists>res w'. RuntimeClassFn X c w = (Ret res, w') \<and>
    (if \<not> b then res = (Disabled, None) \<and> see (wEnv w') = (see (wEnv w))(n := None)
     else case xSetControllerReference X p ((rcMeta tmpl)\<lparr>metaName := n\<rparr>) of
       Inl err \<Rightarrow> res = (NotReady, Some err) \<and> see (wEnv w') = see (wEnv w)
     | Inr m \<Rightarrow>
         if \<exists>old. see (wEnv w) n = Some old \<and> rcHandler old \<noteq> n
         then (\<exists>err. res = (NotReady, Some err)) \<and> see (wEnv w') = see (wEnv w)
         else res = (Ready, None) \<and>
           (\<exists>s. rcName s = n \<and> rcHandler s = n \<and> rcOther s = rcOther tmpl \<and>
              metaOwnerReferences (rcMeta s) = metaOwnerReferences m \<and>
              see (wEnv w') = (see (wEnv w))(n := Some s)))"
proof (cases b)
  case False
  note named = namedRuntimeClass_unfold [OF n]
  from locks_delete [OF assms(1), of "tmpl\<lparr>rcMeta := (rcMeta tmpl)\<lparr>metaName := n\<rparr>, rcHandler := n\<rparr>" "wEnv w"]
  obtain err e' where "xDeleteRuntimeClass X (tmpl\<lparr>rcMeta := (rcMeta tmpl)\<lparr>metaName := n\<rparr>, rcHandler := n\<rparr>) (wEnv w) = (err, e')"
    "\<not> realError err" "see e' = (see (wEnv w))(n := None)" by auto
  with False RuntimeClassFn_disabled [OF _ assms(4,5), of X] assms(3) show ?thesis
    by (simp add: Let_def gbind_run api_defs apiCall_run named(2) tmpl [symmetric])
next
  case True
  note named = namedRuntimeClass_unfold [OF n]
  have on: "currentEnabled c = Ret True" using assms(3) True by simp
  show ?thesis
  proof (cases "xSetControllerReference X p (rcMeta (namedRuntimeClass p tmpl))")
    case (Inl err)
    with True RuntimeClassFn_unowned [OF on assms(4,5) Inl [unfolded tmpl]] show ?thesis by (simp add: named)
  next
    case (Inr m)
    with assms(2) have name: "metaName m = rcName (namedRuntimeClass p tmpl)"
      unfolding ownerKeepsName_def by blast
    from RuntimeClassFn_stores [OF on assms(4,5,1) refl Inr [unfolded tmpl] name [unfolded tmpl], of w]
    show ?thesis using True Inr name
      by (auto simp: named tmpl [symmetric] stored_def split: if_splits)
  qed
qed

text \<open>
  A cluster with a class of the policy's name that another controller made and a class of another
  name; and the empty cluster.
\<close>

definition lockUpdate :: "RuntimeClass \<Rightarrow> sim \<Rightarrow> goerr option \<times> sim" where
  "lockUpdate r e = (case map_of (simRuntimeClasses e) (rcName r) of
     None \<Rightarrow> (Some (ApiNotFound ''not found''), e)
   | Some old \<Rightarrow>
       if rcHandler r \<noteq> rcHandler old then (Some (ApiError ''handler: field is immutable''), e)
       else if metaResourceVersion (rcMeta r) \<noteq> metaResourceVersion (rcMeta old)
       then (Some (ApiError ''the object has been modified''), e)
       else (None, e\<lparr>simRuntimeClasses := AList.update (rcName r)
         (r\<lparr>rcMeta := (rcMeta r)\<lparr>metaResourceVersion := CHR ''1'' # metaResourceVersion (rcMeta old)\<rparr>\<rparr>)
         (simRuntimeClasses e)\<rparr>))"

definition lockX :: "sim externals" where
  "lockX = simX\<lparr>
     xCreateRuntimeClass := (\<lambda>r e. simPutRuntimeClass True r (e\<lparr>simBroken := []\<rparr>)),
     xUpdateRuntimeClass := lockUpdate,
     xDeleteRuntimeClass := (\<lambda>r e. simDeleteRuntimeClass r (e\<lparr>simBroken := []\<rparr>))\<rparr>"

abbreviation simClasses :: "sim \<Rightarrow> string \<Rightarrow> RuntimeClass option" where
  "simClasses e \<equiv> map_of (simRuntimeClasses e)"

lemma lockX_locks: "locksClasses lockX simClasses"
  unfolding locksClasses_def
proof (intro conjI allI impI)
  fix n e r old
  show "case simClasses e n of
      Some r \<Rightarrow> xGetRuntimeClass lockX n e = (Inr r, e)
    | None \<Rightarrow> \<exists>msg. xGetRuntimeClass lockX n e = (Inl (ApiNotFound msg), e)"
    by (simp add: lockX_def simX_def simLookup_def split: option.split)
  show "\<exists>s e'. xCreateRuntimeClass lockX r e = (None, e') \<and> stored r s \<and>
      simClasses e' = (simClasses e)(rcName r := Some s)" if "simClasses e (rcName r) = None"
    using that by (intro exI [of _ r]) (simp add: lockX_def simPutRuntimeClass_def stored_def update_conv' Let_def)
  show "if replaces r old
      then \<exists>s e'. xUpdateRuntimeClass lockX r e = (None, e') \<and> stored r s \<and>
        simClasses e' = (simClasses e)(rcName r := Some s)
      else \<exists>msg e'. xUpdateRuntimeClass lockX r e = (Some (ApiError msg), e') \<and> simClasses e' = simClasses e"
    if "simClasses e (rcName r) = Some old"
  proof (cases "replaces r old")
    case True
    let ?s = "r\<lparr>rcMeta := (rcMeta r)\<lparr>metaResourceVersion := CHR ''1'' # metaResourceVersion (rcMeta old)\<rparr>\<rparr>"
    have "stored r ?s" by (simp add: stored_def)
    with True that show ?thesis by (auto simp: lockX_def lockUpdate_def replaces_def update_conv')
  next
    case False
    with that show ?thesis by (auto simp: lockX_def lockUpdate_def replaces_def)
  qed
  show "\<exists>err e'. xDeleteRuntimeClass lockX r e = (err, e') \<and>
      simClasses e' = (simClasses e)(rcName r := None) \<and>
      (case simClasses e (rcName r) of Some _ \<Rightarrow> err = None | None \<Rightarrow> \<exists>msg. err = Some (ApiNotFound msg))"
    by (auto simp: lockX_def simDeleteRuntimeClass_def delete_conv' fun_eq_iff split: option.split)
qed

lemma lockX_ownerKeepsName: "ownerKeepsName lockX"
  using simX_ownerKeepsName by (simp add: ownerKeepsName_def lockX_def)

definition sampleClass :: "string \<Rightarrow> string \<Rightarrow> RuntimeClass" where
  "sampleClass n v = zeroRuntimeClass\<lparr>rcMeta := zeroMeta\<lparr>metaName := n, metaResourceVersion := v\<rparr>, rcHandler := n\<rparr>"

definition classCluster :: sim where
  "classCluster = emptySim\<lparr>simRuntimeClasses :=
     [(''former'', sampleClass ''former'' ''4''), (''xilinx'', sampleClass ''xilinx'' ''7'')]\<rparr>"

definition disabledClassPolicy :: ClusterPolicy where
  "disabledClassPolicy = samplePolicy\<lparr>cpSpec := samplePolicySpec\<lparr>specContainerRuntime :=
     (specContainerRuntime samplePolicySpec)\<lparr>crEnabled := Some False\<rparr>\<rparr>\<rparr>"

text \<open>
  Enabled, the existing class is taken over and the one of the former name stays; disabled on the
  empty cluster, the delete finds nothing and the result is Disabled.
\<close>

theorem RuntimeClassFn_reconciles_witness:
  "(\<exists>w' s. RuntimeClassFn lockX rcController (simWorld classCluster) = (Ret (Ready, None), w') \<and>
      simClasses (wEnv w') ''xilinx'' = Some s \<and>
      metaOwnerReferences (rcMeta s) = [simOwner samplePolicy] \<and>
      simClasses (wEnv w') ''former'' = Some (sampleClass ''former'' ''4'')) \<and>
   (\<exists>w'. RuntimeClassFn lockX (rcController\<lparr>ctlSingleton := Some disabledClassPolicy\<rparr>) (simWorld emptySim) =
      (Ret (Disabled, None), w') \<and> simClasses (wEnv w') = (\<lambda>_. None))"
proof -
  have n: "''xilinx'' = (if crRuntimeClass (specContainerRuntime (cpSpec p)) = [] then ''xilinx''
      else crRuntimeClass (specContainerRuntime (cpSpec p)))" if "p = samplePolicy \<or> p = disabledClassPolicy" for p
    using that by (auto simp: samplePolicy_def disabledClassPolicy_def samplePolicySpec_def)
  have o1: "xSetControllerReference lockX p m = Inr (m\<lparr>metaOwnerReferences := [simOwner p]\<rparr>)" for p m
    by (simp add: lockX_def simX_def simSetOwner_def)
  have cl: "simClasses (wEnv (simWorld classCluster)) ''xilinx'' = Some (sampleClass ''xilinx'' ''7'')"
    "simClasses (wEnv (simWorld classCluster)) ''former'' = Some (sampleClass ''former'' ''4'')"
    "simClasses (wEnv (simWorld emptySim)) = (\<lambda>_. None)"
    by (simp_all add: simWorld_def classCluster_def emptySim_def fun_eq_iff)
  have off: "currentEnabled (rcController\<lparr>ctlSingleton := Some disabledClassPolicy\<rparr>) = Ret False"
    by (simp add: rcController_def disabledClassPolicy_def currentEnabled_def isStateEnabled_def nthP_def
        ContainerRuntimeSpec_IsEnabled_def)
  have idx: "ctlIdx (rcController\<lparr>ctlSingleton := Some disabledClassPolicy\<rparr>) <
      length (ctlResources (rcController\<lparr>ctlSingleton := Some disabledClassPolicy\<rparr>))" by (simp add: rcController_def)
  have h: "rcHandler (sampleClass k v) = k" for k v by (simp add: sampleClass_def)
  show ?thesis
  proof
    show "\<exists>w' s. RuntimeClassFn lockX rcController (simWorld classCluster) = (Ret (Ready, None), w') \<and>
        simClasses (wEnv w') ''xilinx'' = Some s \<and> metaOwnerReferences (rcMeta s) = [simOwner samplePolicy] \<and>
        simClasses (wEnv w') ''former'' = Some (sampleClass ''former'' ''4'')"
      using RuntimeClassFn_reconciles [OF lockX_locks lockX_ownerKeepsName rcController_on n refl,
          OF disjI1 [OF refl], of "simWorld classCluster"]
      by (fastforce simp: o1 cl h)
    show "\<exists>w'. RuntimeClassFn lockX (rcController\<lparr>ctlSingleton := Some disabledClassPolicy\<rparr>) (simWorld emptySim) =
        (Ret (Disabled, None), w') \<and> simClasses (wEnv w') = (\<lambda>_. None)"
      using RuntimeClassFn_reconciles [OF lockX_locks lockX_ownerKeepsName off idx _ n refl,
          of disabledClassPolicy, OF _ disjI2 [OF refl], of "simWorld emptySim"]
      by (auto simp: cl)
  qed
qed

end
