(* ===== verification/ResourceSpec.thy ===== *)
theory ResourceSpec
  imports ResourceManager ClusterSim
begin

section \<open>What the asset loader does\<close>

text \<open>
  Every file under the state's directory is read, in the order of the paths; the kind found in a
  manifest is the word on its first \<open>kind:\<close> line; and the control functions registered are those
  the kinds of the manifests ask for.
\<close>

subsection \<open>The files of a directory\<close>

text \<open>\<open>isFile p t q c\<close>: under the node \<open>t\<close> at path \<open>p\<close> there is a file \<open>q\<close> with contents \<open>c\<close>.\<close>

inductive isFile :: "string \<Rightarrow> fsnode \<Rightarrow> string \<Rightarrow> string option \<Rightarrow> bool" where
  at_file: "isFile p (FsFile c) p c"
| in_dir: "(n, t) \<in> set es \<Longrightarrow> isFile (p @ ''/'' @ n) t q c \<Longrightarrow> isFile p (FsDir (Some es)) q c"

inductive_cases isFile_fileE [elim!]: "isFile p (FsFile c') q c"
inductive_cases isFile_dirE: "isFile p (FsDir es) q c"
inductive_cases isFile_errorE [elim!]: "isFile p FsStatError q c"

lemma walk_iff: "(q, c) \<in> set (filePathWalkDir p t) \<longleftrightarrow> isFile p t q c"
proof (induction p t rule: filePathWalkDir.induct)
  case (2 p)
  then show ?case by (auto elim: isFile_dirE)
next
  case (3 p es)
  then show ?case by (fastforce elim: isFile_dirE intro: isFile.in_dir)
qed (auto intro: isFile.at_file)

lemma readFiles_Ret_iff: "readFiles fs = Ret ms \<longleftrightarrow> map snd fs = map Some ms"
  by (induction fs arbitrary: ms rule: readFiles.induct)
    (auto simp: Cons_eq_map_conv split: option.splits)

lemma readFiles_panics_iff: "\<not> returns (readFiles fs) \<longleftrightarrow> None \<in> snd ` set fs"
proof (induction fs rule: readFiles.induct)
  case (2 f content files)
  then show ?case by (cases content; cases "readFiles files") auto
qed simp

text \<open>
  C26: The asset loader returns the contents of exactly the files below the directory, in the
  order of their paths, or panics because one of them cannot be read. The files are given by an
  inductive definition of what lies below a directory.
\<close>

theorem getAssetsFrom_spec:
  "case getAssetsFrom path tree of
     Ret ms \<Rightarrow> \<exists>fs. map snd fs = map Some ms \<and> sorted (map fst fs) \<and>
       set fs = {(q, c). isFile path tree q c} \<and> length fs = length (filePathWalkDir path tree)
   | Panic _ \<Rightarrow> \<exists>q. isFile path tree q None"
proof (cases "getAssetsFrom path tree")
  case (Ret ms)
  then have "map snd (sort_key fst (filePathWalkDir path tree)) = map Some ms"
    by (simp add: getAssetsFrom_def readFiles_Ret_iff)
  then show ?thesis
    by (auto simp: Ret walk_iff intro!: exI [of _ "sort_key fst (filePathWalkDir path tree)"])
next
  case (Panic p)
  then have "\<not> returns (readFiles (sort_key fst (filePathWalkDir path tree)))"
    by (simp add: getAssetsFrom_def)
  then show ?thesis
    by (auto simp: Panic readFiles_panics_iff walk_iff)
qed

lemma getAssetsFrom_missing: "getAssetsFrom path FsStatError = Ret []"
  by (simp add: getAssetsFrom_def)

subsection \<open>The kind of a manifest\<close>

lemma kindRegexp_shape:
  assumes "rxMatch kindRegexp p m rest"
  shows "\<exists>a b. m = a @ ''kind:'' @ b \<and> list_all wordChar a"
proof -
  have star: "rxMatch (RxStar wordChar # rs) p m rest \<Longrightarrow>
      \<exists>a m' q. m = a @ m' \<and> list_all wordChar a \<and> rxMatch rs q m' rest" for rs p m
  proof (induction "RxStar wordChar # rs" p m rest rule: rxMatch.induct)
    case (star_stop p m rest)
    then show ?case by (intro exI [of _ "[]"] exI [of _ m] exI [of _ p]) simp
  next
    case (star_more c m rest p)
    then obtain a m' q where "m = a @ m'" "list_all wordChar a" "rxMatch rs q m' rest" by blast
    with star_more.hyps(1) show ?case by (intro exI [of _ "c # a"] exI [of _ m'] exI [of _ q]) simp
  qed
  let ?tail = "[RxStar wordChar, RxNoBoundary, RxStar notNewline, RxBoundary]"
  from assms have "rxMatch (RxStar wordChar # map RxLit ''kind:'' @ ?tail) p m rest"
    unfolding kindRegexp_def by (simp, elim rxMatch_BoundE)
  from star [OF this] obtain a m' q where a: "m = a @ m'" "list_all wordChar a"
    and k: "rxMatch (map RxLit ''kind:'' @ ?tail) q m' rest" by blast
  have lits: "rxMatch (map RxLit cs @ rs) q m' rest \<Longrightarrow> \<exists>b. m' = cs @ b" for cs rs q m'
    by (induction cs arbitrary: q m') auto
  from lits [OF k] obtain b where "m' = ''kind:'' @ b" by blast
  with a show ?thesis by auto
qed

lemma wordChar_newline [simp]: "\<not> wordChar (CHR 0x0A)"
  by code_simp

lemma wordChar_colon: "\<not> wordChar (CHR '':'')"
  by code_simp

lemma kindRegexp_no_match_before:
  assumes "v \<noteq> []" and "last v = CHR 0x0A" and "\<not> sublist ''kind:'' v"
  shows "rxAt kindRegexp p (v @ s) = None"
  unfolding rxAt_None_iff
proof (rule notI, elim exE conjE)
  fix m rest
  assume eq: "v @ s = m @ rest" and "rxMatch kindRegexp p m rest"
  from kindRegexp_shape [OF this(2)] obtain a b where m: "m = a @ ''kind:'' @ b" and a: "list_all wordChar a"
    by blast
  have nl: "CHR 0x0A \<notin> set (a @ ''kind:'')"
    using a by (auto simp: list_all_iff)
  from eq m have "v @ s = (a @ ''kind:'') @ (b @ rest)" by simp
  then consider us where "v = (a @ ''kind:'') @ us" | us where "v @ us = a @ ''kind:''"
    by (auto simp only: append_eq_append_conv2)
  then show False
  proof cases
    case 1
    then have "sublist ''kind:'' v" by (auto simp: sublist_def)
    with assms(3) show False by simp
  next
    case 2
    then have "set v \<subseteq> set (a @ ''kind:'')" by (metis set_append Un_upper1)
    with nl assms(1,2) show False using last_in_set by fastforce
  qed
qed

lemma rxAt_line_end:
  assumes "list_all notNewline xs" and "rest = [] \<or> hd rest = CHR 0x0A"
    and "isBoundary (before p xs) rest"
  shows "rxAt [RxStar notNewline, RxBoundary] p (xs @ rest) = Some xs"
  using assms
proof (induction xs arbitrary: p)
  case Nil
  then show ?case by (cases rest) (auto simp: notNewline_def)
qed simp

lemma rxAt_kindRegexp_line:
  assumes "\<not> wordBefore p" and "K \<noteq> []" and "list_all wordChar K" and "rest = [] \<or> hd rest = CHR 0x0A"
  shows "rxAt kindRegexp p (''kind: '' @ K @ rest) = Some (''kind: '' @ K)"
proof -
  have w: "wordChar (CHR ''k'')" "wordChar (CHR ''i'')" "wordChar (CHR ''n'')" "wordChar (CHR ''d'')"
    "\<not> wordChar (CHR '':'')" "\<not> wordChar (CHR '' '')"
    by code_simp+
  have nn: "list_all notNewline ('' '' @ K)"
    using assms(3) by (auto simp: list_all_iff notNewline_def)
  have b: "isBoundary (before (Some (CHR '':'')) ('' '' @ K)) rest"
    using assms(2-4) by (cases rest) (auto simp: isBoundary_def wordBefore_def wordAfter_def before_def list_all_iff)
  have "rxAt [RxStar notNewline, RxBoundary] (Some (CHR '':'')) ('' '' @ K @ rest) = Some ('' '' @ K)"
    using rxAt_line_end [OF nn assms(4) b] by simp
  then show ?thesis
    using assms(1) w
    by (simp add: kindRegexp_def isBoundary_def wordAfter_def wordBefore_def)
qed

lemma findString_kind:
  assumes "pre = [] \<or> last pre = CHR 0x0A" and "\<not> sublist ''kind:'' pre" and "K \<noteq> []" and "list_all wordChar K"
    and "rest = [] \<or> hd rest = CHR 0x0A"
  shows "findString kindRegexp (pre @ ''kind: '' @ K @ rest) = ''kind: '' @ K"
proof -
  have "rxFind kindRegexp None (pre @ ''kind: '' @ K @ rest) =
      rxFind kindRegexp (before None pre) (''kind: '' @ K @ rest)"
  proof (rule rxFind_skip)
    fix u v
    assume "pre = u @ v" and "v \<noteq> []"
    moreover from this have "sublist v pre" by simp
    with assms(2) have "\<not> sublist ''kind:'' v"
      using sublist_order.order.trans by blast
    ultimately show "rxAt kindRegexp (before None u) (v @ ''kind: '' @ K @ rest) = None"
      using assms(1) by (intro kindRegexp_no_match_before) auto
  qed
  moreover have "\<not> wordBefore (before None pre)"
    using assms(1) by (auto simp: before_def wordBefore_def)
  ultimately show ?thesis
    using rxAt_kindRegexp_line [OF _ assms(3-5)] by (simp add: findString_def)
qed


lemma trimSpace_word:
  assumes "K \<noteq> []" and "list_all wordChar K"
  shows "trimSpace ('' '' @ K) = K"
proof -
  have sp: "\<forall>p\<in>set spaceSeqs. \<not> wordChar (hd p)" "\<forall>p\<in>set spaceSeqs. \<not> wordChar (last p)"
    by code_simp+
  have stop: "trimSeqs spaceSeqs K = K"
  proof (rule trimSeqs_stop)
    fix p assume "p \<in> set spaceSeqs" "p \<noteq> []"
    with sp(1) assms show "\<not> hasPrefix K p"
      by (cases p; cases K) auto
  qed
  have "find (\<lambda>p. p \<noteq> [] \<and> hasPrefix (CHR '' '' # K) p) spaceSeqs = Some '' ''"
    by (simp add: spaceSeqs_def)
  then have 1: "trimSeqs spaceSeqs ('' '' @ K) = K"
    by (subst trimSeqs.simps) (simp add: stop)
  have 2: "trimSeqs (map rev spaceSeqs) (rev K) = rev K"
  proof (rule trimSeqs_stop)
    fix p assume "p \<in> set (map rev spaceSeqs)" "p \<noteq> []"
    then obtain q where q: "q \<in> set spaceSeqs" "p = rev q" by auto
    with \<open>p \<noteq> []\<close> sp(2) have "\<not> wordChar (hd p)" by (simp add: hd_rev)
    moreover have "wordChar (hd (rev K))"
      using assms by (simp add: hd_rev list_all_iff)
    ultimately show "\<not> hasPrefix (rev K) p"
      using \<open>p \<noteq> []\<close> assms(1) by (cases p; cases "rev K") auto
  qed
  show ?thesis
    unfolding trimSpace_def 1 2 by simp
qed

text \<open>
  C25: The kind found in a manifest is the word on its first line of the form kind: K, whatever
  follows, provided kind: occurs nowhere before that line.
\<close>

theorem manifestKind_line:
  assumes "pre = [] \<or> last pre = CHR 0x0A" and "\<not> sublist ''kind:'' pre" and "K \<noteq> []" and "list_all wordChar K"
    and "rest = [] \<or> hd rest = CHR 0x0A"
  shows "manifestKind (pre @ ''kind: '' @ K @ rest) = Ret K"
proof -
  have "CHR '':'' \<notin> set K"
    using assms(4) wordChar_colon by (auto simp only: list_all_iff)
  then have "splitOn (CHR '':'') (''kind: '' @ K) = [''kind'', '' '' @ K]"
    by (simp add: splitOn_no_sep)
  then show ?thesis
    unfolding manifestKind_def findString_kind [OF assms]
    using trimSpace_word [OF assms(3,4)] by (simp add: nthP_def)
qed

theorem manifestKind_line_witness: "manifestKind (manifestText ''DaemonSet'' ''plugin'') = Ret ''DaemonSet''"
proof -
  have "\<not> sublist ''kind:'' (''apiVersion: v1'' @ [CHR 0x0A])" by code_simp
  moreover have "list_all wordChar ''DaemonSet''" by code_simp
  ultimately show ?thesis
    using manifestKind_line [of "''apiVersion: v1'' @ [CHR 0x0A]" "''DaemonSet''"
      "[CHR 0x0A] @ ''name: '' @ ''plugin'' @ [CHR 0x0A]"]
    by (simp add: manifestText_def)
qed

text \<open>
  C31: Finding the kind of a manifest panics exactly when the regular expression matches nowhere
  in it, with matching given by an inductive definition of its language that has no order of
  search.
\<close>

theorem manifestKind_panics_iff:
  "\<not> returns (manifestKind m) \<longleftrightarrow>
     (\<nexists>u s rest. m = u @ s @ rest \<and> rxMatch kindRegexp (before None u) s rest)"
proof (cases "rxFind kindRegexp None m")
  case None
  have "rxAt kindRegexp (before None u) v = None" if "m = u @ v" for u v
    using None that by (simp add: rxFind_None_at)
  then show ?thesis
    using None by (auto simp: manifestKind_def findString_def nthP_def rxAt_None_iff)
next
  case (Some s)
  from rxFind_sound [OF this] obtain u rest where m: "m = u @ s @ rest"
    and s: "rxMatch kindRegexp (before None u) s rest" by blast
  from kindRegexp_shape [OF s] have "CHR '':'' \<in> set s" by auto
  then have "0 < count_list s (CHR '':'')" by (metis count_notin neq0_conv count_list_0_iff)
  then have "returns (manifestKind m)"
    using Some by (simp add: manifestKind_def findString_def nthP_def length_splitOn)
  with m s show ?thesis by blast
qed

subsection \<open>The control functions registered\<close>

text \<open>
  The control functions for a list of kinds: one for each RuntimeClass, and one for all DaemonSets
  together, at the place of the first of them.
\<close>

fun controlsOf :: "bool \<Rightarrow> string list \<Rightarrow> controlFunc list" where
  "controlsOf seen [] = []"
| "controlsOf seen (k # ks) =
     (if k = ''DaemonSet'' then (if seen then [] else [CtlDaemonSet]) @ controlsOf True ks
      else if k = ''RuntimeClass'' then CtlRuntimeClass # controlsOf seen ks
      else controlsOf seen ks)"

lemma controlsOf_DaemonSet:
  "count_list (controlsOf seen ks) CtlDaemonSet = (if \<not> seen \<and> ''DaemonSet'' \<in> set ks then 1 else 0)"
  by (induction seen ks rule: controlsOf.induct) auto

lemma controlsOf_RuntimeClass:
  "count_list (controlsOf seen ks) CtlRuntimeClass = count_list ks ''RuntimeClass''"
  by (induction seen ks rule: controlsOf.induct) auto

lemma addManifests_result:
  "addManifests X ms (res, fs) = Ret (res', fs') \<Longrightarrow>
   \<exists>kinds dss. map manifestKind ms = map Ret kinds \<and>
     fs' = fs @ controlsOf (resDaemonsets res \<noteq> None) kinds \<and>
     map (xDecodeDaemonSet X) (map fst (filter (\<lambda>(m, k). k = ''DaemonSet'') (zip ms kinds))) = map Inr dss \<and>
     resDaemonsets res' =
       (if resDaemonsets res = None \<and> dss = [] then None else Some (sliceOf (resDaemonsets res) @ dss))"
proof (induction ms arbitrary: res fs)
  case (Cons m ms)
  from Cons.prems obtain res1 fs1 where 1: "addManifest X m (res, fs) = Ret (res1, fs1)"
    and 2: "addManifests X ms (res1, fs1) = Ret (res', fs')" by auto
  from 1 obtain k where k: "manifestKind m = Ret k" by (auto simp: addManifest_def)
  from Cons.IH [OF 2] obtain kinds dss where IH: "map manifestKind ms = map Ret kinds"
     "fs' = fs1 @ controlsOf (resDaemonsets res1 \<noteq> None) kinds"
     "map (xDecodeDaemonSet X) (map fst (filter (\<lambda>(m, k). k = ''DaemonSet'') (zip ms kinds))) = map Inr dss"
     "resDaemonsets res' =
       (if resDaemonsets res1 = None \<and> dss = [] then None else Some (sliceOf (resDaemonsets res1) @ dss))"
    by blast
  show ?case
  proof (cases "k = ''DaemonSet''")
    case True
    with 1 k obtain ds where ds: "xDecodeDaemonSet X m = Inr ds"
      and r1: "resDaemonsets res1 = Some (sliceOf (resDaemonsets res) @ [ds])"
      and f1: "fs1 = fs @ (if resDaemonsets res \<noteq> None then [] else [CtlDaemonSet])"
      by (auto simp: addManifest_def panicIfError_def split: sum.splits option.splits)
    from IH show ?thesis
      by (intro exI [of _ "k # kinds"] exI [of _ "ds # dss"]) (simp add: True k ds r1 f1)
  next
    case False
    with 1 k have r1: "resDaemonsets res1 = resDaemonsets res"
      and f1: "fs1 = fs @ (if k = ''RuntimeClass'' then [CtlRuntimeClass] else [])"
      by (auto simp: addManifest_def split: if_splits)
    from IH show ?thesis
      by (intro exI [of _ "k # kinds"] exI [of _ "dss"]) (simp add: False k r1 f1)
  qed
qed auto

text \<open>
  C27: When the manifests of a directory are added, the DaemonSets kept are those the DaemonSet
  manifests decode to, in order, one control function is registered for all of them together and
  one for each RuntimeClass manifest, and manifests of other kinds register nothing.
\<close>

theorem addManifests_registers:
  assumes "addManifests X ms (emptyResources, []) = Ret (res, fs)"
  shows "\<exists>kinds dss. map manifestKind ms = map Ret kinds \<and> fs = controlsOf False kinds \<and>
    map (xDecodeDaemonSet X) (map fst (filter (\<lambda>(m, k). k = ''DaemonSet'') (zip ms kinds))) = map Inr dss \<and>
    sliceOf (resDaemonsets res) = dss \<and>
    count_list fs CtlDaemonSet = (if dss = [] then 0 else 1) \<and>
    count_list fs CtlRuntimeClass = count_list kinds ''RuntimeClass''"
proof -
  from addManifests_result [OF assms] obtain kinds dss where
    1: "map manifestKind ms = map Ret kinds" "fs = controlsOf False kinds"
     "map (xDecodeDaemonSet X) (map fst (filter (\<lambda>(m, k). k = ''DaemonSet'') (zip ms kinds))) = map Inr dss"
     "resDaemonsets res = (if dss = [] then None else Some dss)"
    by (auto simp: emptyResources_def)
  have "length ms = length kinds" using 1(1) by (metis length_map)
  then have "filter (\<lambda>(m, k). k = ''DaemonSet'') (zip ms kinds) = [] \<longleftrightarrow> ''DaemonSet'' \<notin> set kinds"
    by (induction ms kinds rule: list_induct2) auto
  moreover have "length (filter (\<lambda>(m, k). k = ''DaemonSet'') (zip ms kinds)) = length dss"
    using 1(3) by (metis length_map)
  ultimately have "''DaemonSet'' \<in> set kinds \<longleftrightarrow> dss \<noteq> []"
    by auto
  with 1 show ?thesis
    by (intro exI [of _ kinds] exI [of _ dss]) (simp add: controlsOf_DaemonSet controlsOf_RuntimeClass)
qed

theorem addManifests_registers_witness:
  "\<exists>res fs. addManifests simX [manifestText ''DaemonSet'' ''runtime'', manifestText ''RuntimeClass'' ''xilinx'',
       manifestText ''DaemonSet'' ''plugin''] (emptyResources, []) = Ret (res, fs) \<and>
     fs = [CtlDaemonSet, CtlRuntimeClass] \<and> sliceOf (resDaemonsets res) = [sampleRuntimeDS, samplePluginDS]"
proof -
  let ?ms = "[manifestText ''DaemonSet'' ''runtime'', manifestText ''RuntimeClass'' ''xilinx'',
    manifestText ''DaemonSet'' ''plugin'']"
  let ?run = "addManifests simX ?ms (emptyResources, [])"
  have "returns ?run" by code_simp
  then obtain res fs where run: "?run = Ret (res, fs)" by (cases ?run) (auto simp: returns_iff)
  have k: "map manifestKind ?ms = map Ret [''DaemonSet'', ''RuntimeClass'', ''DaemonSet'']" by code_simp
  have d: "xDecodeDaemonSet simX (manifestText ''DaemonSet'' ''runtime'') = Inr sampleRuntimeDS"
    "xDecodeDaemonSet simX (manifestText ''DaemonSet'' ''plugin'') = Inr samplePluginDS"
    by (simp_all add: simX_def simDecodeDaemonSet_def manifestText_def)
  from addManifests_registers [OF run] obtain kinds dss where *: "map manifestKind ?ms = map Ret kinds"
    "fs = controlsOf False kinds"
    "map (xDecodeDaemonSet simX) (map fst (filter (\<lambda>(m, k). k = ''DaemonSet'') (zip ?ms kinds))) = map Inr dss"
    "sliceOf (resDaemonsets res) = dss" by blast
  have inj: "inj (Ret :: string \<Rightarrow> string outcome)" by (simp add: inj_def)
  from *(1) k have "kinds = [''DaemonSet'', ''RuntimeClass'', ''DaemonSet'']"
    using inj by (metis inj_map_eq_map)
  with * d run show ?thesis by (auto simp: Cons_eq_map_conv)
qed

end
