(* ===== verification/StateSpec.thy ===== *)
theory StateSpec
  imports StateManager ReadinessSpec RuntimeClassSpec ResourceSpec
begin

section \<open>What the state manager does\<close>

text \<open>
  The node census, the choice of the container runtime, the well-formedness of the controller that
  initialisation establishes, and the result of one step in terms of the results of the control
  functions it runs.
\<close>

subsection \<open>Node labels and runtimes\<close>

lemma hasNFDLabels_iff: "hasNFDLabels labels \<longleftrightarrow> (\<exists>(k, v)\<in>set labels. hasPrefix k nfdLabelPrefix)"
  by (induction labels rule: hasNFDLabels.induct) auto

lemma hasFPGALables_iff:
  "hasFPGALables labels \<longleftrightarrow> (''feature.node.kubernetes.io/pci-1200_10ee.present'', ''true'') \<in> set labels"
proof (induction labels rule: hasFPGALables.induct)
  case (2 key val labels)
  then show ?case by (auto simp: fpgaNodeLabels_def mapGet_def split: if_splits)
qed simp

lemma countFPGANodes_acc:
  "countFPGANodes nodes b n =
     (b \<or> (\<exists>nd\<in>set nodes. hasNFDLabels (nodeLabels nd)),
      n + length (filter (\<lambda>nd. hasFPGALables (nodeLabels nd)) nodes))"
  by (induction nodes arbitrary: b n) (auto simp: Let_def)

text \<open>
  The node census equals its specification: whether any label of any node begins with the
  prefix of node feature discovery, and the number of nodes labelled with the FPGA device; when
  the nodes cannot be listed it returns the error, wrapped.
\<close>

theorem getFPGANodeCount_spec:
  "fst (getFPGANodeCount X w) = Ret (case fst (xListNodes X (wEnv w)) of
     Inl err \<Rightarrow> Inl (FmtError (''unable to list nodes to check labels, err '' @ ErrorText err))
   | Inr nodes \<Rightarrow> Inr
      (\<exists>nd\<in>set nodes. \<exists>(k, v)\<in>set (nodeLabels nd). \<exists>rest. k = ''feature.node.kubernetes.io/'' @ rest,
       length (filter (\<lambda>nd. (''feature.node.kubernetes.io/pci-1200_10ee.present'', ''true'')
         \<in> set (nodeLabels nd)) nodes)))"
  by (simp add: getFPGANodeCount_def gbind_run api_defs apiCall_run listError_def countFPGANodes_acc
      hasNFDLabels_iff hasFPGALables_iff hasPrefix_iff_append nfdLabelPrefix_def split: sum.split)

definition distOf :: "Node \<Rightarrow> string" where
  "distOf nd = mapGet (nodeLabels nd) nfdLabelOSReleaseID @ mapGet (nodeLabels nd) nfdLabelOSVersionID"

lemma map_of_collectDists:
  "map_of (collectDists nodes dists) = (\<lambda>k. if k \<in> distOf ` set nodes then Some True else map_of dists k)"
proof (induction nodes arbitrary: dists)
  case (Cons nd nodes)
  show ?case
    by (rule ext) (simp add: Let_def Cons.IH update_conv' distOf_def)
qed simp

text \<open>
  The operating systems found are exactly the concatenations of release and version of the
  listed nodes, each mapped to true; an error comes only from the listing.
\<close>

theorem getOsDistributions_spec:
  "case fst (getOsDistributions X w) of
     Ret (Inr dists) \<Rightarrow> (\<exists>nodes. fst (xListNodes X (wEnv w)) = Inr nodes \<and>
       map_of dists = (\<lambda>k. if \<exists>nd\<in>set nodes. k = mapGet (nodeLabels nd) nfdLabelOSReleaseID @
         mapGet (nodeLabels nd) nfdLabelOSVersionID then Some True else None))
   | Ret (Inl e) \<Rightarrow> (\<exists>err. fst (xListNodes X (wEnv w)) = Inl err)
   | Panic _ \<Rightarrow> False"
  by (auto simp: getOsDistributions_def gbind_run api_defs apiCall_run map_of_collectDists distOf_def fun_eq_iff
      split: sum.split)

definition runsDocker :: "Node \<Rightarrow> bool" where
  "runsDocker nd \<longleftrightarrow> hasPrefix (nodeContainerRuntimeVersion nd) ''docker''"

definition runsContainerd :: "Node \<Rightarrow> bool" where
  "runsContainerd nd \<longleftrightarrow> hasPrefix (nodeContainerRuntimeVersion nd) ''containerd''"

lemma detectRuntime_eq:
  "detectRuntime nodes r =
    (if \<exists>nd\<in>set nodes. runsContainerd nd then Containerd
     else if \<exists>nd\<in>set nodes. runsDocker nd then Docker else r)"
proof (induction nodes arbitrary: r)
  case (Cons nd nodes)
  have excl: "\<not> (runsDocker nd \<and> runsContainerd nd)"
    by (auto simp: runsDocker_def runsContainerd_def hasPrefix_iff_append)
  have "getRuntimeString nd = (if runsDocker nd then Inr Docker else if runsContainerd nd then Inr Containerd
     else Inl (FmtError (sprintf ''runtime not recognized: %s'' [nodeContainerRuntimeVersion nd])))"
    by (simp add: getRuntimeString_def runsDocker_def runsContainerd_def Let_def)
  with excl show ?case
    by (auto simp: Cons.IH)
qed simp

text \<open>
  The detected container runtime is containerd if any node runs it, else docker if any node
  runs that, else the default of the policy, whatever the order of the nodes and however many of
  them run something else.
\<close>

theorem getRuntime_spec:
  assumes "fst (xListNodes X (wEnv w)) = Inr nodes" and "ctlSingleton c = Some p"
  shows "fst (getRuntime X c w) = Ret (None, c\<lparr>ctlRuntime :=
    (if \<exists>nd\<in>set nodes. hasPrefix (nodeContainerRuntimeVersion nd) ''containerd'' then Containerd
     else if \<exists>nd\<in>set nodes. hasPrefix (nodeContainerRuntimeVersion nd) ''docker'' then Docker
     else opDefaultRuntime (specOperator (cpSpec p)))\<rparr>)"
  using assms
  by (auto simp: getRuntime_def gbind_run api_defs apiCall_run detectRuntime_eq RuntimeString_def Let_def
      runsDocker_def runsContainerd_def)

definition sampleNodes :: "Node list" where
  "sampleNodes =
    [\<lparr>nodeName = ''n0'', nodeLabels = [], nodeContainerRuntimeVersion = ''cri-o://1.25''\<rparr>,
     \<lparr>nodeName = ''n1'', nodeLabels = [], nodeContainerRuntimeVersion = ''docker://20.10.8''\<rparr>,
     \<lparr>nodeName = ''n2'',
       nodeLabels = [(''feature.node.kubernetes.io/pci-1200_10ee.present'', ''true'')],
       nodeContainerRuntimeVersion = ''containerd://1.6.6''\<rparr>]"

theorem getRuntime_spec_witness:
  "fst (getRuntime simX (zeroController\<lparr>ctlSingleton := Some samplePolicy\<rparr>)
     (simWorld (emptySim\<lparr>simNodes := sampleNodes\<rparr>))) =
   Ret (None, zeroController\<lparr>ctlSingleton := Some samplePolicy, ctlRuntime := Containerd\<rparr>)"
proof -
  have 1: "fst (xListNodes simX (wEnv (simWorld (emptySim\<lparr>simNodes := sampleNodes\<rparr>)))) = Inr sampleNodes"
    by (simp add: simX_def simWorld_def)
  have 2: "ctlSingleton (zeroController\<lparr>ctlSingleton := Some samplePolicy\<rparr>) = Some samplePolicy" by simp
  show ?thesis
    unfolding getRuntime_spec [OF 1 2] by (simp add: sampleNodes_def)
qed

subsection \<open>One step\<close>

interpretation run_control: control_function "\<lambda>X. runControl X g"
    "\<lambda>ev. isDaemonSetEvent ev \<or> isRuntimeClassEvent ev" for g
proof
  fix X :: "'e externals" and c w s e e' w'
  show "emits (\<lambda>ev. isDaemonSetEvent ev \<or> isRuntimeClassEvent ev) (runControl X g c)"
    by (cases g)
      (auto simp: runControl_def intro: emits_mono [OF ds_control.own_events] emits_mono [OF rc_control.own_events])
  show "runControl X g c w = (Ret (s, Some e'), w') \<Longrightarrow> s = NotReady"
    by (cases g) (auto simp: runControl_def dest: ds_control.error_state rc_control.error_state)
  assume off: "currentEnabled c = Ret False"
  show "emits (\<lambda>ev. \<not> isDeploy ev) (runControl X g c)"
    by (cases g) (simp_all add: runControl_def ds_control.off_no_deploy [OF off] rc_control.off_no_deploy [OF off])
  show "runControl X g c w = (Ret (s, e), w') \<Longrightarrow> e = None \<and> s \<in> {Ready, NotReady, Disabled}"
    by (cases g) (auto simp: runControl_def dest: ds_control.off_state [OF off] rc_control.off_state [OF off])
qed

text \<open>\<open>ranAll X c fs ss w w'\<close>: the functions \<open>fs\<close>, run one after the other, returned the states \<open>ss\<close>.\<close>

inductive ranAll ::
    "'e externals \<Rightarrow> ClusterPolicyController \<Rightarrow> controlFunc list \<Rightarrow> State list \<Rightarrow> 'e world \<Rightarrow> 'e world \<Rightarrow> bool"
  for X c where
  none: "ranAll X c [] [] w w"
| more: "runControl X f c w = (Ret (s, None), w1) \<Longrightarrow> ranAll X c fs ss w1 w' \<Longrightarrow>
    ranAll X c (f # fs) (s # ss) w w'"

inductive_simps ranAll_simps [simp]:
  "ranAll X c [] ss w w'"
  "ranAll X c (f # fs) ss w w'"

lemma ranAll_length: "ranAll X c fs ss w w' \<Longrightarrow> length ss = length fs"
  by (induction rule: ranAll.induct) auto

lemma last_bad:
  "List.last ((if s \<noteq> Ready then s else r) # filter (\<lambda>s. s \<noteq> Ready) ss) = List.last (r # filter (\<lambda>s. s \<noteq> Ready) (s # ss))"
  by auto

lemma err_guard:
  "(if e \<noteq> None then gret (a, e) else m) w = (Ret (s, None), w') \<longleftrightarrow> e = None \<and> m w = (Ret (s, None), w')"
  by (cases e) simp_all

lemma stepLoop_None:
  "stepLoop X c r fs w = (Ret (s, None), w') \<longleftrightarrow>
     (\<exists>ss. ranAll X c fs ss w w' \<and> s = List.last (r # filter (\<lambda>s. s \<noteq> Ready) ss))"
proof (induction fs arbitrary: r w)
  case (Cons f fs)
  have "stepLoop X c r (f # fs) w = (Ret (s, None), w') \<longleftrightarrow>
    (\<exists>s1 w1. runControl X f c w = (Ret (s1, None), w1) \<and>
      stepLoop X c (if s1 \<noteq> Ready then s1 else r) fs w1 = (Ret (s, None), w'))"
    by (simp only: stepLoop.simps gbind_Ret_iff split_paired_Ex prod.case err_guard) blast
  then show ?case
    unfolding Cons.IH last_bad by (simp del: filter.simps) blast
qed auto

text \<open>
  C14: A step that succeeds ran all control functions of its state in order, moved the index by
  one, and returned the last of their results that is not Ready; it is Ready exactly when all of
  them are, but a NotReady can be hidden by a later Disabled or Ignored.
\<close>

theorem step_result:
  assumes "step X c w = (Ret ((s, None), c'), w')"
  shows "c' = c\<lparr>ctlIdx := ctlIdx c + 1\<rparr> \<and> ctlIdx c < length (ctlControlFuncs c) \<and>
    (\<exists>ss. ranAll X c (ctlControlFuncs c ! ctlIdx c) ss w w' \<and>
      length ss = length (ctlControlFuncs c ! ctlIdx c) \<and>
      s = List.last (Ready # filter (\<lambda>s. s \<noteq> Ready) ss) \<and>
      (s = Ready \<longleftrightarrow> list_all (\<lambda>s. s = Ready) ss))"
proof -
  from step_None [OF assms] have c: "ctlIdx c < length (ctlControlFuncs c)" "c' = c\<lparr>ctlIdx := ctlIdx c + 1\<rparr>"
    by simp_all
  with assms have "stepLoop X c Ready (ctlControlFuncs c ! ctlIdx c) w = (Ret (s, None), w')"
    by (auto simp: step_def gbind_Ret_iff nthP_in_range split: if_splits)
  then obtain ss where ss: "ranAll X c (ctlControlFuncs c ! ctlIdx c) ss w w'"
    and s: "s = List.last (Ready # filter (\<lambda>s. s \<noteq> Ready) ss)"
    unfolding stepLoop_None by blast
  have "s = Ready \<longleftrightarrow> filter (\<lambda>s. s \<noteq> Ready) ss = []"
    using s last_in_set [of "filter (\<lambda>s. s \<noteq> Ready) ss"] by auto
  then have "s = Ready \<longleftrightarrow> list_all (\<lambda>s. s = Ready) ss"
    by (simp add: filter_empty_conv list_all_iff)
  with c ss s ranAll_length [OF ss] show ?thesis by blast
qed

text \<open>
  The witness is a disabled container-runtime state whose DaemonSet cannot be deleted and whose
  RuntimeClass can: the control functions return \<open>NotReady\<close> and \<open>Disabled\<close>, the step \<open>Disabled\<close>.
\<close>

definition offRuntimePolicy :: ClusterPolicy where
  "offRuntimePolicy = samplePolicy\<lparr>cpSpec := samplePolicySpec\<lparr>specContainerRuntime :=
     (specContainerRuntime samplePolicySpec)\<lparr>crEnabled := Some False\<rparr>\<rparr>\<rparr>"

definition offRuntimeController :: ClusterPolicyController where
  "offRuntimeController = simController ''state-container-runtime''
     (emptyResources\<lparr>resDaemonsets := Some [sampleRuntimeDS]\<rparr>) [CtlDaemonSet, CtlRuntimeClass] offRuntimePolicy"

definition stuckWorld :: "sim world" where
  "stuckWorld = simWorld (emptySim\<lparr>simBroken := [''xilinx-container-runtime-daemonset'']\<rparr>)"

theorem step_result_witness:
  "\<exists>c' w' ss. step simX offRuntimeController stuckWorld = (Ret ((Disabled, None), c'), w') \<and>
     ranAll simX offRuntimeController [CtlDaemonSet, CtlRuntimeClass] ss stuckWorld w' \<and> hd ss = NotReady"
proof -
  let ?run = "step simX offRuntimeController stuckWorld"
  have "map_prod (\<lambda>r. case r of Ret ((s, e), c) \<Rightarrow> (s, e) | Panic p \<Rightarrow> (Ready, Some NoSpecError)) (\<lambda>w. ()) ?run =
      ((Disabled, None), ())"
    by code_simp
  then obtain c' w' where run: "?run = (Ret ((Disabled, None), c'), w')"
    by (cases ?run) (auto split: outcome.splits prod.splits)
  have "fst (runControl simX CtlDaemonSet offRuntimeController stuckWorld) = Ret (NotReady, None)"
    by code_simp
  with step_result [OF run] run show ?thesis
    by (auto simp: offRuntimeController_def) 
qed

lemma stepLoop_off:
  assumes "currentEnabled c = Ret False"
  shows "stepLoop X c r fs w = (Ret (s, err), w') \<Longrightarrow> r \<in> {Ready, NotReady, Disabled} \<Longrightarrow>
    err = None \<and> s \<in> {Ready, NotReady, Disabled}"
proof (induction fs arbitrary: r w)
  case (Cons f fs)
  from Cons.prems(1) obtain s1 e1 w1 where 1: "runControl X f c w = (Ret (s1, e1), w1)"
    and 2: "(if e1 \<noteq> None then gret (s1, e1) else stepLoop X c (if s1 \<noteq> Ready then s1 else r) fs) w1 =
      (Ret (s, err), w')"
    by (auto simp: gbind_Ret_iff)
  from run_control.off_state [OF assms 1] have s1: "e1 = None" "s1 \<in> {Ready, NotReady, Disabled}" by auto
  with 2 have "stepLoop X c (if s1 \<noteq> Ready then s1 else r) fs w1 = (Ret (s, err), w')" by simp
  then show ?case by (rule Cons.IH) (use s1 Cons.prems(2) in auto)
qed auto

lemma emits_stepLoop: "(\<And>f. emits P (runControl X f c)) \<Longrightarrow> emits P (stepLoop X c r fs)"
  by (induction fs arbitrary: r) (auto intro!: emits_intros)

lemma emits_step: "(\<And>f. emits P (runControl X f c)) \<Longrightarrow> emits P (step X c)"
  unfolding step_def by (intro emits_intros emits_stepLoop)

text \<open>
  A step of a disabled state deploys nothing, makes only DaemonSet and RuntimeClass calls,
  and returns no error and one of Ready, NotReady and Disabled.
\<close>

theorem step_off:
  assumes "currentEnabled c = Ret False" and "step X c w = (Ret ((s, err), c'), w')"
  shows "err = None \<and> s \<in> {Ready, NotReady, Disabled} \<and>
    (\<exists>evs. wCalls w' = wCalls w @ evs \<and>
      list_all (\<lambda>ev. \<not> isDeploy ev \<and> (isDaemonSetEvent ev \<or> isRuntimeClassEvent ev)) evs)"
proof -
  from assms(2) obtain fs where "stepLoop X c Ready fs w = (Ret (s, err), w')"
    by (auto simp: step_def gbind_Ret_iff split: if_splits)
  from stepLoop_off [OF assms(1) this] have "err = None \<and> s \<in> {Ready, NotReady, Disabled}" by simp
  moreover have "emits (\<lambda>ev. \<not> isDeploy ev \<and> (isDaemonSetEvent ev \<or> isRuntimeClassEvent ev)) (step X c)"
    by (rule emits_step) (rule run_control.off_own_no_deploy [OF assms(1)])
  ultimately show ?thesis
    using assms(2) by (meson emitsD)
qed

theorem step_off_witness:
  "\<exists>s c' w' evs. step simX offRuntimeController stuckWorld = (Ret ((s, None), c'), w') \<and>
     s \<in> {Ready, NotReady, Disabled} \<and> wCalls w' = evs \<and> list_all (\<lambda>ev. \<not> isDeploy ev) evs"
proof -
  let ?run = "step simX offRuntimeController stuckWorld"
  have off: "currentEnabled offRuntimeController = Ret False"
    by (simp add: offRuntimeController_def currentEnabled_def isStateEnabled_def nthP_def offRuntimePolicy_def
      ContainerRuntimeSpec_IsEnabled_def)
  have "returns (fst ?run)" by code_simp
  then obtain s err c' w' where run: "?run = (Ret ((s, err), c'), w')"
    by (cases ?run) (auto simp: returns_iff)
  have "wCalls stuckWorld = []" by (simp add: stuckWorld_def simWorld_def)
  with step_off [OF off run] run show ?thesis
    by (auto simp: list_all_iff)
qed


subsection \<open>Initialisation\<close>

text \<open>
  The controller is well-formed when its three lists describe the same states, which are either
  none or the three the operator adds, and the index is one of a state or one past the last.
\<close>

definition stateDirs :: "string list" where
  "stateDirs = [''state-container-runtime'', ''state-device-plugin'', ''state-host-setup'']"

definition ctl_wf :: "ClusterPolicyController \<Rightarrow> bool" where
  "ctl_wf c \<longleftrightarrow> length (ctlResources c) = length (ctlControlFuncs c) \<and>
     length (ctlStateNames c) = length (ctlControlFuncs c) \<and>
     ctlIdx c \<le> length (ctlControlFuncs c) \<and>
     (ctlControlFuncs c = [] \<or> ctlStateNames c = stateDirs \<and> ctlSingleton c \<noteq> None)"

lemma ctl_wf_zero: "ctl_wf zeroController"
  by (simp add: ctl_wf_def zeroController_def)

text \<open>The fields that describe the states.\<close>

definition statesOf ::
    "ClusterPolicyController \<Rightarrow> string \<times> Resources list \<times> controlFunc list list \<times> string list" where
  "statesOf c = (ctlOperatorNamespace c, ctlResources c, ctlControlFuncs c, ctlStateNames c)"

lemma initNodes_yields:
  "yields (\<lambda>(err, c'). statesOf c' = statesOf c \<and> ctlSingleton c' = ctlSingleton c \<and>
     ctlIdx c' = ctlIdx c \<and> ctlRuntime c' = ctlRuntime c) (initNodes X c)"
  unfolding initNodes_def Let_def by (intro yields_intros; simp add: statesOf_def)

lemma getRuntime_yields: "yields (\<lambda>(err, c'). \<exists>rt. c' = c\<lparr>ctlRuntime := rt\<rparr>) (getRuntime X c)"
  unfolding getRuntime_def Let_def
  by (intro yields_intros; simp) (auto intro: exI [of _ "ctlRuntime c"])

lemma addState_result:
  "addState X c path w = (Ret c', w') \<Longrightarrow> \<exists>res fs. c' = c\<lparr>ctlResources := ctlResources c @ [res],
     ctlControlFuncs := ctlControlFuncs c @ [fs], ctlStateNames := ctlStateNames c @ [base path]\<rparr>"
  by (auto simp: addState_def gbind_Ret_iff split: prod.splits)

lemma base_states:
  "base ''/opt/fpga-operator/state-container-runtime'' = ''state-container-runtime''"
  "base ''/opt/fpga-operator/state-device-plugin'' = ''state-device-plugin''"
  "base ''/opt/fpga-operator/state-host-setup'' = ''state-host-setup''"
  by code_simp+

text \<open>What \<open>init\<close> adds: all three states, or none when it fails.\<close>

definition statesAdded ::
    "ClusterPolicyController \<Rightarrow> goerr option \<times> ClusterPolicyController \<Rightarrow> bool" where
  "statesAdded c = (\<lambda>(err, c'). ctlSingleton c' = ctlSingleton c \<and> ctlIdx c' = ctlIdx c \<and>
    (if err = None
     then \<exists>rs fs. length rs = 3 \<and> length fs = 3 \<and> ctlResources c' = ctlResources c @ rs \<and>
       ctlControlFuncs c' = ctlControlFuncs c @ fs \<and> ctlStateNames c' = ctlStateNames c @ stateDirs
     else ctlResources c' = ctlResources c \<and> ctlControlFuncs c' = ctlControlFuncs c \<and>
       ctlStateNames c' = ctlStateNames c))"

lemma statesAdded_error:
  "err \<noteq> None \<Longrightarrow> ctlSingleton c' = ctlSingleton c \<Longrightarrow> ctlIdx c' = ctlIdx c \<Longrightarrow>
   ctlResources c' = ctlResources c \<Longrightarrow> ctlControlFuncs c' = ctlControlFuncs c \<Longrightarrow>
   ctlStateNames c' = ctlStateNames c \<Longrightarrow> statesAdded c (err, c')"
  by (simp add: statesAdded_def)

lemma addStates_yields:
  assumes "ctlSingleton c' = ctlSingleton c" "ctlIdx c' = ctlIdx c" "ctlResources c' = ctlResources c"
    "ctlControlFuncs c' = ctlControlFuncs c" "ctlStateNames c' = ctlStateNames c"
  shows "yields (statesAdded c)
    (gbind (addState X c' ''/opt/fpga-operator/state-container-runtime'') (\<lambda>ctrl.
     gbind (addState X ctrl ''/opt/fpga-operator/state-device-plugin'') (\<lambda>ctrl.
     gbind (addState X ctrl ''/opt/fpga-operator/state-host-setup'') (\<lambda>ctrl.
     gret (None, ctrl)))))"
  using assms unfolding yields_def
  by (auto simp: gbind_Ret_iff statesAdded_def stateDirs_def base_states dest!: addState_result)

lemma initStates_yields: "yields (statesAdded c) (initStates X c)"
proof -
  have tail: "yields (statesAdded c) (gbind (getRuntime X c') (\<lambda>(err, ctrl).
         if err \<noteq> None then gret (err, ctrl)
         else
           gbind (addState X ctrl ''/opt/fpga-operator/state-container-runtime'') (\<lambda>ctrl.
           gbind (addState X ctrl ''/opt/fpga-operator/state-device-plugin'') (\<lambda>ctrl.
           gbind (addState X ctrl ''/opt/fpga-operator/state-host-setup'') (\<lambda>ctrl.
           gret (None, ctrl))))))"
    if "ctlSingleton c' = ctlSingleton c" "ctlIdx c' = ctlIdx c" "ctlResources c' = ctlResources c"
      "ctlControlFuncs c' = ctlControlFuncs c" "ctlStateNames c' = ctlStateNames c" for c'
    using that
    by (intro yields_gbind_from [OF getRuntime_yields] yields_case_prod yields_if addStates_yields
      yields_gret statesAdded_error) auto
  show ?thesis
    unfolding initStates_def Let_def
    by (rule yields_gbind, rule yields_gbind, rule yields_case_sum, rule yields_gret,
      simp add: statesAdded_error, rule yields_if, rule yields_gret, simp add: statesAdded_error,
      rule tail) simp_all
qed

lemma init_facts:
  assumes "ctl_wf c" and "init X p c w = (Ret (err, c'), w')"
  shows "ctl_wf c' \<and> ctlSingleton c' = Some p \<and> ctlIdx c' = 0 \<and>
    (err = None \<longrightarrow> ctlStateNames c' = stateDirs) \<and>
    (ctlControlFuncs c \<noteq> [] \<longrightarrow> statesOf c' = statesOf c \<and> ctlRuntime c' = ctlRuntime c)"
proof -
  let ?c = "c\<lparr>ctlSingleton := Some p, ctlIdx := 0\<rparr>"
  obtain e1 c1 w1 where 1: "(if ctlControlFuncs c = [] then initStates X ?c else gret (None, ?c)) w = (Ret (e1, c1), w1)"
    and 2: "(if e1 \<noteq> None then gret (e1, c1) else initNodes X c1) w1 = (Ret (err, c'), w')"
    using assms(2) unfolding init_def Let_def gbind_Ret_iff split_paired_Ex prod.case by fastforce
  have c1: "ctl_wf c1 \<and> ctlSingleton c1 = Some p \<and> ctlIdx c1 = 0 \<and> (e1 = None \<longrightarrow> ctlStateNames c1 = stateDirs) \<and>
    (ctlControlFuncs c \<noteq> [] \<longrightarrow> statesOf c1 = statesOf c \<and> ctlRuntime c1 = ctlRuntime c)"
  proof (cases "ctlControlFuncs c = []")
    case True
    with 1 have "statesAdded ?c (e1, c1)"
      using yieldsD [OF initStates_yields] by (metis (mono_tags, lifting))
    with True assms(1) show ?thesis
      by (auto simp: statesAdded_def ctl_wf_def stateDirs_def split: if_splits)
  next
    case False
    with 1 assms(1) show ?thesis by (auto simp: ctl_wf_def statesOf_def)
  qed
  show ?thesis
  proof (cases e1)
    case None
    with 2 have "initNodes X c1 w1 = (Ret (err, c'), w')" by simp
    from yieldsD [OF initNodes_yields this] c1 None show ?thesis
      by (auto simp: ctl_wf_def statesOf_def)
  next
    case (Some e)
    with 2 c1 show ?thesis by auto
  qed
qed

text \<open>
  C15: Initialisation keeps the controller well-formed, makes the policy the singleton and
  resets the index; when it succeeds the three states are there, and a controller that has its
  states keeps them and the detected runtime: the manifests are read once in the life of the
  process.
\<close>

theorem init_result:
  assumes "ctl_wf c" and "init X p c w = (Ret (err, c'), w')"
  shows "ctl_wf c' \<and> ctlSingleton c' = Some p \<and> ctlIdx c' = 0 \<and>
    (err = None \<longrightarrow> ctlStateNames c' = stateDirs) \<and>
    (ctlControlFuncs c \<noteq> [] \<longrightarrow> statesOf c' = statesOf c \<and> ctlRuntime c' = ctlRuntime c)"
  by (rule init_facts [OF assms])

theorem init_result_witness:
  "\<exists>err c' w'. init simX samplePolicy zeroController (simWorld (emptySim\<lparr>simNodes := sampleNodes\<rparr>)) =
     (Ret (err, c'), w') \<and> ctl_wf c' \<and> ctlSingleton c' = Some samplePolicy \<and> err = None \<and>
     ctlStateNames c' = [''state-container-runtime'', ''state-device-plugin'', ''state-host-setup'']"
proof -
  let ?run = "init simX samplePolicy zeroController (simWorld (emptySim\<lparr>simNodes := sampleNodes\<rparr>))"
  have "(case fst ?run of Ret (err, _) \<Rightarrow> Some err | Panic _ \<Rightarrow> None) = Some None" by code_simp
  then obtain c' w' where run: "?run = (Ret (None, c'), w')"
    by (cases ?run) (auto split: outcome.splits prod.splits)
  from init_result [OF ctl_wf_zero run] run show ?thesis by (auto simp: stateDirs_def)
qed

end
