(* ===== verification/ReconcilerSpec.thy ===== *)
theory ReconcilerSpec
  imports Reconciler StateSpec
begin

section \<open>What a reconciliation does\<close>

text \<open>
  The loop of \<open>Reconcile\<close> in terms of the steps it makes, the result and the status it leaves in
  every case, the requests it ignores, and the calls it can make at all.
\<close>

subsection \<open>The loop over the states\<close>

text \<open>
  What happens between two steps: the policy's status is set to \<open>NotReady\<close> when the step was not
  ready and the policy, as read at the start of the reconciliation, said \<open>Ready\<close>.
\<close>

definition reportStep ::
    "'e externals \<Rightarrow> NamespacedName \<Rightarrow> ClusterPolicy \<Rightarrow> State \<Rightarrow> ClusterPolicyController \<Rightarrow> ('e world, goerr option) go"
  where
  "reportStep X req inst s ctrl =
     (if s = NotReady \<and> statusState (cpStatus inst) = Ready then updateCRState X req NotReady ctrl else gret None)"

lemma updateCRState_returns: "\<exists>e w'. updateCRState X req st ctrl w = (Ret e, w')"
  by (simp add: updateCRState_def gbind_run api_defs apiCall_run split: sum.split)

lemma reportStep_returns: "\<exists>e w'. reportStep X req inst s ctrl w = (Ret e, w')"
  using updateCRState_returns by (auto simp: reportStep_def)

lemma noteStep_eq:
  assumes "ctlIdx c - 1 < length (ctlStateNames c)"
  shows "noteStep X req inst s acc c =
    gbind (reportStep X req inst s c) (\<lambda>_. gret
      (if s = NotReady then (NotReady, snd acc @ [ctlStateNames c ! (ctlIdx c - 1)]) else acc))"
  using assms by (intro ext)
    (auto simp: noteStep_def reportStep_def nthP_in_range gbind_run split: prod.split outcome.split)

text \<open>\<open>ranStates X req inst c w ss w'\<close>: the remaining states were stepped through, with the results \<open>ss\<close>.\<close>

inductive ranStates ::
    "'e externals \<Rightarrow> NamespacedName \<Rightarrow> ClusterPolicy \<Rightarrow> ClusterPolicyController \<Rightarrow> 'e world \<Rightarrow> State list \<Rightarrow> 'e world \<Rightarrow> bool"
  for X req inst where
  finished: "lastState c \<Longrightarrow> ranStates X req inst c w [] w"
| stepped: "step X c w = (Ret ((s, None), c1), w1) \<Longrightarrow> reportStep X req inst s c1 w1 = (Ret e, w2) \<Longrightarrow>
    ranStates X req inst c1 w2 ss w' \<Longrightarrow> ranStates X req inst c w (s # ss) w'"

inductive_cases ranStates_NilE: "ranStates X req inst c w [] w'"
inductive_cases ranStates_ConsE: "ranStates X req inst c w (s # ss) w'"

lemma ranStates_length:
  "ranStates X req inst c w ss w' \<Longrightarrow> ctlIdx c \<le> length (ctlControlFuncs c) \<Longrightarrow>
   length ss = length (ctlControlFuncs c) - ctlIdx c"
  by (induction rule: ranStates.induct) (auto simp: lastState_def dest!: step_None)

text \<open>The list of the states that are not ready, as the log line of the code has it.\<close>

definition notReadyNames :: "string list \<Rightarrow> State list \<Rightarrow> string list" where
  "notReadyNames names ss = map fst (filter (\<lambda>(n, s). s = NotReady) (zip names ss))"

text \<open>One iteration of the loop, when the step succeeds.\<close>

lemma reconcileLoop_step:
  assumes "step X c w = (Ret ((s, None), c1), w1)" and "reportStep X req inst s c1 w1 = (Ret e, w2)"
    and "length (ctlStateNames c) = length (ctlControlFuncs c)"
  shows "reconcileLoop X req inst acc c w =
    (let acc1 = (if s = NotReady then (NotReady, snd acc @ [ctlStateNames c ! ctlIdx c]) else acc) in
     if lastState c1 then (Ret (Finished (fst acc1) (snd acc1), c1), w2)
     else reconcileLoop X req inst acc1 c1 w2)"
proof -
  from step_None [OF assms(1)] have i: "ctlIdx c < length (ctlControlFuncs c)"
    and c1: "c1 = c\<lparr>ctlIdx := ctlIdx c + 1\<rparr>" by simp_all
  have "noteStep X req inst s acc c1 w1 =
      (Ret (if s = NotReady then (NotReady, snd acc @ [ctlStateNames c ! ctlIdx c]) else acc), w2)"
    using i assms(2,3) by (subst noteStep_eq) (simp_all add: c1 gbind_run)
  then show ?thesis
    by (subst reconcileLoop.simps) (simp add: assms(1) Let_def)
qed

lemma reconcileLoop_ran:
  "ranStates X req inst c w ss w' \<Longrightarrow> ctlIdx c < length (ctlControlFuncs c) \<Longrightarrow>
   length (ctlStateNames c) = length (ctlControlFuncs c) \<Longrightarrow>
   reconcileLoop X req inst acc c w =
     (Ret (Finished (if NotReady \<in> set ss then NotReady else fst acc)
       (snd acc @ notReadyNames (drop (ctlIdx c) (ctlStateNames c)) ss),
       c\<lparr>ctlIdx := length (ctlControlFuncs c)\<rparr>), w')"
proof (induction arbitrary: acc rule: ranStates.induct)
  case (stepped c w s c1 w1 e w2 ss w')
  from step_None [OF stepped.hyps(1)] have c1: "c1 = c\<lparr>ctlIdx := ctlIdx c + 1\<rparr>" by simp
  have drop: "drop (ctlIdx c) (ctlStateNames c) = ctlStateNames c ! ctlIdx c # drop (ctlIdx c + 1) (ctlStateNames c)"
    using stepped.prems by (simp add: Cons_nth_drop_Suc)
  show ?case
  proof (cases "lastState c1")
    case True
    with stepped.hyps(3) have "ss = [] \<and> w' = w2"
      by (cases rule: ranStates.cases) (auto simp: lastState_def dest!: step_None)
    with True show ?thesis
      unfolding reconcileLoop_step [OF stepped.hyps(1,2) stepped.prems(2)] drop
      by (simp add: Let_def notReadyNames_def c1 lastState_def)
  next
    case False
    with stepped.prems c1 have "ctlIdx c1 < length (ctlControlFuncs c1)" by (simp add: lastState_def)
    note IH = stepped.IH [OF this]
    from stepped.prems show ?thesis
      unfolding reconcileLoop_step [OF stepped.hyps(1,2) stepped.prems(2)] drop Let_def if_not_P [OF False]
      by (subst IH) (simp_all add: c1 notReadyNames_def)
  qed
qed (simp add: lastState_def)

lemma reconcileLoop_finished:
  "reconcileLoop X req inst acc c w = (Ret (Finished st ns, c'), w') \<Longrightarrow>
   length (ctlStateNames c) = length (ctlControlFuncs c) \<Longrightarrow> \<exists>ss. ranStates X req inst c w ss w'"
proof (induction X req inst acc c w rule: reconcileLoop.induct)
  case (1 X req inst acc c w)
  from 1(2) obtain s err c1 w1 where s: "step X c w = (Ret ((s, err), c1), w1)"
    by (subst (asm) reconcileLoop.simps) (auto split: outcome.splits prod.splits)
  obtain e w2 where r: "reportStep X req inst s c1 w1 = (Ret e, w2)"
    using reportStep_returns by blast
  show ?case
  proof (cases err)
    case None
    note s = s [unfolded None]
    from step_None [OF s] have c1: "c1 = c\<lparr>ctlIdx := ctlIdx c + 1\<rparr>" and i: "ctlIdx c < length (ctlControlFuncs c)" by simp_all
    let ?acc = "if s = NotReady then (NotReady, snd acc @ [ctlStateNames c ! ctlIdx c]) else acc"
    have note_eq: "noteStep X req inst s acc c1 w1 = (Ret ?acc, w2)"
      using i r 1(3) by (subst noteStep_eq) (simp_all add: c1 gbind_run)
    show ?thesis
    proof (cases "lastState c1")
      case True
      with 1(2) have "w' = w2" unfolding reconcileLoop_step [OF s r 1(3)] Let_def by simp
      with True s r show ?thesis by (meson ranStates.intros)
    next
      case False
      with 1(2) have "reconcileLoop X req inst ?acc c1 w2 = (Ret (Finished st ns, c'), w')"
        unfolding reconcileLoop_step [OF s r 1(3)] Let_def by simp
      then obtain ss where "ranStates X req inst c1 w2 ss w'"
        using 1(1) [OF s [symmetric] refl refl refl refl note_eq [symmetric] refl False] 1(3) c1 by auto
      with s r show ?thesis by (meson ranStates.stepped)
    qed
  next
    case (Some e')
    with 1(2) s show ?thesis
      by (subst (asm) reconcileLoop.simps) (auto simp: gbind_Ret_iff)
  qed
qed

subsection \<open>The outcome of a reconciliation\<close>

lemma notReadyNames_Nil: "NotReady \<notin> set ss \<Longrightarrow> notReadyNames names ss = []"
  by (auto simp: notReadyNames_def filter_empty_conv dest: set_zip_rightD)

definition singletonIs :: "ClusterPolicyController \<Rightarrow> string \<Rightarrow> bool" where
  "singletonIs c n \<longleftrightarrow> (\<forall>p. ctlSingleton c = Some p \<longrightarrow> cpName p = n)"

lemma Reconcile_main:
  assumes "getClusterPolicy X req w = (Ret (Inr inst), w0)" and "singletonIs c (cpName inst)"
  shows "Reconcile X req c w = reconcilePolicy X req inst c w0"
proof -
  have "\<not> (case ctlSingleton c of None \<Rightarrow> False | Some p \<Rightarrow> cpName p \<noteq> cpName inst)"
    using assms(2) by (auto simp: singletonIs_def split: option.split)
  then show ?thesis
    using assms(1) by (simp add: Reconcile_def gbind_run)
qed

lemma wf_after_init:
  assumes "ctl_wf c" and "init X inst c w0 = (Ret (None, c1), w1)"
  shows "length (ctlControlFuncs c1) = 3" and "ctlStateNames c1 = stateDirs" and "ctlIdx c1 = 0"
    and "length (ctlStateNames c1) = length (ctlControlFuncs c1)" and "ctlSingleton c1 = Some inst"
  using init_facts [OF assms] by (auto simp: ctl_wf_def stateDirs_def)


lemma requeue_not_empty: "requeueResult \<noteq> emptyResult"
  by (simp add: requeueResult_def emptyResult_def requeueDealy_def)

lemma afterLoop_empty:
  assumes "afterLoop X req lr c2 w2 = (Ret ((emptyResult, None), c'), w')"
  shows "\<exists>ns e. lr = Finished Ready ns \<and> updateCRState X req Ready c2 w2 = (Ret e, w') \<and> c' = c2"
proof (cases lr)
  case (Finished st ns)
  then show ?thesis
    using assms requeue_not_empty by (cases "st = Ready") (auto simp: afterLoop_def gbind_Ret_iff)
qed (use assms in \<open>simp add: afterLoop_def\<close>)

text \<open>
  C6: When initialisation and all the steps return without an error, there are exactly three
  step results; if one of them is NotReady the request is retried after requeueDealy and the
  status is not set to Ready, otherwise the status update to Ready is made last and the request
  is done.
\<close>

theorem Reconcile_steps:
  assumes "ctl_wf c" and "getClusterPolicy X req w = (Ret (Inr inst), w0)" and "singletonIs c (cpName inst)"
    and "init X inst c w0 = (Ret (None, c1), w1)" and "ranStates X req inst c1 w1 ss w2"
  shows "length ss = 3 \<and>
    (if NotReady \<in> set ss
     then Reconcile X req c w = (Ret ((requeueResult, None), c1\<lparr>ctlIdx := 3\<rparr>), w2)
     else \<exists>e w3. updateCRState X req Ready (c1\<lparr>ctlIdx := 3\<rparr>) w2 = (Ret e, w3) \<and>
       Reconcile X req c w = (Ret ((emptyResult, None), c1\<lparr>ctlIdx := 3\<rparr>), w3))"
proof -
  note wf = wf_after_init [OF assms(1,4)]
  have loop: "reconcileLoop X req inst (Ready, []) c1 w1 =
     (Ret (Finished (if NotReady \<in> set ss then NotReady else Ready) (notReadyNames stateDirs ss),
       c1\<lparr>ctlIdx := 3\<rparr>), w2)"
    using reconcileLoop_ran [OF assms(5) _ wf(4)] by (simp add: wf(1-3))
  obtain e w3 where u: "updateCRState X req Ready (c1\<lparr>ctlIdx := 3\<rparr>) w2 = (Ret e, w3)"
    using updateCRState_returns by blast
  have "length ss = 3"
    using ranStates_length [OF assms(5)] by (simp add: wf)
  moreover have "Reconcile X req c w =
    (if NotReady \<in> set ss then (Ret ((requeueResult, None), c1\<lparr>ctlIdx := 3\<rparr>), w2)
     else (Ret ((emptyResult, None), c1\<lparr>ctlIdx := 3\<rparr>), w3))"
    unfolding Reconcile_main [OF assms(2,3)]
    by (simp add: reconcilePolicy_def afterLoop_def gbind_run assms(4) loop u)
  ultimately show ?thesis using u by auto
qed

text \<open>
  C2: A reconciliation of the served policy that ends without an error and without a retry has
  initialised the controller, stepped through all three states with none of them NotReady, and
  only then tried to set the status of the policy to Ready.
\<close>

theorem Reconcile_done:
  assumes "ctl_wf c" and "getClusterPolicy X req w = (Ret (Inr inst), w0)" and "singletonIs c (cpName inst)"
    and "Reconcile X req c w = (Ret ((emptyResult, None), c'), w')"
  shows "\<exists>c1 w1 ss w2 e. init X inst c w0 = (Ret (None, c1), w1) \<and> ranStates X req inst c1 w1 ss w2 \<and>
    length ss = 3 \<and> NotReady \<notin> set ss \<and> c' = c1\<lparr>ctlIdx := 3\<rparr> \<and>
    updateCRState X req Ready c' w2 = (Ret e, w')"
proof -
  from assms(4) have "reconcilePolicy X req inst c w0 = (Ret ((emptyResult, None), c'), w')"
    unfolding Reconcile_main [OF assms(2,3)] .
  then obtain c1 w1 lr c2 w2 where i: "init X inst c w0 = (Ret (None, c1), w1)"
    and lr: "reconcileLoop X req inst (Ready, []) c1 w1 = (Ret (lr, c2), w2)"
    and fin: "afterLoop X req lr c2 w2 = (Ret ((emptyResult, None), c'), w')"
    by (fastforce simp: reconcilePolicy_def gbind_Ret_iff split: if_splits)
  note wf = wf_after_init [OF assms(1) i]
  from afterLoop_empty [OF fin] obtain ns e where st: "lr = Finished Ready ns"
    and u: "updateCRState X req Ready c2 w2 = (Ret e, w')" and c': "c' = c2" by blast
  note l = lr [unfolded st]
  from reconcileLoop_finished [OF l wf(4)] obtain ss where ss: "ranStates X req inst c1 w1 ss w2" by blast
  from reconcileLoop_ran [OF ss _ wf(4), of "(Ready, [])"] l
  have "NotReady \<notin> set ss" "c2 = c1\<lparr>ctlIdx := 3\<rparr>"
    by (auto simp: wf(1,3) split: if_splits)
  moreover have "length ss = 3" using ranStates_length [OF ss] by (simp add: wf)
  ultimately show ?thesis using i ss u c' by blast
qed

text \<open>The witnesses reconcile the sample policy in a small cluster.\<close>

definition sampleAssets :: "(string \<times> fsnode) list" where
  "sampleAssets =
    [(''/opt/fpga-operator/state-container-runtime'', FsDir (Some
       [(''0100_runtime_class.yaml'', FsFile (Some (manifestText ''RuntimeClass'' ''xilinx''))),
        (''0300_daemonset.yaml'', FsFile (Some (manifestText ''DaemonSet'' ''runtime'')))])),
     (''/opt/fpga-operator/state-device-plugin'', FsDir (Some
       [(''0300_daemonset.yaml'', FsFile (Some (manifestText ''DaemonSet'' ''plugin'')))])),
     (''/opt/fpga-operator/state-host-setup'', FsDir (Some
       [(''0300_daemonset.yaml'', FsFile (Some (manifestText ''DaemonSet'' ''hostsetup'')))]))]"

definition sampleCluster :: sim where
  "sampleCluster = emptySim\<lparr>simPolicies := [(''fpga-clusterpolicy'', samplePolicy)],
     simNodes := sampleNodes, simAssets := sampleAssets\<rparr>"

definition sampleReq :: NamespacedName where
  "sampleReq = \<lparr>nnNamespace = [], nnName = ''fpga-clusterpolicy''\<rparr>"

definition readPolicy :: "NamespacedName \<Rightarrow> ClusterPolicy \<Rightarrow> sim \<Rightarrow> sim world" where
  "readPolicy req p e = (simWorld e)\<lparr>wCalls := [EvGetClusterPolicy req (Inr p)]\<rparr>"

lemma sampleCluster_get:
  "getClusterPolicy simX sampleReq (simWorld sampleCluster) =
     (Ret (Inr samplePolicy), readPolicy sampleReq samplePolicy sampleCluster)"
  by (simp add: api_defs apiCall_run simX_def simLookup_def sampleCluster_def sampleReq_def simWorld_def readPolicy_def)

lemma singletonIs_zero: "singletonIs zeroController n"
  by (simp add: singletonIs_def zeroController_def)

lemma sampleRun_done:
  "(case fst (Reconcile simX sampleReq zeroController (simWorld sampleCluster)) of
     Ret (r, _) \<Rightarrow> Some r | Panic _ \<Rightarrow> None) = Some (emptyResult, None)"
  by code_simp

theorem Reconcile_done_witness:
  "\<exists>c1 w1 ss w2. init simX samplePolicy zeroController (readPolicy sampleReq samplePolicy sampleCluster) =
      (Ret (None, c1), w1) \<and>
    ranStates simX sampleReq samplePolicy c1 w1 ss w2 \<and> length ss = 3 \<and> NotReady \<notin> set ss"
proof -
  let ?run = "Reconcile simX sampleReq zeroController (simWorld sampleCluster)"
  from sampleRun_done obtain c' w' where "?run = (Ret ((emptyResult, None), c'), w')"
    by (cases ?run) (auto split: outcome.splits)
  from Reconcile_done [OF ctl_wf_zero sampleCluster_get singletonIs_zero this] show ?thesis by blast
qed


text \<open>In this cluster the device plugin's DaemonSet cannot be created.\<close>

definition refusingCluster :: sim where
  "refusingCluster = sampleCluster\<lparr>simBroken := [''device-plugin-daemonset'']\<rparr>"

lemma refusingCluster_get:
  "getClusterPolicy simX sampleReq (simWorld refusingCluster) =
     (Ret (Inr samplePolicy), readPolicy sampleReq samplePolicy refusingCluster)"
  by (simp add: api_defs apiCall_run simX_def simLookup_def sampleCluster_def refusingCluster_def
      sampleReq_def simWorld_def readPolicy_def)

theorem Reconcile_steps_witness:
  "\<exists>c1 w1 ss w2. init simX samplePolicy zeroController (readPolicy sampleReq samplePolicy refusingCluster) =
      (Ret (None, c1), w1) \<and> ranStates simX sampleReq samplePolicy c1 w1 ss w2 \<and> NotReady \<in> set ss \<and>
     Reconcile simX sampleReq zeroController (simWorld refusingCluster) =
       (Ret ((requeueResult, None), c1\<lparr>ctlIdx := 3\<rparr>), w2)"
proof -
  let ?init = "init simX samplePolicy zeroController (readPolicy sampleReq samplePolicy refusingCluster)"
  have "(case ?init of (Ret (None, c1), w1) \<Rightarrow>
      (case reconcileLoop simX sampleReq samplePolicy (Ready, []) c1 w1 of
        (Ret (Finished st ns, _), _) \<Rightarrow> ns | _ \<Rightarrow> []) | _ \<Rightarrow> []) = [''state-device-plugin'']"
    by code_simp
  then obtain c1 w1 st w2 c2 where i: "?init = (Ret (None, c1), w1)"
    and l: "reconcileLoop simX sampleReq samplePolicy (Ready, []) c1 w1 =
      (Ret (Finished st [''state-device-plugin''], c2), w2)"
    by (auto split: prod.splits outcome.splits option.splits loopResult.splits)
  note wf = wf_after_init [OF ctl_wf_zero i]
  from reconcileLoop_finished [OF l wf(4)] obtain ss where ss: "ranStates simX sampleReq samplePolicy c1 w1 ss w2"
    by blast
  from reconcileLoop_ran [OF ss _ wf(4), of "(Ready, [])"] l wf
  have "notReadyNames stateDirs ss = [''state-device-plugin'']" by simp
  then have "NotReady \<in> set ss"
    using notReadyNames_Nil by force
  with Reconcile_steps [OF ctl_wf_zero refusingCluster_get singletonIs_zero i ss] i ss show ?thesis
    by (metis (no_types, lifting))
qed

subsection \<open>What a reconciliation keeps and what it can call\<close>

lemma reconcileLoop_gbind:
  "reconcileLoop X req inst acc c =
    gbind (step X c) (\<lambda>((status, err), ctrl).
      case err of
        Some statusError \<Rightarrow> gbind (updateCRState X req NotReady ctrl) (\<lambda>_. gret (StepFailed statusError, ctrl))
      | None \<Rightarrow> gbind (noteStep X req inst status acc ctrl) (\<lambda>acc.
          if lastState ctrl then gret (Finished (fst acc) (snd acc), ctrl)
          else reconcileLoop X req inst acc ctrl))"
  by (rule ext, subst reconcileLoop.simps) (auto simp: gbind_run split: prod.split outcome.split option.split)

lemma step_yields:
  "yields (\<lambda>((s, err), c'). ctlIdx c < length (ctlControlFuncs c) \<and>
     c' = (if err = None then c\<lparr>ctlIdx := ctlIdx c + 1\<rparr> else c)) (step X c)"
  unfolding yields_def
  by (auto dest: step_None step_Some split: option.split)

text \<open>The index is all of the controller that the loop changes.\<close>

definition sameStates :: "ClusterPolicyController \<Rightarrow> ClusterPolicyController \<Rightarrow> bool" where
  "sameStates c c' \<longleftrightarrow> (\<exists>i \<le> length (ctlControlFuncs c). c' = c\<lparr>ctlIdx := i\<rparr>)"

lemma sameStates_step:
  "ctlIdx c < length (ctlControlFuncs c) \<Longrightarrow> sameStates c0 c \<Longrightarrow> sameStates c0 (c\<lparr>ctlIdx := Suc (ctlIdx c)\<rparr>)"
  by (auto simp: sameStates_def intro!: exI [of _ "Suc (ctlIdx c)"])

lemma reconcileLoop_yields:
  "sameStates c0 c \<Longrightarrow> yields (\<lambda>(res, c'). sameStates c0 c') (reconcileLoop X req inst acc c)"
proof (induction "length (ctlControlFuncs c) - ctlIdx c" arbitrary: acc c rule: less_induct)
  case less
  have next_state: "yields (\<lambda>(res, c'). sameStates c0 c') (reconcileLoop X req inst acc' c')"
    if "ctlIdx c < length (ctlControlFuncs c)" and "c' = c\<lparr>ctlIdx := Suc (ctlIdx c)\<rparr>" for acc' c'
    using that less.hyps [of c' acc'] sameStates_step [OF that(1) less.prems] by auto
  show ?case
    unfolding reconcileLoop_gbind [of X req inst acc c]
    by (rule yields_gbind_from [OF step_yields])
      (auto intro!: yields_intros next_state sameStates_step less.prems split: option.split)
qed

lemma emits_updateCRState:
  assumes "\<And>r. P (EvGetClusterPolicy req r)"
    and "\<And>q e. statusState (cpStatus q) = st \<Longrightarrow> statusNamespace (cpStatus q) = ctlOperatorNamespace c \<Longrightarrow>
      P (EvStatusUpdate q e)"
  shows "emits P (updateCRState X req st c)"
  unfolding updateCRState_def api_defs by (intro emits_intros assms) simp_all

lemma emits_reconcileLoop:
  assumes "sameStates c0 c" and "\<And>i. emits P (step X (c0\<lparr>ctlIdx := i\<rparr>))"
    and "\<And>i. emits P (updateCRState X req NotReady (c0\<lparr>ctlIdx := i\<rparr>))"
  shows "emits P (reconcileLoop X req inst acc c)"
  using assms(1)
proof (induction "length (ctlControlFuncs c) - ctlIdx c" arbitrary: acc c rule: less_induct)
  case less
  then obtain i where c: "c = c0\<lparr>ctlIdx := i\<rparr>" by (auto simp: sameStates_def)
  have next_state: "emits P (reconcileLoop X req inst acc' c')"
    if "ctlIdx c < length (ctlControlFuncs c)" and "c' = c\<lparr>ctlIdx := Suc (ctlIdx c)\<rparr>" for acc' c'
    using that less.hyps [of c' acc'] sameStates_step [OF that(1) less.prems] by auto
  have note_emits: "emits P (noteStep X req inst s acc (c0\<lparr>ctlIdx := j\<rparr>))" for s j
    unfolding noteStep_def by (intro emits_intros assms(3))
  have st: "emits P (step X c)" unfolding c by (rule assms(2))
  show ?case
    unfolding reconcileLoop_gbind [of X req inst acc c]
    by (rule emits_gbind_yields [OF st step_yields])
      (auto simp: c intro!: emits_intros note_emits next_state [unfolded c] assms(3) split: option.split)
qed


lemma sameStates_self: "sameStates c (c\<lparr>ctlIdx := 0\<rparr>)" "ctlIdx c \<le> length (ctlControlFuncs c) \<Longrightarrow> sameStates c c"
  unfolding sameStates_def by (rule exI [of _ 0], simp, rule exI [of _ "ctlIdx c"], simp)

lemma ctl_wf_sameStates: "ctl_wf c \<Longrightarrow> sameStates c c' \<Longrightarrow> ctl_wf c'"
  by (auto simp: sameStates_def ctl_wf_def)

lemma init_yields:
  assumes "ctl_wf c"
  shows "yields (\<lambda>(err, c'). ctl_wf c' \<and> ctlSingleton c' = Some p \<and> ctlIdx c' = 0 \<and>
     (err = None \<longrightarrow> ctlStateNames c' = stateDirs)) (init X p c)"
  unfolding yields_def by (auto dest!: init_facts [OF assms])

text \<open>\<open>init\<close> lists nodes and asks for the server's version, and nothing else.\<close>

lemma emits_addResourceControls: "emits P (addResourceControls X path)"
  unfolding addResourceControls_def by (intro emits_intros)

lemma emits_init: "emits (\<lambda>ev. ev = EvListNodes \<or> ev = EvDiscovery) (init X p c)"
  unfolding init_def initStates_def initNodes_def kubernetesVersion_def getRuntime_def getFPGANodeCount_def
    getOsDistributions_def addState_def api_defs Let_def
  by (intro emits_intros emits_addResourceControls) simp_all

text \<open>The controller stays well-formed, and keeps the name of the policy it works for.\<close>

definition keepsPolicy :: "ClusterPolicyController \<Rightarrow> ClusterPolicyController \<Rightarrow> bool" where
  "keepsPolicy c c' \<longleftrightarrow> ctl_wf c' \<and>
    (\<forall>p. ctlSingleton c = Some p \<longrightarrow> (\<exists>p'. ctlSingleton c' = Some p' \<and> cpName p' = cpName p))"

lemma afterLoop_yields: "yields (\<lambda>(res, c'). c' = c) (afterLoop X req lr c)"
  unfolding afterLoop_def by (cases lr) (auto intro!: yields_intros)

lemma reconcilePolicy_yields:
  assumes "ctl_wf c" and "singletonIs c (cpName inst)"
  shows "yields (\<lambda>(res, c'). keepsPolicy c c') (reconcilePolicy X req inst c)"
  unfolding reconcilePolicy_def
proof (rule yields_gbind_from [OF init_yields [OF assms(1), of inst X]], clarify)
  fix err c1
  assume wf: "ctl_wf c1" and s: "ctlSingleton c1 = Some inst" and i: "ctlIdx c1 = 0"
  from i have same: "sameStates c1 c1" by (intro sameStates_self) simp
  have keeps: "keepsPolicy c c2" if "sameStates c1 c2" for c2
    using that s assms(2) ctl_wf_sameStates [OF wf that]
    by (auto simp: sameStates_def singletonIs_def keepsPolicy_def)
  have "yields (\<lambda>(res, c'). keepsPolicy c c')
      (gbind (reconcileLoop X req inst (Ready, []) c1) (\<lambda>(res, ctrl). afterLoop X req res ctrl))"
    by (rule yields_gbind_from [OF reconcileLoop_yields [OF same]])
      (auto simp: yields_def dest!: keeps yieldsD [OF afterLoop_yields])
  with keeps [OF same] show "yields (\<lambda>(res, c'). keepsPolicy c c') (if err \<noteq> None then gret ((emptyResult, err), c1)
      else gbind (reconcileLoop X req inst (Ready, []) c1) (\<lambda>(res, ctrl). afterLoop X req res ctrl))"
    by (auto intro: yields_gret)
qed

lemma Reconcile_yields:
  assumes "ctl_wf c"
  shows "yields (\<lambda>(res, c'). keepsPolicy c c') (Reconcile X req c)"
proof -
  have self: "keepsPolicy c c" using assms by (simp add: keepsPolicy_def)
  show ?thesis
    unfolding Reconcile_def Let_def
    by (intro yields_gbind yields_case_sum yields_if yields_gret reconcilePolicy_yields assms)
      (auto simp: self singletonIs_def split: option.splits)
qed

lemma emits_reconcilePolicy:
  assumes "ctl_wf c" and "P EvListNodes" and "P EvDiscovery"
    and up: "\<And>st c'. st \<in> {Ready, NotReady} \<Longrightarrow> emits P (updateCRState X req st c')"
    and steps: "\<And>c1 i. ctlSingleton c1 = Some inst \<Longrightarrow> ctl_wf c1 \<Longrightarrow> ctlStateNames c1 = stateDirs \<Longrightarrow>
      emits P (step X (c1\<lparr>ctlIdx := i\<rparr>))"
  shows "emits P (reconcilePolicy X req inst c)"
  unfolding reconcilePolicy_def
proof (rule emits_gbind_yields [OF _ init_yields [OF assms(1), of inst X]], rule emits_mono [OF emits_init])
  show "ev = EvListNodes \<or> ev = EvDiscovery \<Longrightarrow> P ev" for ev using assms(2,3) by blast
next
  have after: "emits P (afterLoop X req lr c')" for lr c'
    unfolding afterLoop_def by (cases lr) (auto intro!: emits_intros up)
  fix a :: "goerr option \<times> ClusterPolicyController"
  obtain err c1 where a: "a = (err, c1)" by fastforce
  assume "case a of (err, c') \<Rightarrow> ctl_wf c' \<and> ctlSingleton c' = Some inst \<and> ctlIdx c' = 0 \<and>
    (err = None \<longrightarrow> ctlStateNames c' = stateDirs)"
  with a have c1: "ctl_wf c1" "ctlSingleton c1 = Some inst" "ctlIdx c1 = 0" "err = None \<longrightarrow> ctlStateNames c1 = stateDirs"
    by simp_all
  then have same: "sameStates c1 c1" by (intro sameStates_self) simp
  show "emits P (case a of (err, ctrl) \<Rightarrow> if err \<noteq> None then gret ((emptyResult, err), ctrl)
      else gbind (reconcileLoop X req inst (Ready, []) ctrl) (\<lambda>(res, ctrl). afterLoop X req res ctrl))"
    unfolding a using c1
    by (auto intro!: emits_intros after emits_reconcileLoop [OF same] steps up)
qed

lemma emits_Reconcile:
  assumes "\<And>r. P (EvGetClusterPolicy req r)"
    and "yields (\<lambda>r. case r of Inl e \<Rightarrow> True | Inr inst \<Rightarrow> Q inst) (getClusterPolicy X req)"
    and "\<And>inst. Q inst \<Longrightarrow> emits P (reconcilePolicy X req inst c)"
  shows "emits P (Reconcile X req c)"
  unfolding Reconcile_def Let_def
proof (rule emits_gbind_yields [OF _ assms(2)])
  show "emits P (getClusterPolicy X req)"
    unfolding api_defs by (intro emits_intros assms(1))
qed (auto intro!: emits_intros assms(3) split: sum.splits)

end
