(* ===== verification/OperatorSpec.thy ===== *)
theory OperatorSpec
  imports ReconcilerSpec
begin

section \<open>The operator over time\<close>

text \<open>
  The requests a reconciliation does not serve, the calls it can make, and the operator as a
  transition system: reconciliations one at a time, crashes and restarts, and a cluster that
  changes by itself in between. The invariants of its reachable states are proved with one locale.
\<close>

subsection \<open>Requests that are not served\<close>

lemma getClusterPolicy_calls:
  "getClusterPolicy X req w = (Ret r, w0) \<Longrightarrow> wCalls w0 = wCalls w @ [EvGetClusterPolicy req r]"
  by (auto simp: api_defs apiCall_run)

lemma Reconcile_other:
  assumes "getClusterPolicy X req w = (Ret (Inr inst), w0)" and "\<not> singletonIs c (cpName inst)"
  shows "Reconcile X req c w = (Ret ((emptyResult, None), c), w0)"
  using assms by (auto simp: Reconcile_def gbind_run singletonIs_def)

text \<open>
  C30: A request for a second policy is answered with one read: nothing is written, neither to
  the cluster nor to the status of that policy, the controller is unchanged, and the request is
  not retried.
\<close>

theorem Reconcile_ignores_others:
  assumes "ctlSingleton c = Some p" and "fst (xGetClusterPolicy X req (wEnv w)) = Inr inst"
    and "cpName p \<noteq> cpName inst"
  shows "\<exists>w'. Reconcile X req c w = (Ret ((emptyResult, None), c), w') \<and>
    wCalls w' = wCalls w @ [EvGetClusterPolicy req (Inr inst)]"
proof -
  from assms(2) obtain w0 where g: "getClusterPolicy X req w = (Ret (Inr inst), w0)"
    by (simp add: api_defs apiCall_run)
  have "\<not> singletonIs c (cpName inst)"
    using assms(1,3) by (simp add: singletonIs_def)
  from Reconcile_other [OF g this] getClusterPolicy_calls [OF g] show ?thesis by blast
qed

definition secondPolicy :: ClusterPolicy where
  "secondPolicy = samplePolicy\<lparr>cpMeta := zeroMeta\<lparr>metaName := ''second''\<rparr>\<rparr>"

theorem Reconcile_ignores_others_witness:
  "\<exists>w'. Reconcile simX \<lparr>nnNamespace = [], nnName = ''second''\<rparr> (zeroController\<lparr>ctlSingleton := Some samplePolicy\<rparr>)
      (simWorld (emptySim\<lparr>simPolicies := [(''second'', secondPolicy)]\<rparr>)) =
    (Ret ((emptyResult, None), zeroController\<lparr>ctlSingleton := Some samplePolicy\<rparr>), w') \<and> length (wCalls w') = 1"
proof -
  let ?c = "zeroController\<lparr>ctlSingleton := Some samplePolicy\<rparr>" and ?req = "\<lparr>nnNamespace = [], nnName = ''second''\<rparr>"
    and ?w = "simWorld (emptySim\<lparr>simPolicies := [(''second'', secondPolicy)]\<rparr>)"
  have 1: "ctlSingleton ?c = Some samplePolicy" by simp
  have 2: "fst (xGetClusterPolicy simX ?req (wEnv ?w)) = Inr secondPolicy"
    by (simp add: simX_def simLookup_def simWorld_def)
  have 3: "cpName samplePolicy \<noteq> cpName secondPolicy"
    by (simp add: secondPolicy_def samplePolicy_def zeroMeta_def)
  from Reconcile_ignores_others [OF 1 2 3] show ?thesis by (auto simp: simWorld_def)
qed

text \<open>
  When the policy cannot be read, the reconciliation makes no other call and changes
  nothing; the error is returned for a retry, except that a policy that is gone is dropped
  without one.
\<close>

theorem Reconcile_unread:
  assumes "fst (xGetClusterPolicy X req (wEnv w)) = Inl err"
  shows "\<exists>w'. Reconcile X req c w = (Ret ((emptyResult, if isNotFound err then None else Some err), c), w') \<and>
    wCalls w' = wCalls w @ [EvGetClusterPolicy req (Inl err)]"
  using assms by (simp add: Reconcile_def gbind_run api_defs apiCall_run)

theorem Reconcile_unread_witness:
  "\<exists>w'. Reconcile simX sampleReq zeroController (simWorld emptySim) = (Ret ((emptyResult, None), zeroController), w') \<and>
     wCalls w' = [EvGetClusterPolicy sampleReq (Inl (ApiNotFound ''not found''))]"
proof -
  have "fst (xGetClusterPolicy simX sampleReq (wEnv (simWorld emptySim))) = Inl (ApiNotFound ''not found'')"
    by (simp add: simX_def simLookup_def simWorld_def emptySim_def)
  from Reconcile_unread [OF this] show ?thesis by (simp add: simWorld_def)
qed

subsection \<open>Which calls are made\<close>

text \<open>The status of a policy is only ever written as \<open>Ready\<close> or \<open>NotReady\<close>.\<close>

definition statusOk :: "event \<Rightarrow> bool" where
  "statusOk ev \<longleftrightarrow> (\<forall>q e. ev = EvStatusUpdate q e \<longrightarrow> statusState (cpStatus q) \<in> {Ready, NotReady})"

lemma statusOk_simps [simp]:
  "statusOk (EvStatusUpdate q e) \<longleftrightarrow> statusState (cpStatus q) \<in> {Ready, NotReady}"
  "statusOk (EvGetClusterPolicy req r)" "statusOk EvListNodes" "statusOk EvDiscovery"
  "isDaemonSetEvent ev \<Longrightarrow> statusOk ev" "isRuntimeClassEvent ev \<Longrightarrow> statusOk ev"
  by (auto simp: statusOk_def)

text \<open>A reconciliation never sets up or starts a manager.\<close>

definition reconcileEvent :: "event \<Rightarrow> bool" where
  "reconcileEvent ev \<longleftrightarrow> isDaemonSetEvent ev \<or> isRuntimeClassEvent ev \<or> ev = EvListNodes \<or> ev = EvDiscovery \<or>
     (\<exists>req r. ev = EvGetClusterPolicy req r) \<or>
     (\<exists>q e. ev = EvStatusUpdate q e \<and> statusState (cpStatus q) \<in> {Ready, NotReady})"

lemma Reconcile_events:
  assumes "ctl_wf c"
  shows "emits reconcileEvent (Reconcile X req c)"
proof -
  have up: "emits reconcileEvent (updateCRState X req st c')" if "st \<in> {Ready, NotReady}" for st c'
    using that by (intro emits_updateCRState) (auto simp: reconcileEvent_def)
  have steps: "emits reconcileEvent (step X c')" for c'
    by (intro emits_step emits_mono [OF run_control.own_events]) (auto simp: reconcileEvent_def)
  have pol: "emits reconcileEvent (reconcilePolicy X req inst c)" for inst
    using up steps by (intro emits_reconcilePolicy assms) (auto simp: reconcileEvent_def)
  show ?thesis
    by (rule emits_Reconcile [where Q = "\<lambda>_. True"])
      (auto simp: reconcileEvent_def yields_def pol split: sum.split)
qed

text \<open>A policy that disables every component.\<close>

definition allOff :: "ClusterPolicy \<Rightarrow> bool" where
  "allOff p \<longleftrightarrow> crEnabled (specContainerRuntime (cpSpec p)) = Some False \<and>
     dpEnabled (specDevicePlugin (cpSpec p)) = Some False \<and> hsEnabled (specHostSetup (cpSpec p)) = Some False"

lemma allOff_disabled:
  assumes "ctlSingleton c = Some p" and "allOff p" and "ctlStateNames c = stateDirs" and "ctlIdx c < 3"
  shows "currentEnabled c = Ret False"
proof -
  from assms(4) have "ctlStateNames c ! ctlIdx c \<in> {''state-container-runtime'', ''state-device-plugin'', ''state-host-setup''}"
    by (auto simp: assms(3) stateDirs_def nth_Cons split: nat.split)
  with isStateEnabled_off_iff [OF assms(1)] assms(2) have "isStateEnabled c (ctlStateNames c ! ctlIdx c) = Ret False"
    by (auto simp: allOff_def)
  moreover have "ctlIdx c < length (ctlStateNames c)"
    using assms(3,4) by (simp add: stateDirs_def)
  ultimately show ?thesis by (simp add: currentEnabled_def nthP_in_range)
qed

lemma step_out_of_range: "length (ctlControlFuncs c) \<le> ctlIdx c \<Longrightarrow> step X c = gpanic index_panic"
  by (simp add: step_def nthP_def)

text \<open>
  C12: While the policy disables the container runtime, the device plugin and the host setup, a
  reconciliation creates and updates no DaemonSet and no RuntimeClass, whatever the server
  answers and even if the process panics on the way.
\<close>

theorem Reconcile_all_off:
  assumes "ctl_wf c" and "fst (xGetClusterPolicy X req (wEnv w)) = Inr inst" and "allOff inst"
  shows "\<exists>evs. wCalls (snd (Reconcile X req c w)) = wCalls w @ evs \<and> list_all (\<lambda>ev. \<not> isDeploy ev) evs"
proof -
  let ?P = "\<lambda>ev. \<not> isDeploy ev"
  from assms(2) obtain w0 where g: "getClusterPolicy X req w = (Ret (Inr inst), w0)"
    by (simp add: api_defs apiCall_run)
  have steps: "emits ?P (step X (c1\<lparr>ctlIdx := i\<rparr>))"
    if "ctlSingleton c1 = Some inst" "ctl_wf c1" "ctlStateNames c1 = stateDirs" for c1 i
  proof (cases "i < 3")
    case True
    with that assms(3) have "currentEnabled (c1\<lparr>ctlIdx := i\<rparr>) = Ret False"
      by (intro allOff_disabled) auto
    then show ?thesis by (intro emits_step run_control.off_no_deploy)
  next
    case False
    with that have "length (ctlControlFuncs c1) \<le> i"
      by (simp add: ctl_wf_def stateDirs_def)
    then show ?thesis by (simp add: step_out_of_range emits_gpanic)
  qed
  have pol: "emits ?P (reconcilePolicy X req inst c)"
    by (rule emits_reconcilePolicy [OF assms(1)]) (auto intro: emits_updateCRState steps)
  show ?thesis
  proof (cases "singletonIs c (cpName inst)")
    case True
    obtain r w' where run: "reconcilePolicy X req inst c w0 = (r, w')" by fastforce
    with pol obtain evs where "wCalls w' = wCalls w0 @ evs" "list_all ?P evs" by (rule emitsD)
    then show ?thesis
      unfolding Reconcile_main [OF g True] run
      by (simp add: getClusterPolicy_calls [OF g])
  next
    case False
    then show ?thesis
      unfolding Reconcile_other [OF g False] by (simp add: getClusterPolicy_calls [OF g])
  qed
qed

definition offSpec :: ClusterPolicySpec where
  "offSpec = samplePolicySpec\<lparr>
     specContainerRuntime := (specContainerRuntime samplePolicySpec)\<lparr>crEnabled := Some False\<rparr>,
     specDevicePlugin := (specDevicePlugin samplePolicySpec)\<lparr>dpEnabled := Some False\<rparr>,
     specHostSetup := (specHostSetup samplePolicySpec)\<lparr>hsEnabled := Some False\<rparr>\<rparr>"

definition offCluster :: sim where
  "offCluster = sampleCluster\<lparr>simPolicies := [(''fpga-clusterpolicy'', samplePolicy\<lparr>cpSpec := offSpec\<rparr>)]\<rparr>"

theorem Reconcile_all_off_witness:
  "list_all (\<lambda>ev. \<not> isDeploy ev) (wCalls (snd (Reconcile simX sampleReq zeroController (simWorld offCluster)))) \<and>
   length (filter isWrite (wCalls (snd (Reconcile simX sampleReq zeroController (simWorld offCluster))))) = 5"
proof
  have "fst (xGetClusterPolicy simX sampleReq (wEnv (simWorld offCluster))) = Inr (samplePolicy\<lparr>cpSpec := offSpec\<rparr>)"
    by (simp add: simX_def simLookup_def simWorld_def offCluster_def sampleReq_def)
  moreover have "allOff (samplePolicy\<lparr>cpSpec := offSpec\<rparr>)"
    by (simp add: allOff_def offSpec_def)
  ultimately show "list_all (\<lambda>ev. \<not> isDeploy ev)
      (wCalls (snd (Reconcile simX sampleReq zeroController (simWorld offCluster))))"
    using Reconcile_all_off [OF ctl_wf_zero] by (fastforce simp: simWorld_def)
  show "length (filter isWrite (wCalls (snd (Reconcile simX sampleReq zeroController (simWorld offCluster))))) = 5"
    by code_simp
qed

subsection \<open>The operator as a transition system\<close>

text \<open>An invariant: it holds at the start and every step keeps it, so it holds in every reachable state.\<close>

locale transition_invariant =
  fixes start :: "'s \<Rightarrow> bool" and trans :: "'s \<Rightarrow> 's \<Rightarrow> bool" and inv :: "'s \<Rightarrow> bool"
  assumes inv_start: "start s \<Longrightarrow> inv s"
    and inv_trans: "trans s s' \<Longrightarrow> inv s \<Longrightarrow> inv s'"
begin

lemma inv_run: "trans\<^sup>*\<^sup>* s s' \<Longrightarrow> inv s \<Longrightarrow> inv s'"
  by (induction rule: rtranclp_induct) (auto intro: inv_trans)

lemma inv_reachable: "start s \<Longrightarrow> trans\<^sup>*\<^sup>* s s' \<Longrightarrow> inv s'"
  using inv_run inv_start by blast

end

text \<open>
  A state of the process: the global controller and the world. A reconciliation that returns hands
  the controller on; one that panics ends the process, and the next one starts with the zero
  controller in the world the panic left. Between reconciliations the cluster may change in any way.
\<close>

type_synonym 'e opState = "ClusterPolicyController \<times> 'e world"

inductive serves :: "'e externals \<Rightarrow> 'e opState \<Rightarrow> 'e opState \<Rightarrow> bool" for X where
  reconciled: "Reconcile X req c w = (Ret (res, c'), w') \<Longrightarrow> serves X (c, w) (c', w')"
| outside: "serves X (c, w) (c, w\<lparr>wEnv := e\<rparr>)"

inductive_cases servesE: "serves X (c, w) s'"

inductive operates :: "'e externals \<Rightarrow> 'e opState \<Rightarrow> 'e opState \<Rightarrow> bool" for X where
  served: "serves X s s' \<Longrightarrow> operates X s s'"
| crashed: "Reconcile X req c w = (Panic p, w') \<Longrightarrow> operates X (c, w) (zeroController, w')"
| restarted: "operates X (c, w) (zeroController, w)"

inductive_cases operatesE: "operates X (c, w) s'"

definition opStart :: "'e opState \<Rightarrow> bool" where
  "opStart s \<longleftrightarrow> fst s = zeroController \<and> wCalls (snd s) = []"

lemma serves_keepsPolicy: "serves X (c, w) (c', w') \<Longrightarrow> ctl_wf c \<Longrightarrow> keepsPolicy c c'"
  by (erule servesE) (auto dest: yieldsD [OF Reconcile_yields] simp: keepsPolicy_def)

text \<open>The invariant: a well-formed controller, and a history of the operator's own kinds of calls.\<close>

definition opInv :: "'e opState \<Rightarrow> bool" where
  "opInv s \<longleftrightarrow> ctl_wf (fst s) \<and> list_all reconcileEvent (wCalls (snd s))"

lemma Reconcile_history:
  assumes "ctl_wf c" and "Reconcile X req c w = (r, w')" and "list_all reconcileEvent (wCalls w)"
  shows "list_all reconcileEvent (wCalls w')"
proof -
  from emitsD [OF Reconcile_events [OF assms(1)] assms(2)] obtain evs
    where "wCalls w' = wCalls w @ evs" "list_all reconcileEvent evs" by blast
  with assms(3) show ?thesis by simp
qed

lemma serves_opInv: "serves X s s' \<Longrightarrow> opInv s \<Longrightarrow> opInv s'"
proof (induction rule: serves.induct)
  case (reconciled req c w res c' w')
  with serves_keepsPolicy [OF serves.reconciled [OF reconciled(1)]] show ?case
    by (auto simp: opInv_def keepsPolicy_def intro: Reconcile_history)
qed (simp add: opInv_def)

interpretation operator: transition_invariant opStart "operates X" opInv for X
proof
  fix s s' :: "'a opState"
  show "opStart s \<Longrightarrow> opInv s"
    by (simp add: opStart_def opInv_def ctl_wf_zero)
  show "operates X s s' \<Longrightarrow> opInv s \<Longrightarrow> opInv s'"
    by (induction rule: operates.induct)
      (auto simp: opInv_def ctl_wf_zero intro: Reconcile_history dest: serves_opInv)
qed

text \<open>
  C4: In every state the operator can reach, through reconciliations, crashes, restarts and
  arbitrary changes of the cluster, the controller holds either no state or its three states in
  lists of equal length, and every status the operator ever wrote is Ready or NotReady: Ignored
  and Disabled never reach the API server.
\<close>

theorem operator_invariant:
  assumes "(operates X)\<^sup>*\<^sup>* (zeroController, w0) (c, w)" and "wCalls w0 = []"
  shows "(ctlControlFuncs c = [] \<or> ctlStateNames c = [''state-container-runtime'', ''state-device-plugin'', ''state-host-setup'']) \<and>
    length (ctlResources c) = length (ctlControlFuncs c) \<and> length (ctlStateNames c) = length (ctlControlFuncs c) \<and>
    (\<forall>q e. EvStatusUpdate q e \<in> set (wCalls w) \<longrightarrow> statusState (cpStatus q) \<in> {Ready, NotReady})"
proof -
  have "opStart (zeroController, w0)" using assms(2) by (simp add: opStart_def)
  from operator.inv_reachable [OF this assms(1)] show ?thesis
    by (auto simp: opInv_def ctl_wf_def stateDirs_def list_all_iff reconcileEvent_def)
qed

lemma serve_step: "Reconcile X req c w = (r, w') \<Longrightarrow> returns r \<Longrightarrow>
    operates X (c, w) ((case r of Ret (_, c') \<Rightarrow> c' | Panic _ \<Rightarrow> zeroController), w')"
  by (cases r) (auto intro: operates.served serves.reconciled)

theorem operator_invariant_witness:
  "\<exists>c w. (operates simX)\<^sup>*\<^sup>* (zeroController, simWorld sampleCluster) (c, w) \<and>
     wCalls w \<noteq> [] \<and> ctlStateNames c = [''state-container-runtime'', ''state-device-plugin'', ''state-host-setup'']"
proof -
  let ?run = "Reconcile simX sampleReq zeroController (simWorld sampleCluster)"
  let ?c = "case fst ?run of Ret (_, c') \<Rightarrow> c' | Panic _ \<Rightarrow> zeroController" and ?w = "snd ?run"
  have "returns (fst ?run)" using sampleRun_done by (cases "fst ?run") auto
  from serve_step [of simX sampleReq zeroController "simWorld sampleCluster" "fst ?run" ?w] this
  have r: "(operates simX)\<^sup>*\<^sup>* (zeroController, simWorld sampleCluster) (?c, ?w)"
    by (intro r_into_rtranclp) simp
  have "wCalls ?w \<noteq> [] \<and> length (ctlStateNames ?c) = 3" by code_simp
  moreover have "wCalls (simWorld sampleCluster) = []" by (simp add: simWorld_def)
  ultimately have "wCalls ?w \<noteq> [] \<and>
      ctlStateNames ?c = [''state-container-runtime'', ''state-device-plugin'', ''state-host-setup'']"
    using operator_invariant [OF r] by force
  with r show ?thesis by blast
qed

interpretation same_policy: transition_invariant
    "\<lambda>(c, w). ctl_wf c \<and> (\<exists>p. ctlSingleton c = Some p \<and> cpName p = n)" "serves X"
    "\<lambda>(c, w). ctl_wf c \<and> (\<exists>p. ctlSingleton c = Some p \<and> cpName p = n)" for X n
  by unfold_locales (auto dest!: serves_keepsPolicy simp: keepsPolicy_def)

text \<open>
  C9: As long as the process lives, the operator works for the policy it met first: through any
  sequence of reconciliations and changes of the cluster the name of the singleton stays the
  same, even after that policy was deleted.
\<close>

theorem operator_single_policy:
  assumes "(serves X)\<^sup>*\<^sup>* (c, w) (c', w')" and "ctl_wf c" and "ctlSingleton c = Some p"
  shows "\<exists>p'. ctlSingleton c' = Some p' \<and> cpName p' = cpName p"
  using same_policy.inv_run [OF assms(1), of "cpName p"] assms(2,3) by auto

theorem operator_single_policy_witness:
  "\<exists>c w p. (serves simX)\<^sup>*\<^sup>* (zeroController\<lparr>ctlSingleton := Some samplePolicy\<rparr>, simWorld sampleCluster) (c, w) \<and>
     wCalls w \<noteq> [] \<and> ctlSingleton c = Some p \<and> cpName p = cpName samplePolicy"
proof -
  let ?c0 = "zeroController\<lparr>ctlSingleton := Some samplePolicy\<rparr>"
  let ?run = "Reconcile simX sampleReq ?c0 (simWorld sampleCluster)"
  have "returns (fst ?run) \<and> wCalls (snd ?run) \<noteq> []" by code_simp
  then obtain res c w where run: "?run = (Ret (res, c), w)" and h: "wCalls w \<noteq> []"
    by (cases ?run) (auto simp: returns_iff)
  from serves.reconciled [OF run] have r: "(serves simX)\<^sup>*\<^sup>* (?c0, simWorld sampleCluster) (c, w)" by blast
  have "ctl_wf ?c0" by (simp add: ctl_wf_def zeroController_def)
  with operator_single_policy [OF r] h r show ?thesis by auto
qed

subsection \<open>Termination of the loop\<close>

lemma stepLoop_returns:
  assumes "\<And>f w. f \<in> set fs \<Longrightarrow> returns (fst (runControl X f c w))"
  shows "returns (fst (stepLoop X c r fs w))"
  using assms
proof (induction fs arbitrary: r w)
  case (Cons f fs)
  from Cons.prems [of f w] obtain s e w1 where "runControl X f c w = (Ret (s, e), w1)"
    by (cases "runControl X f c w") (auto simp: returns_iff)
  with Cons show ?case by (simp add: gbind_run)
qed simp

lemma step_returns:
  assumes "ctlIdx c < length (ctlControlFuncs c)"
    and "\<And>f w. f \<in> set (ctlControlFuncs c ! ctlIdx c) \<Longrightarrow> returns (fst (runControl X f c w))"
  shows "returns (fst (step X c w))"
proof -
  have "returns (fst (stepLoop X c Ready (ctlControlFuncs c ! ctlIdx c) w))"
    by (rule stepLoop_returns) (rule assms(2))
  then obtain a w1 where "stepLoop X c Ready (ctlControlFuncs c ! ctlIdx c) w = (Ret a, w1)"
    by (metis prod.collapse returns_iff)
  with assms(1) show ?thesis
    by (simp add: step_def nthP_in_range gbind_run split: prod.split)
qed

text \<open>
  C10: The loop over the states ends, and no index of it is out of range: from a controller
  whose lists agree it returns a result whenever the control functions of its states return.
\<close>

theorem reconcileLoop_returns:
  assumes "ctlIdx c < length (ctlControlFuncs c)" and "length (ctlStateNames c) = length (ctlControlFuncs c)"
    and "\<And>i f w. i < length (ctlControlFuncs c) \<Longrightarrow> f \<in> set (ctlControlFuncs c ! i) \<Longrightarrow>
      returns (fst (runControl X f (c\<lparr>ctlIdx := i\<rparr>) w))"
  shows "returns (fst (reconcileLoop X req inst acc c w))"
  using assms
proof (induction "length (ctlControlFuncs c) - ctlIdx c" arbitrary: c acc w rule: less_induct)
  case less
  have "returns (fst (step X c w))"
    using less.prems(1) less.prems(3) [of "ctlIdx c"] by (intro step_returns) simp_all
  then obtain s err c1 w1 where st: "step X c w = (Ret ((s, err), c1), w1)"
    by (cases "step X c w") (auto simp: returns_iff)
  show ?case
  proof (cases err)
    case (Some e)
    obtain u w2 where "updateCRState X req NotReady c1 w1 = (Ret u, w2)"
      using updateCRState_returns by blast
    with st Some show ?thesis by (simp add: reconcileLoop_gbind gbind_run)
  next
    case None
    note st = st [unfolded None]
    from step_None [OF st] have c1: "c1 = c\<lparr>ctlIdx := ctlIdx c + 1\<rparr>" by simp
    obtain e w2 where r: "reportStep X req inst s c1 w1 = (Ret e, w2)"
      using reportStep_returns by blast
    show ?thesis
    proof (cases "lastState c1")
      case True
      then show ?thesis unfolding reconcileLoop_step [OF st r less.prems(2)] by (simp add: Let_def)
    next
      case False
      with less.prems(1) c1 have i: "ctlIdx c1 < length (ctlControlFuncs c1)" by (simp add: lastState_def)
      have "returns (fst (reconcileLoop X req inst acc1 c1 w2))" for acc1
        by (rule less.hyps) (use i less.prems c1 in auto)
      with False show ?thesis unfolding reconcileLoop_step [OF st r less.prems(2)] by (simp add: Let_def)
    qed
  qed
qed

text \<open>In the witness every state is disabled: both control functions then return in any world.\<close>

lemma runControl_off_returns:
  assumes "currentEnabled c = Ret False" and "ctlIdx c < length (ctlResources c)" and "ctlSingleton c = Some p"
  shows "returns (fst (runControl X f c w))"
proof (cases f)
  case CtlDaemonSet
  have i: "ctlIdx c < length (ctlStateNames c)"
    using assms(1) by (auto simp: currentEnabled_def)
  have "returns (fst (daemonSetLoop X c r ds w))" for r ds
    by (induction ds arbitrary: r w)
      (auto simp: gbind_run daemonSetBody_disabled [OF assms(1)] api_defs apiCall_run Let_def)
  then obtain s w1 where
    "daemonSetLoop X c Ready (sliceOf (resDaemonsets (ctlResources c ! ctlIdx c))) w = (Ret s, w1)"
    by (metis prod.collapse returns_iff)
  with i assms(2) show ?thesis
    by (simp add: CtlDaemonSet runControl_def DaemonSetFn_def nthP_in_range gbind_run)
next
  case CtlRuntimeClass
  then show ?thesis
    by (simp add: runControl_def RuntimeClassFn_disabled [OF assms] Let_def gbind_run api_defs apiCall_run)
qed

theorem reconcileLoop_returns_witness:
  "returns (fst (reconcileLoop simX sampleReq offPolicy (Ready, []) offController brokenWorld)) \<and>
   fst (reconcileLoop simX sampleReq offPolicy (Ready, []) offController brokenWorld) \<noteq> Panic index_panic"
proof -
  have len: "ctlIdx offController < length (ctlControlFuncs offController)"
    "length (ctlStateNames offController) = length (ctlControlFuncs offController)"
    by (simp_all add: offController_def)
  have same: "i < length (ctlControlFuncs offController) \<Longrightarrow> offController\<lparr>ctlIdx := i\<rparr> = offController" for i
    by (simp add: offController_def simController_def zeroController_def)
  have p: "ctlSingleton offController = Some offPolicy" by (simp add: offController_def)
  have "returns (fst (reconcileLoop simX sampleReq offPolicy (Ready, []) offController brokenWorld))"
    by (rule reconcileLoop_returns [OF len])
      (simp add: same runControl_off_returns [OF offController_facts(1,2) p])
  then show ?thesis by auto
qed

end
