(* ===== verification/ConvergenceSpec.thy ===== *)
theory ConvergenceSpec
  imports ReadinessSpec
begin

section \<open>Convergence: one reconciliation deploys everything\<close>

text \<open>
  A server that accepts every write: the operator gets from any cluster to the steady state of
  theory \<open>ReadinessSpec\<close> in one run of the control function, and reports Ready in the first run
  after the pods have become available.
\<close>

subsection \<open>A server that stores what it is sent\<close>

text \<open>
  \<open>store e (ns, n)\<close> is the DaemonSet the server has under that name. A created or updated object is
  stored with the name, namespace and annotations it was sent with; the server may change the rest
  of it.
\<close>

definition keyOf :: "DaemonSet \<Rightarrow> string \<times> string" where
  "keyOf d = (dsNamespace d, dsName d)"

definition asSent :: "DaemonSet \<Rightarrow> DaemonSet \<Rightarrow> bool" where
  "asSent d d' \<longleftrightarrow> keyOf d' = keyOf d \<and> dsAnnotations d' = dsAnnotations d"

definition storesWrites ::
    "'e externals \<Rightarrow> ('e \<Rightarrow> string \<times> string \<Rightarrow> DaemonSet option) \<Rightarrow> bool" where
  "storesWrites X store \<longleftrightarrow>
    (\<forall>ns n e. case store e (ns, n) of
       Some d \<Rightarrow> xGetDaemonSet X ns n e = (Inr d, e)
     | None \<Rightarrow> \<exists>err. isNotFound err \<and> xGetDaemonSet X ns n e = (Inl err, e)) \<and>
    (\<forall>d e. store e (keyOf d) = None \<longrightarrow>
       (\<exists>d' e'. xCreateDaemonSet X d e = ((None, d'), e') \<and> asSent d d' \<and>
          store e' = (store e)(keyOf d \<mapsto> d'))) \<and>
    (\<forall>d e. store e (keyOf d) \<noteq> None \<longrightarrow>
       (\<exists>d' e'. xUpdateDaemonSet X d e = ((None, d'), e') \<and> asSent d d' \<and>
          store e' = (store e)(keyOf d \<mapsto> d')))"

lemma storesWritesD:
  assumes "storesWrites X store"
  shows stored_get: "store e (ns, n) = Some d \<Longrightarrow> xGetDaemonSet X ns n e = (Inr d, e)"
    and missing_get: "store e (ns, n) = None \<Longrightarrow>
      \<exists>err. isNotFound err \<and> xGetDaemonSet X ns n e = (Inl err, e)"
    and store_create: "store e (keyOf d) = None \<Longrightarrow>
      \<exists>d' e'. xCreateDaemonSet X d e = ((None, d'), e') \<and> asSent d d' \<and> store e' = (store e)(keyOf d \<mapsto> d')"
    and store_update: "store e (keyOf d) \<noteq> None \<Longrightarrow>
      \<exists>d' e'. xUpdateDaemonSet X d e = ((None, d'), e') \<and> asSent d d' \<and> store e' = (store e)(keyOf d \<mapsto> d')"
  using assms by (auto simp: storesWrites_def split: option.splits) (metis option.simps(4,5))+

lemma storesWrites_readsOnly: "storesWrites X store \<Longrightarrow> readsOnly X"
  unfolding readsOnly_def by (metis stored_get missing_get not_None_eq snd_conv)

subsection \<open>One template\<close>

text \<open>What the operator wants for a template, as an object and as its hash.\<close>

definition wants ::
    "'e externals \<Rightarrow> ClusterPolicyController \<Rightarrow> ClusterPolicy \<Rightarrow> DaemonSet \<Rightarrow> ObjectMeta \<Rightarrow> DaemonSet \<Rightarrow> 64 word \<Rightarrow> bool"
where
  "wants X c p d m obj h \<longleftrightarrow>
    preProcessDaemonSet (placed c d) c = Ret (None, obj) \<and>
    xSetControllerReference X p (dsMeta obj) = Inr m \<and> xHash X (wanted m obj) = Inr h"

definition hashOf :: "DaemonSet \<Rightarrow> string option" where
  "hashOf d = Option.bind (dsAnnotations d) (\<lambda>a. map_of a XilinxAnnotationHashKey)"

abbreviation slot :: "ClusterPolicyController \<Rightarrow> DaemonSet \<Rightarrow> string \<times> string" where
  "slot c d \<equiv> (ctlOperatorNamespace c, dsName d)"

lemma wants_key:
  assumes "wants X c p d m obj h" and "keepsIdentity X"
  shows "metaName m = dsName d" and "metaNamespace m = ctlOperatorNamespace c"
    and "keyOf (wanted m obj) = slot c d"
proof -
  have "preProcessDaemonSet (placed c d) c = Ret (None, obj)"
    and m: "xSetControllerReference X p (dsMeta obj) = Inr m"
    using assms(1) by (simp_all add: wants_def)
  from pp_transform.keeps_meta [OF this(1)] have "dsName obj = dsName d"
      "dsNamespace obj = ctlOperatorNamespace c"
    by simp_all
  with keepsIdentityD(1,2) [OF assms(2) m]
  show "metaName m = dsName d" and "metaNamespace m = ctlOperatorNamespace c"
    and "keyOf (wanted m obj) = slot c d"
    by (simp_all add: keyOf_def)
qed

lemma keyOf_setAnnotation [simp]: "keyOf (setAnnotation k v d) = keyOf d"
  by (simp add: keyOf_def)

lemma hashOf_annotated:
  "dsAnnotations d \<noteq> None \<Longrightarrow> asSent (setAnnotation XilinxAnnotationHashKey h d) d' \<Longrightarrow> hashOf d' = Some h"
  by (auto simp: asSent_def hashOf_def setAnnotation_def)

lemma ready_check:
  assumes "storesWrites X store"
  shows "\<exists>s ev. isDaemonSetReady X ns n w = (Ret s, w\<lparr>wCalls := wCalls w @ [ev]\<rparr>)"
proof -
  have "snd (xGetDaemonSet X ns n (wEnv w)) = wEnv w"
    using storesWrites_readsOnly [OF assms] by (simp add: readsOnly_def)
  then show ?thesis
    by (cases "xGetDaemonSet X ns n (wEnv w)") (auto simp: isDaemonSetReady_run)
qed

lemma createAndCheck_stores:
  assumes X: "storesWrites X store" and h: "xHash X obj = Inr h"
    and k: "store (wEnv w) (keyOf obj) = None" and a: "dsAnnotations obj \<noteq> None"
  shows "\<exists>s w' f. createAndCheck X r obj w = (Ret s, w') \<and>
    store (wEnv w') = (store (wEnv w))(keyOf obj \<mapsto> f) \<and> hashOf f = Some (formatUint16 h)"
proof -
  let ?obj = "setAnnotation XilinxAnnotationHashKey (formatUint16 h) obj"
  from store_create [OF X, of "wEnv w" ?obj] k obtain d' e' where
    c: "xCreateDaemonSet X ?obj (wEnv w) = ((None, d'), e')" and s: "asSent ?obj d'"
    and e': "store e' = (store (wEnv w))(keyOf obj \<mapsto> d')" by auto
  let ?w1 = "w\<lparr>wEnv := e', wCalls := wCalls w @ [EvCreateDaemonSet ?obj None]\<rparr>"
  from ready_check [OF X, of "dsNamespace d'" "dsName d'" ?w1] obtain st ev where
    rc: "isDaemonSetReady X (dsNamespace d') (dsName d') ?w1 = (Ret st, ?w1\<lparr>wCalls := wCalls ?w1 @ [ev]\<rparr>)"
    by blast
  have "createAndCheck X r obj w =
      (Ret (if st = NotReady then NotReady else r), ?w1\<lparr>wCalls := wCalls ?w1 @ [ev]\<rparr>)"
    using c rc by (simp add: createAndCheck_def getDaemonsetHash_def h gbind_run api_defs apiCall_run)
  then show ?thesis using e' hashOf_annotated [OF a s] by auto
qed

lemma updateAndCheck_stores:
  assumes X: "storesWrites X store" and h: "xHash X obj = Inr h"
    and k: "store (wEnv w) (keyOf obj) = Some found"
    and a: "dsAnnotations obj = Some ao" and f: "dsAnnotations found = Some af"
  shows "\<exists>s w' f. updateAndCheck X r found obj w = (Ret s, w') \<and>
    store (wEnv w') = (store (wEnv w))(keyOf obj \<mapsto> f) \<and> hashOf f = Some (formatUint16 h)"
proof (cases "map_of af XilinxAnnotationHashKey = Some (formatUint16 h)")
  case True
  from ready_check [OF X, of "dsNamespace obj" "dsName obj" w] obtain st ev where
    rc: "isDaemonSetReady X (dsNamespace obj) (dsName obj) w = (Ret st, w\<lparr>wCalls := wCalls w @ [ev]\<rparr>)"
    by blast
  have "updateAndCheck X r found obj w =
      (Ret (if st = NotReady then NotReady else r), w\<lparr>wCalls := wCalls w @ [ev]\<rparr>)"
    using rc True by (simp add: updateAndCheck_def isDaemonsetSpecChanged_eq [OF f a h] gbind_run)
  moreover have "store (wEnv w) = (store (wEnv w))(keyOf obj \<mapsto> found)"
    using k by (simp add: fun_upd_idem)
  moreover have "hashOf found = Some (formatUint16 h)" using True f by (simp add: hashOf_def)
  ultimately show ?thesis by fastforce
next
  case False
  let ?obj = "setAnnotation XilinxAnnotationHashKey (formatUint16 h) obj"
  from store_update [OF X, of "wEnv w" ?obj] k obtain d' e' where
    c: "xUpdateDaemonSet X ?obj (wEnv w) = ((None, d'), e')" and s: "asSent ?obj d'"
    and e': "store e' = (store (wEnv w))(keyOf obj \<mapsto> d')" by auto
  let ?w1 = "w\<lparr>wEnv := e', wCalls := wCalls w @ [EvUpdateDaemonSet ?obj None]\<rparr>"
  from ready_check [OF X, of "dsNamespace d'" "dsName d'" ?w1] obtain st ev where
    rc: "isDaemonSetReady X (dsNamespace d') (dsName d') ?w1 = (Ret st, ?w1\<lparr>wCalls := wCalls ?w1 @ [ev]\<rparr>)"
    by blast
  have "updateAndCheck X r found obj w =
      (Ret (if st = NotReady then NotReady else r), ?w1\<lparr>wCalls := wCalls ?w1 @ [ev]\<rparr>)"
    using c rc False
    by (simp add: updateAndCheck_def isDaemonsetSpecChanged_eq [OF f a h] gbind_run api_defs apiCall_run)
  then show ?thesis using e' hashOf_annotated [OF _ s] a by auto
qed

lemma daemonSetBody_stores:
  assumes X: "storesWrites X store" "keepsIdentity X"
    and c: "currentEnabled c = Ret True" "ctlSingleton c = Some p"
    and d: "wants X c p d m obj h"
    and a: "\<And>f. store (wEnv w) (slot c d) = Some f \<Longrightarrow> dsAnnotations f \<noteq> None"
  shows "\<exists>s w' f. daemonSetBody X c r d w = (Ret s, w') \<and>
    store (wEnv w') = (store (wEnv w))(slot c d \<mapsto> f) \<and> hashOf f = Some (formatUint16 h)"
proof -
  let ?o = "wanted m obj"
  note key = wants_key [OF d X(2)]
  have pp: "preProcessDaemonSet (placed c d) c = Ret (None, obj)"
    and m: "xSetControllerReference X p (dsMeta obj) = Inr m" and h: "xHash X ?o = Inr h"
    using d by (simp_all add: wants_def)
  have body: "daemonSetBody X c r d w = deployDaemonSet X p r obj w"
    using c pp by (simp add: daemonSetBody_def Let_def placed_def gbind_run)
  show ?thesis
  proof (cases "store (wEnv w) (slot c d)")
    case None
    with missing_get [OF X(1)] obtain err where
      g: "isNotFound err" "xGetDaemonSet X (metaNamespace m) (metaName m) (wEnv w) = (Inl err, wEnv w)"
      using key by metis
    let ?w1 = "w\<lparr>wCalls := wCalls w @ [EvGetDaemonSet (metaNamespace m) (metaName m) (Inl err)]\<rparr>"
    have "daemonSetBody X c r d w = createAndCheck X r ?o ?w1"
      using g by (simp add: body deployDaemonSet_wanted [OF m] gbind_run api_defs apiCall_run)
    with createAndCheck_stores [OF X(1) h, of ?w1 r] None key(3) show ?thesis by auto
  next
    case (Some found)
    with a obtain af where af: "dsAnnotations found = Some af" by auto
    from stored_get [OF X(1) Some] have
      g: "xGetDaemonSet X (metaNamespace m) (metaName m) (wEnv w) = (Inr found, wEnv w)"
      using key by simp
    let ?w1 = "w\<lparr>wCalls := wCalls w @ [EvGetDaemonSet (metaNamespace m) (metaName m) (Inr found)]\<rparr>"
    have "daemonSetBody X c r d w = updateAndCheck X r found ?o ?w1"
      using g by (simp add: body deployDaemonSet_wanted [OF m] gbind_run api_defs apiCall_run)
    with updateAndCheck_stores [OF X(1) h _ wanted_meta(3) af, of ?w1 r] Some key(3) show ?thesis
      by auto
  qed
qed

subsection \<open>All templates of a state\<close>

definition deployable ::
    "'e externals \<Rightarrow> ClusterPolicyController \<Rightarrow> ClusterPolicy \<Rightarrow> DaemonSet \<Rightarrow> bool" where
  "deployable X c p d \<longleftrightarrow> (\<exists>m obj h. wants X c p d m obj h)"

text \<open>The server has the object of a template, with the hash of what is wanted.\<close>

definition deployed ::
    "'e externals \<Rightarrow> ClusterPolicyController \<Rightarrow> ClusterPolicy \<Rightarrow> DaemonSet \<Rightarrow> DaemonSet option \<Rightarrow> bool" where
  "deployed X c p d r \<longleftrightarrow>
    (\<exists>m obj h f. wants X c p d m obj h \<and> r = Some f \<and> hashOf f = Some (formatUint16 h))"

lemma deployedI: "wants X c p d m obj h \<Longrightarrow> hashOf f = Some (formatUint16 h) \<Longrightarrow> deployed X c p d (Some f)"
  by (auto simp: deployed_def)

text \<open>
  The loop over templates with different names, given what its body does: the slot of each template
  reaches its goal, and no other slot changes.
\<close>

lemma daemonSetLoop_goals:
  assumes body: "\<And>d r w. d \<in> A \<Longrightarrow> ok (store (wEnv w) (slot c d)) \<Longrightarrow>
    \<exists>s w' v. daemonSetBody X c r d w = (Ret s, w') \<and>
      store (wEnv w') = (store (wEnv w))(slot c d := v) \<and> goal d v"
  shows "set ds \<subseteq> A \<Longrightarrow> distinct (map dsName ds) \<Longrightarrow>
    \<forall>d\<in>set ds. ok (store (wEnv w) (slot c d)) \<Longrightarrow>
    \<exists>s w'. daemonSetLoop X c r ds w = (Ret s, w') \<and>
      (\<forall>d\<in>set ds. goal d (store (wEnv w') (slot c d))) \<and>
      (\<forall>k. k \<notin> slot c ` set ds \<longrightarrow> store (wEnv w') k = store (wEnv w) k)"
proof (induction ds arbitrary: r w)
  case (Cons d ds)
  from body [of d w r] Cons.prems obtain s1 w1 v where
    1: "daemonSetBody X c r d w = (Ret s1, w1)"
    and st: "store (wEnv w1) = (store (wEnv w))(slot c d := v)" and v: "goal d v"
    by auto
  have other: "slot c d' \<noteq> slot c d" if "d' \<in> set ds" for d'
    using Cons.prems(2) that by (auto simp: image_iff)
  have st': "store (wEnv w1) k = store (wEnv w) k" if "k \<noteq> slot c d" for k
    unfolding st using that by (rule fun_upd_other)
  have a1: "\<forall>d'\<in>set ds. ok (store (wEnv w1) (slot c d'))"
  proof
    fix d'
    assume d': "d' \<in> set ds"
    with Cons.prems(3) show "ok (store (wEnv w1) (slot c d'))"
      unfolding st' [OF other [OF d']] by simp
  qed
  have "set ds \<subseteq> A" and "distinct (map dsName ds)" using Cons.prems by simp_all
  from Cons.IH [OF this a1] obtain s w' where 2: "daemonSetLoop X c s1 ds w1 = (Ret s, w')"
    and rest: "\<forall>d'\<in>set ds. goal d' (store (wEnv w') (slot c d'))"
    and frame: "\<forall>k. k \<notin> slot c ` set ds \<longrightarrow> store (wEnv w') k = store (wEnv w1) k" by blast
  have "slot c d \<notin> slot c ` set ds"
  proof
    assume "slot c d \<in> slot c ` set ds"
    then obtain d' where "slot c d = slot c d'" and "d' \<in> set ds" by (rule imageE)
    with other [of d'] show False by simp
  qed
  with frame have "store (wEnv w') (slot c d) = store (wEnv w1) (slot c d)" by blast
  then have "store (wEnv w') (slot c d) = v" by (simp only: st fun_upd_same)
  with rest v have all: "\<forall>d'\<in>set (d # ds). goal d' (store (wEnv w') (slot c d'))" by simp
  have keep: "\<forall>k. k \<notin> slot c ` set (d # ds) \<longrightarrow> store (wEnv w') k = store (wEnv w) k"
  proof (intro allI impI)
    fix k
    assume "k \<notin> slot c ` set (d # ds)"
    then have "k \<notin> slot c ` set ds" "k \<noteq> slot c d" by simp_all
    with frame st' show "store (wEnv w') k = store (wEnv w) k" by metis
  qed
  have "daemonSetLoop X c r (d # ds) w = (Ret s, w')" using 1 2 by (simp add: gbind_run)
  with all keep show ?case by (intro exI conjI)
qed simp

text \<open>An object without annotations would make the operator panic.\<close>

definition annotated :: "DaemonSet option \<Rightarrow> bool" where
  "annotated v \<longleftrightarrow> (case v of None \<Rightarrow> True | Some f \<Rightarrow> dsAnnotations f \<noteq> None)"

lemma daemonSetLoop_stores:
  assumes X: "storesWrites X store" "keepsIdentity X"
    and c: "currentEnabled c = Ret True" "ctlSingleton c = Some p"
    and ds: "distinct (map dsName ds)" "list_all (deployable X c p) ds"
      "list_all (\<lambda>d. annotated (store (wEnv w) (slot c d))) ds"
  shows "\<exists>s w'. daemonSetLoop X c r ds w = (Ret s, w') \<and>
    (\<forall>d\<in>set ds. deployed X c p d (store (wEnv w') (slot c d)))"
proof -
  have body: "\<exists>s w' v. daemonSetBody X c r d w = (Ret s, w') \<and>
      store (wEnv w') = (store (wEnv w))(slot c d := v) \<and> deployed X c p d v"
    if "d \<in> set ds" and a: "annotated (store (wEnv w) (slot c d))" for d r w
  proof -
    from ds(2) that(1) obtain m obj h where wt: "wants X c p d m obj h"
      by (auto simp: deployable_def list_all_iff)
    have "dsAnnotations f \<noteq> None" if "store (wEnv w) (slot c d) = Some f" for f
      using a that by (simp add: annotated_def)
    from daemonSetBody_stores [OF X c wt this, where r = r] obtain s w' f where
      "daemonSetBody X c r d w = (Ret s, w')" "store (wEnv w') = (store (wEnv w))(slot c d \<mapsto> f)"
      "hashOf f = Some (formatUint16 h)" by blast
    with deployedI [OF wt] show ?thesis by (intro exI conjI)
  qed
  have "\<exists>s w'. daemonSetLoop X c r ds w = (Ret s, w') \<and>
      (\<forall>d\<in>set ds. deployed X c p d (store (wEnv w') (slot c d))) \<and>
      (\<forall>k. k \<notin> slot c ` set ds \<longrightarrow> store (wEnv w') k = store (wEnv w) k)"
    by (rule daemonSetLoop_goals [where ok = annotated and A = "set ds"])
      (use body ds(1,3) in \<open>simp_all add: list_all_iff\<close>)
  then show ?thesis by (elim exE conjE) (intro exI conjI)
qed

text \<open>
  What the cluster does on its own between two reconciliations: from \<open>e1\<close> to \<open>e2\<close> the objects of
  the templates keep their annotations, and all their pods become available.
\<close>

definition rolledOut ::
    "('e \<Rightarrow> string \<times> string \<Rightarrow> DaemonSet option) \<Rightarrow> ClusterPolicyController \<Rightarrow> DaemonSet list \<Rightarrow> 'e \<Rightarrow> 'e \<Rightarrow> bool"
where
  "rolledOut store c ds e1 e2 \<longleftrightarrow>
    (\<forall>d\<in>set ds. case store e1 (slot c d) of
       None \<Rightarrow> True
     | Some f \<Rightarrow> (case store e2 (slot c d) of
         None \<Rightarrow> False
       | Some g \<Rightarrow> dsAnnotations g = dsAnnotations f \<and> dsNumberUnavailable g = 0))"

lemma rolledOut_upToDate:
  assumes X: "storesWrites X store" "keepsIdentity X"
    and d: "deployed X c p d (store e1 (slot c d))" and r: "rolledOut store c ds e1 e2" "d \<in> set ds"
  shows "\<exists>g. upToDate X c p e2 d g \<and> dsNumberUnavailable g = 0"
proof -
  from d obtain m obj h f where wt: "wants X c p d m obj h" and f: "store e1 (slot c d) = Some f"
    and hf: "hashOf f = Some (formatUint16 h)"
    by (auto simp: deployed_def)
  from r(1) [unfolded rolledOut_def, THEN bspec, OF r(2)] f
  obtain g where g: "store e2 (slot c d) = Some g" "dsAnnotations g = dsAnnotations f"
    "dsNumberUnavailable g = 0"
    by (cases "store e2 (slot c d)") simp_all
  have "fst (xGetDaemonSet X (metaNamespace m) (metaName m) e2) = Inr g"
    using stored_get [OF X(1) g(1)] wants_key [OF wt X(2)] by simp
  moreover have "Option.bind (dsAnnotations g) (\<lambda>a. map_of a XilinxAnnotationHashKey) = Some (formatUint16 h)"
    using hf g(2) by (simp add: hashOf_def)
  ultimately have "upToDate X c p e2 d g"
    using wt unfolding upToDate_def wants_def by blast
  with g(3) show ?thesis by blast
qed

text \<open>
  On a server that accepts and stores every write, one run of the control function of an
  enabled state brings the object of every template up to date, from any cluster in which no
  object of those names lacks annotations; once the pods are available, and for as long as the
  annotations stay, every further run writes nothing and reports Ready.
\<close>

theorem DaemonSetFn_converges:
  assumes X: "storesWrites X store" "keepsIdentity X"
    and c: "currentEnabled c = Ret True" "ctlSingleton c = Some p" "ctlIdx c < length (ctlResources c)"
    and ds: "ds = sliceOf (resDaemonsets (ctlResources c ! ctlIdx c))" "distinct (map dsName ds)"
      "list_all (deployable X c p) ds"
    and a: "list_all (\<lambda>d. annotated (store (wEnv w) (slot c d))) ds"
  shows "\<exists>s w1. DaemonSetFn X c w = (Ret (s, None), w1) \<and>
    (\<forall>w2. rolledOut store c ds (wEnv w1) (wEnv w2) \<longrightarrow>
      (\<exists>w3 evs. DaemonSetFn X c w2 = (Ret (Ready, None), w3) \<and> wEnv w3 = wEnv w2 \<and>
         wCalls w3 = wCalls w2 @ evs \<and> list_all (\<lambda>ev. \<not> isWrite ev) evs))"
proof -
  have fn: "DaemonSetFn X c v = gbind (daemonSetLoop X c Ready ds) (\<lambda>s. gret (s, None)) v" for v
    using c(1,3) by (auto simp: DaemonSetFn_def currentEnabled_def ds(1) nthP_in_range gbind_run)
  from daemonSetLoop_stores [OF X c(1,2) ds(2,3) a, of Ready] obtain s w1 where
    1: "daemonSetLoop X c Ready ds w = (Ret s, w1)"
    and dep: "\<And>d. d \<in> set ds \<Longrightarrow> deployed X c p d (store (wEnv w1) (slot c d))"
    by blast
  have "\<exists>w3 evs. DaemonSetFn X c w2 = (Ret (Ready, None), w3) \<and> wEnv w3 = wEnv w2 \<and>
      wCalls w3 = wCalls w2 @ evs \<and> list_all (\<lambda>ev. \<not> isWrite ev) evs"
    if r: "rolledOut store c ds (wEnv w1) (wEnv w2)" for w2
  proof -
    from rolledOut_upToDate [OF X dep r] have
      "\<exists>g. upToDate X c p (wEnv w2) d g \<and> dsNumberUnavailable g = 0" if "d \<in> set ds" for d
      using that by blast
    then obtain g where g: "\<And>d. d \<in> set ds \<Longrightarrow> upToDate X c p (wEnv w2) d (g d) \<and> dsNumberUnavailable (g d) = 0"
      by metis
    then have "list_all2 (upToDate X c p (wEnv w2)) ds (map g ds)"
      by (simp add: list_all2_conv_all_nth)
    from daemonSetLoop_steady [OF c(1,2) storesWrites_readsOnly [OF X(1)] this, of Ready] g
    show ?thesis by (auto simp: fn gbind_run)
  qed
  with 1 show ?thesis by (auto simp: fn gbind_run)
qed

text \<open>
  The witness: a state with two templates, on a cluster that has an outdated object of the first and
  none of the second. The server is the in-memory cluster without its broken names.
\<close>

definition storingX :: "sim externals" where
  "storingX = simX\<lparr>
     xCreateDaemonSet := (\<lambda>d e. simPutDaemonSet True d (e\<lparr>simBroken := []\<rparr>)),
     xUpdateDaemonSet := (\<lambda>d e. simPutDaemonSet False d (e\<lparr>simBroken := []\<rparr>))\<rparr>"

abbreviation simStore :: "sim \<Rightarrow> string \<times> string \<Rightarrow> DaemonSet option" where
  "simStore e \<equiv> map_of (simDaemonSets e)"

lemma storingX_stores: "storesWrites storingX simStore"
  by (auto simp: storesWrites_def storingX_def simX_def simLookup_def simPutDaemonSet_def keyOf_def
      asSent_def update_conv' Let_def split: option.split)

lemma storingX_keepsIdentity: "keepsIdentity storingX"
  by (auto simp: keepsIdentity_def storingX_def simX_def simSetOwner_def simPutDaemonSet_def Let_def)

definition secondDS :: DaemonSet where
  "secondDS = samplePluginDS\<lparr>dsMeta := (dsMeta samplePluginDS)\<lparr>metaName := ''second''\<rparr>\<rparr>"

definition outdatedDS :: DaemonSet where
  "outdatedDS = placed onController (samplePluginDS\<lparr>dsMeta := (dsMeta samplePluginDS)\<lparr>
     metaAnnotations := Some [(XilinxAnnotationHashKey, ''0'')]\<rparr>, dsNumberUnavailable := 3\<rparr>)"

definition twoController :: ClusterPolicyController where
  "twoController = simController ''state-device-plugin''
     (emptyResources\<lparr>resDaemonsets := Some [samplePluginDS, secondDS]\<rparr>) [CtlDaemonSet] samplePolicy"

definition outdatedWorld :: "sim world" where
  "outdatedWorld = simWorld (emptySim\<lparr>simDaemonSets := [(keyOf outdatedDS, outdatedDS)]\<rparr>)"

lemma storingX_deployable:
  "preProcessDaemonSet (placed c d) c = Ret (None, obj) \<Longrightarrow> deployable storingX c p d"
  by (simp add: deployable_def wants_def storingX_def simX_def simSetOwner_def simHash_def)

theorem DaemonSetFn_converges_witness:
  "\<exists>s w1 w3. DaemonSetFn storingX twoController outdatedWorld = (Ret (s, None), w1) \<and>
     DaemonSetFn storingX twoController w1 = (Ret (Ready, None), w3) \<and>
     wEnv w3 = wEnv w1 \<and> map fst (simDaemonSets (wEnv w3)) =
       [(''xilinx-system'', dsName samplePluginDS), (''xilinx-system'', ''second'')]"
proof -
  let ?c = twoController and ?ds = "[samplePluginDS, secondDS]"
  have on: "currentEnabled ?c = Ret True"
    by (simp add: twoController_def currentEnabled_def isStateEnabled_def nthP_def samplePolicy_def
        samplePolicySpec_def DevicePluginSpec_IsEnabled_def)
  have p: "ctlSingleton ?c = Some samplePolicy" and i: "ctlIdx ?c < length (ctlResources ?c)"
    and ds: "?ds = sliceOf (resDaemonsets (ctlResources ?c ! ctlIdx ?c))"
    by (simp_all add: twoController_def)
  have dist: "distinct (map dsName ?ds)" by code_simp
  let ?obj = "\<lambda>d. case preProcessDaemonSet (placed ?c d) ?c of Ret (_, obj) \<Rightarrow> obj | Panic _ \<Rightarrow> d"
  have "preProcessDaemonSet (placed ?c samplePluginDS) ?c = Ret (None, ?obj samplePluginDS)"
    and "preProcessDaemonSet (placed ?c secondDS) ?c = Ret (None, ?obj secondDS)"
    by code_simp+
  then have dep: "list_all (deployable storingX ?c samplePolicy) ?ds"
    by (simp add: storingX_deployable)
  have ann: "list_all (\<lambda>d. annotated (simStore (wEnv outdatedWorld) (slot ?c d))) ?ds"
    by (simp add: outdatedWorld_def simWorld_def outdatedDS_def placed_def annotated_def)
  from DaemonSetFn_converges [OF storingX_stores storingX_keepsIdentity on p i ds dist dep ann]
  obtain s w1 where 1: "DaemonSetFn storingX ?c outdatedWorld = (Ret (s, None), w1)"
    and steady: "\<And>w2. rolledOut simStore ?c ?ds (wEnv w1) (wEnv w2) \<Longrightarrow>
      \<exists>w3 evs. DaemonSetFn storingX ?c w2 = (Ret (Ready, None), w3) \<and> wEnv w3 = wEnv w2 \<and>
         wCalls w3 = wCalls w2 @ evs \<and> list_all (\<lambda>ev. \<not> isWrite ev) evs" by blast
  have w1: "w1 = snd (DaemonSetFn storingX ?c outdatedWorld)" using 1 by simp
  have "rolledOut simStore ?c ?ds (wEnv w1) (wEnv w1)" unfolding w1 by code_simp
  from steady [OF this] obtain w3 where "DaemonSetFn storingX ?c w1 = (Ret (Ready, None), w3)"
    and e: "wEnv w3 = wEnv w1" by blast
  moreover have "map fst (simDaemonSets (wEnv w1)) =
      [(''xilinx-system'', dsName samplePluginDS), (''xilinx-system'', ''second'')]"
    unfolding w1 by code_simp
  ultimately show ?thesis using 1 by auto
qed

end
