(* ===== verification/StartupSpec.thy ===== *)
theory StartupSpec
  imports ReconcilerSpec ResourceSpec
begin

section \<open>The first initialisation of a process\<close>

text \<open>
  What \<open>init\<close> makes of a controller that has no states yet: the controller is written out, field by
  field, from what the cluster, the environment and the asset directories hold.
\<close>

text \<open>The cluster and the discovery client answer, without changing anything.\<close>

definition answering :: "'e externals \<Rightarrow> 'e \<Rightarrow> string \<Rightarrow> Node list \<Rightarrow> bool" where
  "answering X e v nodes \<longleftrightarrow> xHaveConfig X e \<and> xNewDiscoveryClient X e = (None, e) \<and>
     xServerVersion X e = (Inr v, e) \<and> xSemverIsValid X v \<and> xListNodes X e = (Inr nodes, e)"

text \<open>What the directory of a state holds.\<close>

definition assetsAt :: "'e externals \<Rightarrow> 'e \<Rightarrow> string \<Rightarrow> (Resources \<times> controlFunc list) outcome" where
  "assetsAt X e dir =
     obind (getAssetsFrom dir (xFileTree X dir e)) (\<lambda>ms. addManifests X ms (emptyResources, []))"

definition readable :: "'e externals \<Rightarrow> 'e \<Rightarrow> (Resources \<times> controlFunc list) list \<Rightarrow> bool" where
  "readable X e loaded \<longleftrightarrow>
     map (assetsAt X e) [''/opt/fpga-operator/state-container-runtime'', ''/opt/fpga-operator/state-device-plugin'',
       ''/opt/fpga-operator/state-host-setup''] = map Ret loaded"

definition startedController ::
    "'e externals \<Rightarrow> ClusterPolicy \<Rightarrow> 'e \<Rightarrow> string \<Rightarrow> Node list \<Rightarrow> (Resources \<times> controlFunc list) list \<Rightarrow>
     ClusterPolicyController"
  where
  "startedController X p e v nodes loaded =
    \<lparr>ctlSingleton = Some p,
     ctlOperatorNamespace =
       (let ns = xGetenv X ''OPERATOR_NAMESPACE'' e in if ns = [] then ''default'' else ns),
     ctlResources = map fst loaded,
     ctlControlFuncs = map snd loaded,
     ctlStateNames = [''state-container-runtime'', ''state-device-plugin'', ''state-host-setup''],
     ctlIdx = 0,
     ctlK8sVersion = v,
     ctlRuntime =
       (if \<exists>nd\<in>set nodes. hasPrefix (nodeContainerRuntimeVersion nd) ''containerd'' then Containerd
        else if \<exists>nd\<in>set nodes. hasPrefix (nodeContainerRuntimeVersion nd) ''docker'' then Docker
        else opDefaultRuntime (specOperator (cpSpec p))),
     ctlOsDists = collectDists nodes [],
     ctlHasFPGANodes = (\<exists>nd\<in>set nodes.
       (''feature.node.kubernetes.io/pci-1200_10ee.present'', ''true'') \<in> set (nodeLabels nd)),
     ctlHasNFDLabels = (\<exists>nd\<in>set nodes. \<exists>(k, v)\<in>set (nodeLabels nd). hasPrefix k ''feature.node.kubernetes.io/'')\<rparr>"

lemma kubernetesVersion_run:
  "answering X (wEnv w) v nodes \<Longrightarrow>
   kubernetesVersion X w = (Ret (Inr v), w\<lparr>wCalls := wCalls w @ [EvDiscovery, EvDiscovery]\<rparr>)"
  by (simp add: answering_def kubernetesVersion_def gbind_run api_defs apiCall_run)

lemma getRuntime_run:
  assumes "answering X (wEnv w) v nodes" and "ctlSingleton c = Some p"
  shows "getRuntime X c w = (Ret (None, c\<lparr>ctlRuntime :=
    (if \<exists>nd\<in>set nodes. hasPrefix (nodeContainerRuntimeVersion nd) ''containerd'' then Containerd
     else if \<exists>nd\<in>set nodes. hasPrefix (nodeContainerRuntimeVersion nd) ''docker'' then Docker
     else opDefaultRuntime (specOperator (cpSpec p)))\<rparr>), w\<lparr>wCalls := wCalls w @ [EvListNodes]\<rparr>)"
  using assms
  by (auto simp: answering_def getRuntime_def gbind_run api_defs apiCall_run detectRuntime_eq RuntimeString_def Let_def
      runsDocker_def runsContainerd_def)

lemma addState_run:
  assumes "assetsAt X (wEnv w) dir = Ret (res, fs)"
  shows "addState X c dir w =
    (Ret (c\<lparr>ctlResources := ctlResources c @ [res], ctlControlFuncs := ctlControlFuncs c @ [fs],
        ctlStateNames := ctlStateNames c @ [base dir]\<rparr>), w)"
  using assms unfolding assetsAt_def
  by (simp add: addState_def addResourceControls_def gbind_run del: obind_Ret_iff)

lemma initNodes_run:
  assumes "answering X (wEnv w) v nodes"
  shows "initNodes X c w = (Ret (None, c\<lparr>ctlOsDists := collectDists nodes [],
     ctlHasFPGANodes := (\<exists>nd\<in>set nodes.
       (''feature.node.kubernetes.io/pci-1200_10ee.present'', ''true'') \<in> set (nodeLabels nd)),
     ctlHasNFDLabels := (\<exists>nd\<in>set nodes. \<exists>(k, v)\<in>set (nodeLabels nd). hasPrefix k ''feature.node.kubernetes.io/'')\<rparr>),
     w\<lparr>wCalls := wCalls w @ [EvListNodes, EvListNodes]\<rparr>)"
  using assms
  by (simp add: answering_def initNodes_def getFPGANodeCount_def getOsDistributions_def gbind_run api_defs apiCall_run
      countFPGANodes_acc hasNFDLabels_iff hasFPGALables_iff nfdLabelPrefix_def Let_def filter_empty_conv)

lemma initStates_run:
  assumes a: "answering X (wEnv w) v nodes" and r: "readable X (wEnv w) loaded" and p: "ctlSingleton c = Some p"
    and c: "ctlResources c = []" "ctlControlFuncs c = []" "ctlStateNames c = []"
  shows "initStates X c w = (Ret (None, c\<lparr>
     ctlOperatorNamespace := (let ns = xGetenv X ''OPERATOR_NAMESPACE'' (wEnv w) in if ns = [] then ''default'' else ns),
     ctlK8sVersion := v,
     ctlRuntime :=
       (if \<exists>nd\<in>set nodes. hasPrefix (nodeContainerRuntimeVersion nd) ''containerd'' then Containerd
        else if \<exists>nd\<in>set nodes. hasPrefix (nodeContainerRuntimeVersion nd) ''docker'' then Docker
        else opDefaultRuntime (specOperator (cpSpec p))),
     ctlResources := map fst loaded, ctlControlFuncs := map snd loaded, ctlStateNames := stateDirs\<rparr>),
    w\<lparr>wCalls := wCalls w @ [EvDiscovery, EvDiscovery, EvListNodes]\<rparr>)"
proof -
  from r obtain r1 f1 r2 f2 r3 f3 where l: "loaded = [(r1, f1), (r2, f2), (r3, f3)]"
    and 1: "assetsAt X (wEnv w) ''/opt/fpga-operator/state-container-runtime'' = Ret (r1, f1)"
    and 2: "assetsAt X (wEnv w) ''/opt/fpga-operator/state-device-plugin'' = Ret (r2, f2)"
    and 3: "assetsAt X (wEnv w) ''/opt/fpga-operator/state-host-setup'' = Ret (r3, f3)"
    by (auto simp: readable_def Cons_eq_map_conv)
  have v: "xSemverIsValid X v" using a by (simp add: answering_def)
  let ?w = "w\<lparr>wCalls := wCalls w @ [EvDiscovery, EvDiscovery, EvListNodes]\<rparr>"
  have e: "wEnv ?w = wEnv w" by simp
  have add: "addState X d ''/opt/fpga-operator/state-container-runtime'' ?w = (Ret (d\<lparr>ctlResources := ctlResources d @ [r1],
      ctlControlFuncs := ctlControlFuncs d @ [f1], ctlStateNames := ctlStateNames d @ [''state-container-runtime'']\<rparr>), ?w)"
    "addState X d ''/opt/fpga-operator/state-device-plugin'' ?w = (Ret (d\<lparr>ctlResources := ctlResources d @ [r2],
      ctlControlFuncs := ctlControlFuncs d @ [f2], ctlStateNames := ctlStateNames d @ [''state-device-plugin'']\<rparr>), ?w)"
    "addState X d ''/opt/fpga-operator/state-host-setup'' ?w = (Ret (d\<lparr>ctlResources := ctlResources d @ [r3],
      ctlControlFuncs := ctlControlFuncs d @ [f3], ctlStateNames := ctlStateNames d @ [''state-host-setup'']\<rparr>), ?w)" for d
    using addState_run [of X ?w, OF 1 [folded e]] addState_run [of X ?w, OF 2 [folded e]] addState_run [of X ?w, OF 3 [folded e]]
    by (simp_all add: base_states)
  let ?w1 = "w\<lparr>wCalls := wCalls w @ [EvDiscovery, EvDiscovery]\<rparr>"
  have "answering X (wEnv ?w1) v nodes" using a by simp
  note rt = getRuntime_run [OF this]
  show ?thesis
    by (simp add: initStates_def gbind_run kubernetesVersion_run [OF a] v rt p add c l stateDirs_def Let_def)
qed

lemma init_run:
  assumes "ctl_wf c" and "ctlControlFuncs c = []" and "answering X (wEnv w) v nodes" and "readable X (wEnv w) loaded"
  shows "init X p c w = (Ret (None, startedController X p (wEnv w) v nodes loaded),
    w\<lparr>wCalls := wCalls w @ [EvDiscovery, EvDiscovery, EvListNodes, EvListNodes, EvListNodes]\<rparr>)"
proof -
  have c: "ctlResources c = []" "ctlStateNames c = []" using assms(1,2) by (simp_all add: ctl_wf_def)
  let ?c = "c\<lparr>ctlSingleton := Some p, ctlIdx := 0\<rparr>"
  let ?w = "w\<lparr>wCalls := wCalls w @ [EvDiscovery, EvDiscovery, EvListNodes]\<rparr>"
  have "answering X (wEnv ?w) v nodes" using assms(3) by simp
  note n = initNodes_run [OF this]
  show ?thesis
    using assms(2) c initStates_run [OF assms(3,4), of ?c p]
    by (simp add: init_def Let_def gbind_run n startedController_def stateDirs_def)
qed

text \<open>
  C16: From a controller without states, initialisation on a cluster that answers and with
  manifests that can be read makes exactly the controller that is written out here: namespace of
  the environment or default, the resources and control functions of the three directories in
  order, the runtime (containerd if any node runs it, else docker, else the default of the
  policy), whether a node has an FPGA and any node an NFD label; it makes five read-only calls
  and changes nothing.
\<close>

theorem init_fresh:
  assumes "ctl_wf c" and "ctlControlFuncs c = []" and "answering X (wEnv w) v nodes" and "readable X (wEnv w) loaded"
  shows "init X p c w = (Ret (None, startedController X p (wEnv w) v nodes loaded),
    w\<lparr>wCalls := wCalls w @ [EvDiscovery, EvDiscovery, EvListNodes, EvListNodes, EvListNodes]\<rparr>)"
  by (rule init_run [OF assms])

lemma sampleCluster_readable: "readable simX sampleCluster
  [(emptyResources\<lparr>resDaemonsets := Some [sampleRuntimeDS],
      resRuntimeClass := zeroRuntimeClass\<lparr>rcHandler := ''filled_by_operator''\<rparr>\<rparr>, [CtlRuntimeClass, CtlDaemonSet]),
   (emptyResources\<lparr>resDaemonsets := Some [samplePluginDS]\<rparr>, [CtlDaemonSet]),
   (emptyResources\<lparr>resDaemonsets := Some [sampleHostSetupDS]\<rparr>, [CtlDaemonSet])]"
  by code_simp

theorem init_fresh_witness:
  "\<exists>c' w'. init simX samplePolicy zeroController (simWorld sampleCluster) = (Ret (None, c'), w') \<and>
     ctlControlFuncs c' = [[CtlRuntimeClass, CtlDaemonSet], [CtlDaemonSet], [CtlDaemonSet]] \<and>
     ctlRuntime c' = Containerd \<and> ctlK8sVersion c' = ''v1.25.0'' \<and> ctlOperatorNamespace c' = ''xilinx-system''"
proof -
  have a: "answering simX (wEnv (simWorld sampleCluster)) ''v1.25.0'' sampleNodes"
    by (simp add: answering_def simX_def simWorld_def sampleCluster_def)
  have z: "ctlControlFuncs zeroController = []" by (simp add: zeroController_def)
  have r: "readable simX (wEnv (simWorld sampleCluster))
    [(emptyResources\<lparr>resDaemonsets := Some [sampleRuntimeDS],
      resRuntimeClass := zeroRuntimeClass\<lparr>rcHandler := ''filled_by_operator''\<rparr>\<rparr>, [CtlRuntimeClass, CtlDaemonSet]),
     (emptyResources\<lparr>resDaemonsets := Some [samplePluginDS]\<rparr>, [CtlDaemonSet]),
     (emptyResources\<lparr>resDaemonsets := Some [sampleHostSetupDS]\<rparr>, [CtlDaemonSet])]"
    using sampleCluster_readable by (simp add: simWorld_def)
  have "\<exists>nd\<in>set sampleNodes. hasPrefix (nodeContainerRuntimeVersion nd) ''containerd''" by code_simp
  with init_fresh [OF ctl_wf_zero z a r] show ?thesis
    by (simp add: startedController_def simX_def)
qed

end
