(* ===== verification/LivenessSpec.thy ===== *)
theory LivenessSpec
  imports ConvergenceSpec OperatorSpec StartupSpec
begin

section \<open>Liveness: the policy becomes Ready\<close>

text \<open>
  The operator as a whole on a server that does what it is asked: one reconciliation brings every
  DaemonSet of every state where the policy wants it, and the first one after the pods have become
  available sets the status of the policy to Ready and is not retried.
\<close>

subsection \<open>What a computation leaves alone\<close>

text \<open>\<open>keeps f m\<close>: whatever \<open>m\<close> does to the environment, \<open>f\<close> of it stays the same.\<close>

definition keeps :: "('e \<Rightarrow> 'v) \<Rightarrow> ('e world, 'a) go \<Rightarrow> bool" where
  "keeps f m \<longleftrightarrow> (\<forall>w. f (wEnv (snd (m w))) = f (wEnv w))"

named_theorems keeps_intros \<open>rules for \<open>keeps\<close>, one per construct of the code\<close>

lemma keepsD: "keeps f m \<Longrightarrow> m w = (r, w') \<Longrightarrow> f (wEnv w') = f (wEnv w)"
  unfolding keeps_def by (metis snd_conv)

lemma keeps_pure [keeps_intros]:
  "keeps f (gret a)" "keeps f (gpanic p)" "keeps f (glift r)" "keeps f (gask q)"
  by (simp_all add: keeps_def)

lemma keeps_apiCall [keeps_intros]: "(\<And>e. f (snd (op e)) = f e) \<Longrightarrow> keeps f (apiCall op ev)"
  by (simp add: keeps_def apiCall_run)

lemma keeps_gbind [keeps_intros]:
  assumes "keeps f m" and "\<And>a. keeps f (k a)"
  shows "keeps f (gbind m k)"
  unfolding keeps_def
proof
  fix w
  obtain r w1 where m: "m w = (r, w1)" by fastforce
  then have "f (wEnv w1) = f (wEnv w)" using assms(1) by (rule keepsD [rotated])
  then show "f (wEnv (snd (gbind m k w))) = f (wEnv w)"
    using assms(2) m by (cases r) (simp_all add: gbind_run keeps_def)
qed

lemma keeps_if [keeps_intros]: "(b \<Longrightarrow> keeps f m) \<Longrightarrow> (\<not> b \<Longrightarrow> keeps f n) \<Longrightarrow> keeps f (if b then m else n)"
  by simp

lemma keeps_case_sum [keeps_intros]:
  "(\<And>e. s = Inl e \<Longrightarrow> keeps f (m e)) \<Longrightarrow> (\<And>x. s = Inr x \<Longrightarrow> keeps f (n x)) \<Longrightarrow>
   keeps f (case s of Inl e \<Rightarrow> m e | Inr x \<Rightarrow> n x)"
  by (cases s) simp_all

lemma keeps_case_option [keeps_intros]:
  "(s = None \<Longrightarrow> keeps f m) \<Longrightarrow> (\<And>x. s = Some x \<Longrightarrow> keeps f (n x)) \<Longrightarrow>
   keeps f (case s of None \<Rightarrow> m | Some x \<Rightarrow> n x)"
  by (cases s) simp_all

lemma keeps_case_prod [keeps_intros]:
  "(\<And>a b. s = (a, b) \<Longrightarrow> keeps f (m a b)) \<Longrightarrow> keeps f (case s of (a, b) \<Rightarrow> m a b)"
  by (cases s) simp

subsection \<open>A server that does what it is asked\<close>

text \<open>
  What an observer sees of the environment: the DaemonSets, the RuntimeClasses and the policies the
  server has.
\<close>

record 'e observer =
  seesDaemonSets :: "'e \<Rightarrow> string \<times> string \<Rightarrow> DaemonSet option"
  seesRuntimeClasses :: "'e \<Rightarrow> string \<Rightarrow> RuntimeClass option"
  seesPolicies :: "'e \<Rightarrow> NamespacedName \<Rightarrow> ClusterPolicy option"

text \<open>The same policy at another time has the same identity; its status may differ.\<close>

definition policyIdentity :: "ClusterPolicy \<Rightarrow> string \<times> string \<times> string \<times> ClusterPolicySpec" where
  "policyIdentity p = (cpName p, metaNamespace (cpMeta p), metaUID (cpMeta p), cpSpec p)"

definition identities :: "'e observer \<Rightarrow> 'e \<Rightarrow> NamespacedName \<Rightarrow>
    (string \<times> string \<times> string \<times> ClusterPolicySpec) option" where
  "identities V e nn = map_option policyIdentity (seesPolicies V e nn)"

definition deletes :: "'e externals \<Rightarrow> 'e observer \<Rightarrow> bool" where
  "deletes X V \<longleftrightarrow> (\<forall>d e. \<exists>err e'. xDeleteDaemonSet X d e = (err, e') \<and> \<not> realError err \<and>
     seesDaemonSets V e' = (seesDaemonSets V e)(keyOf d := None))"

definition storesRuntimeClasses :: "'e externals \<Rightarrow> 'e observer \<Rightarrow> bool" where
  "storesRuntimeClasses X V \<longleftrightarrow>
    (\<forall>n e. case seesRuntimeClasses V e n of
       Some r \<Rightarrow> xGetRuntimeClass X n e = (Inr r, e)
     | None \<Rightarrow> \<exists>err. isNotFound err \<and> xGetRuntimeClass X n e = (Inl err, e)) \<and>
    (\<forall>r e. seesRuntimeClasses V e (rcName r) = None \<longrightarrow> fst (xCreateRuntimeClass X r e) = None) \<and>
    (\<forall>r e old. seesRuntimeClasses V e (rcName r) = Some old \<longrightarrow>
       metaResourceVersion (rcMeta r) = metaResourceVersion (rcMeta old) \<longrightarrow>
       fst (xUpdateRuntimeClass X r e) = None) \<and>
    (\<forall>r e. \<not> realError (fst (xDeleteRuntimeClass X r e)))"

text \<open>Only the operations on an object change what is seen of its kind.\<close>

definition separate :: "'e externals \<Rightarrow> 'e observer \<Rightarrow> bool" where
  "separate X V \<longleftrightarrow>
    (\<forall>r e. seesDaemonSets V (snd (xCreateRuntimeClass X r e)) = seesDaemonSets V e \<and>
       seesDaemonSets V (snd (xUpdateRuntimeClass X r e)) = seesDaemonSets V e \<and>
       seesDaemonSets V (snd (xDeleteRuntimeClass X r e)) = seesDaemonSets V e \<and>
       seesPolicies V (snd (xCreateRuntimeClass X r e)) = seesPolicies V e \<and>
       seesPolicies V (snd (xUpdateRuntimeClass X r e)) = seesPolicies V e \<and>
       seesPolicies V (snd (xDeleteRuntimeClass X r e)) = seesPolicies V e) \<and>
    (\<forall>d e. seesPolicies V (snd (xCreateDaemonSet X d e)) = seesPolicies V e \<and>
       seesPolicies V (snd (xUpdateDaemonSet X d e)) = seesPolicies V e \<and>
       seesPolicies V (snd (xDeleteDaemonSet X d e)) = seesPolicies V e)"

definition storesPolicies :: "'e externals \<Rightarrow> 'e observer \<Rightarrow> bool" where
  "storesPolicies X V \<longleftrightarrow>
    (\<forall>nn e. case seesPolicies V e nn of
       Some p \<Rightarrow> xGetClusterPolicy X nn e = (Inr p, e)
     | None \<Rightarrow> \<exists>err. isNotFound err \<and> xGetClusterPolicy X nn e = (Inl err, e)) \<and>
    (\<forall>p e. \<exists>e'. xStatusUpdate X p e = (None, e') \<and> seesDaemonSets V e' = seesDaemonSets V e \<and>
       identities V e' = identities V e \<and>
       (\<forall>nn q. seesPolicies V e' nn = Some q \<longrightarrow> cpName q = cpName p \<longrightarrow> cpStatus q = cpStatus p))"

definition reliable :: "'e externals \<Rightarrow> 'e observer \<Rightarrow> bool" where
  "reliable X V \<longleftrightarrow> storesWrites X (seesDaemonSets V) \<and> deletes X V \<and> storesRuntimeClasses X V \<and>
     separate X V \<and> storesPolicies X V \<and> (\<forall>e. \<exists>nodes. xListNodes X e = (Inr nodes, e)) \<and> keepsIdentity X"

text \<open>
  \<open>SetControllerReference\<close> looks at nothing of the owner that differs between two readings of the same
  policy: it reads its name, its UID and its namespace (an owner in a namespace may not own an object
  outside it), never its status or resource version.
\<close>

definition ownsByIdentity :: "'e externals \<Rightarrow> bool" where
  "ownsByIdentity X \<longleftrightarrow> (\<forall>p q m. policyIdentity p = policyIdentity q \<longrightarrow>
     xSetControllerReference X p m = xSetControllerReference X q m)"

lemma reliableD:
  assumes "reliable X V"
  shows rel_writes: "storesWrites X (seesDaemonSets V)" and rel_deletes: "deletes X V"
    and rel_classes: "storesRuntimeClasses X V" and rel_separate: "separate X V"
    and rel_policies: "storesPolicies X V" and rel_identity: "keepsIdentity X"
    and rel_nodes: "\<exists>nodes. xListNodes X e = (Inr nodes, e)"
  using assms by (simp_all add: reliable_def)

lemma class_get:
  assumes "storesRuntimeClasses X V"
  shows "seesRuntimeClasses V e n = Some r \<Longrightarrow> xGetRuntimeClass X n e = (Inr r, e)"
    and "seesRuntimeClasses V e n = None \<Longrightarrow> \<exists>err. isNotFound err \<and> xGetRuntimeClass X n e = (Inl err, e)"
  using conjunct1 [OF assms [unfolded storesRuntimeClasses_def], rule_format, of n e] by simp_all

lemma policy_get:
  assumes "storesPolicies X V"
  shows "seesPolicies V e nn = Some p \<Longrightarrow> xGetClusterPolicy X nn e = (Inr p, e)"
    and "seesPolicies V e nn = None \<Longrightarrow> \<exists>err. isNotFound err \<and> xGetClusterPolicy X nn e = (Inl err, e)"
  using conjunct1 [OF assms [unfolded storesPolicies_def], rule_format, of nn e] by simp_all

lemma reads_keep:
  assumes "reliable X V"
  shows "snd (xGetDaemonSet X ns n e) = e" and "snd (xGetRuntimeClass X nm e) = e"
    and "snd (xListNodes X e) = e" and "snd (xGetClusterPolicy X nn e) = e"
proof -
  show "snd (xGetDaemonSet X ns n e) = e"
    using storesWrites_readsOnly [OF rel_writes [OF assms]] by (simp add: readsOnly_def)
  show "snd (xGetRuntimeClass X nm e) = e"
    using class_get [OF rel_classes [OF assms], of e nm] by (cases "seesRuntimeClasses V e nm") auto
  show "snd (xListNodes X e) = e"
    using rel_nodes [OF assms, of e] by auto
  show "snd (xGetClusterPolicy X nn e) = e"
    using policy_get [OF rel_policies [OF assms], of e nn] by (cases "seesPolicies V e nn") auto
qed

lemma separateD:
  assumes "separate X V"
  shows "seesDaemonSets V (snd (xCreateRuntimeClass X r e)) = seesDaemonSets V e"
    and "seesDaemonSets V (snd (xUpdateRuntimeClass X r e)) = seesDaemonSets V e"
    and "seesDaemonSets V (snd (xDeleteRuntimeClass X r e)) = seesDaemonSets V e"
    and "seesPolicies V (snd (xCreateRuntimeClass X r e)) = seesPolicies V e"
    and "seesPolicies V (snd (xUpdateRuntimeClass X r e)) = seesPolicies V e"
    and "seesPolicies V (snd (xDeleteRuntimeClass X r e)) = seesPolicies V e"
    and "seesPolicies V (snd (xCreateDaemonSet X d e)) = seesPolicies V e"
    and "seesPolicies V (snd (xUpdateDaemonSet X d e)) = seesPolicies V e"
    and "seesPolicies V (snd (xDeleteDaemonSet X d e)) = seesPolicies V e"
  using assms by (simp_all add: separate_def)

text \<open>The control functions leave the policies alone, and \<open>RuntimeClass\<close> the DaemonSets.\<close>

lemma RuntimeClassFn_keeps:
  assumes "reliable X V"
  shows "keeps (seesDaemonSets V) (RuntimeClassFn X c)" and "keeps (seesPolicies V) (RuntimeClassFn X c)"
  unfolding RuntimeClassFn_def api_defs Let_def
  by (intro keeps_intros; simp add: separateD [OF rel_separate [OF assms]] reads_keep [OF assms])+

lemma ready_keeps:
  assumes "reliable X V"
  shows "keeps (seesPolicies V) (isDaemonSetReady X ns n)"
  unfolding isDaemonSetReady_def api_defs
  by (intro keeps_intros; simp add: separateD [OF rel_separate [OF assms]] reads_keep [OF assms])

lemma deploy_keeps:
  assumes "reliable X V"
  shows "keeps (seesPolicies V) (deployDaemonSet X p r obj)"
  unfolding deployDaemonSet_def createAndCheck_def updateAndCheck_def api_defs Let_def
  by (intro keeps_intros ready_keeps [OF assms];
      simp add: separateD [OF rel_separate [OF assms]] reads_keep [OF assms])

lemma daemonSetLoop_keeps:
  assumes "reliable X V"
  shows "keeps (seesPolicies V) (daemonSetLoop X c r ds)"
proof (induction ds arbitrary: r)
  case (Cons d ds)
  have "keeps (seesPolicies V) (daemonSetBody X c r d)"
    unfolding daemonSetBody_def api_defs Let_def
    by (intro keeps_intros deploy_keeps [OF assms];
        simp add: separateD [OF rel_separate [OF assms]] reads_keep [OF assms])
  then show ?case using Cons.IH by (simp add: keeps_gbind)
qed (simp add: keeps_pure)

lemma DaemonSetFn_keeps:
  assumes "reliable X V"
  shows "keeps (seesPolicies V) (DaemonSetFn X c)"
  unfolding DaemonSetFn_def by (intro keeps_intros daemonSetLoop_keeps [OF assms])

lemma runControl_keeps: "reliable X V \<Longrightarrow> keeps (seesPolicies V) (runControl X f c)"
  by (cases f) (simp_all add: runControl_def DaemonSetFn_keeps RuntimeClassFn_keeps)

lemma step_keeps:
  assumes "reliable X V"
  shows "keeps (seesPolicies V) (step X c)"
proof -
  have "keeps (seesPolicies V) (stepLoop X c r fs)" for r fs
    by (induction fs arbitrary: r)
      (auto intro!: keeps_intros runControl_keeps [OF assms] split: prod.split)
  then show ?thesis unfolding step_def by (intro keeps_intros)
qed

lemma status_update:
  assumes "storesPolicies X V"
  shows "\<exists>e'. xStatusUpdate X p e = (None, e') \<and> seesDaemonSets V e' = seesDaemonSets V e \<and>
    identities V e' = identities V e \<and>
    (\<forall>nn q. seesPolicies V e' nn = Some q \<longrightarrow> cpName q = cpName p \<longrightarrow> cpStatus q = cpStatus p)"
  using conjunct2 [OF assms [unfolded storesPolicies_def], rule_format, of p e] by blast

lemma updateCRState_keeps:
  assumes "reliable X V"
  shows "keeps (seesDaemonSets V) (updateCRState X req st c)" and "keeps (identities V) (updateCRState X req st c)"
proof -
  have u: "seesDaemonSets V (snd (xStatusUpdate X p e)) = seesDaemonSets V e"
      "identities V (snd (xStatusUpdate X p e)) = identities V e" for p e
    using status_update [OF rel_policies [OF assms], of p e] by auto
  show "keeps (seesDaemonSets V) (updateCRState X req st c)"
    and "keeps (identities V) (updateCRState X req st c)"
    unfolding updateCRState_def api_defs
    by (intro keeps_intros; simp add: u reads_keep [OF assms])+
qed

lemma keeps_identities: "keeps (seesPolicies V) m \<Longrightarrow> keeps (identities V) m"
  by (simp add: keeps_def identities_def fun_eq_iff)

lemma initNodes_keeps:
  assumes "reliable X V"
  shows "keeps f (initNodes X c)"
  unfolding initNodes_def getFPGANodeCount_def getOsDistributions_def api_defs Let_def
  by (intro keeps_intros; simp add: reads_keep [OF assms])

lemma initNodes_returns:
  assumes "reliable X V"
  shows "\<exists>c' w'. initNodes X c w = (Ret (None, c'), w')"
proof -
  obtain nodes where n: "xListNodes X e = (Inr nodes, e)" if "e = wEnv w" for e
    using rel_nodes [OF assms, of "wEnv w"] by blast
  show ?thesis
    by (simp add: initNodes_def getFPGANodeCount_def getOsDistributions_def api_defs gbind_run
        apiCall_run n Let_def split: prod.split)
qed

subsection \<open>Where the policy wants a DaemonSet\<close>

definition goal ::
    "'e externals \<Rightarrow> ClusterPolicyController \<Rightarrow> ClusterPolicy \<Rightarrow> DaemonSet \<Rightarrow> DaemonSet option \<Rightarrow> bool" where
  "goal X c p d v \<longleftrightarrow>
    (if currentEnabled c = Ret True \<and> \<not> specMissing c d then deployed X c p d v else v = None)"

text \<open>The operator can get there: every template can be deployed, unless the policy has no entry for it.\<close>

definition feasible :: "'e externals \<Rightarrow> ClusterPolicyController \<Rightarrow> ClusterPolicy \<Rightarrow> DaemonSet \<Rightarrow> bool" where
  "feasible X c p d \<longleftrightarrow> (currentEnabled c = Ret True \<longrightarrow> specMissing c d \<or> deployable X c p d)"

definition available :: "DaemonSet option \<Rightarrow> bool" where
  "available v \<longleftrightarrow> (case v of None \<Rightarrow> True | Some g \<Rightarrow> dsNumberUnavailable g = 0)"

lemma goal_annotated: "goal X c p d v \<Longrightarrow> annotated v"
  by (auto simp: goal_def deployed_def annotated_def hashOf_def bind_eq_Some_conv split: if_splits)

lemma delete_run:
  assumes "reliable X V" and "keyOf obj = k"
  shows "\<exists>err w'. deleteDaemonSet X obj w = (Ret err, w') \<and> \<not> realError err \<and>
    seesDaemonSets V (wEnv w') = (seesDaemonSets V (wEnv w))(k := None)"
proof -
  from rel_deletes [OF assms(1)] obtain err e' where "xDeleteDaemonSet X obj (wEnv w) = (err, e')"
    "\<not> realError err" "seesDaemonSets V e' = (seesDaemonSets V (wEnv w))(k := None)"
    unfolding deletes_def assms(2) [symmetric] by blast
  then show ?thesis by (simp add: api_defs apiCall_run)
qed

lemma keyOf_placed [simp]: "keyOf (placed c d) = slot c d"
  by (simp add: keyOf_def)

text \<open>What the body does with a template that is not wanted: it deletes the object.\<close>

lemma body_unwanted:
  assumes X: "reliable X V" and p: "ctlSingleton c = Some p" and b: "currentEnabled c = Ret b"
    and u: "\<not> (b \<and> \<not> specMissing c d)"
  shows "\<exists>s w'. daemonSetBody X c r d w = (Ret s, w') \<and>
    seesDaemonSets V (wEnv w') = (seesDaemonSets V (wEnv w))(slot c d := None) \<and> (r \<noteq> NotReady \<longrightarrow> s \<noteq> NotReady)"
proof -
  from delete_run [OF X keyOf_placed, of c d w] obtain err w' where
    del: "deleteDaemonSet X (placed c d) w = (Ret err, w')" "\<not> realError err"
      "seesDaemonSets V (wEnv w') = (seesDaemonSets V (wEnv w))(slot c d := None)" by blast
  show ?thesis
  proof (cases b)
    case True
    with u have "preProcessDaemonSet (placed c d) c = Ret (Some NoSpecError, placed c d)"
      by (simp add: specMissing_def)
    with True b del show ?thesis
      by (simp add: daemonSetBody_def Let_def placed_def [symmetric] gbind_run)
  next
    case False
    with b del show ?thesis
      by (simp add: daemonSetBody_def Let_def placed_def [symmetric] gbind_run)
  qed
qed

lemma body_reaches:
  assumes X: "reliable X V" and p: "ctlSingleton c = Some p" and b: "currentEnabled c = Ret b"
    and f: "feasible X c p d" and a: "annotated (seesDaemonSets V (wEnv w) (slot c d))"
  shows "\<exists>s w' v. daemonSetBody X c r d w = (Ret s, w') \<and>
    seesDaemonSets V (wEnv w') = (seesDaemonSets V (wEnv w))(slot c d := v) \<and> goal X c p d v"
proof (cases "b \<and> \<not> specMissing c d")
  case True
  with f b obtain m obj h where wt: "wants X c p d m obj h"
    by (auto simp: feasible_def deployable_def)
  have on: "currentEnabled c = Ret True" using True b by simp
  have ann: "dsAnnotations g \<noteq> None" if "seesDaemonSets V (wEnv w) (slot c d) = Some g" for g
    using a that by (simp add: annotated_def)
  from daemonSetBody_stores [OF rel_writes [OF X] rel_identity [OF X] on p wt ann, where r = r]
  obtain s w' g where "daemonSetBody X c r d w = (Ret s, w')"
    "seesDaemonSets V (wEnv w') = (seesDaemonSets V (wEnv w))(slot c d \<mapsto> g)"
    "hashOf g = Some (formatUint16 h)" by blast
  moreover from this have "goal X c p d (Some g)"
    using deployedI [OF wt] on True by (simp add: goal_def)
  ultimately show ?thesis by (intro exI conjI)
next
  case False
  from body_unwanted [OF X p b False, of r w] obtain s w' where
    "daemonSetBody X c r d w = (Ret s, w')"
    "seesDaemonSets V (wEnv w') = (seesDaemonSets V (wEnv w))(slot c d := None)" by blast
  moreover have "goal X c p d None" using False b by (auto simp: goal_def)
  ultimately show ?thesis by (intro exI conjI)
qed

lemma body_stays:
  assumes X: "reliable X V" and p: "ctlSingleton c = Some p" and b: "currentEnabled c = Ret b"
    and g: "goal X c p d (seesDaemonSets V (wEnv w) (slot c d))"
    and a: "available (seesDaemonSets V (wEnv w) (slot c d))"
  shows "\<exists>s w'. daemonSetBody X c r d w = (Ret s, w') \<and>
    seesDaemonSets V (wEnv w') = seesDaemonSets V (wEnv w) \<and> (r \<noteq> NotReady \<longrightarrow> s \<noteq> NotReady)"
proof (cases "b \<and> \<not> specMissing c d")
  case True
  then have on: "currentEnabled c = Ret True" using b by simp
  from g True on obtain m obj h f where wt: "wants X c p d m obj h"
    and f: "seesDaemonSets V (wEnv w) (slot c d) = Some f" and h: "hashOf f = Some (formatUint16 h)"
    by (auto simp: goal_def deployed_def)
  have "upToDate X c p (wEnv w) d f"
    unfolding upToDate_def
    using wt h stored_get [OF rel_writes [OF X] f] wants_key [OF wt rel_identity [OF X]]
    by (auto simp: wants_def hashOf_def)
  from daemonSetBody_steady [OF on p storesWrites_readsOnly [OF rel_writes [OF X]] this, of r]
  obtain w' where "daemonSetBody X c r d w = (Ret (if dsNumberUnavailable f = 0 then r else NotReady), w')"
    "wEnv w' = wEnv w" by blast
  moreover have "dsNumberUnavailable f = 0" using a f by (simp add: available_def)
  ultimately show ?thesis by auto
next
  case False
  from body_unwanted [OF X p b False, of r w] obtain s w' where
    1: "daemonSetBody X c r d w = (Ret s, w')" "r \<noteq> NotReady \<longrightarrow> s \<noteq> NotReady"
    "seesDaemonSets V (wEnv w') = (seesDaemonSets V (wEnv w))(slot c d := None)" by blast
  have "seesDaemonSets V (wEnv w) (slot c d) = None" using g False b by (auto simp: goal_def)
  with 1(3) have "seesDaemonSets V (wEnv w') = seesDaemonSets V (wEnv w)" by (simp add: fun_upd_idem)
  with 1 show ?thesis by blast
qed

subsection \<open>One state\<close>

definition templates :: "ClusterPolicyController \<Rightarrow> DaemonSet list" where
  "templates c = sliceOf (resDaemonsets (ctlResources c ! ctlIdx c))"

text \<open>The state the controller is at can be brought where the policy wants it.\<close>

definition feasibleState :: "'e externals \<Rightarrow> ClusterPolicyController \<Rightarrow> ClusterPolicy \<Rightarrow> bool" where
  "feasibleState X c p \<longleftrightarrow>
    (\<exists>b. currentEnabled c = Ret b) \<and> distinct (map dsName (templates c)) \<and>
    (\<forall>d\<in>set (templates c). feasible X c p d) \<and>
    (templates c \<noteq> [] \<longrightarrow> CtlDaemonSet \<in> set (ctlControlFuncs c ! ctlIdx c)) \<and>
    (currentEnabled c = Ret True \<longrightarrow>
      (\<exists>m. xSetControllerReference X p (rcMeta (namedRuntimeClass p (resRuntimeClass (ctlResources c ! ctlIdx c)))) = Inr m))"

definition reached ::
    "'e externals \<Rightarrow> 'e observer \<Rightarrow> ClusterPolicyController \<Rightarrow> ClusterPolicy \<Rightarrow> 'e \<Rightarrow> bool" where
  "reached X V c p e \<longleftrightarrow> (\<forall>d\<in>set (templates c). goal X c p d (seesDaemonSets V e (slot c d)))"

lemma daemonSetLoop_stays:
  assumes X: "reliable X V" and p: "ctlSingleton c = Some p" and b: "currentEnabled c = Ret b"
  shows "\<forall>d\<in>set ds. goal X c p d (seesDaemonSets V (wEnv w) (slot c d)) \<and>
      available (seesDaemonSets V (wEnv w) (slot c d)) \<Longrightarrow>
    \<exists>s w'. daemonSetLoop X c r ds w = (Ret s, w') \<and>
      seesDaemonSets V (wEnv w') = seesDaemonSets V (wEnv w) \<and> (r \<noteq> NotReady \<longrightarrow> s \<noteq> NotReady)"
proof (induction ds arbitrary: r w)
  case (Cons d ds)
  then have "goal X c p d (seesDaemonSets V (wEnv w) (slot c d))"
    and "available (seesDaemonSets V (wEnv w) (slot c d))" by simp_all
  from body_stays [OF X p b this, of r] obtain s1 w1 where 1: "daemonSetBody X c r d w = (Ret s1, w1)"
    and e1: "seesDaemonSets V (wEnv w1) = seesDaemonSets V (wEnv w)" "r \<noteq> NotReady \<longrightarrow> s1 \<noteq> NotReady"
    by blast
  have "\<forall>d\<in>set ds. goal X c p d (seesDaemonSets V (wEnv w1) (slot c d)) \<and>
      available (seesDaemonSets V (wEnv w1) (slot c d))"
    using Cons.prems by (simp add: e1)
  from Cons.IH [OF this, of s1] obtain s w' where "daemonSetLoop X c s1 ds w1 = (Ret s, w')"
    "seesDaemonSets V (wEnv w') = seesDaemonSets V (wEnv w1)" "s1 \<noteq> NotReady \<longrightarrow> s \<noteq> NotReady" by blast
  with 1 e1 show ?case by (simp add: gbind_run)
qed simp

lemma DaemonSetFn_run:
  assumes "currentEnabled c = Ret b" and "ctlIdx c < length (ctlResources c)"
  shows "DaemonSetFn X c w = gbind (daemonSetLoop X c Ready (templates c)) (\<lambda>s. gret (s, None)) w"
  using assms by (auto simp: DaemonSetFn_def currentEnabled_def templates_def nthP_in_range gbind_run)

lemma DaemonSetFn_reaches:
  assumes X: "reliable X V" and p: "ctlSingleton c = Some p" and i: "ctlIdx c < length (ctlResources c)"
    and f: "feasibleState X c p"
    and a: "\<forall>d\<in>set (templates c). annotated (seesDaemonSets V (wEnv w) (slot c d))"
  shows "\<exists>s w'. DaemonSetFn X c w = (Ret (s, None), w') \<and> reached X V c p (wEnv w') \<and>
    (\<forall>k. k \<notin> slot c ` set (templates c) \<longrightarrow> seesDaemonSets V (wEnv w') k = seesDaemonSets V (wEnv w) k)"
proof -
  from f obtain b where b: "currentEnabled c = Ret b" by (auto simp: feasibleState_def)
  have body: "\<exists>s w' v. daemonSetBody X c r d w = (Ret s, w') \<and>
      seesDaemonSets V (wEnv w') = (seesDaemonSets V (wEnv w))(slot c d := v) \<and> goal X c p d v"
    if "d \<in> set (templates c)" "annotated (seesDaemonSets V (wEnv w) (slot c d))" for d r w
    using body_reaches [OF X p b _ that(2)] f that(1) by (simp add: feasibleState_def)
  have "\<exists>s w'. daemonSetLoop X c Ready (templates c) w = (Ret s, w') \<and>
      (\<forall>d\<in>set (templates c). goal X c p d (seesDaemonSets V (wEnv w') (slot c d))) \<and>
      (\<forall>k. k \<notin> slot c ` set (templates c) \<longrightarrow> seesDaemonSets V (wEnv w') k = seesDaemonSets V (wEnv w) k)"
    by (rule daemonSetLoop_goals [where ok = annotated and A = "set (templates c)"])
      (use body a f in \<open>simp_all add: feasibleState_def\<close>)
  then show ?thesis
    by (auto simp: DaemonSetFn_run [OF b i] gbind_run reached_def)
qed

lemma RuntimeClassFn_runs:
  assumes X: "reliable X V" and p: "ctlSingleton c = Some p" and i: "ctlIdx c < length (ctlResources c)"
    and f: "feasibleState X c p"
  shows "\<exists>s w'. RuntimeClassFn X c w = (Ret (s, None), w') \<and> s \<noteq> NotReady"
proof -
  note classes = rel_classes [OF X]
  let ?tmpl = "resRuntimeClass (ctlResources c ! ctlIdx c)"
  from f obtain b where b: "currentEnabled c = Ret b" by (auto simp: feasibleState_def)
  show ?thesis
  proof (cases b)
    case False
    have "\<not> realError (fst (xDeleteRuntimeClass X r e))" for r e
      using classes by (simp add: storesRuntimeClasses_def)
    with RuntimeClassFn_disabled [OF _ i p, of X] b False show ?thesis
      by (simp add: Let_def gbind_run api_defs apiCall_run)
  next
    case True
    from f obtain m where m: "xSetControllerReference X p (rcMeta (namedRuntimeClass p ?tmpl)) = Inr m"
      using b True by (auto simp: feasibleState_def)
    have "currentEnabled c = Ret True" using b True by simp
    note run = RuntimeClassFn_run [OF this i p refl m, of w]
    have cr: "fst (xCreateRuntimeClass X r e) = None" if "seesRuntimeClasses V e (rcName r) = None" for r e
      using classes that by (simp add: storesRuntimeClasses_def)
    have up: "fst (xUpdateRuntimeClass X r e) = None" if "seesRuntimeClasses V e (rcName r) = Some old"
      "metaResourceVersion (rcMeta r) = metaResourceVersion (rcMeta old)" for r e old
      using classes that by (simp add: storesRuntimeClasses_def)
    show ?thesis
    proof (cases "seesRuntimeClasses V (wEnv w) (metaName m)")
      case None
      from class_get(2) [OF classes None] obtain err where
        "isNotFound err" "xGetRuntimeClass X (metaName m) (wEnv w) = (Inl err, wEnv w)" by blast
      with None show ?thesis by (simp add: run gbind_run api_defs apiCall_run cr)
    next
      case (Some found)
      let ?obj = "(namedRuntimeClass p ?tmpl)\<lparr>rcMeta :=
        m\<lparr>metaResourceVersion := metaResourceVersion (rcMeta found)\<rparr>\<rparr>"
      have "fst (xUpdateRuntimeClass X ?obj (wEnv w)) = None" by (rule up [where old = found]) (simp_all add: Some)
      with class_get(1) [OF classes Some] show ?thesis
        by (simp add: run gbind_run api_defs apiCall_run)
    qed
  qed
qed

lemma runControl_reaches:
  assumes X: "reliable X V" and p: "ctlSingleton c = Some p" and i: "ctlIdx c < length (ctlResources c)"
    and f: "feasibleState X c p"
    and a: "\<forall>d\<in>set (templates c). annotated (seesDaemonSets V (wEnv w) (slot c d))"
  shows "\<exists>s w'. runControl X g c w = (Ret (s, None), w') \<and>
    (g = CtlDaemonSet \<or> reached X V c p (wEnv w) \<longrightarrow> reached X V c p (wEnv w')) \<and>
    (\<forall>d\<in>set (templates c). annotated (seesDaemonSets V (wEnv w') (slot c d))) \<and>
    (\<forall>k. k \<notin> slot c ` set (templates c) \<longrightarrow> seesDaemonSets V (wEnv w') k = seesDaemonSets V (wEnv w) k)"
proof (cases g)
  case CtlDaemonSet
  from DaemonSetFn_reaches [OF X p i f a] obtain s w' where
    1: "DaemonSetFn X c w = (Ret (s, None), w')" "reached X V c p (wEnv w')"
    "\<forall>k. k \<notin> slot c ` set (templates c) \<longrightarrow> seesDaemonSets V (wEnv w') k = seesDaemonSets V (wEnv w) k"
    by blast
  from 1(2) have "\<forall>d\<in>set (templates c). annotated (seesDaemonSets V (wEnv w') (slot c d))"
    unfolding reached_def by (blast intro: goal_annotated)
  with 1 show ?thesis unfolding CtlDaemonSet runControl_def controlFunc.case by (intro exI conjI impI)
next
  case CtlRuntimeClass
  from RuntimeClassFn_runs [OF X p i f] obtain s w' where 1: "RuntimeClassFn X c w = (Ret (s, None), w')"
    by blast
  have "seesDaemonSets V (wEnv w') = seesDaemonSets V (wEnv w)"
    using keepsD [OF RuntimeClassFn_keeps(1) [OF X] 1] .
  with 1 a show ?thesis by (simp add: CtlRuntimeClass runControl_def reached_def)
qed

lemma stepLoop_reaches:
  assumes X: "reliable X V" and p: "ctlSingleton c = Some p" and i: "ctlIdx c < length (ctlResources c)"
    and f: "feasibleState X c p"
  shows "\<forall>d\<in>set (templates c). annotated (seesDaemonSets V (wEnv w) (slot c d)) \<Longrightarrow>
    \<exists>s w'. stepLoop X c r fs w = (Ret (s, None), w') \<and>
      (CtlDaemonSet \<in> set fs \<or> reached X V c p (wEnv w) \<longrightarrow> reached X V c p (wEnv w')) \<and>
      (\<forall>k. k \<notin> slot c ` set (templates c) \<longrightarrow> seesDaemonSets V (wEnv w') k = seesDaemonSets V (wEnv w) k)"
proof (induction fs arbitrary: r w)
  case (Cons g fs)
  from runControl_reaches [OF X p i f Cons.prems, of g] obtain s1 w1 where
    1: "runControl X g c w = (Ret (s1, None), w1)"
    and r1: "g = CtlDaemonSet \<or> reached X V c p (wEnv w) \<longrightarrow> reached X V c p (wEnv w1)"
    and a1: "\<forall>d\<in>set (templates c). annotated (seesDaemonSets V (wEnv w1) (slot c d))"
    and k1: "\<forall>k. k \<notin> slot c ` set (templates c) \<longrightarrow> seesDaemonSets V (wEnv w1) k = seesDaemonSets V (wEnv w) k"
    by blast
  from Cons.IH [OF a1, of "if s1 \<noteq> Ready then s1 else r"] obtain s w' where
    2: "stepLoop X c (if s1 \<noteq> Ready then s1 else r) fs w1 = (Ret (s, None), w')"
    and r2: "CtlDaemonSet \<in> set fs \<or> reached X V c p (wEnv w1) \<longrightarrow> reached X V c p (wEnv w')"
    and k2: "\<forall>k. k \<notin> slot c ` set (templates c) \<longrightarrow> seesDaemonSets V (wEnv w') k = seesDaemonSets V (wEnv w1) k"
    by blast
  have "stepLoop X c r (g # fs) w = (Ret (s, None), w')" using 1 2 by (simp add: gbind_run)
  moreover have "CtlDaemonSet \<in> set (g # fs) \<or> reached X V c p (wEnv w) \<longrightarrow> reached X V c p (wEnv w')"
    using r1 r2 by auto
  moreover have "\<forall>k. k \<notin> slot c ` set (templates c) \<longrightarrow> seesDaemonSets V (wEnv w') k = seesDaemonSets V (wEnv w) k"
    using k1 k2 by simp
  ultimately show ?case by (intro exI conjI)
qed simp

lemma stepLoop_stays:
  assumes X: "reliable X V" and p: "ctlSingleton c = Some p" and i: "ctlIdx c < length (ctlResources c)"
    and f: "feasibleState X c p"
  shows "reached X V c p (wEnv w) \<Longrightarrow>
    \<forall>d\<in>set (templates c). available (seesDaemonSets V (wEnv w) (slot c d)) \<Longrightarrow>
    \<exists>s w'. stepLoop X c r fs w = (Ret (s, None), w') \<and>
      seesDaemonSets V (wEnv w') = seesDaemonSets V (wEnv w) \<and> (r \<noteq> NotReady \<longrightarrow> s \<noteq> NotReady)"
proof (induction fs arbitrary: r w)
  case (Cons g fs)
  from f obtain b where b: "currentEnabled c = Ret b" by (auto simp: feasibleState_def)
  have "\<exists>s w'. runControl X g c w = (Ret (s, None), w') \<and> s \<noteq> NotReady \<and>
      seesDaemonSets V (wEnv w') = seesDaemonSets V (wEnv w)"
  proof (cases g)
    case CtlDaemonSet
    have "\<forall>d\<in>set (templates c). goal X c p d (seesDaemonSets V (wEnv w) (slot c d)) \<and>
        available (seesDaemonSets V (wEnv w) (slot c d))"
      using Cons.prems by (simp add: reached_def)
    from daemonSetLoop_stays [OF X p b this, of Ready] show ?thesis
      by (auto simp: CtlDaemonSet runControl_def DaemonSetFn_run [OF b i] gbind_run)
  next
    case CtlRuntimeClass
    from RuntimeClassFn_runs [OF X p i f, of w] keepsD [OF RuntimeClassFn_keeps(1) [OF X]]
    show ?thesis by (fastforce simp: CtlRuntimeClass runControl_def)
  qed
  then obtain s1 w1 where 1: "runControl X g c w = (Ret (s1, None), w1)" "s1 \<noteq> NotReady"
    "seesDaemonSets V (wEnv w1) = seesDaemonSets V (wEnv w)" by blast
  have "reached X V c p (wEnv w1)"
    and "\<forall>d\<in>set (templates c). available (seesDaemonSets V (wEnv w1) (slot c d))"
    using Cons.prems 1(3) by (simp_all add: reached_def)
  from Cons.IH [OF this, of "if s1 \<noteq> Ready then s1 else r"] obtain s w' where
    "stepLoop X c (if s1 \<noteq> Ready then s1 else r) fs w1 = (Ret (s, None), w')"
    "seesDaemonSets V (wEnv w') = seesDaemonSets V (wEnv w1)"
    "(if s1 \<noteq> Ready then s1 else r) \<noteq> NotReady \<longrightarrow> s \<noteq> NotReady" by blast
  with 1 show ?case by (auto simp: gbind_run split: if_splits)
qed simp

subsection \<open>All states\<close>

abbreviation atState :: "ClusterPolicyController \<Rightarrow> nat \<Rightarrow> ClusterPolicyController" where
  "atState c i \<equiv> c\<lparr>ctlIdx := i\<rparr>"

text \<open>
  A controller whose states can all be brought where the policy wants them. No DaemonSet belongs to
  two states.
\<close>

definition feasiblePolicy :: "'e externals \<Rightarrow> ClusterPolicyController \<Rightarrow> ClusterPolicy \<Rightarrow> bool" where
  "feasiblePolicy X c p \<longleftrightarrow>
    (\<forall>i<length (ctlControlFuncs c). feasibleState X (atState c i) p) \<and>
    (\<forall>i<length (ctlControlFuncs c). \<forall>j<length (ctlControlFuncs c). i \<noteq> j \<longrightarrow>
       dsName ` set (templates (atState c i)) \<inter> dsName ` set (templates (atState c j)) = {})"

lemma slot_at [simp]: "slot (atState c i) d = slot c d"
  by simp

lemma slots_disjoint:
  assumes "feasiblePolicy X c p" and "i < length (ctlControlFuncs c)" and "j < length (ctlControlFuncs c)"
    and "i \<noteq> j" and "d \<in> set (templates (atState c j))"
  shows "slot c d \<notin> slot c ` set (templates (atState c i))"
proof
  assume "slot c d \<in> slot c ` set (templates (atState c i))"
  then obtain d' where "slot c d = slot c d'" and d': "d' \<in> set (templates (atState c i))" by (rule imageE)
  then have "dsName d \<in> dsName ` set (templates (atState c i))" by (simp add: rev_image_eqI)
  with assms show False unfolding feasiblePolicy_def by blast
qed

lemma step_reaches:
  assumes X: "reliable X V" and p: "ctlSingleton c = Some p" and wf: "length (ctlResources c) = length (ctlControlFuncs c)"
    and i: "i < length (ctlControlFuncs c)" and f: "feasiblePolicy X c p"
    and a: "\<forall>d\<in>set (templates (atState c i)). annotated (seesDaemonSets V (wEnv w) (slot c d))"
  shows "\<exists>s w'. step X (atState c i) w = (Ret ((s, None), atState c (i + 1)), w') \<and>
    reached X V (atState c i) p (wEnv w') \<and>
    (\<forall>k. k \<notin> slot c ` set (templates (atState c i)) \<longrightarrow> seesDaemonSets V (wEnv w') k = seesDaemonSets V (wEnv w) k)"
proof -
  let ?c = "atState c i"
  have fs: "feasibleState X ?c p" using f i by (simp add: feasiblePolicy_def)
  have pc: "ctlSingleton ?c = Some p" and ic: "ctlIdx ?c < length (ctlResources ?c)"
    using p i wf by simp_all
  have ac: "\<forall>d\<in>set (templates ?c). annotated (seesDaemonSets V (wEnv w) (slot ?c d))" using a by simp
  from stepLoop_reaches [OF X pc ic fs ac, of Ready "ctlControlFuncs c ! i"] obtain s w' where
    1: "stepLoop X ?c Ready (ctlControlFuncs c ! i) w = (Ret (s, None), w')"
    and r: "CtlDaemonSet \<in> set (ctlControlFuncs c ! i) \<or> reached X V ?c p (wEnv w) \<longrightarrow> reached X V ?c p (wEnv w')"
    and k: "\<forall>k. k \<notin> slot ?c ` set (templates ?c) \<longrightarrow> seesDaemonSets V (wEnv w') k = seesDaemonSets V (wEnv w) k"
    by blast
  have "step X ?c w = (Ret ((s, None), atState c (i + 1)), w')"
    using i by (simp add: step_def nthP_in_range gbind_run 1)
  moreover have "reached X V ?c p (wEnv w')"
    using fs r by (cases "templates ?c = []") (simp_all add: feasibleState_def reached_def)
  ultimately show ?thesis using k by auto
qed

lemma step_stays:
  assumes X: "reliable X V" and p: "ctlSingleton c = Some p" and wf: "length (ctlResources c) = length (ctlControlFuncs c)"
    and i: "i < length (ctlControlFuncs c)" and f: "feasiblePolicy X c p"
    and r: "reached X V (atState c i) p (wEnv w)"
    and a: "\<forall>d\<in>set (templates (atState c i)). available (seesDaemonSets V (wEnv w) (slot c d))"
  shows "\<exists>s w'. step X (atState c i) w = (Ret ((s, None), atState c (i + 1)), w') \<and> s \<noteq> NotReady \<and>
    seesDaemonSets V (wEnv w') = seesDaemonSets V (wEnv w)"
proof -
  have fs: "feasibleState X (atState c i) p" using f i by (simp add: feasiblePolicy_def)
  have pc: "ctlSingleton (atState c i) = Some p" and ic: "ctlIdx (atState c i) < length (ctlResources (atState c i))"
    using p i wf by simp_all
  have "\<forall>d\<in>set (templates (atState c i)). available (seesDaemonSets V (wEnv w) (slot (atState c i) d))" using a by simp
  from stepLoop_stays [OF X pc ic fs r this, of Ready "ctlControlFuncs c ! i"] obtain s w' where
    "stepLoop X (atState c i) Ready (ctlControlFuncs c ! i) w = (Ret (s, None), w')" "s \<noteq> NotReady"
    "seesDaemonSets V (wEnv w') = seesDaemonSets V (wEnv w)" by auto
  then show ?thesis using i by (simp add: step_def nthP_in_range gbind_run)
qed

lemma report_keeps:
  assumes "reliable X V" and "reportStep X req inst s c w = (Ret e, w')"
  shows "seesDaemonSets V (wEnv w') = seesDaemonSets V (wEnv w)" and "identities V (wEnv w') = identities V (wEnv w)"
proof -
  have "keeps (seesDaemonSets V) (reportStep X req inst s c)" and "keeps (identities V) (reportStep X req inst s c)"
    unfolding reportStep_def by (intro keeps_intros updateCRState_keeps [OF assms(1)])+
  then show "seesDaemonSets V (wEnv w') = seesDaemonSets V (wEnv w)" and "identities V (wEnv w') = identities V (wEnv w)"
    using assms(2) by (auto dest: keepsD)
qed

definition allReached ::
    "'e externals \<Rightarrow> 'e observer \<Rightarrow> ClusterPolicyController \<Rightarrow> ClusterPolicy \<Rightarrow> 'e \<Rightarrow> bool" where
  "allReached X V c p e \<longleftrightarrow> (\<forall>i<length (ctlControlFuncs c). reached X V (atState c i) p e)"

definition allSlots :: "(DaemonSet option \<Rightarrow> bool) \<Rightarrow> 'e observer \<Rightarrow> ClusterPolicyController \<Rightarrow> 'e \<Rightarrow> bool" where
  "allSlots P V c e \<longleftrightarrow>
    (\<forall>i<length (ctlControlFuncs c). \<forall>d\<in>set (templates (atState c i)). P (seesDaemonSets V e (slot c d)))"

lemma run_reaches:
  assumes X: "reliable X V" and p: "ctlSingleton c = Some p" and wf: "length (ctlResources c) = length (ctlControlFuncs c)"
    and f: "feasiblePolicy X c p"
  shows "i \<le> length (ctlControlFuncs c) \<Longrightarrow> \<forall>j<i. reached X V (atState c j) p (wEnv w) \<Longrightarrow>
    \<forall>j<length (ctlControlFuncs c). i \<le> j \<longrightarrow>
      (\<forall>d\<in>set (templates (atState c j)). annotated (seesDaemonSets V (wEnv w) (slot c d))) \<Longrightarrow>
    \<exists>ss w'. ranStates X req inst (atState c i) w ss w' \<and> allReached X V c p (wEnv w') \<and>
      identities V (wEnv w') = identities V (wEnv w)"
proof (induction "length (ctlControlFuncs c) - i" arbitrary: i w)
  case 0
  then have "lastState (atState c i)" by (simp add: lastState_def)
  moreover have "allReached X V c p (wEnv w)" using 0 by (simp add: allReached_def)
  ultimately show ?case using ranStates.finished by blast
next
  case (Suc n)
  then have i: "i < length (ctlControlFuncs c)" by simp
  have "\<forall>d\<in>set (templates (atState c i)). annotated (seesDaemonSets V (wEnv w) (slot c d))"
    using Suc.prems(3) i by blast
  from step_reaches [OF X p wf i f this] obtain s w1 where
    1: "step X (atState c i) w = (Ret ((s, None), atState c (i + 1)), w1)"
    and r1: "reached X V (atState c i) p (wEnv w1)"
    and k1: "\<forall>k. k \<notin> slot c ` set (templates (atState c i)) \<longrightarrow> seesDaemonSets V (wEnv w1) k = seesDaemonSets V (wEnv w) k"
    by blast
  obtain e w2 where 2: "reportStep X req inst s (atState c (i + 1)) w1 = (Ret e, w2)"
    using reportStep_returns by blast
  note k2 = report_keeps [OF X 2]
  have id1: "identities V (wEnv w1) = identities V (wEnv w)"
    using keepsD [OF keeps_identities [OF step_keeps [OF X]] 1] .
  have other: "seesDaemonSets V (wEnv w2) (slot c d) = seesDaemonSets V (wEnv w) (slot c d)"
    if "j < length (ctlControlFuncs c)" "j \<noteq> i" "d \<in> set (templates (atState c j))" for j d
    using k1 slots_disjoint [OF f i that(1) that(2) [symmetric] that(3)] unfolding k2 by blast
  have "\<forall>j<i + 1. reached X V (atState c j) p (wEnv w2)"
  proof (intro allI impI)
    fix j
    assume j: "j < i + 1"
    show "reached X V (atState c j) p (wEnv w2)"
    proof (cases "j = i")
      case True
      with r1 show ?thesis by (simp add: reached_def k2)
    next
      case False
      with j have "j < i" by simp
      with Suc.prems(2) other [of j] i show ?thesis by (simp add: reached_def)
    qed
  qed
  moreover have "\<forall>j<length (ctlControlFuncs c). i + 1 \<le> j \<longrightarrow>
      (\<forall>d\<in>set (templates (atState c j)). annotated (seesDaemonSets V (wEnv w2) (slot c d)))"
    using Suc.prems(3) other by simp
  moreover have n: "n = length (ctlControlFuncs c) - (i + 1)" and "i + 1 \<le> length (ctlControlFuncs c)"
    using Suc.hyps(2) i by simp_all
  ultimately obtain ss w' where "ranStates X req inst (atState c (i + 1)) w2 ss w'"
    and "allReached X V c p (wEnv w')" and "identities V (wEnv w') = identities V (wEnv w2)"
    using Suc.hyps(1) [OF n] by blast
  with ranStates.stepped [OF 1 2] id1 k2(2) show ?case by (metis (no_types, lifting))
qed

lemma run_stays:
  assumes X: "reliable X V" and p: "ctlSingleton c = Some p" and wf: "length (ctlResources c) = length (ctlControlFuncs c)"
    and f: "feasiblePolicy X c p"
  shows "i \<le> length (ctlControlFuncs c) \<Longrightarrow> allReached X V c p (wEnv w) \<Longrightarrow>
    allSlots available V c (wEnv w) \<Longrightarrow>
    \<exists>ss w'. ranStates X req inst (atState c i) w ss w' \<and> NotReady \<notin> set ss \<and>
      seesDaemonSets V (wEnv w') = seesDaemonSets V (wEnv w) \<and> identities V (wEnv w') = identities V (wEnv w)"
proof (induction "length (ctlControlFuncs c) - i" arbitrary: i w)
  case 0
  then have "lastState (atState c i)" by (simp add: lastState_def)
  then show ?case using ranStates.finished by fastforce
next
  case (Suc n)
  then have i: "i < length (ctlControlFuncs c)" by simp
  have "reached X V (atState c i) p (wEnv w)" and
    "\<forall>d\<in>set (templates (atState c i)). available (seesDaemonSets V (wEnv w) (slot c d))"
    using Suc.prems(2,3) i by (simp_all add: allReached_def allSlots_def)
  from step_stays [OF X p wf i f this] obtain s w1 where
    1: "step X (atState c i) w = (Ret ((s, None), atState c (i + 1)), w1)" and s: "s \<noteq> NotReady"
    and k1: "seesDaemonSets V (wEnv w1) = seesDaemonSets V (wEnv w)" by blast
  obtain e w2 where 2: "reportStep X req inst s (atState c (i + 1)) w1 = (Ret e, w2)"
    using reportStep_returns by blast
  note k2 = report_keeps [OF X 2]
  have id1: "identities V (wEnv w1) = identities V (wEnv w)"
    using keepsD [OF keeps_identities [OF step_keeps [OF X]] 1] .
  have "allReached X V c p (wEnv w2)" and "allSlots available V c (wEnv w2)"
    using Suc.prems(2,3) by (simp_all add: allReached_def allSlots_def reached_def k1 k2)
  moreover have n: "n = length (ctlControlFuncs c) - (i + 1)" and "i + 1 \<le> length (ctlControlFuncs c)"
    using Suc.hyps(2) i by simp_all
  ultimately obtain ss w' where 3: "ranStates X req inst (atState c (i + 1)) w2 ss w'" and ss: "NotReady \<notin> set ss"
    and k3: "seesDaemonSets V (wEnv w') = seesDaemonSets V (wEnv w2)" "identities V (wEnv w') = identities V (wEnv w2)"
    using Suc.hyps(1) [OF n] by blast
  have "ranStates X req inst (atState c i) w (s # ss) w'" using 1 2 3 by (rule ranStates.stepped)
  with s ss k1 k2 k3 id1 show ?case by (intro exI [of _ "s # ss"] exI [of _ w']) auto
qed

subsection \<open>The same controller, another day\<close>

text \<open>
  Between two reconciliations the policy may have got another status; its name, namespace, UID and spec are the
  same, and the controller has the states and the runtime it had.
\<close>

definition sameController :: "ClusterPolicyController \<Rightarrow> ClusterPolicyController \<Rightarrow> bool" where
  "sameController c c' \<longleftrightarrow> statesOf c = statesOf c' \<and> ctlRuntime c = ctlRuntime c' \<and>
     (case (ctlSingleton c, ctlSingleton c') of
        (Some p, Some p') \<Rightarrow> policyIdentity p = policyIdentity p'
      | _ \<Rightarrow> False)"

lemma preProcessDaemonSet_cong:
  assumes "ctlSingleton c = Some p" and "ctlSingleton c' = Some p'" and "cpSpec p = cpSpec p'"
    and "ctlRuntime c = ctlRuntime c'"
  shows "preProcessDaemonSet obj c = preProcessDaemonSet obj c'"
proof -
  have "runTransformation t obj s c = runTransformation t obj s c'" for t s
    by (cases t)
      (simp_all add: runTransformation_def TransformContainerRuntime_def TransformDevicePlugin_def
        TransformHostSetup_def Let_def assms theSingleton_def)
  then show ?thesis
    by (simp add: preProcessDaemonSet_def theSingleton_def assms split: option.split)
qed

lemma sameControllerE:
  assumes "sameController c c'" and "ctlSingleton c = Some p" and "ctlSingleton c' = Some p'"
  shows "policyIdentity p = policyIdentity p'" and "cpSpec p = cpSpec p'" and "ctlRuntime c = ctlRuntime c'"
    and "ctlOperatorNamespace c = ctlOperatorNamespace c'" and "ctlResources c = ctlResources c'"
    and "ctlControlFuncs c = ctlControlFuncs c'" and "ctlStateNames c = ctlStateNames c'"
  using assms by (simp_all add: sameController_def statesOf_def policyIdentity_def)

lemma same_at:
  assumes s: "sameController c c'" and p: "ctlSingleton c = Some p" "ctlSingleton c' = Some p'"
    and o: "ownsByIdentity X"
  shows "currentEnabled (atState c i) = currentEnabled (atState c' i)" and "templates (atState c i) = templates (atState c' i)"
    and "slot c d = slot c' d" and "specMissing (atState c i) d = specMissing (atState c' i) d"
    and "deployable X (atState c i) p d = deployable X (atState c' i) p' d"
    and "deployed X (atState c i) p d v = deployed X (atState c' i) p' d v"
    and "xSetControllerReference X p m = xSetControllerReference X p' m"
proof -
  note e = sameControllerE [OF s p]
  have pp: "preProcessDaemonSet obj (atState c i) = preProcessDaemonSet obj (atState c' i)" for obj
    using p e(2,3) by (intro preProcessDaemonSet_cong [of _ p _ p']) simp_all
  have pl: "placed (atState c i) d = placed (atState c' i) d" for d
    by (simp add: placed_def e(4))
  have own: "xSetControllerReference X p m = xSetControllerReference X p' m" for m
    using o e(1) unfolding ownsByIdentity_def by blast
  have w: "wants X (atState c i) p d m obj h = wants X (atState c' i) p' d m obj h" for d m obj h
    by (simp add: wants_def pp pl own)
  show "currentEnabled (atState c i) = currentEnabled (atState c' i)"
    using p e(2) by (simp add: currentEnabled_def isStateEnabled_def [abs_def] theSingleton_def e(7))
  show "templates (atState c i) = templates (atState c' i)" by (simp add: templates_def e(5))
  show "slot c d = slot c' d" by (simp add: e(4))
  show "specMissing (atState c i) d = specMissing (atState c' i) d" by (simp add: specMissing_def pp pl)
  show "deployable X (atState c i) p d = deployable X (atState c' i) p' d" by (simp add: deployable_def w)
  show "deployed X (atState c i) p d v = deployed X (atState c' i) p' d v" by (simp add: deployed_def w)
  show "xSetControllerReference X p m = xSetControllerReference X p' m" by (rule own)
qed

lemma same_feasible:
  assumes s: "sameController c c'" and p: "ctlSingleton c = Some p" "ctlSingleton c' = Some p'"
    and o: "ownsByIdentity X" and f: "feasiblePolicy X c p"
  shows "feasiblePolicy X c' p'"
proof -
  note e = sameControllerE [OF s p] and a = same_at [OF s p o]
  have g: "namedRuntimeClass p r = namedRuntimeClass p' r" for r
    by (simp add: namedRuntimeClass_def e(2))
  have "feasibleState X (atState c' i) p'" if "feasibleState X (atState c i) p" for i
    using that a(1,2) a(4,5) a(7)
    by (simp add: feasibleState_def feasible_def g [symmetric] e(5,6) [symmetric])
  with f show ?thesis
    by (simp add: feasiblePolicy_def e(6) [symmetric] a(2) [symmetric])
qed

text \<open>
  Between two reconciliations the objects of all templates keep their annotations, and all their pods
  become available; what was not there is not there.
\<close>

definition podsAvailable ::
    "'e observer \<Rightarrow> ClusterPolicyController \<Rightarrow> 'e \<Rightarrow> 'e \<Rightarrow> bool" where
  "podsAvailable V c e1 e2 \<longleftrightarrow>
    (\<forall>i<length (ctlControlFuncs c). \<forall>d\<in>set (templates (atState c i)).
       map_option dsAnnotations (seesDaemonSets V e2 (slot c d)) = map_option dsAnnotations (seesDaemonSets V e1 (slot c d)) \<and>
       available (seesDaemonSets V e2 (slot c d)))"

lemma goal_kept:
  assumes "goal X c p d v" and "map_option dsAnnotations v' = map_option dsAnnotations v"
  shows "goal X c p d v'"
  using assms by (cases v; cases v') (auto simp: goal_def deployed_def hashOf_def split: if_splits)

lemma same_reached:
  assumes s: "sameController c c'" and p: "ctlSingleton c = Some p" "ctlSingleton c' = Some p'"
    and o: "ownsByIdentity X" and r: "allReached X V c p e1" and t: "podsAvailable V c e1 e2"
  shows "allReached X V c' p' e2" and "allSlots available V c' e2"
proof -
  note e = sameControllerE [OF s p] and a = same_at [OF s p o]
  have g: "goal X (atState c i) p d v = goal X (atState c' i) p' d v" for i d v
    by (simp add: goal_def a(1,4,6))
  have sl: "slot c' d = slot c d" for d using a(3) by simp
  show "allReached X V c' p' e2"
    unfolding allReached_def reached_def
  proof (intro allI impI ballI)
    fix i d
    assume i: "i < length (ctlControlFuncs c')" and d: "d \<in> set (templates (atState c' i))"
    have i': "i < length (ctlControlFuncs c)" and d': "d \<in> set (templates (atState c i))"
      using i d by (simp_all add: e(6) a(2))
    have "goal X (atState c i) p d (seesDaemonSets V e1 (slot c d))"
      using r i' d' by (simp add: allReached_def reached_def)
    moreover have "map_option dsAnnotations (seesDaemonSets V e2 (slot c d)) =
        map_option dsAnnotations (seesDaemonSets V e1 (slot c d))"
      using t i' d' unfolding podsAvailable_def by blast
    ultimately have "goal X (atState c i) p d (seesDaemonSets V e2 (slot c d))" by (rule goal_kept)
    then show "goal X (atState c' i) p' d (seesDaemonSets V e2 (slot (atState c' i) d))"
      unfolding g slot_at sl .
  qed
  show "allSlots available V c' e2"
    using t unfolding allSlots_def podsAvailable_def by (simp add: e(6) [symmetric] a(2) [symmetric] sl)
qed

subsection \<open>Two reconciliations\<close>

text \<open>The controller has read its manifests, and serves the policy.\<close>

definition serving :: "ClusterPolicyController \<Rightarrow> ClusterPolicy \<Rightarrow> bool" where
  "serving c p \<longleftrightarrow> ctl_wf c \<and> ctlControlFuncs c \<noteq> [] \<and> singletonIs c (cpName p)"

definition adopt :: "ClusterPolicyController \<Rightarrow> ClusterPolicy \<Rightarrow> ClusterPolicyController" where
  "adopt c p = c\<lparr>ctlSingleton := Some p\<rparr>"

text \<open>
  A controller without states: the process is new, or every initialisation so far has failed. The
  states it is going to have are those of \<open>startedController\<close>.
\<close>

definition beginning :: "'e externals \<Rightarrow> ClusterPolicyController \<Rightarrow> ClusterPolicy \<Rightarrow> 'e \<Rightarrow> ClusterPolicyController \<Rightarrow> bool" where
  "beginning X c p e c0 \<longleftrightarrow> ctl_wf c \<and> ctlControlFuncs c = [] \<and> singletonIs c (cpName p) \<and>
     (\<exists>v nodes loaded. answering X e v nodes \<and> readable X e loaded \<and> c0 = startedController X p e v nodes loaded)"

text \<open>The controller \<open>c0\<close> with which a reconciliation of \<open>p\<close> works, if the process has \<open>c\<close>.\<close>

definition worksWith :: "'e externals \<Rightarrow> ClusterPolicyController \<Rightarrow> ClusterPolicy \<Rightarrow> 'e \<Rightarrow> ClusterPolicyController \<Rightarrow> bool" where
  "worksWith X c p e c0 \<longleftrightarrow> serving c p \<and> c0 = adopt c p \<or> beginning X c p e c0"

lemma init_serving:
  assumes X: "reliable X V" and s: "serving c p"
  shows "\<exists>c1 w1. init X p c w = (Ret (None, c1), w1) \<and> wEnv w1 = wEnv w \<and> sameController (adopt c p) c1 \<and>
    ctl_wf c1 \<and> ctlSingleton c1 = Some p \<and> ctlIdx c1 = 0 \<and> ctlControlFuncs c1 \<noteq> []"
proof -
  let ?c = "c\<lparr>ctlSingleton := Some p, ctlIdx := 0\<rparr>"
  from initNodes_returns [OF X, of ?c w] obtain c1 w1 where n: "initNodes X ?c w = (Ret (None, c1), w1)"
    by blast
  have i: "init X p c w = (Ret (None, c1), w1)"
    using s n by (simp add: init_def serving_def Let_def gbind_run)
  have "wEnv w1 = wEnv w" using keepsD [OF initNodes_keeps [OF X, of "\<lambda>e. e"] n] .
  with i init_facts [OF _ i] s show ?thesis
    by (auto simp: serving_def sameController_def adopt_def statesOf_def)
qed

lemma init_beginning:
  assumes "beginning X c p (wEnv w) c0"
  shows "\<exists>w1. init X p c w = (Ret (None, c0), w1) \<and> wEnv w1 = wEnv w \<and> sameController c0 c0 \<and>
    ctl_wf c0 \<and> ctlSingleton c0 = Some p \<and> ctlIdx c0 = 0 \<and> ctlControlFuncs c0 \<noteq> []"
proof -
  from assms obtain v nodes loaded where wf: "ctl_wf c" "ctlControlFuncs c = []"
    and a: "answering X (wEnv w) v nodes" and r: "readable X (wEnv w) loaded"
    and c0: "c0 = startedController X p (wEnv w) v nodes loaded" by (auto simp: beginning_def)
  note i = init_run [OF wf a r, of p]
  from r have "length loaded = 3" by (auto simp: readable_def dest: map_eq_imp_length_eq)
  then have "ctlControlFuncs c0 \<noteq> []" by (auto simp: c0 startedController_def)
  with init_facts [OF wf(1) i] i show ?thesis
    by (simp add: c0 sameController_def)
qed

lemma init_worksWith:
  assumes X: "reliable X V" and s: "worksWith X c p (wEnv w) c0"
  shows "\<exists>c1 w1. init X p c w = (Ret (None, c1), w1) \<and> wEnv w1 = wEnv w \<and> sameController c0 c1 \<and>
    ctl_wf c1 \<and> ctlSingleton c1 = Some p \<and> ctlIdx c1 = 0 \<and> ctlControlFuncs c1 \<noteq> []"
  using s unfolding worksWith_def using init_serving [OF X, of c p w] init_beginning [of X c p w c0] by blast

lemma worksWith_singleton:
  assumes "worksWith X c p e c0"
  shows "singletonIs c (cpName p)" and "ctlSingleton c0 = Some p"
  using assms by (auto simp: worksWith_def serving_def beginning_def adopt_def startedController_def)

lemma serving_worksWith: "serving c p \<Longrightarrow> worksWith X c p e (adopt c p)"
  by (simp add: worksWith_def)

lemma Reconcile_serving:
  assumes g: "xGetClusterPolicy X req (wEnv w) = (Inr p, wEnv w)" and s: "singletonIs c (cpName p)"
  shows "\<exists>w0. wEnv w0 = wEnv w \<and> Reconcile X req c w = reconcilePolicy X req p c w0"
proof -
  let ?w0 = "w\<lparr>wCalls := wCalls w @ [EvGetClusterPolicy req (Inr p)]\<rparr>"
  have "getClusterPolicy X req w = (Ret (Inr p), ?w0)"
    using g by (simp add: api_defs apiCall_run)
  from Reconcile_main [OF this] s show ?thesis
    by (intro exI [of _ ?w0]) simp
qed

lemma updateCRState_ready:
  assumes X: "reliable X V" and p: "seesPolicies V (wEnv w) req = Some p"
    and u: "updateCRState X req Ready c w = (Ret e, w')"
  shows "\<exists>q. seesPolicies V (wEnv w') req = Some q \<and> statusState (cpStatus q) = Ready"
proof -
  note g = policy_get(1) [OF rel_policies [OF X] p]
  show ?thesis
  proof (cases "statusState (cpStatus p) = Ready")
    case True
    with u g have "wEnv w' = wEnv w"
      by (auto simp: updateCRState_def api_defs gbind_run apiCall_run)
    with True p show ?thesis by simp
  next
    case False
    let ?p = "SetStatus Ready (ctlOperatorNamespace c) p"
    from status_update [OF rel_policies [OF X], of ?p "wEnv w"] obtain e' where
      s: "xStatusUpdate X ?p (wEnv w) = (None, e')" and i: "identities V e' = identities V (wEnv w)"
      and st: "\<forall>nn q. seesPolicies V e' nn = Some q \<longrightarrow> cpName q = cpName ?p \<longrightarrow> cpStatus q = cpStatus ?p"
      by blast
    from i have "identities V e' req = Some (policyIdentity p)" by (simp add: identities_def p)
    then obtain q where q: "seesPolicies V e' req = Some q" "policyIdentity q = policyIdentity p"
      by (auto simp: identities_def)
    have "wEnv w' = e'"
      using u g s False by (auto simp: updateCRState_def api_defs gbind_run apiCall_run)
    moreover have "cpStatus q = cpStatus ?p"
      using st q by (simp add: policyIdentity_def)
    ultimately show ?thesis using q(1) by simp
  qed
qed

text \<open>
  A reconciliation of the served policy: initialisation finds the controller as it was, and its
  outcome is decided by the steps.
\<close>

abbreviation afterStates :: "ClusterPolicyController \<Rightarrow> ClusterPolicyController" where
  "afterStates c \<equiv> atState c (length (ctlControlFuncs c))"

lemma Reconcile_starts:
  assumes X: "reliable X V" and s: "worksWith X c p (wEnv w) c0" and p: "seesPolicies V (wEnv w) req = Some p"
  obtains c1 w1 where "wEnv w1 = wEnv w" and "sameController c0 c1" and "ctlSingleton c1 = Some p"
    and "length (ctlResources c1) = length (ctlControlFuncs c1)" and "serving (afterStates c1) p"
    and "\<And>ss w2. ranStates X req p (atState c1 0) w1 ss w2 \<Longrightarrow>
      \<exists>e w3. updateCRState X req Ready (afterStates c1) w2 = (Ret e, w3) \<and>
        Reconcile X req c w =
          (Ret ((if NotReady \<in> set ss then requeueResult else emptyResult, None), afterStates c1),
           if NotReady \<in> set ss then w2 else w3)"
proof -
  from Reconcile_serving [OF policy_get(1) [OF rel_policies [OF X] p] worksWith_singleton(1) [OF s]] obtain w0 where
    e0: "wEnv w0 = wEnv w" and run: "Reconcile X req c w = reconcilePolicy X req p c w0" by blast
  from init_worksWith [OF X s [folded e0]] obtain c1 w1 where i: "init X p c w0 = (Ret (None, c1), w1)"
    and e1: "wEnv w1 = wEnv w0" and same: "sameController c0 c1" and wf: "ctl_wf c1"
    and p1: "ctlSingleton c1 = Some p" and idx: "ctlIdx c1 = 0" and ne: "ctlControlFuncs c1 \<noteq> []" by blast
  have c1: "atState c1 0 = c1" using idx by simp
  have names: "length (ctlStateNames c1) = length (ctlControlFuncs c1)" using wf by (simp add: ctl_wf_def)
  have "\<exists>e w3. updateCRState X req Ready (afterStates c1) w2 = (Ret e, w3) \<and>
      Reconcile X req c w =
        (Ret ((if NotReady \<in> set ss then requeueResult else emptyResult, None), afterStates c1),
         if NotReady \<in> set ss then w2 else w3)"
    if ran: "ranStates X req p (atState c1 0) w1 ss w2" for ss w2
  proof -
    obtain e w3 where u: "updateCRState X req Ready (afterStates c1) w2 = (Ret e, w3)"
      using updateCRState_returns by blast
    obtain ns where "reconcileLoop X req p (Ready, []) c1 w1 =
        (Ret (Finished (if NotReady \<in> set ss then NotReady else Ready) ns, afterStates c1), w2)"
      using reconcileLoop_ran [OF ran [unfolded c1] _ names, of "(Ready, [])"] idx ne by simp
    with u show ?thesis
      unfolding run by (simp add: reconcilePolicy_def afterLoop_def gbind_run i)
  qed
  moreover have "serving (afterStates c1) p"
    using wf ne p1 by (auto simp: serving_def ctl_wf_def singletonIs_def)
  moreover have "wEnv w1 = wEnv w" using e0 e1 by simp
  moreover have "length (ctlResources c1) = length (ctlControlFuncs c1)" using wf by (simp add: ctl_wf_def)
  ultimately show thesis using that same p1 by blast
qed

lemma adopt_singleton [simp]: "ctlSingleton (adopt c p) = Some p"
  by (simp add: adopt_def)

lemma Reconcile_reaches:
  assumes X: "reliable X V" and o: "ownsByIdentity X" and s: "worksWith X c p (wEnv w) c0"
    and p: "seesPolicies V (wEnv w) req = Some p"
    and f: "feasiblePolicy X c0 p" and a: "allSlots annotated V c0 (wEnv w)"
  shows "\<exists>r c' w'. Reconcile X req c w = (Ret ((r, None), c'), w') \<and> serving c' p \<and>
    ctlSingleton c' = Some p \<and> feasiblePolicy X c' p \<and>
    allReached X V c' p (wEnv w') \<and> identities V (wEnv w') = identities V (wEnv w)"
proof (rule Reconcile_starts [OF X s p])
  fix c1 w1
  assume e1: "wEnv w1 = wEnv w" and same: "sameController c0 c1" and p1: "ctlSingleton c1 = Some p"
    and len: "length (ctlResources c1) = length (ctlControlFuncs c1)" and s1: "serving (afterStates c1) p"
    and res: "\<And>ss w2. ranStates X req p (atState c1 0) w1 ss w2 \<Longrightarrow>
      \<exists>e w3. updateCRState X req Ready (afterStates c1) w2 = (Ret e, w3) \<and>
        Reconcile X req c w =
          (Ret ((if NotReady \<in> set ss then requeueResult else emptyResult, None), afterStates c1),
           if NotReady \<in> set ss then w2 else w3)"
  note sc = sameControllerE [OF same worksWith_singleton(2) [OF s] p1] and sa = same_at [OF same worksWith_singleton(2) [OF s] p1 o]
  have f1: "feasiblePolicy X c1 p" by (rule same_feasible [OF same worksWith_singleton(2) [OF s] p1 o f])
  have "allSlots annotated V c1 (wEnv w1)"
    using a by (simp add: allSlots_def e1 sc(4,6) sa(2))
  then have "\<exists>ss w2. ranStates X req p (atState c1 0) w1 ss w2 \<and> allReached X V c1 p (wEnv w2) \<and>
      identities V (wEnv w2) = identities V (wEnv w1)"
    by (intro run_reaches [OF X p1 len f1]) (simp_all add: allSlots_def)
  then obtain ss w2 where ran: "ranStates X req p (atState c1 0) w1 ss w2"
    and all: "allReached X V c1 p (wEnv w2)" and id2: "identities V (wEnv w2) = identities V (wEnv w1)"
    by blast
  from res [OF ran] obtain e w3 where u: "updateCRState X req Ready (afterStates c1) w2 = (Ret e, w3)"
    and run: "Reconcile X req c w =
      (Ret ((if NotReady \<in> set ss then requeueResult else emptyResult, None), afterStates c1),
       if NotReady \<in> set ss then w2 else w3)" by blast
  note k3 = keepsD [OF updateCRState_keeps(1) [OF X] u] keepsD [OF updateCRState_keeps(2) [OF X] u]
  have "allReached X V (afterStates c1) p (wEnv (if NotReady \<in> set ss then w2 else w3))"
    using all k3 by (simp add: allReached_def reached_def)
  moreover have "identities V (wEnv (if NotReady \<in> set ss then w2 else w3)) = identities V (wEnv w)"
    using id2 k3 by (simp add: e1)
  moreover have "feasiblePolicy X (afterStates c1) p" using f1 by (simp add: feasiblePolicy_def)
  moreover have "ctlSingleton (afterStates c1) = Some p" using p1 by simp
  ultimately show ?thesis using run s1 by (intro exI conjI)
qed

lemma Reconcile_settles:
  assumes X: "reliable X V" and o: "ownsByIdentity X" and s: "serving c p"
    and p: "seesPolicies V (wEnv w) req = Some p"
    and f: "feasiblePolicy X (adopt c p) p" and r: "allReached X V (adopt c p) p (wEnv w)"
    and a: "allSlots available V (adopt c p) (wEnv w)"
  shows "\<exists>c' w' q. Reconcile X req c w = (Ret ((emptyResult, None), c'), w') \<and>
    seesDaemonSets V (wEnv w') = seesDaemonSets V (wEnv w) \<and>
    seesPolicies V (wEnv w') req = Some q \<and> statusState (cpStatus q) = Ready"
proof (rule Reconcile_starts [OF X serving_worksWith [OF s] p])
  fix c1 w1
  assume e1: "wEnv w1 = wEnv w" and same: "sameController (adopt c p) c1" and p1: "ctlSingleton c1 = Some p"
    and len: "length (ctlResources c1) = length (ctlControlFuncs c1)"
    and res: "\<And>ss w2. ranStates X req p (atState c1 0) w1 ss w2 \<Longrightarrow>
      \<exists>e w3. updateCRState X req Ready (afterStates c1) w2 = (Ret e, w3) \<and>
        Reconcile X req c w =
          (Ret ((if NotReady \<in> set ss then requeueResult else emptyResult, None), afterStates c1),
           if NotReady \<in> set ss then w2 else w3)"
  have "podsAvailable V (adopt c p) (wEnv w) (wEnv w)"
    using a by (simp add: podsAvailable_def allSlots_def)
  note same_reached [OF same adopt_singleton p1 o r this]
  then have r1: "allReached X V c1 p (wEnv w1)" and a1: "allSlots available V c1 (wEnv w1)"
    by (simp_all add: e1)
  have f1: "feasiblePolicy X c1 p" by (rule same_feasible [OF same adopt_singleton p1 o f])
  from run_stays [OF X p1 len f1 le0 r1 a1] obtain ss w2 where ran: "ranStates X req p (atState c1 0) w1 ss w2"
    and ss: "NotReady \<notin> set ss" and k2: "seesDaemonSets V (wEnv w2) = seesDaemonSets V (wEnv w1)"
      "identities V (wEnv w2) = identities V (wEnv w1)"
    by blast
  from res [OF ran] ss obtain e w3 where u: "updateCRState X req Ready (afterStates c1) w2 = (Ret e, w3)"
    and run: "Reconcile X req c w = (Ret ((emptyResult, None), afterStates c1), w3)" by auto
  have "identities V (wEnv w2) req = Some (policyIdentity p)"
    by (simp add: k2 e1 identities_def p)
  then obtain p2 where "seesPolicies V (wEnv w2) req = Some p2" by (auto simp: identities_def)
  from updateCRState_ready [OF X this u] obtain q where
    "seesPolicies V (wEnv w3) req = Some q" "statusState (cpStatus q) = Ready" by blast
  moreover have "seesDaemonSets V (wEnv w3) = seesDaemonSets V (wEnv w)"
    using keepsD [OF updateCRState_keeps(1) [OF X] u] k2 by (simp add: e1)
  ultimately show ?thesis using run by (intro exI conjI)
qed

text \<open>
  C5: The server is assumed to be reliable: it lists the nodes, accepts every write of a
  DaemonSet and keeps its name, namespace and annotations, accepts the create of a RuntimeClass,
  its update with the current resource version and its delete, accepts a status update and
  changes no name, namespace, UID or spec of a policy by it, and no write changes objects of
  another kind; the owner reference depends only on the name, namespace, UID and spec of the
  owner, and SetControllerReference keeps the name and namespace of the object. The policy is
  assumed to be feasible: template names are distinct within and across states, a state with
  templates has the DaemonSet control function registered, and in every enabled state the
  RuntimeClass can be given its owner reference and each template either has no entry in the
  policy (NoSpecError) or is transformed, owned and hashed without an error or panic; a
  host-setup template without a node selector is neither. Then one reconciliation of the policy,
  by a process whose controller is well-formed and serves no other policy, be it its first, with
  readable manifests and a cluster that answers the queries of init, or a later one, from any
  cluster in which no DaemonSet of a template lacks annotations, brings every DaemonSet of every
  state where the policy wants it: deployed with the current hash, or gone when its state is
  disabled or the policy has no entry for it. The next reconciliation, if by then the identity
  and spec of the policy and the annotations of these DaemonSets are the same and none of them
  has unavailable pods, ends without a retry, leaves the DaemonSets as they are, and the status
  of the policy is Ready.
\<close>

theorem operator_converges:
  fixes X :: "'e externals"
  assumes X: "reliable X V" and o: "ownsByIdentity X" and s: "worksWith X c p (wEnv w) c0"
    and p: "seesPolicies V (wEnv w) req = Some p"
    and f: "feasiblePolicy X c0 p" and a: "allSlots annotated V c0 (wEnv w)"
  shows "\<exists>r c1 w1. Reconcile X req c w = (Ret ((r, None), c1), w1) \<and>
    allReached X V c1 p (wEnv w1) \<and>
    (\<forall>w2. podsAvailable V c1 (wEnv w1) (wEnv w2) \<longrightarrow> identities V (wEnv w2) req = identities V (wEnv w1) req \<longrightarrow>
      (\<exists>c3 w3 q. Reconcile X req c1 w2 = (Ret ((emptyResult, None), c3), w3) \<and>
         seesDaemonSets V (wEnv w3) = seesDaemonSets V (wEnv w2) \<and>
         seesPolicies V (wEnv w3) req = Some q \<and> statusState (cpStatus q) = Ready))"
proof -
  from Reconcile_reaches [OF X o s p f a] obtain r c1 w1 where
    1: "Reconcile X req c w = (Ret ((r, None), c1), w1)" and s1: "serving c1 p"
    and p1: "ctlSingleton c1 = Some p" and f1: "feasiblePolicy X c1 p"
    and all: "allReached X V c1 p (wEnv w1)" and id1: "identities V (wEnv w1) = identities V (wEnv w)"
    by blast
  have conv: "\<forall>w2. podsAvailable V c1 (wEnv w1) (wEnv w2) \<longrightarrow> identities V (wEnv w2) req = identities V (wEnv w1) req \<longrightarrow>
      (\<exists>c3 w3 q. Reconcile X req c1 w2 = (Ret ((emptyResult, None), c3), w3) \<and>
         seesDaemonSets V (wEnv w3) = seesDaemonSets V (wEnv w2) \<and>
         seesPolicies V (wEnv w3) req = Some q \<and> statusState (cpStatus q) = Ready)"
  proof (intro allI impI)
    fix w2 :: "'e world"
    assume t: "podsAvailable V c1 (wEnv w1) (wEnv w2)" and i: "identities V (wEnv w2) req = identities V (wEnv w1) req"
    from i id1 p obtain p2 where p2: "seesPolicies V (wEnv w2) req = Some p2"
      and id2: "policyIdentity p2 = policyIdentity p" by (auto simp: identities_def)
    have s2: "serving c1 p2" using s1 id2 by (simp add: serving_def policyIdentity_def)
    have pa: "ctlSingleton (adopt c1 p2) = Some p2" by (simp add: adopt_def)
    have same: "sameController c1 (adopt c1 p2)"
      using p1 id2 by (simp add: sameController_def adopt_def statesOf_def)
    note r2 = same_reached [OF same p1 pa o all t]
    from Reconcile_settles [OF X o s2 p2 same_feasible [OF same p1 pa o f1] r2]
    show "\<exists>c3 w3 q. Reconcile X req c1 w2 = (Ret ((emptyResult, None), c3), w3) \<and>
         seesDaemonSets V (wEnv w3) = seesDaemonSets V (wEnv w2) \<and>
         seesPolicies V (wEnv w3) req = Some q \<and> statusState (cpStatus q) = Ready" .
  qed
  from 1 all conv show ?thesis by (intro exI conjI)
qed

subsection \<open>The witness\<close>

text \<open>
  The in-memory cluster without broken names, with a status update that keeps the spec. It has an
  outdated DaemonSet of the device plugin; one template of the host setup has no entry in the policy.
  The process is new and reads its manifests.
\<close>

definition putStatus :: "ClusterPolicy \<Rightarrow> sim \<Rightarrow> sim" where
  "putStatus p e = e\<lparr>simPolicies := map (\<lambda>(k, q). (k, if cpName q = cpName p then q\<lparr>cpStatus := cpStatus p\<rparr> else q))
     (simPolicies e)\<rparr>"

definition unbroken :: "sim \<Rightarrow> sim" where
  "unbroken e = e\<lparr>simBroken := []\<rparr>"

definition unlistedDS :: DaemonSet where
  "unlistedDS = sampleDaemonSet ''host-setup-al2-daemonset''
     (samplePod (Some (sampleSelector ''amzn'' ''2'')) [sampleContainer ''init-xrt-xrm''] [sampleContainer ''host-setup-al2''])"

definition liveX :: "sim externals" where
  "liveX = storingX\<lparr>
     xDeleteDaemonSet := (\<lambda>d e. simDeleteDaemonSet d (unbroken e)),
     xCreateRuntimeClass := (\<lambda>r e. simPutRuntimeClass True r (unbroken e)),
     xUpdateRuntimeClass := (\<lambda>r e. simPutRuntimeClass False r (unbroken e)),
     xDeleteRuntimeClass := (\<lambda>r e. simDeleteRuntimeClass r (unbroken e)),
     xStatusUpdate := (\<lambda>p e. (None, putStatus p e)),
     xDecodeDaemonSet := (\<lambda>m. if m = manifestText ''DaemonSet'' ''unlisted'' then Inr unlistedDS else simDecodeDaemonSet m)\<rparr>"

definition simObserver :: "sim observer" where
  "simObserver = \<lparr>seesDaemonSets = simStore, seesRuntimeClasses = (\<lambda>e. map_of (simRuntimeClasses e)),
     seesPolicies = (\<lambda>e nn. map_of (simPolicies e) (nnName nn))\<rparr>"

lemma liveX_stores: "storesWrites liveX simStore"
  using storingX_stores by (simp add: storesWrites_def liveX_def cong: option.case_cong)

lemma liveX_deletes: "deletes liveX simObserver"
  by (auto simp: deletes_def liveX_def simObserver_def simDeleteDaemonSet_def unbroken_def keyOf_def
      delete_conv' Let_def)

lemma liveX_classes: "storesRuntimeClasses liveX simObserver"
  by (auto simp: storesRuntimeClasses_def liveX_def storingX_def simX_def simObserver_def simLookup_def
      simPutRuntimeClass_def simDeleteRuntimeClass_def unbroken_def Let_def split: option.split)

lemma liveX_separate: "separate liveX simObserver"
  by (auto simp: separate_def liveX_def storingX_def simObserver_def simPutRuntimeClass_def
      simDeleteRuntimeClass_def simPutDaemonSet_def simDeleteDaemonSet_def unbroken_def Let_def)

lemma putStatus_sees:
  "map_of (simPolicies (putStatus p e)) n =
    map_option (\<lambda>q. if cpName q = cpName p then q\<lparr>cpStatus := cpStatus p\<rparr> else q) (map_of (simPolicies e) n)"
  by (simp add: putStatus_def map_of_map)

lemma putStatus_identity [simp]:
  "policyIdentity (if cpName q = cpName p then q\<lparr>cpStatus := cpStatus p\<rparr> else q) = policyIdentity q"
  by (simp add: policyIdentity_def)

lemma putStatus_status:
  "map_of (simPolicies (putStatus p e)) n = Some q \<Longrightarrow> cpName q = cpName p \<Longrightarrow> cpStatus q = cpStatus p"
  unfolding putStatus_sees by (cases "map_of (simPolicies e) n") (auto split: if_splits)

lemma putStatus_keeps:
  "simStore (putStatus p e) = simStore e" "identities simObserver (putStatus p e) = identities simObserver e"
proof -
  show "simStore (putStatus p e) = simStore e" by (simp add: putStatus_def)
  show "identities simObserver (putStatus p e) = identities simObserver e"
    by (rule ext) (simp add: identities_def simObserver_def putStatus_sees option.map_comp comp_def)
qed

lemma liveX_policies: "storesPolicies liveX simObserver"
  unfolding storesPolicies_def
proof (intro conjI allI)
  fix nn e
  show "case seesPolicies simObserver e nn of
       Some p \<Rightarrow> xGetClusterPolicy liveX nn e = (Inr p, e)
     | None \<Rightarrow> \<exists>err. isNotFound err \<and> xGetClusterPolicy liveX nn e = (Inl err, e)"
    by (simp add: liveX_def storingX_def simX_def simObserver_def simLookup_def split: option.split)
next
  fix p e
  have "xStatusUpdate liveX p e = (None, putStatus p e)" by (simp add: liveX_def)
  then show "\<exists>e'. xStatusUpdate liveX p e = (None, e') \<and>
      seesDaemonSets simObserver e' = seesDaemonSets simObserver e \<and>
      identities simObserver e' = identities simObserver e \<and>
      (\<forall>nn q. seesPolicies simObserver e' nn = Some q \<longrightarrow> cpName q = cpName p \<longrightarrow> cpStatus q = cpStatus p)"
    using putStatus_keeps [of p e] putStatus_status [of p e] by (auto simp: simObserver_def)
qed

lemma liveX_reliable: "reliable liveX simObserver"
proof -
  have "keepsIdentity liveX" using storingX_keepsIdentity by (simp add: keepsIdentity_def liveX_def)
  then show ?thesis
    by (simp add: reliable_def liveX_deletes liveX_classes liveX_separate liveX_policies)
      (simp add: simObserver_def liveX_stores, simp add: liveX_def storingX_def simX_def)
qed

lemma liveX_owns: "ownsByIdentity liveX"
  by (simp add: ownsByIdentity_def liveX_def storingX_def simX_def simSetOwner_def simOwner_def
      policyIdentity_def)

definition liveLoaded :: "(Resources \<times> controlFunc list) list" where
  "liveLoaded =
    [(emptyResources\<lparr>resDaemonsets := Some [sampleRuntimeDS],
        resRuntimeClass := zeroRuntimeClass\<lparr>rcHandler := ''filled_by_operator''\<rparr>\<rparr>, [CtlRuntimeClass, CtlDaemonSet]),
     (emptyResources\<lparr>resDaemonsets := Some [samplePluginDS]\<rparr>, [CtlDaemonSet]),
     (emptyResources\<lparr>resDaemonsets := Some [unlistedDS, sampleHostSetupDS]\<rparr>, [CtlDaemonSet])]"

definition liveCluster :: sim where
  "liveCluster = sampleCluster\<lparr>simDaemonSets := [(keyOf outdatedDS, outdatedDS)],
     simAssets := take 2 sampleAssets @ [(''/opt/fpga-operator/state-host-setup'', FsDir (Some
       [(''0301_daemonset.yaml'', FsFile (Some (manifestText ''DaemonSet'' ''hostsetup''))),
        (''0300_daemonset.yaml'', FsFile (Some (manifestText ''DaemonSet'' ''unlisted'')))]))]\<rparr>"

definition liveWorld :: "sim world" where
  "liveWorld = simWorld liveCluster"

lemma liveCluster_readable: "readable liveX liveCluster liveLoaded"
  by code_simp

definition liveController :: ClusterPolicyController where
  "liveController = startedController liveX samplePolicy liveCluster ''v1.25.0'' sampleNodes liveLoaded"

lemma liveController_fields:
  "ctlSingleton liveController = Some samplePolicy"
  "ctlOperatorNamespace liveController = ''xilinx-system''"
  "ctlResources liveController = map fst liveLoaded"
  "ctlControlFuncs liveController = [[CtlRuntimeClass, CtlDaemonSet], [CtlDaemonSet], [CtlDaemonSet]]"
  "ctlStateNames liveController = stateDirs"
  "ctlRuntime liveController = Containerd"
proof -
  have "\<exists>nd\<in>set sampleNodes. hasPrefix (nodeContainerRuntimeVersion nd) ''containerd''" by code_simp
  then show "ctlRuntime liveController = Containerd" by (simp add: liveController_def startedController_def)
qed (simp_all add: liveController_def startedController_def liveX_def storingX_def simX_def liveLoaded_def stateDirs_def)

text \<open>All pods become available.\<close>

definition rollOut :: "sim \<Rightarrow> sim" where
  "rollOut e = e\<lparr>simDaemonSets := map (\<lambda>(k, d). (k, d\<lparr>dsNumberUnavailable := 0\<rparr>)) (simDaemonSets e)\<rparr>"

lemma rollOut_available: "podsAvailable simObserver c e (rollOut e)"
  by (auto simp: podsAvailable_def simObserver_def rollOut_def map_of_map available_def option.map_comp
      comp_def split: option.split)

lemma live_feasible: "feasiblePolicy liveX liveController samplePolicy"
proof -
  let ?c = "liveController"
  have len: "length (ctlControlFuncs ?c) = 3" by (simp add: liveController_fields)
  have three: "i < 3 \<Longrightarrow> i = 0 \<or> i = 1 \<or> i = (2 :: nat)" for i by auto
  have on: "currentEnabled (atState ?c i) = Ret True" if "i < 3" for i
    using three [OF that]
    by (auto simp: liveController_fields currentEnabled_def stateDirs_def isStateEnabled_def
        nthP_def samplePolicy_def samplePolicySpec_def DevicePluginSpec_IsEnabled_def
        ContainerRuntimeSpec_IsEnabled_def HostSetupSpec_IsEnabled_def)
  have dep: "feasible liveX (atState ?c i) samplePolicy d"
    if "preProcessDaemonSet (placed (atState ?c i) d) (atState ?c i) = Ret (None, obj)" for i d obj
    using that
    by (simp add: feasible_def deployable_def wants_def liveX_def storingX_def simX_def
        simSetOwner_def simHash_def)
  have miss: "feasible liveX (atState ?c i) samplePolicy d" if "specMissing (atState ?c i) d" for i d
    using that by (simp add: feasible_def)
  let ?obj = "\<lambda>i d. case preProcessDaemonSet (placed (atState ?c i) d) (atState ?c i) of Ret (_, obj) \<Rightarrow> obj | Panic _ \<Rightarrow> d"
  have r: "preProcessDaemonSet (placed (atState ?c 0) sampleRuntimeDS) (atState ?c 0) = Ret (None, ?obj 0 sampleRuntimeDS)"
    by code_simp
  have p: "preProcessDaemonSet (placed (atState ?c 1) samplePluginDS) (atState ?c 1) = Ret (None, ?obj 1 samplePluginDS)"
    by code_simp
  have h: "preProcessDaemonSet (placed (atState ?c 2) sampleHostSetupDS) (atState ?c 2) = Ret (None, ?obj 2 sampleHostSetupDS)"
    by code_simp
  have u: "specMissing (atState ?c 2) unlistedDS" by code_simp
  have t: "templates (atState ?c 0) = [sampleRuntimeDS]" "templates (atState ?c 1) = [samplePluginDS]"
    "templates (atState ?c 2) = [unlistedDS, sampleHostSetupDS]"
    by (simp_all add: templates_def liveController_fields liveLoaded_def)
  have n: "dsName sampleRuntimeDS = ''xilinx-container-runtime-daemonset''"
    "dsName samplePluginDS = ''device-plugin-daemonset''" "dsName unlistedDS = ''host-setup-al2-daemonset''"
    "dsName sampleHostSetupDS = ''host-setup-centos7-daemonset''"
    by code_simp+
  have own: "\<exists>m'. xSetControllerReference liveX samplePolicy m = Inr m'" for m
    by (simp add: liveX_def storingX_def simX_def simSetOwner_def)
  have fs: "ctlControlFuncs ?c = [[CtlRuntimeClass, CtlDaemonSet], [CtlDaemonSet], [CtlDaemonSet]]"
    by (simp add: liveController_fields)
  have "feasibleState liveX (atState ?c i) samplePolicy" if "i < 3" for i
    using three [OF that] dep [OF r] dep [OF p] dep [OF h] miss [OF u] on [OF that]
    by (auto simp: feasibleState_def t [simplified] n fs own)
  moreover have "dsName ` set (templates (atState ?c i)) \<inter> dsName ` set (templates (atState ?c j)) = {}"
    if "i < 3" "j < 3" "i \<noteq> j" for i j
    using three [OF that(1)] three [OF that(2)] that(3) by (elim disjE) (simp_all add: t [simplified] n)
  ultimately show ?thesis by (simp add: feasiblePolicy_def len)
qed

theorem operator_converges_witness:
  "\<exists>r c1 w1 c3 w3 q. Reconcile liveX sampleReq zeroController liveWorld = (Ret ((r, None), c1), w1) \<and>
     Reconcile liveX sampleReq c1 (w1\<lparr>wEnv := rollOut (wEnv w1)\<rparr>) = (Ret ((emptyResult, None), c3), w3) \<and>
     simStore (wEnv w3) = simStore (rollOut (wEnv w1)) \<and>
     map_of (simPolicies (wEnv w3)) ''fpga-clusterpolicy'' = Some q \<and> statusState (cpStatus q) = Ready"
proof -
  have n: "answering liveX (wEnv liveWorld) ''v1.25.0'' sampleNodes"
    by (simp add: answering_def liveX_def storingX_def simX_def liveWorld_def simWorld_def liveCluster_def sampleCluster_def)
  have r: "readable liveX (wEnv liveWorld) liveLoaded"
    using liveCluster_readable by (simp add: liveWorld_def simWorld_def)
  have "beginning liveX zeroController samplePolicy (wEnv liveWorld) liveController"
    unfolding beginning_def
    by (intro conjI ctl_wf_zero exI [of _ "''v1.25.0''"] exI [of _ sampleNodes] exI [of _ liveLoaded] n r)
      (simp_all add: zeroController_def singletonIs_def liveController_def liveWorld_def simWorld_def)
  then have s: "worksWith liveX zeroController samplePolicy (wEnv liveWorld) liveController"
    by (simp add: worksWith_def)
  have p: "seesPolicies simObserver (wEnv liveWorld) sampleReq = Some samplePolicy"
    by (simp add: simObserver_def liveWorld_def liveCluster_def simWorld_def sampleCluster_def sampleReq_def)
  have a: "allSlots annotated simObserver liveController (wEnv liveWorld)"
    by (simp add: allSlots_def simObserver_def liveWorld_def liveCluster_def simWorld_def outdatedDS_def placed_def annotated_def)
  from operator_converges [OF liveX_reliable liveX_owns s p live_feasible a] obtain r c1 w1 where
    1: "Reconcile liveX sampleReq zeroController liveWorld = (Ret ((r, None), c1), w1)"
    and conv: "\<And>w2. podsAvailable simObserver c1 (wEnv w1) (wEnv w2) \<Longrightarrow>
      identities simObserver (wEnv w2) sampleReq = identities simObserver (wEnv w1) sampleReq \<Longrightarrow>
      \<exists>c3 w3 q. Reconcile liveX sampleReq c1 w2 = (Ret ((emptyResult, None), c3), w3) \<and>
         seesDaemonSets simObserver (wEnv w3) = seesDaemonSets simObserver (wEnv w2) \<and>
         seesPolicies simObserver (wEnv w3) sampleReq = Some q \<and> statusState (cpStatus q) = Ready"
    by blast
  let ?w2 = "w1\<lparr>wEnv := rollOut (wEnv w1)\<rparr>"
  have "podsAvailable simObserver c1 (wEnv w1) (wEnv ?w2)" by (simp add: rollOut_available)
  moreover have "identities simObserver (wEnv ?w2) sampleReq = identities simObserver (wEnv w1) sampleReq"
    by (simp add: identities_def simObserver_def rollOut_def)
  ultimately obtain c3 w3 q where "Reconcile liveX sampleReq c1 ?w2 = (Ret ((emptyResult, None), c3), w3)"
    "seesDaemonSets simObserver (wEnv w3) = seesDaemonSets simObserver (wEnv ?w2)"
    "seesPolicies simObserver (wEnv w3) sampleReq = Some q" "statusState (cpStatus q) = Ready"
    using conv by blast
  with 1 show ?thesis by (auto simp: simObserver_def sampleReq_def)
qed

end
