(* ===== verification/BoundsSpec.thy ===== *)
theory BoundsSpec
  imports ReconcilerSpec
begin

section \<open>How many calls a reconciliation makes\<close>

text \<open>
  A bound on the load a reconciliation puts on the API server, whatever the server answers: it is
  linear in the number of manifests, and the bound is a function of the controller.
\<close>

subsection \<open>Counting calls\<close>

text \<open>\<open>within n m\<close>: run from any world, \<open>m\<close> makes at most \<open>n\<close> calls, also if it panics.\<close>

definition within :: "nat \<Rightarrow> ('e world, 'a) go \<Rightarrow> bool" where
  "within n m \<longleftrightarrow> (\<forall>w. \<exists>evs. wCalls (snd (m w)) = wCalls w @ evs \<and> length evs \<le> n)"

named_theorems within_intros \<open>rules for \<open>within\<close>, one per construct of the code\<close>

lemma withinD:
  assumes "within n m" and "m w = (r, w')"
  obtains evs where "wCalls w' = wCalls w @ evs" and "length evs \<le> n"
  using assms unfolding within_def by (metis snd_conv)

lemma within_mono: "within n m \<Longrightarrow> n \<le> k \<Longrightarrow> within k m"
  unfolding within_def by (meson order.trans)

lemma within_pure [within_intros]:
  "within n (gret a)" "within n (gpanic p)" "within n (glift r)" "within n (gask f)"
  by (simp_all add: within_def)

lemma within_call [within_intros]: "within (Suc n) (apiCall op ev)"
  by (simp add: within_def apiCall_run)

text \<open>Calls of the first part and of what follows add up; what follows may use the result.\<close>

lemma within_gbind_from:
  assumes m: "within a m" and k: "\<And>x w w'. m w = (Ret x, w') \<Longrightarrow> within b (k x)"
  shows "within (a + b) (gbind m k)"
  unfolding within_def
proof
  fix w
  obtain r w1 where r: "m w = (r, w1)" by fastforce
  from m r obtain e1 where e1: "wCalls w1 = wCalls w @ e1" "length e1 \<le> a" by (rule withinD)
  show "\<exists>evs. wCalls (snd (gbind m k w)) = wCalls w @ evs \<and> length evs \<le> a + b"
  proof (cases r)
    case (Ret x)
    obtain r2 w2 where k2: "k x w1 = (r2, w2)" by fastforce
    with k r Ret obtain e2 where "wCalls w2 = wCalls w1 @ e2" "length e2 \<le> b" by (metis withinD)
    with e1 r Ret k2 show ?thesis by (auto simp: gbind_run)
  next
    case (Panic p)
    with e1 r show ?thesis by (auto simp: gbind_run)
  qed
qed

lemma within_gbind: "within a m \<Longrightarrow> (\<And>x. within b (k x)) \<Longrightarrow> within (a + b) (gbind m k)"
  by (rule within_gbind_from)

lemma within_gbind_call [within_intros]: "(\<And>x. within n (k x)) \<Longrightarrow> within (Suc n) (gbind (apiCall op ev) k)"
  using within_gbind [OF within_call [of 0 op ev], of n k] by simp

lemma within_gbind_lift [within_intros]: "(\<And>x. r = Ret x \<Longrightarrow> within n (k x)) \<Longrightarrow> within n (gbind (glift r) k)"
  by (cases r) (simp_all add: within_pure)

lemma within_gbind_ask [within_intros]: "(\<And>x. within n (k x)) \<Longrightarrow> within n (gbind (gask f) k)"
  using within_gbind [OF within_pure(4) [of 0 f], of n k] by simp

lemma within_if [within_intros]: "(b \<Longrightarrow> within n m) \<Longrightarrow> (\<not> b \<Longrightarrow> within n k) \<Longrightarrow> within n (if b then m else k)"
  by simp

lemma within_case_sum [within_intros]:
  "(\<And>e. s = Inl e \<Longrightarrow> within n (f e)) \<Longrightarrow> (\<And>x. s = Inr x \<Longrightarrow> within n (g x)) \<Longrightarrow>
   within n (case s of Inl e \<Rightarrow> f e | Inr x \<Rightarrow> g x)"
  by (cases s) simp_all

lemma within_case_option [within_intros]:
  "(s = None \<Longrightarrow> within n f) \<Longrightarrow> (\<And>x. s = Some x \<Longrightarrow> within n (g x)) \<Longrightarrow>
   within n (case s of None \<Rightarrow> f | Some x \<Rightarrow> g x)"
  by (cases s) simp_all

lemma within_case_prod [within_intros]:
  "(\<And>a b. s = (a, b) \<Longrightarrow> within n (f a b)) \<Longrightarrow> within n (case s of (a, b) \<Rightarrow> f a b)"
  by (cases s) simp

subsection \<open>The control functions and a step\<close>

lemma within_RuntimeClassFn: "within 2 (RuntimeClassFn X c)"
  unfolding RuntimeClassFn_def Let_def api_defs numeral_2_eq_2 by (intro within_intros)

lemma within_ready: "within (Suc n) (isDaemonSetReady X ns nm)"
  unfolding isDaemonSetReady_def api_defs by (intro within_intros)

lemma within_ready_then: "(\<And>s. within n (k s)) \<Longrightarrow> within (Suc n) (gbind (isDaemonSetReady X ns nm) k)"
  using within_gbind [OF within_ready [of 0 X ns nm], of n k] by simp

lemma within_create: "within (Suc (Suc 0)) (createAndCheck X r d)"
  unfolding createAndCheck_def Let_def api_defs by (intro within_intros within_ready_then)

lemma within_update: "within (Suc (Suc 0)) (updateAndCheck X r f d)"
proof -
  have u: "within (Suc 0) (if changed then updateDaemonSet X d else gret (None, d))" for changed d
    unfolding api_defs by (intro within_intros)
  have upd: "within (Suc (Suc 0)) (gbind (if changed then updateDaemonSet X d else gret (None, d)) k)"
    if "\<And>x. within (Suc 0) (k x)" for changed d k
    using within_gbind [OF u that] by (simp only: add_Suc add_0)
  then show ?thesis
    unfolding updateAndCheck_def by (intro within_gbind_lift within_case_prod upd within_if within_pure within_ready_then)
qed

lemma within_deploy: "within (Suc (Suc (Suc 0))) (deployDaemonSet X p r d)"
  unfolding deployDaemonSet_def Let_def api_defs by (intro within_intros within_create within_update)

lemma within_body: "within (Suc (Suc (Suc 0))) (daemonSetBody X c r d)"
  unfolding daemonSetBody_def Let_def by (unfold deleteDaemonSet_def) (intro within_intros within_deploy)

lemma within_daemonSetLoop: "within (3 * length ds) (daemonSetLoop X c r ds)"
proof (induction ds arbitrary: r)
  case (Cons d ds)
  from within_gbind [OF within_body Cons] show ?case by (simp add: numeral_3_eq_3)
qed (simp add: within_pure)

text \<open>The calls of one control function in the state with index \<open>i\<close>, and of all of them.\<close>

definition controlCalls :: "ClusterPolicyController \<Rightarrow> nat \<Rightarrow> controlFunc \<Rightarrow> nat" where
  "controlCalls c i f = (case f of
     CtlDaemonSet \<Rightarrow> 3 * length (sliceOf (resDaemonsets (ctlResources c ! i)))
   | CtlRuntimeClass \<Rightarrow> 2)"

definition stateCalls :: "ClusterPolicyController \<Rightarrow> nat \<Rightarrow> nat" where
  "stateCalls c i = sum_list (map (controlCalls c i) (ctlControlFuncs c ! i))"

lemma within_DaemonSetFn: "within (3 * length (sliceOf (resDaemonsets (ctlResources c ! ctlIdx c)))) (DaemonSetFn X c)"
proof -
  have "within (3 * length ds + 0) (gbind (daemonSetLoop X c Ready ds) (\<lambda>result. gret (result, None)))" for ds
    by (rule within_gbind [OF within_daemonSetLoop]) (rule within_pure)
  then show ?thesis unfolding DaemonSetFn_def by (intro within_intros) auto
qed

lemma within_runControl: "within (controlCalls c (ctlIdx c) f) (runControl X f c)"
  by (cases f) (simp_all add: runControl_def controlCalls_def within_DaemonSetFn within_RuntimeClassFn)

lemma within_stepLoop: "within (sum_list (map (controlCalls c (ctlIdx c)) fs)) (stepLoop X c r fs)"
proof (induction fs arbitrary: r)
  case (Cons f fs)
  have "within (controlCalls c (ctlIdx c) f + sum_list (map (controlCalls c (ctlIdx c)) fs)) (stepLoop X c r (f # fs))"
    unfolding stepLoop.simps
    by (rule within_gbind [OF within_runControl]) (intro within_intros Cons)
  then show ?case by simp
qed (simp add: within_pure)

lemma within_step: "within (stateCalls c (ctlIdx c)) (step X c)"
proof -
  have "within (sum_list (map (controlCalls c (ctlIdx c)) fs) + 0) (gbind (stepLoop X c Ready fs) (\<lambda>(result, err).
     if err \<noteq> None then gret ((result, err), c) else gret ((result, None), c\<lparr>ctlIdx := ctlIdx c + 1\<rparr>)))" for fs
    by (rule within_gbind [OF within_stepLoop]) (intro within_intros)
  then show ?thesis unfolding step_def stateCalls_def by (intro within_intros) auto
qed

subsection \<open>A reconciliation\<close>

lemma within_updateCRState: "within 2 (updateCRState X req s c)"
  unfolding updateCRState_def api_defs numeral_2_eq_2 by (intro within_intros)

lemma within_noteStep: "within 2 (noteStep X req inst s acc c)"
proof -
  have u: "within 2 (if b then updateCRState X req NotReady c else gret None)" for b
    by (intro within_intros within_updateCRState)
  have "within (2 + 0) (if s = NotReady then
      gbind (if statusState (cpStatus inst) = Ready then updateCRState X req NotReady c else gret None) (\<lambda>_.
      gbind (glift (nthP (ctlStateNames c) (ctlIdx c - 1))) (\<lambda>n. gret (NotReady, snd acc @ [n]))) else gret acc)"
    by (intro within_intros within_gbind [OF u])
  then have "within (2 + 0) (noteStep X req inst s acc c)"
    unfolding noteStep_def by (intro within_gbind) (simp, intro within_intros)
  then show ?thesis by simp
qed

definition loopCalls :: "ClusterPolicyController \<Rightarrow> nat \<Rightarrow> nat" where
  "loopCalls c i = (\<Sum>j\<in>{i..<length (ctlControlFuncs c)}. stateCalls c j + 2)"

lemma controlCalls_idx [simp]: "controlCalls (c\<lparr>ctlIdx := j\<rparr>) = controlCalls c"
  by (intro ext) (simp add: controlCalls_def split: controlFunc.split)

lemma calls_idx [simp]: "stateCalls (c\<lparr>ctlIdx := j\<rparr>) = stateCalls c" "loopCalls (c\<lparr>ctlIdx := j\<rparr>) = loopCalls c"
  by (simp_all add: fun_eq_iff stateCalls_def loopCalls_def)

lemma loopCalls_step: "i < length (ctlControlFuncs c) \<Longrightarrow> loopCalls c i = stateCalls c i + (2 + loopCalls c (Suc i))"
  by (simp add: loopCalls_def sum.atLeast_Suc_lessThan)

lemma within_reconcileLoop: "within (loopCalls c (ctlIdx c)) (reconcileLoop X req inst acc c)"
proof (induction "length (ctlControlFuncs c) - ctlIdx c" arbitrary: acc c rule: less_induct)
  case less
  show ?case
  proof (cases "ctlIdx c < length (ctlControlFuncs c)")
    case True
    have next_state: "within (loopCalls c (Suc (ctlIdx c))) (reconcileLoop X req inst acc' (c\<lparr>ctlIdx := Suc (ctlIdx c)\<rparr>))" for acc'
      using less [of "c\<lparr>ctlIdx := Suc (ctlIdx c)\<rparr>" acc'] True by simp
    have note_next: "within (2 + loopCalls c (Suc (ctlIdx c))) (gbind (noteStep X req inst s acc c1) (\<lambda>acc.
          if lastState c1 then gret (Finished (fst acc) (snd acc), c1) else reconcileLoop X req inst acc c1))"
      if "c1 = c\<lparr>ctlIdx := Suc (ctlIdx c)\<rparr>" for s c1
      unfolding that by (intro within_gbind within_noteStep within_intros next_state)
    have fail: "within (2 + loopCalls c (Suc (ctlIdx c)))
        (gbind (updateCRState X req NotReady c1) (\<lambda>_. gret (StepFailed e, c1)))" for e c1
      by (intro within_gbind within_updateCRState within_intros)
    have rest: "within (2 + loopCalls c (Suc (ctlIdx c))) (case err of
            Some statusError \<Rightarrow> gbind (updateCRState X req NotReady c1) (\<lambda>_. gret (StepFailed statusError, c1))
          | None \<Rightarrow> gbind (noteStep X req inst s acc c1) (\<lambda>acc.
              if lastState c1 then gret (Finished (fst acc) (snd acc), c1)
              else reconcileLoop X req inst acc c1))"
      if "step X c w = (Ret ((s, err), c1), w')" for s err c1 w w'
    proof (cases err)
      case None
      with step_None [of X c w s c1 w'] that have "c1 = c\<lparr>ctlIdx := Suc (ctlIdx c)\<rparr>" by simp
      then show ?thesis unfolding None option.case by (rule note_next)
    qed (simp only: option.case fail)
    show ?thesis
      unfolding reconcileLoop_gbind [of X req inst acc c] loopCalls_step [OF True]
      by (rule within_gbind_from [OF within_step]) (auto simp only: prod.case split: prod.split intro!: rest)
  next
    case False
    then have "reconcileLoop X req inst acc c = gpanic index_panic"
      by (intro ext) (subst reconcileLoop.simps, simp add: step_def nthP_def gbind_run)
    then show ?thesis by (simp add: within_pure)
  qed
qed

lemma within_gbind_none: "within 0 m \<Longrightarrow> (\<And>x. within n (k x)) \<Longrightarrow> within n (gbind m k)"
  using within_gbind [of 0 m n k] by simp

lemma within_kubernetesVersion: "within 2 (kubernetesVersion X)"
  unfolding kubernetesVersion_def api_defs numeral_2_eq_2 by (intro within_intros)

lemma within_getRuntime: "within (Suc 0) (getRuntime X c)"
  unfolding getRuntime_def api_defs Let_def by (intro within_intros)

lemma within_addState: "within 0 (addState X c dir)"
  unfolding addState_def addResourceControls_def by (intro within_gbind_none within_intros)

lemma within_initNodes: "within 2 (initNodes X c)"
proof -
  have "within (Suc 0) (getFPGANodeCount X)" "within (Suc 0) (getOsDistributions X)"
    unfolding getFPGANodeCount_def getOsDistributions_def api_defs by (intro within_intros)+
  note n = within_gbind [OF this(1)] and d = within_gbind [OF this(2), of 0]
  have "within (Suc 0 + (Suc 0 + 0)) (initNodes X c)"
    unfolding initNodes_def Let_def by (intro n d within_case_sum within_case_prod within_pure within_mono [OF within_pure(1)]) simp_all
  then show ?thesis by (simp add: numeral_2_eq_2)
qed

lemma within_initStates: "within 3 (initStates X c)"
proof -
  note r = within_gbind [OF within_getRuntime, of 0]
  have "within (2 + (Suc 0 + 0)) (initStates X c)"
    unfolding initStates_def Let_def
    by (intro within_gbind_ask within_gbind [OF within_kubernetesVersion] within_case_sum within_if r within_case_prod
      within_gbind_none within_addState within_pure)
  then show ?thesis by (simp add: numeral_3_eq_3)
qed

lemma within_init: "within 5 (init X p c)"
proof -
  have i: "within 3 (if b then initStates X d else gret (None, d))" for b d
    by (intro within_if within_initStates within_pure)
  have "within (3 + 2) (init X p c)"
    unfolding init_def Let_def by (intro within_gbind [OF i] within_case_prod within_if within_pure within_initNodes)
  then show ?thesis by simp
qed

text \<open>The calls of all states, from the controller.\<close>

lemma within_afterLoop: "within 2 (afterLoop X req res c)"
proof -
  have "within (2 + 0) (gbind (updateCRState X req Ready c) (\<lambda>_. gret ((emptyResult, None), c)))"
    by (intro within_gbind within_updateCRState within_pure)
  then show ?thesis
    unfolding afterLoop_def by (cases res) (auto intro: within_pure)
qed

lemma reconcilePolicy_calls:
  assumes "ctl_wf c" and "reconcilePolicy X req inst c w = (Ret (r, c'), w')"
  shows "\<exists>evs. wCalls w' = wCalls w @ evs \<and> length evs \<le> 7 + loopCalls c' 0"
proof -
  from assms(2) obtain err c1 w1 where i: "init X inst c w = (Ret (err, c1), w1)"
    and 2: "(if err \<noteq> None then gret ((emptyResult, err), c1)
      else gbind (reconcileLoop X req inst (Ready, []) c1) (\<lambda>(res, ctrl). afterLoop X req res ctrl)) w1 = (Ret (r, c'), w')"
    unfolding reconcilePolicy_def by (auto simp: gbind_Ret_iff)
  from within_init i obtain e1 where e1: "wCalls w1 = wCalls w @ e1" "length e1 \<le> 5" by (rule withinD)
  show ?thesis
  proof (cases err)
    case None
    with 2 obtain res c2 w2 where l: "reconcileLoop X req inst (Ready, []) c1 w1 = (Ret (res, c2), w2)"
      and a: "afterLoop X req res c2 w2 = (Ret (r, c'), w')" by (auto simp: gbind_Ret_iff)
    from init_facts [OF assms(1) i] have "ctlIdx c1 = 0" "sameStates c1 c1"
      by (auto intro: sameStates_self)
    from yieldsD [OF reconcileLoop_yields [OF this(2)] l] obtain j where c2: "c2 = c1\<lparr>ctlIdx := j\<rparr>"
      by (auto simp: sameStates_def)
    have "c' = c2" using a unfolding afterLoop_def by (auto simp: gbind_Ret_iff split: loopResult.splits if_splits)
    with c2 have "loopCalls c' = loopCalls c1" by simp
    from within_reconcileLoop l obtain e2 where e2: "wCalls w2 = wCalls w1 @ e2" "length e2 \<le> loopCalls c1 (ctlIdx c1)"
      by (rule withinD)
    from within_afterLoop a obtain e3 where "wCalls w' = wCalls w2 @ e3" "length e3 \<le> 2" by (rule withinD)
    with e1 e2 \<open>ctlIdx c1 = 0\<close> \<open>loopCalls c' = loopCalls c1\<close> show ?thesis
      by (intro exI [of _ "e1 @ e2 @ e3"]) simp
  next
    case (Some e)
    with 2 e1 show ?thesis by (intro exI [of _ e1]) auto
  qed
qed

text \<open>
  C19: Whatever the server answers, a reconciliation makes at most eight calls, two more per
  state, and for each control function of a state three per DaemonSet template or two for the
  RuntimeClass.
\<close>

theorem Reconcile_calls_bounded:
  assumes "ctl_wf c" and "Reconcile X req c w = (Ret (r, c'), w')"
  shows "\<exists>evs. wCalls w' = wCalls w @ evs \<and>
    length evs \<le> 8 + (\<Sum>i<length (ctlControlFuncs c').
      2 + (\<Sum>f\<leftarrow>ctlControlFuncs c' ! i. case f of
         CtlDaemonSet \<Rightarrow> 3 * length (sliceOf (resDaemonsets (ctlResources c' ! i)))
       | CtlRuntimeClass \<Rightarrow> 2))"
proof -
  let ?n = "\<Sum>i<length (ctlControlFuncs c').
      2 + (\<Sum>f\<leftarrow>ctlControlFuncs c' ! i. case f of
         CtlDaemonSet \<Rightarrow> 3 * length (sliceOf (resDaemonsets (ctlResources c' ! i)))
       | CtlRuntimeClass \<Rightarrow> 2)"
  have n: "loopCalls c' 0 = ?n"
    by (simp add: loopCalls_def stateCalls_def controlCalls_def [abs_def] lessThan_atLeast0 add.commute)
  obtain got w1 where g: "getClusterPolicy X req w = (Ret got, w1)" and w1: "\<exists>ev. wCalls w1 = wCalls w @ [ev]"
    by (simp add: api_defs apiCall_run)
  show ?thesis
  proof (cases "\<exists>inst. got = Inr inst \<and> reconcilePolicy X req inst c w1 = (Ret (r, c'), w')")
    case True
    then obtain inst where "reconcilePolicy X req inst c w1 = (Ret (r, c'), w')" by blast
    from reconcilePolicy_calls [OF assms(1) this] obtain evs where
      "wCalls w' = wCalls w1 @ evs" "length evs \<le> 7 + ?n" unfolding n by blast
    with w1 show ?thesis by auto
  next
    case False
    with assms(2) g have "w' = w1"
      by (auto simp: Reconcile_def gbind_run Let_def split: sum.splits if_splits)
    with w1 show ?thesis by auto
  qed
qed

theorem Reconcile_calls_bounded_witness:
  "\<exists>r c' w'. Reconcile simX sampleReq zeroController (simWorld sampleCluster) = (Ret (r, c'), w') \<and>
     length (wCalls w') \<le> 25"
proof -
  let ?run = "Reconcile simX sampleReq zeroController (simWorld sampleCluster)"
  let ?n = "\<lambda>c'. \<Sum>i<length (ctlControlFuncs c').
      2 + (\<Sum>f\<leftarrow>ctlControlFuncs c' ! i. case f of
         CtlDaemonSet \<Rightarrow> 3 * length (sliceOf (resDaemonsets (ctlResources c' ! i)))
       | CtlRuntimeClass \<Rightarrow> 2)"
  have "(case fst ?run of Ret (_, c') \<Rightarrow> (length (ctlControlFuncs c'), map (stateCalls c') [0, 1, 2]) | Panic _ \<Rightarrow> (0, [])) = (3, [5, 3, 3])"
    by code_simp
  then obtain r c' w' where run: "?run = (Ret (r, c'), w')" and len: "length (ctlControlFuncs c') = 3"
    and calls: "stateCalls c' 0 = 5" "stateCalls c' 1 = 3" "stateCalls c' 2 = 3"
    by (cases ?run) (auto split: outcome.splits prod.splits)
  have "?n c' = (\<Sum>i<3. 2 + stateCalls c' i)"
    by (simp only: len stateCalls_def controlCalls_def [abs_def])
  also have "\<dots> = 17" using calls by (simp add: eval_nat_numeral lessThan_Suc)
  finally have "?n c' = 17" .
  with Reconcile_calls_bounded [OF ctl_wf_zero run] run show ?thesis
    by (auto simp: simWorld_def)
qed

end
