(* ===== verification/ApiRegistration.thy ===== *)
theory ApiRegistration
  imports ApiClient
begin

section \<open>The API group: \<open>api/v1/groupversion_info.go\<close> and its \<open>init\<close>\<close>

text \<open>
  What happens when the package \<open>api/v1\<close> is initialised, before \<open>main\<close> runs: its variables get
  their values in the order of their dependencies, then \<open>init\<close> of \<open>clusterpolicy_types.go\<close> registers
  the types. \<open>AddToScheme\<close> is a method value: it keeps the pointer \<open>SchemeBuilder\<close> it was taken of,
  so that what is registered later is added too.
\<close>

definition GroupVersion_v1 :: GroupVersion where
  "GroupVersion_v1 = \<lparr>gvGroup = ''policy.xilinx.com'', gvVersion = ''v1''\<rparr>"

text \<open>The variables of the package.\<close>

record 'e v1Package =
  v1GroupVersion :: GroupVersion
  v1SchemeBuilder :: nat
  v1AddToScheme :: "nat \<Rightarrow> ('e world, goerr option) go"

definition v1Variables :: "'e externals \<Rightarrow> ('e world, 'e v1Package) go" where
  "v1Variables X =
     gbind (newSchemeBuilder X GroupVersion_v1) (\<lambda>b.
     gret \<lparr>v1GroupVersion = GroupVersion_v1, v1SchemeBuilder = b, v1AddToScheme = builderAddToScheme X b\<rparr>)"

definition v1Init :: "'e externals \<Rightarrow> 'e v1Package \<Rightarrow> ('e world, unit) go" where
  "v1Init X v1 = builderRegister X (v1SchemeBuilder v1) [ObjClusterPolicy, ObjClusterPolicyList]"

definition initV1 :: "'e externals \<Rightarrow> ('e world, 'e v1Package) go" where
  "initV1 X = gbind (v1Variables X) (\<lambda>v1. gbind (v1Init X v1) (\<lambda>_. gret v1))"

end
