(* ===== verification/MainProgram.thy ===== *)
theory MainProgram
  imports Reconciler ApiRegistration
begin

section \<open>The process: \<open>main.go\<close>\<close>

text \<open>
  The log formatter, the scheme the package sets up when it is initialised, the command line and
  the start of the manager. The flags that imported packages have registered before \<open>main\<close> are the
  parameter \<open>xFlags\<close>; their variables are part of the environment.
\<close>

subsection \<open>The log formatter\<close>

definition timestampFormat :: string where
  "timestampFormat = ''2006-01-02 15:04:05''"

definition logFormat :: string where
  "logFormat = ''[%lvl%]: %time% - %msg%''"

text \<open>
  A log entry: its time already rendered with \<open>timestampFormat\<close>, its data as rendered key-value
  pairs in the order the map is visited.
\<close>

record Entry =
  entryTime :: string
  entryMessage :: string
  entryLevel :: string
  entryData :: "(string \<times> string) list"

definition Format :: "Entry \<Rightarrow> string" where
  "Format entry =
    (let output = logFormat;
         output = replaceFirst ''%time%'' (entryTime entry) output;
         output = replaceFirst ''%msg%'' (entryMessage entry) output;
         level = toUpper (entryLevel entry);
         output = replaceFirst ''%lvl%'' level output;
         output = fold (\<lambda>(k, val) output. output @ sprintf '' %s:%v;'' [k, val]) (entryData entry) output
     in output @ [CHR 0x0A])"

subsection \<open>The scheme\<close>

text \<open>\<open>utilruntime.Must\<close> panics on an error.\<close>

definition must :: "goerr option \<Rightarrow> unit outcome" where
  "must err = (case err of None \<Rightarrow> Ret () | Some e \<Rightarrow> Panic (ErrorText e))"

text \<open>The variable \<open>scheme\<close> and \<open>init\<close> of the package; the imported packages are initialised before.\<close>

definition initMain :: "'e externals \<Rightarrow> 'e v1Package \<Rightarrow> ('e world, nat) go" where
  "initMain X policyv1 =
     gbind (newScheme X) (\<lambda>scheme.
     gbind (addClientgo X scheme) (\<lambda>err.
     gbind (glift (must err)) (\<lambda>_.
     gbind (v1AddToScheme policyv1 scheme) (\<lambda>err.
     gbind (glift (must err)) (\<lambda>_.
     gret scheme)))))"

definition initPackages :: "'e externals \<Rightarrow> ('e world, nat) go" where
  "initPackages X = gbind (initV1 X) (initMain X)"

subsection \<open>The command line\<close>

record Flags =
  flagMetricsAddr :: string
  flagProbeAddr :: string
  flagEnableLeaderElection :: bool

text \<open>The local variables of \<open>main\<close> before the flags are declared.\<close>

definition zeroFlags :: Flags where
  "zeroFlags = \<lparr>flagMetricsAddr = [], flagProbeAddr = [], flagEnableLeaderElection = False\<rparr>"

text \<open>A flag of an imported package writes to the environment.\<close>

definition libraryFlag :: "'e Flag \<Rightarrow> (Flags \<times> 'e) Flag" where
  "libraryFlag fl = \<lparr>flagIsBool = flagIsBool fl,
     flagSet = (\<lambda>s (f, e). case flagSet fl s e of (ok, e) \<Rightarrow> (ok, (f, e)))\<rparr>"

definition declareFlags ::
    "'e FlagSet \<Rightarrow> Flags \<times> 'e \<Rightarrow> ((Flags \<times> 'e) FlagSet \<times> (Flags \<times> 'e)) outcome" where
  "declareFlags lib vars =
     obind (stringVar (\<lambda>s (f, e). (f\<lparr>flagMetricsAddr := s\<rparr>, e))
       ''metrics-bind-address'' '':8080'' (map (\<lambda>(n, fl). (n, libraryFlag fl)) lib, vars)) (\<lambda>st.
     obind (stringVar (\<lambda>s (f, e). (f\<lparr>flagProbeAddr := s\<rparr>, e))
       ''health-probe-bind-address'' '':8081'' st) (\<lambda>st.
     boolVar (\<lambda>b (f, e). (f\<lparr>flagEnableLeaderElection := b\<rparr>, e)) ''leader-elect'' False st))"

text \<open>The declarations and \<open>flag.Parse\<close> on the arguments of the process.\<close>

definition parseCommandLine ::
    "'e externals \<Rightarrow> string list \<Rightarrow> ('e world, flagError option \<times> Flags) go" where
  "parseCommandLine X args = (\<lambda>w.
     case declareFlags (xFlags X) (zeroFlags, wEnv w) of
       Panic p \<Rightarrow> (Panic p, w)
     | Ret (f, vars) \<Rightarrow>
       (case parseFlags f args vars of
          (err, (flags, e)) \<Rightarrow> (Ret (err, flags), w\<lparr>wEnv := e\<rparr>)))"

text \<open>How the global flag set ends the process: \<open>-help\<close> is not an error.\<close>

definition flagExit :: "flagError \<Rightarrow> nat" where
  "flagExit err = (if err = FlagHelp then 0 else 2)"

subsection \<open>Starting the manager\<close>

definition managerOptions :: "nat \<Rightarrow> Flags \<Rightarrow> ManagerOptions" where
  "managerOptions scheme f =
     \<lparr>optScheme = scheme, optMetricsBindAddress = flagMetricsAddr f, optPort = 9443,
      optHealthProbeBindAddress = flagProbeAddr f,
      optLeaderElection = flagEnableLeaderElection f,
      optLeaderElectionID = ''ed56589e.xilinx.com''\<rparr>"

text \<open>
  The rest of \<open>main\<close>, and the exit code of the process: \<open>os.Exit(1)\<close> at the first error, 0 when
  \<open>Start\<close> returns.
\<close>

definition runManager :: "'e externals \<Rightarrow> nat \<Rightarrow> Flags \<Rightarrow> ('e world, nat) go" where
  "runManager X scheme flags =
     gbind (gask (xHaveConfig X)) (\<lambda>ok.
     if \<not> ok then gret 1
     else
       gbind (newManager X (managerOptions scheme flags)) (\<lambda>err.
       if err \<noteq> None then gret 1
       else
         gbind (SetupWithManager X) (\<lambda>err.
         if err \<noteq> None then gret 1
         else
           gbind (addHealthzCheck X ''healthz'') (\<lambda>err.
           if err \<noteq> None then gret 1
           else
             gbind (addReadyzCheck X ''readyz'') (\<lambda>err.
             if err \<noteq> None then gret 1
             else
               gbind (startManager X) (\<lambda>err.
               if err \<noteq> None then gret 1 else gret 0))))))"

definition main :: "'e externals \<Rightarrow> nat \<Rightarrow> string list \<Rightarrow> ('e world, nat) go" where
  "main X scheme args =
     gbind (parseCommandLine X args) (\<lambda>(err, flags).
     case err of
       Some err \<Rightarrow> gret (flagExit err)
     | None \<Rightarrow> runManager X scheme flags)"

text \<open>The process: the packages are initialised, then \<open>main\<close> runs.\<close>

definition process :: "'e externals \<Rightarrow> string list \<Rightarrow> ('e world, nat) go" where
  "process X args = gbind (initPackages X) (\<lambda>scheme. main X scheme args)"

end
