(* ===== verification/CommandLineSpec.thy ===== *)
theory CommandLineSpec
  imports MainProgram ClusterSim
begin

section \<open>What the command line means\<close>

text \<open>
  The values the manager is given, as a function of the settings the command line spells, and the
  way back: the arguments the deployment writes for given values.
\<close>

definition ownFlags :: "string set" where
  "ownFlags = {''metrics-bind-address'', ''health-probe-bind-address'', ''leader-elect''}"

definition freshFlags :: "'e externals \<Rightarrow> bool" where
  "freshFlags X \<longleftrightarrow> ownFlags \<inter> fst ` set (xFlags X) = {}"

text \<open>The flags there are, and which of them are boolean.\<close>

definition commandKinds :: "'e externals \<Rightarrow> string \<Rightarrow> bool option" where
  "commandKinds X = (flagKinds (xFlags X))(''metrics-bind-address'' \<mapsto> False,
     ''health-probe-bind-address'' \<mapsto> False, ''leader-elect'' \<mapsto> True)"

text \<open>The last setting of a flag counts.\<close>

definition lastValue :: "string \<Rightarrow> (string \<times> string) list \<Rightarrow> string \<Rightarrow> string" where
  "lastValue n ss dflt = (case map_of (rev ss) n of None \<Rightarrow> dflt | Some x \<Rightarrow> x)"

definition flagsOf :: "(string \<times> string) list \<Rightarrow> Flags" where
  "flagsOf ss = \<lparr>flagMetricsAddr = lastValue ''metrics-bind-address'' ss '':8080'',
     flagProbeAddr = lastValue ''health-probe-bind-address'' ss '':8081'',
     flagEnableLeaderElection = (parseBool (lastValue ''leader-elect'' ss ''false'') = Some True)\<rparr>"

text \<open>The settings of the flags that imported packages have registered.\<close>

definition librarySettings :: "(string \<times> string) list \<Rightarrow> (string \<times> string) list" where
  "librarySettings ss = filter (\<lambda>(n, x). n \<notin> ownFlags) ss"

definition booleansOk :: "(string \<times> string) list \<Rightarrow> bool" where
  "booleansOk ss \<longleftrightarrow> (\<forall>(n, x) \<in> set ss. n = ''leader-elect'' \<longrightarrow> parseBool x \<noteq> None)"

subsection \<open>The flag set of the process\<close>

definition metricsFlag :: "(Flags \<times> 'e) Flag" where
  "metricsFlag = \<lparr>flagIsBool = False, flagSet = (\<lambda>s v. (True, case v of (f, e) \<Rightarrow> (f\<lparr>flagMetricsAddr := s\<rparr>, e)))\<rparr>"

definition probeFlag :: "(Flags \<times> 'e) Flag" where
  "probeFlag = \<lparr>flagIsBool = False, flagSet = (\<lambda>s v. (True, case v of (f, e) \<Rightarrow> (f\<lparr>flagProbeAddr := s\<rparr>, e)))\<rparr>"

definition leaderFlag :: "(Flags \<times> 'e) Flag" where
  "leaderFlag = \<lparr>flagIsBool = True, flagSet = (\<lambda>s v. (parseBool s \<noteq> None,
     case v of (f, e) \<Rightarrow> (f\<lparr>flagEnableLeaderElection := (parseBool s = Some True)\<rparr>, e)))\<rparr>"

definition commandFlags :: "'e externals \<Rightarrow> (Flags \<times> 'e) FlagSet" where
  "commandFlags X = (''leader-elect'', leaderFlag) # (''health-probe-bind-address'', probeFlag) #
     (''metrics-bind-address'', metricsFlag) # map (\<lambda>(n, fl). (n, libraryFlag fl)) (xFlags X)"

lemma map_of_libraryFlags:
  "map_of (map (\<lambda>(n, fl). (n, libraryFlag fl)) lib) n = map_option libraryFlag (map_of lib n)"
  by (induction lib) auto

lemma freshFlags_iff: "freshFlags X \<longleftrightarrow> map_of (xFlags X) ''metrics-bind-address'' = None \<and>
    map_of (xFlags X) ''health-probe-bind-address'' = None \<and> map_of (xFlags X) ''leader-elect'' = None"
  by (simp only: freshFlags_def ownFlags_def map_of_eq_None_iff insert_disjoint Int_empty_left simp_thms)

lemma declareFlags_Ret:
  "freshFlags X \<Longrightarrow> declareFlags (xFlags X) (zeroFlags, e) = Ret (commandFlags X, flagsOf [], e)"
  by (simp add: freshFlags_iff declareFlags_def stringVar_def boolVar_def addFlag_def commandFlags_def
      metricsFlag_def probeFlag_def leaderFlag_def map_of_libraryFlags zeroFlags_def flagsOf_def
      lastValue_def parseBool_def)

lemma declareFlags_returns_iff: "returns (declareFlags (xFlags X) v) \<longleftrightarrow> freshFlags X"
  by (cases v) (simp add: freshFlags_iff declareFlags_def stringVar_def boolVar_def addFlag_def map_of_libraryFlags)

lemma libraryFlags_kinds: "flagKinds (map (\<lambda>(n, fl). (n, libraryFlag fl)) lib) = flagKinds lib"
  by (rule ext) (simp add: flagKinds_def map_of_libraryFlags option.map_comp comp_def, simp add: libraryFlag_def)

lemma commandKinds_flags: "commandKinds X = flagKinds (commandFlags X)"
proof
  fix n
  show "commandKinds X n = flagKinds (commandFlags X) n"
    using fun_cong [OF libraryFlags_kinds [of "xFlags X"], of n]
    by (simp add: commandKinds_def commandFlags_def leaderFlag_def probeFlag_def metricsFlag_def flagKinds_def)
qed

text \<open>One setting after the other, on top of what earlier ones made.\<close>

definition withSettings :: "(string \<times> string) list \<Rightarrow> Flags \<Rightarrow> Flags" where
  "withSettings ss f = \<lparr>flagMetricsAddr = lastValue ''metrics-bind-address'' ss (flagMetricsAddr f),
     flagProbeAddr = lastValue ''health-probe-bind-address'' ss (flagProbeAddr f),
     flagEnableLeaderElection = (case map_of (rev ss) ''leader-elect'' of None \<Rightarrow> flagEnableLeaderElection f
       | Some x \<Rightarrow> parseBool x = Some True)\<rparr>"

lemma withSettings_default: "withSettings ss (flagsOf []) = flagsOf ss"
  by (simp add: withSettings_def flagsOf_def lastValue_def parseBool_def split: option.split)

lemma lastValue_Cons: "lastValue k ((n, x) # ss) dflt = lastValue k ss (if n = k then x else dflt)"
  by (simp add: lastValue_def map_add_def split: option.split)

lemma withSettings_Cons:
  "withSettings ((''metrics-bind-address'', x) # ss) f = withSettings ss (f\<lparr>flagMetricsAddr := x\<rparr>)"
  "withSettings ((''health-probe-bind-address'', x) # ss) f = withSettings ss (f\<lparr>flagProbeAddr := x\<rparr>)"
  "withSettings ((''leader-elect'', x) # ss) f = withSettings ss (f\<lparr>flagEnableLeaderElection := (parseBool x = Some True)\<rparr>)"
  "n \<notin> ownFlags \<Longrightarrow> withSettings ((n, x) # ss) f = withSettings ss f"
  by (auto simp: withSettings_def lastValue_Cons ownFlags_def map_add_def split: option.split)

lemma commandFlags_own:
  "map_of (commandFlags X) ''metrics-bind-address'' = Some metricsFlag"
  "map_of (commandFlags X) ''health-probe-bind-address'' = Some probeFlag"
  "map_of (commandFlags X) ''leader-elect'' = Some leaderFlag"
  by (simp_all add: commandFlags_def)

lemma commandFlags_library:
  "n \<notin> ownFlags \<Longrightarrow> map_of (commandFlags X) n = map_option libraryFlag (map_of (xFlags X) n)"
  by (auto simp: commandFlags_def map_of_libraryFlags ownFlags_def)

lemma set_own:
  "flagSet metricsFlag x (f, e) = (True, (f\<lparr>flagMetricsAddr := x\<rparr>, e))"
  "flagSet probeFlag x (f, e) = (True, (f\<lparr>flagProbeAddr := x\<rparr>, e))"
  "flagSet leaderFlag x (f, e) = (parseBool x \<noteq> None, (f\<lparr>flagEnableLeaderElection := (parseBool x = Some True)\<rparr>, e))"
  by (simp_all add: metricsFlag_def probeFlag_def leaderFlag_def)

lemma settings_Cons:
  "librarySettings ((n, x) # ss) = (if n \<in> ownFlags then librarySettings ss else (n, x) # librarySettings ss)"
  "booleansOk ((n, x) # ss) \<longleftrightarrow> (n = ''leader-elect'' \<longrightarrow> parseBool x \<noteq> None) \<and> booleansOk ss"
  by (simp_all add: librarySettings_def booleansOk_def)

lemma applySettings_command:
  "applySettings (commandFlags X) ss (f, e) = Some (f', e') \<longleftrightarrow>
     applySettings (xFlags X) (librarySettings ss) e = Some e' \<and> booleansOk ss \<and> f' = withSettings ss f"
proof (induction ss arbitrary: f e)
  case Nil
  show ?case by (auto simp: librarySettings_def booleansOk_def withSettings_def lastValue_def)
next
  case (Cons s ss)
  obtain n x where s: "s = (n, x)" by (cases s)
  consider "n = ''metrics-bind-address''" | "n = ''health-probe-bind-address''" | "n = ''leader-elect''"
    | "n \<notin> ownFlags" by (auto simp: ownFlags_def)
  then show ?case
  proof cases
    case 3
    then show ?thesis
      by (cases "parseBool x") (simp_all add: s commandFlags_own set_own settings_Cons withSettings_Cons Cons.IH ownFlags_def)
  next
    case 4
    then have "n \<noteq> ''leader-elect''" by (auto simp: ownFlags_def)
    with 4 show ?thesis
      by (auto simp: s commandFlags_library settings_Cons withSettings_Cons libraryFlag_def Cons.IH
          split: option.split prod.split bool.split)
  qed (simp_all add: s commandFlags_own set_own settings_Cons withSettings_Cons Cons.IH ownFlags_def)
qed

subsection \<open>The properties\<close>

lemma parseCommandLine_iff:
  assumes "freshFlags X"
  shows "parseCommandLine X args w = (Ret (None, flags), w') \<longleftrightarrow>
    (\<exists>ss e. spelled (commandKinds X) args ss \<and> booleansOk ss \<and> flags = flagsOf ss \<and>
       applySettings (xFlags X) (librarySettings ss) (wEnv w) = Some e \<and> w' = w\<lparr>wEnv := e\<rparr>)"
proof -
  obtain err f1 e1 where p: "parseFlags (commandFlags X) args (flagsOf [], wEnv w) = (err, (f1, e1))"
    by (metis prod.exhaust)
  have run: "parseCommandLine X args w = (Ret (err, f1), w\<lparr>wEnv := e1\<rparr>)"
    by (simp add: parseCommandLine_def declareFlags_Ret [OF assms] p)
  have "err = None \<and> f1 = flags \<and> e1 = e \<longleftrightarrow> parseFlags (commandFlags X) args (flagsOf [], wEnv w) = (None, (flags, e))" for e
    by (simp add: p)
  then have "err = None \<and> f1 = flags \<and> e1 = e \<longleftrightarrow> (\<exists>ss. spelled (commandKinds X) args ss \<and> booleansOk ss \<and> flags = flagsOf ss \<and>
       applySettings (xFlags X) (librarySettings ss) (wEnv w) = Some e)" for e
    unfolding parseFlags_iff applySettings_command withSettings_default commandKinds_flags by blast
  moreover have "parseCommandLine X args w = (Ret (None, flags), w') \<longleftrightarrow>
      (\<exists>e. (err = None \<and> f1 = flags \<and> e1 = e) \<and> w' = w\<lparr>wEnv := e\<rparr>)"
    by (auto simp: run)
  ultimately show ?thesis by simp blast
qed

text \<open>
  C18: The command line is accepted exactly if it spells, in the grammar given as an inductive
  relation, settings whose values are all accepted, and then the manager gets the last setting
  of each flag of the operator, or its default, and the settings of the flags of the libraries
  go to the libraries in order. The libraries are assumed not to use the three names of the
  operator.
\<close>

theorem commandLine_meaning:
  assumes "freshFlags X"
  shows "parseCommandLine X args w = (Ret (None, flags), w') \<longleftrightarrow>
    (\<exists>ss e. spelled (commandKinds X) args ss \<and> booleansOk ss \<and> flags = flagsOf ss \<and>
       applySettings (xFlags X) (librarySettings ss) (wEnv w) = Some e \<and> w' = w\<lparr>wEnv := e\<rparr>)"
  by (rule parseCommandLine_iff [OF assms])

text \<open>The one flag of controller-runtime, \<open>kubeconfig\<close>.\<close>

lemma simX_fresh: "freshFlags simX"
  by (simp add: freshFlags_def simX_def ownFlags_def)

theorem commandLine_meaning_witness:
  "parseCommandLine simX [''-kubeconfig'', ''/root/config'', ''--leader-elect'', ''-metrics-bind-address=:9090'',
       ''--leader-elect=F'', ''extra'', ''-h''] (simWorld emptySim) =
     (Ret (None, \<lparr>flagMetricsAddr = '':9090'', flagProbeAddr = '':8081'', flagEnableLeaderElection = False\<rparr>),
      simWorld (emptySim\<lparr>simKubeconfig := ''/root/config''\<rparr>))"
proof -
  let ?ss = "[(''kubeconfig'', ''/root/config''), (''leader-elect'', ''true''), (''metrics-bind-address'', '':9090''),
    (''leader-elect'', ''F'')]"
  have k: "commandKinds simX ''kubeconfig'' = Some False" "commandKinds simX ''leader-elect'' = Some True"
    "commandKinds simX ''metrics-bind-address'' = Some False" "commandKinds simX ''leader-elect'' \<noteq> None"
    "commandKinds simX ''metrics-bind-address'' \<noteq> None"
    by (simp_all add: commandKinds_def flagKinds_def simX_def)
  have n: "flagName ''kubeconfig''" "flagName ''leader-elect''" "flagName ''metrics-bind-address''"
    by (simp_all add: flagName_def)
  have d: "''-'' \<in> dashes" "''--'' \<in> dashes" by (simp_all add: dashes_def)
  have "spelled (commandKinds simX) [''extra'', ''-h''] []" by (rule spelled.end_of_flags) simp
  from spelled.value_next [OF k(1) n(1) d(1) spelled.alone [OF k(2) n(2) d(2)
      spelled.with_value [OF k(5) n(3) d(1) spelled.with_value [OF k(4) n(2) d(2) this, of "''F''"], of "'':9090''"]],
    of "''/root/config''"]
  have sp: "spelled (commandKinds simX) [''-kubeconfig'', ''/root/config'', ''--leader-elect'',
      ''-metrics-bind-address=:9090'', ''--leader-elect=F'', ''extra'', ''-h''] ?ss"
    by simp
  have "flagsOf ?ss = \<lparr>flagMetricsAddr = '':9090'', flagProbeAddr = '':8081'', flagEnableLeaderElection = False\<rparr>"
    by (simp add: flagsOf_def lastValue_def parseBool_def)
  moreover have "booleansOk ?ss" by code_simp
  moreover have "applySettings (xFlags simX) (librarySettings ?ss) (wEnv (simWorld emptySim)) =
      Some (emptySim\<lparr>simKubeconfig := ''/root/config''\<rparr>)"
    by (simp add: librarySettings_def ownFlags_def simX_def simWorld_def)
  ultimately show ?thesis
    using sp by (intro commandLine_meaning [OF simX_fresh, THEN iffD2] exI conjI) (simp_all add: simWorld_def)
qed

text \<open>
  The arguments the deployment gives the process (\<open>config/default/manager_auth_proxy_patch.yaml\<close>).
\<close>

definition renderFlags :: "Flags \<Rightarrow> string list" where
  "renderFlags f = [''--health-probe-bind-address='' @ flagProbeAddr f, ''--metrics-bind-address='' @ flagMetricsAddr f] @
     (if flagEnableLeaderElection f then [''--leader-elect''] else [])"

lemma spelled_render: "spelled (commandKinds X) (renderFlags f)
  ((''health-probe-bind-address'', flagProbeAddr f) # (''metrics-bind-address'', flagMetricsAddr f) #
     (if flagEnableLeaderElection f then [(''leader-elect'', ''true'')] else []))"
proof -
  have n: "flagName ''health-probe-bind-address''" "flagName ''metrics-bind-address''" "flagName ''leader-elect''"
    by (simp_all add: flagName_def)
  have d: "''--'' \<in> dashes" by (simp add: dashes_def)
  have "spelled (commandKinds X) (if flagEnableLeaderElection f then [''--leader-elect''] else [])
      (if flagEnableLeaderElection f then [(''leader-elect'', ''true'')] else [])"
    using spelled.alone [OF _ n(3) d spelled.end_of_args, of "commandKinds X"] 
    by (simp add: spelled.end_of_args commandKinds_def)
  from spelled.with_value [OF _ n(2) d this, of "flagMetricsAddr f"]
  have "spelled (commandKinds X) ((''--metrics-bind-address='' @ flagMetricsAddr f) # (if flagEnableLeaderElection f then [''--leader-elect''] else []))
      ((''metrics-bind-address'', flagMetricsAddr f) # (if flagEnableLeaderElection f then [(''leader-elect'', ''true'')] else []))"
    by (simp add: commandKinds_def)
  from spelled.with_value [OF _ n(1) d this, of "flagProbeAddr f"]
  show ?thesis by (simp add: commandKinds_def renderFlags_def)
qed

text \<open>
  C38: The arguments the deployment writes for given addresses and leader election are parsed
  back to exactly these values, whatever the strings in them, and touch no flag of a library.
\<close>

theorem commandLine_roundtrip:
  assumes "freshFlags X"
  shows "parseCommandLine X (renderFlags f) w = (Ret (None, f), w)"
  unfolding parseCommandLine_iff [OF assms]
  by (rule exI, rule exI [of _ "wEnv w"], intro conjI, rule spelled_render)
    (auto simp: booleansOk_def flagsOf_def lastValue_def parseBool_def librarySettings_def ownFlags_def)

theorem commandLine_roundtrip_witness:
  "parseCommandLine simX [''--health-probe-bind-address=:8081'', ''--metrics-bind-address=127.0.0.1:8080'', ''--leader-elect'']
     (simWorld emptySim) =
   (Ret (None, \<lparr>flagMetricsAddr = ''127.0.0.1:8080'', flagProbeAddr = '':8081'', flagEnableLeaderElection = True\<rparr>),
    simWorld emptySim)"
  using commandLine_roundtrip [OF simX_fresh, of "\<lparr>flagMetricsAddr = ''127.0.0.1:8080'', flagProbeAddr = '':8081'',
    flagEnableLeaderElection = True\<rparr>" "simWorld emptySim"]
  by (simp add: renderFlags_def)

end
