(* ===== verification/ProcessSpec.thy ===== *)
theory ProcessSpec
  imports CommandLineSpec
begin

section \<open>What the process does\<close>

text \<open>
  The log line the formatter writes, what the scheme knows when \<open>main\<close> starts, and the order in
  which the process sets the manager up: every call is made only after those before it succeeded,
  and the exit code tells whether all did.
\<close>

lemma replaceFirst_append:
  assumes "c \<notin> set pre"
  shows "replaceFirst (c # old) new (pre @ s) = pre @ replaceFirst (c # old) new s"
  using assms by (induction pre) auto

lemma replaceFirst_here: "old \<noteq> [] \<Longrightarrow> replaceFirst old new (old @ s) = new @ s"
  by (cases old) simp_all

lemma fold_append_data:
  "fold (\<lambda>(k, v) out. out @ sprintf '' %s:%v;'' [k, v]) kvs out =
     out @ concat (map (\<lambda>(k, v). '' '' @ k @ '':'' @ v @ '';'') kvs)"
  by (induction kvs arbitrary: out) (auto split: prod.split)

text \<open>
  The log line has the level in upper case, the time, the message and the key-value pairs
  in their places whatever the message contains, placeholders of the format included; the time
  must not contain a percent sign.
\<close>

theorem Format_result:
  assumes "CHR ''%'' \<notin> set (entryTime e)"
  shows "Format e = ''['' @ toUpper (entryLevel e) @ '']: '' @ entryTime e @ '' - '' @ entryMessage e @
    concat (map (\<lambda>(k, v). '' '' @ k @ '':'' @ v @ '';'') (entryData e)) @ [CHR 0x0A]"
proof -
  let ?t = "entryTime e" and ?m = "entryMessage e"
  have 1: "replaceFirst ''%time%'' ?t logFormat = ''[%lvl%]: '' @ ?t @ '' - %msg%''"
    by (simp add: logFormat_def)
  have 2: "replaceFirst ''%msg%'' ?m (''[%lvl%]: '' @ ?t @ '' - %msg%'') = ''[%lvl%]: '' @ ?t @ '' - '' @ ?m"
    by (simp add: replaceFirst_append assms)
  have 3: "replaceFirst ''%lvl%'' l (''[%lvl%]: '' @ s) = ''['' @ l @ '']: '' @ s" for l s
    by simp
  show ?thesis
    unfolding Format_def Let_def 1 2 3 fold_append_data by simp
qed

theorem Format_result_witness:
  "Format \<lparr>entryTime = ''2023-05-04 10:00:00'', entryMessage = ''100%msg%'', entryLevel = ''info'',
     entryData = [(''state'', ''ready'')]\<rparr> = ''[INFO]: 2023-05-04 10:00:00 - 100%msg% state:ready;'' @ [CHR 0x0A]"
proof -
  have u: "toUpper ''info'' = ''INFO''" by code_simp
  show ?thesis by (subst Format_result) (simp_all add: u)
qed

text \<open>Calls made in order up to the first that fails; the result tells whether none did.\<close>

fun runAll :: "('w, goerr option) go list \<Rightarrow> ('w, bool) go" where
  "runAll [] = gret True"
| "runAll (c # cs) = gbind c (\<lambda>err. if err \<noteq> None then gret False else runAll cs)"

definition setupCalls :: "'e externals \<Rightarrow> nat \<Rightarrow> Flags \<Rightarrow> ('e world, goerr option) go list" where
  "setupCalls X scheme flags =
    [newManager X (managerOptions scheme flags),
     newController X ''clusterpolicy-controller''
       \<lparr>optMaxConcurrentReconciles = 1, optBaseDelay = 100, optMaxDelay = 30000\<rparr>,
     watchKind X WatchClusterPolicy, watchKind X (WatchOwnedDaemonSet True),
     addHealthzCheck X ''healthz'', addReadyzCheck X ''readyz'', startManager X]"

definition setupEvents :: "nat \<Rightarrow> Flags \<Rightarrow> event list" where
  "setupEvents scheme flags =
    [EvNewManager (managerOptions scheme flags),
     EvNewController ''clusterpolicy-controller''
       \<lparr>optMaxConcurrentReconciles = 1, optBaseDelay = 100, optMaxDelay = 30000\<rparr>,
     EvWatch WatchClusterPolicy, EvWatch (WatchOwnedDaemonSet True),
     EvAddHealthzCheck ''healthz'', EvAddReadyzCheck ''readyz'', EvStart]"

lemma gbind_cong: "(\<And>a. k a = h a) \<Longrightarrow> gbind m k = gbind m h"
  by presburger

lemma SetupWithManager_runAll:
  "gbind (SetupWithManager X) k =
    gbind (newController X ''clusterpolicy-controller''
       \<lparr>optMaxConcurrentReconciles = 1, optBaseDelay = 100, optMaxDelay = 30000\<rparr>) (\<lambda>err.
    if err \<noteq> None then k err
    else gbind (watchKind X WatchClusterPolicy) (\<lambda>err.
    if err \<noteq> None then k err
    else gbind (watchKind X (WatchOwnedDaemonSet True)) (\<lambda>err. if err \<noteq> None then k err else k None)))"
  by (auto simp: SetupWithManager_def gbind_assoc minDelayCR_def maxDelayCR_def intro!: gbind_cong)

lemma runAll_gbind:
  "gbind (runAll []) k = k True"
  "gbind (runAll (c # cs)) k = gbind c (\<lambda>err. if err \<noteq> None then k False else gbind (runAll cs) k)"
proof -
  show "gbind (runAll []) k = k True" by simp
  have "gbind (runAll (c # cs)) k = gbind c (\<lambda>err. gbind (if err \<noteq> None then gret False else runAll cs) k)"
    by (simp only: runAll.simps gbind_assoc)
  also have "\<dots> = gbind c (\<lambda>err. if err \<noteq> None then k False else gbind (runAll cs) k)"
    by (intro gbind_cong) (case_tac a, simp_all)
  finally show "gbind (runAll (c # cs)) k = gbind c (\<lambda>err. if err \<noteq> None then k False else gbind (runAll cs) k)" .
qed

theorem main_runs_setup:
  "runManager X scheme flags =
     gbind (gask (xHaveConfig X)) (\<lambda>ok.
       if ok then gbind (runAll (setupCalls X scheme flags)) (\<lambda>done. gret (if done then 0 else 1)) else gret 1)"
  unfolding runManager_def SetupWithManager_runAll setupCalls_def runAll_gbind
  by (intro gbind_cong) (case_tac a; simp only: if_False if_True simp_thms cong: if_cong)

lemma runAll_events:
  assumes "list_all2 (\<lambda>c ev. \<forall>w. \<exists>e w'. c w = (Ret e, w') \<and> wCalls w' = wCalls w @ [ev]) cs evs"
  shows "\<exists>ok k w'. runAll cs w = (Ret ok, w') \<and> wCalls w' = wCalls w @ take k evs \<and> (\<not> ok \<or> k = length evs)"
  using assms
proof (induction arbitrary: w rule: list_all2_induct)
  case Nil
  show ?case by (intro exI [of _ True] exI [of _ 0] exI [of _ w]) simp
next
  case (Cons c cs ev evs)
  then obtain e w1 where c: "c w = (Ret e, w1)" "wCalls w1 = wCalls w @ [ev]" by blast
  show ?case
  proof (cases e)
    case None
    from Cons.IH [of w1] obtain ok k w' where r: "runAll cs w1 = (Ret ok, w')"
      "wCalls w' = wCalls w1 @ take k evs" "\<not> ok \<or> k = length evs" by blast
    show ?thesis
      by (rule exI [of _ ok], rule exI [of _ "Suc k"], rule exI [of _ w'])
        (use c r None in \<open>simp add: gbind_run\<close>)
  next
    case (Some x)
    show ?thesis
      by (rule exI [of _ False], rule exI [of _ 1], rule exI [of _ w1])
        (use c Some in \<open>simp add: gbind_run\<close>)
  qed
qed

lemma setupCalls_events:
  "list_all2 (\<lambda>c ev. \<forall>w. \<exists>e w'. c w = (Ret e, w') \<and> wCalls w' = wCalls w @ [ev])
     (setupCalls X scheme flags) (setupEvents scheme flags)"
  by (simp add: setupCalls_def setupEvents_def api_defs apiCall_run)

lemma setupEvents_length: "length (setupEvents scheme flags) = 7"
  by (simp add: setupEvents_def)

lemma runManager_events:
  "\<exists>code k w'. runManager X scheme flags w = (Ret code, w') \<and>
     wCalls w' = wCalls w @ take k (setupEvents scheme flags) \<and> (code = 1 \<or> code = 0 \<and> k = 7)"
proof (cases "xHaveConfig X (wEnv w)")
  case True
  from runAll_events [OF setupCalls_events, of X scheme flags w] obtain ok k w' where
    r: "runAll (setupCalls X scheme flags) w = (Ret ok, w')" "wCalls w' = wCalls w @ take k (setupEvents scheme flags)"
    and k: "\<not> ok \<or> k = 7"
    using setupEvents_length by metis
  have "runManager X scheme flags w = (Ret (if ok then 0 else 1), w')"
    unfolding main_runs_setup using True r(1) by (simp add: gbind_run)
  with r k show ?thesis by (cases ok) auto
next
  case False
  have "runManager X scheme flags w = (Ret 1, w)"
    unfolding main_runs_setup using False by (simp add: gbind_run)
  then show ?thesis by (intro exI [of _ 1] exI [of _ 0] exI [of _ w]) simp
qed

lemma main_run:
  "main X scheme args w =
    (case parseCommandLine X args w of
       (Ret (err, flags), w1) \<Rightarrow>
         (case err of Some e \<Rightarrow> (Ret (flagExit e), w1) | None \<Rightarrow> runManager X scheme flags w1)
     | (Panic p, w1) \<Rightarrow> (Panic p, w1))"
  by (auto simp: main_def gbind_run split: prod.split outcome.split option.split)

lemma parseCommandLine_calls: "parseCommandLine X args w = (r, w') \<Longrightarrow> wCalls w' = wCalls w"
  by (auto simp: parseCommandLine_def split: outcome.splits prod.splits)

lemma parseCommandLine_panics: "parseCommandLine X args w = (Panic p, w') \<Longrightarrow> \<not> freshFlags X"
  by (auto simp: parseCommandLine_def declareFlags_Ret split: outcome.splits prod.splits)

text \<open>
  When main ends it has read the command line, and then made a prefix of one fixed sequence of
  set-up calls; a command line that is wrong, or asks for help, ends it before the first.
\<close>

theorem main_history:
  assumes "main X scheme args w = (r, w')"
  shows "case r of
      Ret code \<Rightarrow> \<exists>err flags w1 k. parseCommandLine X args w = (Ret (err, flags), w1) \<and>
        wCalls w' = wCalls w @ take k (setupEvents scheme flags) \<and>
        (case err of Some e \<Rightarrow> k = 0 \<and> code = flagExit e | None \<Rightarrow> code = 0 \<and> k = 7 \<or> code = 1)
    | Panic _ \<Rightarrow> \<not> freshFlags X \<and> wCalls w' = wCalls w"
proof -
  obtain r1 w1 where p: "parseCommandLine X args w = (r1, w1)" by fastforce
  note c = parseCommandLine_calls [OF p]
  show ?thesis
  proof (cases r1)
    case (Panic q)
    with assms p c parseCommandLine_panics [OF p [unfolded Panic]] show ?thesis by (auto simp: main_run)
  next
    case (Ret a)
    obtain err flags where a: "a = (err, flags)" by fastforce
    have p1: "parseCommandLine X args w = (Ret (err, flags), w1)" using p Ret a by simp
    show ?thesis
    proof (cases err)
      case None
      from runManager_events [of X scheme flags w1] obtain code k w2 where
        "runManager X scheme flags w1 = (Ret code, w2)"
        "wCalls w2 = wCalls w1 @ take k (setupEvents scheme flags)" "code = 1 \<or> code = 0 \<and> k = 7" by blast
      with assms p1 c None have r: "r = Ret code" and "wCalls w' = wCalls w @ take k (setupEvents scheme flags)"
        and "code = 0 \<and> k = 7 \<or> code = 1" by (auto simp: main_run)
      with p1 None show ?thesis
        by (simp only: r outcome.case) (intro exI [of _ None] exI [of _ flags] exI [of _ w1] exI [of _ k], simp)
    next
      case (Some e)
      with assms p1 c have "r = Ret (flagExit e)" "wCalls w' = wCalls w" by (auto simp: main_run)
      with p1 Some show ?thesis
        by (auto intro!: exI [of _ "0 :: nat"])
    qed
  qed
qed

subsection \<open>The scheme\<close>

text \<open>
  What the scheme library promises, with what a builder has collected and what a scheme knows read
  off the environment by \<open>V\<close>: a new builder has its group version and no types, \<open>Register\<close> adds
  types to it, and \<open>AddToScheme\<close> without an error makes the scheme know the kinds of all types the
  builder has at that moment, besides those it knew.
\<close>

record 'e schemeView =
  svBuilder :: "'e \<Rightarrow> nat \<Rightarrow> GroupVersion \<times> apiObject list"
  svKnows :: "'e \<Rightarrow> nat \<Rightarrow> (GroupVersion \<times> string) set"
  svClientgo :: "(GroupVersion \<times> string) set"

definition schemeLaws :: "'e externals \<Rightarrow> 'e schemeView \<Rightarrow> bool" where
  "schemeLaws X V \<longleftrightarrow>
    (\<forall>gv e b e'. xNewSchemeBuilder X gv e = (b, e') \<longrightarrow> svBuilder V e' b = (gv, [])) \<and>
    (\<forall>b objs e e'. xRegister X b objs e = ((), e') \<longrightarrow>
       svBuilder V e' b = (fst (svBuilder V e b), snd (svBuilder V e b) @ objs)) \<and>
    (\<forall>e s e'. xNewScheme X e = (s, e') \<longrightarrow> svBuilder V e' = svBuilder V e) \<and>
    (\<forall>s e e'. xAddClientgo X s e = (None, e') \<longrightarrow>
       svBuilder V e' = svBuilder V e \<and> svClientgo V \<subseteq> svKnows V e' s) \<and>
    (\<forall>b s e e'. xAddToScheme X b s e = (None, e') \<longrightarrow>
       svKnows V e s \<union> (\<lambda>obj. (fst (svBuilder V e b), kindOf obj)) ` set (snd (svBuilder V e b)) \<subseteq> svKnows V e' s)"

text \<open>How the initialisation of the packages goes.\<close>

definition initEvents :: "nat \<Rightarrow> nat \<Rightarrow> event list" where
  "initEvents b s = [EvNewSchemeBuilder GroupVersion_v1, EvRegister b [ObjClusterPolicy, ObjClusterPolicyList],
     EvNewScheme, EvAddClientgo s None, EvAddToScheme b s None]"

lemma initPackages_run:
  assumes "xNewSchemeBuilder X GroupVersion_v1 (wEnv w) = (b, e1)"
    and "xRegister X b [ObjClusterPolicy, ObjClusterPolicyList] e1 = ((), e2)"
    and "xNewScheme X e2 = (s, e3)" and "xAddClientgo X s e3 = (err1, e4)" and "xAddToScheme X b s e4 = (err2, e5)"
  shows "initPackages X w =
    (case err1 of
       Some e \<Rightarrow> (Panic (ErrorText e), w\<lparr>wEnv := e4, wCalls := wCalls w @ take 3 (initEvents b s) @ [EvAddClientgo s err1]\<rparr>)
     | None \<Rightarrow>
       (case err2 of
          Some e \<Rightarrow> (Panic (ErrorText e), w\<lparr>wEnv := e5, wCalls := wCalls w @ take 4 (initEvents b s) @ [EvAddToScheme b s err2]\<rparr>)
        | None \<Rightarrow> (Ret s, w\<lparr>wEnv := e5, wCalls := wCalls w @ initEvents b s\<rparr>)))"
  using assms
  by (simp add: initPackages_def initV1_def v1Variables_def v1Init_def initMain_def api_defs gbind_run apiCall_run
      must_def initEvents_def split: option.split)

lemma initPackages_cases:
  obtains b s e4 e5 err1 err2 e1 e2 e3 where "xNewSchemeBuilder X GroupVersion_v1 (wEnv w) = (b, e1)"
    and "xRegister X b [ObjClusterPolicy, ObjClusterPolicyList] e1 = ((), e2)"
    and "xNewScheme X e2 = (s, e3)" and "xAddClientgo X s e3 = (err1, e4)" and "xAddToScheme X b s e4 = (err2, e5)"
  by (metis (full_types) old.unit.exhaust prod.exhaust)

text \<open>
  C37: When main starts, its scheme knows the types of client-go and both ClusterPolicy and
  ClusterPolicyList of policy.xilinx.com/v1, although AddToScheme was taken from the builder
  before the types were registered in it; if a library reports an error the process panics with
  it instead. The scheme library is assumed to do what it documents.
\<close>

theorem packages_register:
  assumes L: "schemeLaws X V"
  shows "case initPackages X w of
      (Ret s, w') \<Rightarrow> svClientgo V \<subseteq> svKnows V (wEnv w') s \<and>
        (\<lparr>gvGroup = ''policy.xilinx.com'', gvVersion = ''v1''\<rparr>, ''ClusterPolicy'') \<in> svKnows V (wEnv w') s \<and>
        (\<lparr>gvGroup = ''policy.xilinx.com'', gvVersion = ''v1''\<rparr>, ''ClusterPolicyList'') \<in> svKnows V (wEnv w') s
    | (Panic p, w') \<Rightarrow> \<exists>b s e. p = ErrorText e \<and> last (wCalls w') \<in> {EvAddClientgo s (Some e), EvAddToScheme b s (Some e)}"
proof -
  obtain b s e4 e5 err1 err2 e1 e2 e3 where c: "xNewSchemeBuilder X GroupVersion_v1 (wEnv w) = (b, e1)"
    "xRegister X b [ObjClusterPolicy, ObjClusterPolicyList] e1 = ((), e2)" "xNewScheme X e2 = (s, e3)"
    "xAddClientgo X s e3 = (err1, e4)" "xAddToScheme X b s e4 = (err2, e5)"
    by (rule initPackages_cases [of X w])
  note run = initPackages_run [OF c]
  show ?thesis
  proof (cases "err1 = None \<and> err2 = None")
    case True
    have "svBuilder V e2 b = (GroupVersion_v1, [ObjClusterPolicy, ObjClusterPolicyList])"
      using L c(1,2) by (simp add: schemeLaws_def)
    moreover have "svBuilder V e4 = svBuilder V e2" "svClientgo V \<subseteq> svKnows V e4 s"
      using L c(3,4) True unfolding schemeLaws_def by metis+
    moreover have "svKnows V e4 s \<union> (\<lambda>obj. (fst (svBuilder V e4 b), kindOf obj)) ` set (snd (svBuilder V e4 b)) \<subseteq> svKnows V e5 s"
      using L c(5) True unfolding schemeLaws_def by metis
    ultimately show ?thesis using True by (auto simp: run GroupVersion_v1_def)
  next
    case False
    then show ?thesis by (auto simp: run split: option.split)
  qed
qed

definition simView :: "sim schemeView" where
  "simView = \<lparr>svBuilder = simBuilder, svKnows = (\<lambda>e s. set (simKnown e s)), svClientgo = set simClientgoKinds\<rparr>"

lemma simX_schemeLaws: "schemeLaws simX simView"
  by (auto simp: schemeLaws_def simX_def simView_def simNewBuilder_def simRegister_def simNewScheme_def simKnow_def
      simAddToScheme_def simBuilder_def simKnown_def update_conv' Let_def split: prod.splits)

theorem packages_register_witness:
  "\<exists>s w'. initPackages simX (simWorld emptySim) = (Ret s, w') \<and>
     (\<lparr>gvGroup = ''policy.xilinx.com'', gvVersion = ''v1''\<rparr>, ''ClusterPolicy'') \<in> set (simKnown (wEnv w') s)"
proof -
  have "returns (fst (initPackages simX (simWorld emptySim)))" by code_simp
  then obtain s w' where run: "initPackages simX (simWorld emptySim) = (Ret s, w')"
    by (cases "initPackages simX (simWorld emptySim)") (auto simp: returns_iff)
  with packages_register [OF simX_schemeLaws, of "simWorld emptySim"] show ?thesis
    by (simp add: simView_def)
qed

subsection \<open>The process\<close>

text \<open>
  C17: However the process ends, it has registered the API types in a new scheme, then read the
  command line, then made a prefix of one fixed sequence of set-up calls with that scheme and
  the values of the command line, the controller serialised to one reconciliation at a time and
  the manager started last. A wrong command line ends it before the first of these calls, with
  exit code 2, or 0 when it asks for help; otherwise the code is 0 only if the whole sequence
  was made, else 1. A panic comes from a library that could not register types or had taken the
  name of a flag.
\<close>

theorem process_history:
  "\<exists>r b s w'. process X args w = (r, w') \<and>
    (case r of
       Ret code \<Rightarrow> \<exists>w1 err flags w2 k. initPackages X w = (Ret s, w1) \<and>
         parseCommandLine X args w1 = (Ret (err, flags), w2) \<and>
         wCalls w' = wCalls w @ initEvents b s @ take k (setupEvents s flags) \<and>
         (case err of Some e \<Rightarrow> k = 0 \<and> code = flagExit e | None \<Rightarrow> code = 0 \<and> k = 7 \<or> code = 1)
     | Panic p \<Rightarrow>
         (\<exists>e. p = ErrorText e \<and> wCalls w' \<in> {wCalls w @ take 3 (initEvents b s) @ [EvAddClientgo s (Some e)],
            wCalls w @ take 4 (initEvents b s) @ [EvAddToScheme b s (Some e)]}) \<or>
         \<not> freshFlags X \<and> wCalls w' = wCalls w @ initEvents b s)"
proof -
  obtain b s e4 e5 err1 err2 e1 e2 e3 where c: "xNewSchemeBuilder X GroupVersion_v1 (wEnv w) = (b, e1)"
    "xRegister X b [ObjClusterPolicy, ObjClusterPolicyList] e1 = ((), e2)" "xNewScheme X e2 = (s, e3)"
    "xAddClientgo X s e3 = (err1, e4)" "xAddToScheme X b s e4 = (err2, e5)"
    by (rule initPackages_cases [of X w])
  note run = initPackages_run [OF c]
  show ?thesis
  proof (cases "err1 = None \<and> err2 = None")
    case True
    then have i: "initPackages X w = (Ret s, w\<lparr>wEnv := e5, wCalls := wCalls w @ initEvents b s\<rparr>)" (is "_ = (_, ?w1)")
      by (simp add: run)
    obtain r w' where m: "main X s args ?w1 = (r, w')" by fastforce
    have "process X args w = (r, w')" by (simp add: process_def gbind_run i m)
    moreover from main_history [OF m] have "case r of
       Ret code \<Rightarrow> \<exists>err flags w2 k. parseCommandLine X args ?w1 = (Ret (err, flags), w2) \<and>
         wCalls w' = wCalls w @ initEvents b s @ take k (setupEvents s flags) \<and>
         (case err of Some e \<Rightarrow> k = 0 \<and> code = flagExit e | None \<Rightarrow> code = 0 \<and> k = 7 \<or> code = 1)
     | Panic p \<Rightarrow> \<not> freshFlags X \<and> wCalls w' = wCalls w @ initEvents b s"
      by (simp add: append_assoc split: outcome.splits)
    ultimately show ?thesis
      by - (rule exI [of _ r], rule exI [of _ b], rule exI [of _ s], rule exI [of _ w'],
        simp add: i split: outcome.splits)
  next
    case False
    obtain r w' where i: "initPackages X w = (r, w')" by fastforce
    with run False obtain p where r: "r = Panic p" by (auto split: option.splits)
    have "process X args w = (Panic p, w')" by (simp add: process_def gbind_run i r)
    then show ?thesis
      using run False i r
      by - (rule exI [of _ r], rule exI [of _ b], rule exI [of _ s], rule exI [of _ w'], auto split: option.splits)
  qed
qed

end
