(* ===== verification/Spec2Isabelle.thy ===== *)
theory Spec2Isabelle
  imports PolicySpec DeepCopySpec TransformSpec OperatorSpec LivenessSpec BoundsSpec ProcessSpec
begin

text \<open>
  A model of the Xilinx FPGA operator for Kubernetes (Go, \<open>main.go\<close>, \<open>api/v1\<close>, \<open>controllers\<close>), with
  the theorems that make it correct.

  \<^bold>\<open>The program.\<close> The operator is one process. When its packages are initialised the API types are
  registered in a scheme; \<open>main\<close> reads the command line and sets up a controller-runtime manager with
  one reconciler. For every request (the name of a ClusterPolicy) the reconciler reads the policy,
  initialises a global controller, and steps through three states: container runtime, device plugin
  and host setup. Each state has the manifests of one directory of the operator's image. A step runs
  the control functions of its state, which adapt the manifests to the policy and create, update or
  delete DaemonSets and a RuntimeClass through the API server. The outcome is written to the status
  of the policy, or the request is retried.

  \<^bold>\<open>Theories and sources.\<close>

  \<^item> \<open>Prelude\<close>: outcomes (a Go function returns or panics), effectful computations \<open>('w, 'a) go\<close> with
    sequencing, Go maps as association lists.
  \<^item> \<open>GoStrings\<close>, \<open>GoRegexp\<close>, \<open>GoFlag\<close>: the functions of Go's standard library the operator uses
    (\<open>strings\<close>, \<open>path.Base\<close>, \<open>fmt.Sprintf\<close>, \<open>strconv.FormatUint\<close>, the fragment of \<open>regexp\<close> that its
    one regular expression needs, and the command-line parser of \<open>flag\<close>, with a grammar of the
    command lines it accepts).
  \<^item> \<open>K8sObjects\<close>: the Kubernetes API types, reduced to the fields the operator touches, with the
    rest of each object in an opaque field; Go error values.
  \<^item> \<open>PolicyTypes\<close>: \<open>api/v1/clusterpolicy_types.go\<close>, one record per struct, and its functions.
  \<^item> \<open>ApiClient\<close>: what lies outside the repository, as the record \<open>externals\<close> of parameters (the API
    server, \<open>SetControllerReference\<close>, \<open>hashstructure.Hash\<close>, the YAML decoder, the file system, the
    discovery client, the manager), and the \<open>world\<close>: the environment they change and the history of
    the calls. \<open>emits\<close> and \<open>yields\<close> are the two judgements on computations, with one rule per
    construct: what they can add to the history, and what they can return.
  \<^item> \<open>Controller\<close>, \<open>StateManager\<close>: \<open>controllers/state_manger.go\<close>. The struct
    \<open>ClusterPolicyController\<close> is a record with the same fields, less \<open>rec\<close>; \<open>init\<close>, \<open>addState\<close>,
    \<open>getRuntime\<close>, \<open>getFPGANodeCount\<close>, \<open>getOsDistributions\<close>, \<open>step\<close>, \<open>last\<close> (\<open>lastState\<close>) and
    \<open>isStateEnabled\<close> are functions from the controller to the next one.
  \<^item> \<open>ResourceManager\<close>: \<open>controllers/resource_manager.go\<close>.
  \<^item> \<open>Transforms\<close>, \<open>ObjectControls\<close>: \<open>controllers/object_controls.go\<close>. \<open>RuntimeClassFn\<close> and
    \<open>DaemonSetFn\<close> are \<open>RuntimeClass\<close> and \<open>DaemonSet\<close>; the body of the loop of the latter is
    \<open>daemonSetBody\<close>, with \<open>deployDaemonSet\<close>, \<open>createAndCheck\<close> and \<open>updateAndCheck\<close> for its parts.
  \<^item> \<open>Reconciler\<close>: \<open>controllers/clusterpolicy_controller.go\<close>; \<open>reconcilePolicy\<close> is \<open>Reconcile\<close> from
    \<open>init\<close> on, \<open>reconcileLoop\<close>, \<open>noteStep\<close> and \<open>afterLoop\<close> are its parts.
  \<^item> \<open>ApiRegistration\<close>: \<open>api/v1/groupversion_info.go\<close> and the \<open>init\<close> of \<open>clusterpolicy_types.go\<close>.
  \<^item> \<open>MainProgram\<close>: \<open>main.go\<close>. \<open>process\<close> is the initialisation of the packages (\<open>initPackages\<close>)
    followed by \<open>main\<close>, whose part after \<open>flag.Parse\<close> is \<open>runManager\<close>.
  \<^item> \<open>DeepCopy\<close>: \<open>api/v1/zz_generated.deepcopy.go\<close>, over an explicit memory: a list of cells, one per
    variable or array, in which the pointers and slices of two structs can lead to the same place.
    \<open>T_DeepCopyInto\<close>, \<open>T_DeepCopy\<close> and \<open>T_DeepCopyObject\<close> are the methods of the type \<open>T\<close>.
  \<^item> \<open>Samples\<close>, \<open>ClusterSim\<close>: the sample policy, cut-down manifests and an in-memory cluster, for the
    witnesses only.
  \<^item> \<open>PolicySpec\<close>, \<open>DeepCopySpec\<close>, \<open>TransformSpec\<close>, \<open>ObjectSpec\<close>, \<open>DaemonSetSpec\<close>, \<open>ReadinessSpec\<close>,
    \<open>ConvergenceSpec\<close>, \<open>RuntimeClassSpec\<close>, \<open>ResourceSpec\<close>, \<open>StateSpec\<close>, \<open>StartupSpec\<close>,
    \<open>ReconcilerSpec\<close>, \<open>OperatorSpec\<close>, \<open>LivenessSpec\<close>, \<open>BoundsSpec\<close>, \<open>CommandLineSpec\<close>, \<open>ProcessSpec\<close>: the theorems,
    one theory per component or per group of properties.

  \<^bold>\<open>Interfaces.\<close> \<open>component_switch\<close> is what the state manager needs of the enable flags, interpreted
  on the three component specs. \<open>manifest_transformation\<close> is the contract of a transformation (it
  keeps what identifies an object, and an error changes nothing), interpreted on the three
  transformations and on their dispatcher. \<open>control_function\<close> and \<open>infallible_control_function\<close> are
  what \<open>step\<close> needs of a control function (its own kind of events, an error means \<open>NotReady\<close>,
  nothing is deployed in a disabled state), interpreted on the two control functions and on
  \<open>runControl\<close>. \<open>cell_view\<close> and its extension \<open>array_view\<close> say how values of a Go type are kept in
  memory cells, interpreted on every type of cell. \<open>transition_invariant\<close> is the invariant rule for
  the operator over time, interpreted on its transition systems.

  \<^bold>\<open>What is shown.\<close> For the transformations: the object they produce on every branch, their errors
  and panics, and the settings of the policy that have no effect. For the control functions: their
  writes as a refinement of an abstract plan, what a result other than \<open>NotReady\<close> promises, the
  steady state in which nothing is written, convergence to it in one run, the objects they can
  touch at all, the behaviour of a disabled state, and the RuntimeClasses a run leaves on the server.
  For the asset loader: which files it reads,
  which kind it finds in a manifest and when it panics. For the state manager: the node census,
  the choice of the runtime, the controller after initialisation, written out field by field for
  the first one of a process, the result of a step. For the reconciler: the outcome in every case,
  the requests it does not serve, the end of its loop, the number of calls it makes at most. For
  the operator over time: the invariants of every state reachable through reconciliations,
  crashes, restarts and changes of the cluster, and liveness: on a reliable server and
  with a feasible policy one reconciliation, the first of the process or a later one, brings every
  DaemonSet where the policy wants it, and the policy becomes Ready in the first one after the pods have become
  available. For the process: what the scheme knows when \<open>main\<close> starts, the meaning of the command
  line and its round trip with the arguments of the deployment, and the calls made until the
  process ends, with its exit code. For the generated deep copies: the copy denotes the same value
  as the original and shares no memory with it.

  \<^bold>\<open>Hypotheses on the outside.\<close> No law of \<open>externals\<close> is assumed in general. Where a theorem needs
  one it says so: \<open>keepsIdentity\<close> (an object comes back from \<open>SetControllerReference\<close>, a create or
  an update with the name and namespace it was sent with), \<open>readsOnly\<close> (reading a DaemonSet does not
  change the cluster) and, for convergence only, \<open>storesWrites\<close> (the server accepts every write and
  returns what it stored). The properties of the RuntimeClass assume \<open>ownerKeepsName\<close> (the first part
  of \<open>keepsIdentity\<close>, for the name alone) and, for what is left on the server, \<open>locksClasses\<close>
  (optimistic locking and immutable handlers). Liveness assumes a \<open>reliable\<close> server, which stores what
  it is sent, keeps kinds of objects apart and writes a status without touching the spec, and
  \<open>ownsByIdentity\<close> (two readings of a policy with the same name, namespace, UID and spec make the same
  owner reference); of the policy and the templates it assumes \<open>feasiblePolicy\<close> (in an enabled state
  every template can be adapted, owned and hashed or has no entry in the policy; names do not
  collide). The in-memory cluster satisfies the laws of the first two kinds, and those of convergence
  and liveness when no name in it is broken; \<open>locksClasses\<close> holds of it once it compares versions
  (\<open>lockX\<close>). The deep copies assume that the \<open>DeepCopyInto\<close> of the
  library types are deep copies (\<open>deep_copies\<close>); the registration assumes that the scheme library does
  what it documents (\<open>schemeLaws\<close>); the command line assumes that no library has taken the name of a
  flag of the operator (\<open>freshFlags\<close>; the process panics otherwise). The in-memory cluster satisfies
  these too.

  \<^bold>\<open>Termination.\<close> There is no fuel. The recursions are structural but for the walk of the directory
  tree (measured by its size), trimming of white space (by the length of the text), the parser of the
  command line (by the number of arguments left: every flag seen uses up one) and the loop of
  \<open>Reconcile\<close> (by the number of states not yet stepped through: every step that succeeds moves the
  index by one).

  \<^bold>\<open>Conventions.\<close> A nil slice and an empty one are both the empty list, except
  \<open>Resources.Daemonsets\<close>, which the code compares with nil. Strings are lists of bytes. Outside the
  theories \<open>DeepCopy\<close> and \<open>DeepCopySpec\<close> objects are values, so a deep copy is the object itself.
  One aliasing of the code is not visible for the same reason: \<open>setDaemonSetSelector\<close> stores the
  global map \<open>fpgaNodeLabels\<close> itself in an object without a node selector; no code of the repository
  writes to that map afterwards. Of \<open>strings.EqualFold\<close> the model has the simple folding of ASCII
  letters and of the two non-ASCII code points that fold to one. Durations are in milliseconds.

  \<^bold>\<open>Not modelled.\<close> Logging, \<open>newLogger\<close> and the usage text of the command line included; the JSON
  tags and the markers from which the CRD is generated; the work queue and the caches of
  controller-runtime, represented by the order of reconciliations and by an environment that answers
  arbitrarily; manifests, CRDs, the Helm chart and the shell scripts, which are data to the operator.
\<close>

end
